(* ===== verification/RF_Prelude.thy ===== *)
theory RF_Prelude
  imports Main "HOL-Library.Word" "HOL-Library.AList" "HOL-Library.Signed_Division"
begin

text \<open>
  Shared ground of the development: the error vocabulary of
  \<^verbatim>\<open>include/reservation_fabric/error.hpp\<close>, the result type of an operation that may throw,
  64-bit signed arithmetic with its overflow made visible, and the association-list lemmas
  that stand for the runtime's hash maps.
\<close>

unbundle bit_operations_syntax

section \<open>Collections of rewrite rules\<close>

named_theorems outcome_simps \<open>unfolding of throwing computations\<close>
named_theorems i64_simps \<open>64-bit signed bounds and checked arithmetic\<close>
named_theorems flat_simps \<open>in-order content of the interval treap\<close>
named_theorems agg_intros \<open>preservation of the treap's cached aggregates\<close>
named_theorems registry_simps \<open>projections of the runtime state after an update\<close>

section \<open>Machine types\<close>

type_synonym u8 = "8 word"
type_synonym u16 = "16 word"
type_synonym u32 = "32 word"
type_synonym u64 = "64 word"

text \<open>
  A C++ \<^verbatim>\<open>std::int64_t\<close> is an \<^typ>\<open>int\<close> here. Where the code relies on the width, the
  model checks the range: an operation whose mathematical result leaves the range is
  undefined behaviour in C++ and the distinct failure \<open>SignedOverflow\<close> in the model.
\<close>

definition INT64_MAX :: int where
  "INT64_MAX = 9223372036854775807"

definition INT64_MIN :: int where
  "INT64_MIN = -9223372036854775808"

definition in_i64 :: "int \<Rightarrow> bool" where
  "in_i64 v \<longleftrightarrow> INT64_MIN \<le> v \<and> v \<le> INT64_MAX"

lemmas i64_defs = INT64_MAX_def INT64_MIN_def in_i64_def

section \<open>Errors\<close>

datatype ErrorCode =
    ErrorCode_None
  | InvalidArgument
  | InvalidQuantity
  | QuantityOverflow
  | DuplicateIdentity
  | StaleAuthority
  | StaleGeneration
  | InvalidTransition
  | InvalidState
  | Conflict
  | CapacityExceeded
  | NotAdmissible
  | CorruptData
  | PersistenceFailed
  | ProtocolError
  | NotSupported
  | NoCapacity
  | TopologyMismatch
  | CapabilityMismatch
  | LocalityMismatch
  | InvalidInterval
  | NotFound
  | AlreadyExists
  | OverbookNotPermitted
  | AuthorityMismatch
  | OutOfBounds
  | Internal

fun ErrorCode_to_string :: "ErrorCode \<Rightarrow> string" where
  "ErrorCode_to_string ErrorCode_None = ''None''"
| "ErrorCode_to_string InvalidArgument = ''InvalidArgument''"
| "ErrorCode_to_string InvalidQuantity = ''InvalidQuantity''"
| "ErrorCode_to_string QuantityOverflow = ''QuantityOverflow''"
| "ErrorCode_to_string DuplicateIdentity = ''DuplicateIdentity''"
| "ErrorCode_to_string StaleAuthority = ''StaleAuthority''"
| "ErrorCode_to_string StaleGeneration = ''StaleGeneration''"
| "ErrorCode_to_string InvalidTransition = ''InvalidTransition''"
| "ErrorCode_to_string InvalidState = ''InvalidState''"
| "ErrorCode_to_string Conflict = ''Conflict''"
| "ErrorCode_to_string CapacityExceeded = ''CapacityExceeded''"
| "ErrorCode_to_string NotAdmissible = ''NotAdmissible''"
| "ErrorCode_to_string CorruptData = ''CorruptData''"
| "ErrorCode_to_string PersistenceFailed = ''PersistenceFailed''"
| "ErrorCode_to_string ProtocolError = ''ProtocolError''"
| "ErrorCode_to_string NotSupported = ''NotSupported''"
| "ErrorCode_to_string NoCapacity = ''NoCapacity''"
| "ErrorCode_to_string TopologyMismatch = ''TopologyMismatch''"
| "ErrorCode_to_string CapabilityMismatch = ''CapabilityMismatch''"
| "ErrorCode_to_string LocalityMismatch = ''LocalityMismatch''"
| "ErrorCode_to_string InvalidInterval = ''InvalidInterval''"
| "ErrorCode_to_string NotFound = ''NotFound''"
| "ErrorCode_to_string AlreadyExists = ''AlreadyExists''"
| "ErrorCode_to_string OverbookNotPermitted = ''OverbookNotPermitted''"
| "ErrorCode_to_string AuthorityMismatch = ''AuthorityMismatch''"
| "ErrorCode_to_string OutOfBounds = ''OutOfBounds''"
| "ErrorCode_to_string Internal = ''Internal''"

text \<open>
  What stops a computation: a \<^verbatim>\<open>FabricError\<close> the code throws, one of the two undefined
  behaviours of C++ integer arithmetic that some unchecked expressions of the code can reach, the
  use of a null pointer, or the program itself when it terminates its own process.
\<close>

datatype failure =
    FabricError ErrorCode string
  | SignedOverflow
  | DivisionByZero
  | NullPointer
  | OwnTermination

type_synonym 'a outcome = "failure + 'a"

definition throw_error :: "ErrorCode \<Rightarrow> string \<Rightarrow> 'a outcome" where
  "throw_error code message = Inl (FabricError code message)"

definition bind_outcome :: "'a outcome \<Rightarrow> ('a \<Rightarrow> 'b outcome) \<Rightarrow> 'b outcome" where
  "bind_outcome m f = (case m of Inl e \<Rightarrow> Inl e | Inr a \<Rightarrow> f a)"

lemma bind_outcome_simps [simp, outcome_simps]:
  "bind_outcome (Inl e) f = Inl e"
  "bind_outcome (Inr a) f = f a"
  by (simp_all add: bind_outcome_def)

lemma bind_outcome_Inr_iff:
  "bind_outcome m f = Inr b \<longleftrightarrow> (\<exists>a. m = Inr a \<and> f a = Inr b)"
  by (cases m) auto

lemma bind_outcome_assoc:
  "bind_outcome (bind_outcome m f) g = bind_outcome m (\<lambda>a. bind_outcome (f a) g)"
  by (cases m) auto

lemma throw_error_neq_Inr [simp]: "throw_error c m \<noteq> Inr a"
  by (simp add: throw_error_def)

lemma bind_outcome_throw [simp, outcome_simps]:
  "bind_outcome (throw_error c m) f = throw_error c m"
  by (simp add: throw_error_def)

lemma throw_error_neq_SignedOverflow [simp]: "throw_error c m \<noteq> Inl SignedOverflow"
  by (simp add: throw_error_def)

section \<open>Signed arithmetic\<close>

definition ub_i64 :: "int \<Rightarrow> int outcome" where
  "ub_i64 v = (if in_i64 v then Inr v else Inl SignedOverflow)"

lemma ub_i64_in [simp, i64_simps]: "in_i64 v \<Longrightarrow> ub_i64 v = Inr v"
  by (simp add: ub_i64_def)

lemma ub_i64_out [simp, i64_simps]: "\<not> in_i64 v \<Longrightarrow> ub_i64 v = Inl SignedOverflow"
  by (simp add: ub_i64_def)

text \<open>C++ division truncates towards zero; the quotient of non-negative numbers is the floor.\<close>

lemma sdiv_nonneg: "0 \<le> a \<Longrightarrow> 0 \<le> b \<Longrightarrow> (a::int) sdiv b = a div b"
  by (cases "a = 0"; cases "b = 0") (auto simp: signed_divide_int_def sgn_if)

lemma le_div_iff_mult_le:
  assumes "0 < c"
  shows "(a::int) \<le> b div c \<longleftrightarrow> a * c \<le> b"
proof
  assume "a \<le> b div c"
  with assms have "a * c \<le> b div c * c" by simp
  also have "\<dots> \<le> b" using assms by (simp add: minus_mod_eq_div_mult [symmetric])
  finally show "a * c \<le> b" .
next
  assume "a * c \<le> b"
  with assms show "a \<le> b div c"
    using zdiv_mono1 [of "a * c" b c] by simp
qed

section \<open>Association lists\<close>

text \<open>
  A \<^verbatim>\<open>std::unordered_map\<close> is an association list with distinct keys. The order of the list is
  the iteration order of the map, which C++ leaves unspecified: every statement of the
  development that quantifies over a state therefore covers every iteration order.
\<close>

abbreviation keys_distinct :: "('k \<times> 'v) list \<Rightarrow> bool" where
  "keys_distinct xs \<equiv> distinct (map fst xs)"

lemma map_of_update [simp]: "map_of (AList.update k v xs) = (map_of xs)(k \<mapsto> v)"
  by (simp add: update_conv')

lemma keys_distinct_update [simp]: "keys_distinct xs \<Longrightarrow> keys_distinct (AList.update k v xs)"
  by (rule distinct_update)

definition amap_values :: "('v \<Rightarrow> 'w) \<Rightarrow> ('k \<times> 'v) list \<Rightarrow> ('k \<times> 'w) list" where
  "amap_values f xs = map (\<lambda>(k, v). (k, f v)) xs"

lemma map_fst_amap_values [simp]: "map fst (amap_values f xs) = map fst xs"
  by (induction xs) (auto simp: amap_values_def)

lemma map_of_amap_values [simp]: "map_of (amap_values f xs) k = map_option f (map_of xs k)"
  by (induction xs) (auto simp: amap_values_def)

definition asum :: "('v \<Rightarrow> int) \<Rightarrow> ('k \<times> 'v) list \<Rightarrow> int" where
  "asum f xs = sum_list (map (\<lambda>(k, v). f v) xs)"

lemma asum_Nil [simp]: "asum f [] = 0"
  by (simp add: asum_def)

lemma asum_Cons [simp]: "asum f ((k, v) # xs) = f v + asum f xs"
  by (simp add: asum_def)

lemma asum_append [simp]: "asum f (xs @ ys) = asum f xs + asum f ys"
  by (simp add: asum_def)

lemma asum_amap_values [simp]: "asum f (amap_values g xs) = asum (f \<circ> g) xs"
  by (induction xs) (auto simp: amap_values_def)

lemma asum_update_fresh:
  "map_of xs k = None \<Longrightarrow> asum f (AList.update k v xs) = asum f xs + f v"
  by (induction xs) (auto split: if_splits)

lemma asum_update_present:
  "keys_distinct xs \<Longrightarrow> map_of xs k = Some u \<Longrightarrow>
   asum f (AList.update k v xs) = asum f xs - f u + f v"
  by (induction xs) (auto simp: map_of_eq_None_iff split: if_splits)

lemma asum_cong:
  "(\<And>k v. (k, v) \<in> set xs \<Longrightarrow> f v = g v) \<Longrightarrow> asum f xs = asum g xs"
  unfolding asum_def by (rule arg_cong [where f = sum_list], rule map_cong) auto

lemma asum_nonneg:
  "(\<And>k v. (k, v) \<in> set xs \<Longrightarrow> 0 \<le> f v) \<Longrightarrow> 0 \<le> asum f xs"
  unfolding asum_def by (rule sum_list_nonneg) auto

end
