(* ===== verification/RF_Identity.thy ===== *)
theory RF_Identity
  imports RF_Prelude
begin

text \<open>
  \<^verbatim>\<open>include/reservation_fabric/identity.hpp\<close>: strongly typed identities and generations. The
  C++ class templates carry a tag type that only separates the domains at compile time; here the
  tag is the phantom parameter of a one-constructor datatype, so a hold identity cannot be passed
  where a reservation identity is expected either.
\<close>

section \<open>Tags\<close>

datatype ReservationIdTag = ReservationIdTag
datatype ReservationGenerationTag = ReservationGenerationTag
datatype ReservationRequestIdTag = ReservationRequestIdTag
datatype ReservationRequestGenerationTag = ReservationRequestGenerationTag
datatype ReservationSetIdTag = ReservationSetIdTag
datatype ReservationSetGenerationTag = ReservationSetGenerationTag
datatype ReservationGroupIdTag = ReservationGroupIdTag
datatype ReservationGroupGenerationTag = ReservationGroupGenerationTag
datatype ReservationHoldIdTag = ReservationHoldIdTag
datatype ReservationHoldGenerationTag = ReservationHoldGenerationTag
datatype ResourceIdTag = ResourceIdTag
datatype ResourceGenerationTag = ResourceGenerationTag
datatype ResourcePoolIdTag = ResourcePoolIdTag
datatype ResourcePoolGenerationTag = ResourcePoolGenerationTag
datatype ResourceContractIdTag = ResourceContractIdTag
datatype ResourceContractGenerationTag = ResourceContractGenerationTag
datatype CapacityGenerationTag = CapacityGenerationTag
datatype OwnerIdTag = OwnerIdTag
datatype OwnerGenerationTag = OwnerGenerationTag
datatype WorkloadIdTag = WorkloadIdTag
datatype WorkloadGenerationTag = WorkloadGenerationTag
datatype ExecutionIdTag = ExecutionIdTag
datatype ExecutionGenerationTag = ExecutionGenerationTag
datatype TenantIdTag = TenantIdTag
datatype PlacementIdTag = PlacementIdTag
datatype TopologyGenerationTag = TopologyGenerationTag
datatype CapabilityGenerationTag = CapabilityGenerationTag
datatype PolicyGenerationTag = PolicyGenerationTag
datatype PriorityGenerationTag = PriorityGenerationTag
datatype CoordinatorEpochTag = CoordinatorEpochTag
datatype WorkerIdTag = WorkerIdTag
datatype WorkerBootIdTag = WorkerBootIdTag
datatype ActivationGenerationTag = ActivationGenerationTag
datatype ConsumptionGenerationTag = ConsumptionGenerationTag
datatype ReleaseGenerationTag = ReleaseGenerationTag
datatype TransferGenerationTag = TransferGenerationTag
datatype RecoveryGenerationTag = RecoveryGenerationTag
datatype AuthorityGenerationTag = AuthorityGenerationTag
datatype ReservationAuthorityIdTag = ReservationAuthorityIdTag

section \<open>StrongId\<close>

datatype 'tag StrongId = StrongId (id_value: u64)

definition id_valid :: "'tag StrongId \<Rightarrow> bool" where
  "id_valid i \<longleftrightarrow> id_value i \<noteq> 0"

definition id_less :: "'tag StrongId \<Rightarrow> 'tag StrongId \<Rightarrow> bool" where
  [simp]: "id_less a b \<longleftrightarrow> id_value a < id_value b"

definition id_less_eq :: "'tag StrongId \<Rightarrow> 'tag StrongId \<Rightarrow> bool" where
  [simp]: "id_less_eq a b \<longleftrightarrow> id_value a \<le> id_value b"

definition id_eq :: "'tag StrongId \<Rightarrow> 'tag StrongId \<Rightarrow> bool" where
  "id_eq a b \<longleftrightarrow> id_value a = id_value b"

definition id_neq :: "'tag StrongId \<Rightarrow> 'tag StrongId \<Rightarrow> bool" where
  "id_neq a b \<longleftrightarrow> id_value a \<noteq> id_value b"

definition id_greater :: "'tag StrongId \<Rightarrow> 'tag StrongId \<Rightarrow> bool" where
  "id_greater a b \<longleftrightarrow> id_value a > id_value b"

definition id_greater_eq :: "'tag StrongId \<Rightarrow> 'tag StrongId \<Rightarrow> bool" where
  "id_greater_eq a b \<longleftrightarrow> id_value a \<ge> id_value b"

text \<open>The comparisons are HOL equality and the order of the library's class.\<close>

instantiation StrongId :: (type) linorder
begin

definition less_eq_StrongId :: "'a StrongId \<Rightarrow> 'a StrongId \<Rightarrow> bool" where
  "less_eq_StrongId = id_less_eq"

definition less_StrongId :: "'a StrongId \<Rightarrow> 'a StrongId \<Rightarrow> bool" where
  "less_StrongId = id_less"

instance
  by standard (auto simp: less_eq_StrongId_def less_StrongId_def intro: StrongId.expand)

end

lemma id_comparisons:
  "id_eq a b \<longleftrightarrow> a = b" "id_neq a b \<longleftrightarrow> a \<noteq> b"
  "id_greater a b \<longleftrightarrow> b < a" "id_greater_eq a b \<longleftrightarrow> b \<le> a"
  by (auto simp: id_eq_def id_neq_def id_greater_def id_greater_eq_def less_StrongId_def
    less_eq_StrongId_def intro: StrongId.expand)

lemma id_valid_StrongId [simp]: "id_valid (StrongId n) \<longleftrightarrow> n \<noteq> 0"
  by (simp add: id_valid_def)

section \<open>StrongGeneration\<close>

datatype 'tag StrongGeneration = StrongGeneration (gen_value: u64)

definition gen_valid :: "'tag StrongGeneration \<Rightarrow> bool" where
  "gen_valid g \<longleftrightarrow> gen_value g \<noteq> 0"

definition gen_next :: "'tag StrongGeneration \<Rightarrow> 'tag StrongGeneration outcome" where
  "gen_next g =
     (if gen_value g = - 1
      then throw_error QuantityOverflow
             ''generation overflow: cannot advance a saturated generation''
      else Inr (StrongGeneration (gen_value g + 1)))"

definition gen_less :: "'tag StrongGeneration \<Rightarrow> 'tag StrongGeneration \<Rightarrow> bool" where
  [simp]: "gen_less a b \<longleftrightarrow> gen_value a < gen_value b"

definition gen_less_eq :: "'tag StrongGeneration \<Rightarrow> 'tag StrongGeneration \<Rightarrow> bool" where
  [simp]: "gen_less_eq a b \<longleftrightarrow> gen_value a \<le> gen_value b"

definition gen_eq :: "'tag StrongGeneration \<Rightarrow> 'tag StrongGeneration \<Rightarrow> bool" where
  "gen_eq a b \<longleftrightarrow> gen_value a = gen_value b"

definition gen_neq :: "'tag StrongGeneration \<Rightarrow> 'tag StrongGeneration \<Rightarrow> bool" where
  "gen_neq a b \<longleftrightarrow> gen_value a \<noteq> gen_value b"

definition gen_greater :: "'tag StrongGeneration \<Rightarrow> 'tag StrongGeneration \<Rightarrow> bool" where
  "gen_greater a b \<longleftrightarrow> gen_value a > gen_value b"

definition gen_greater_eq :: "'tag StrongGeneration \<Rightarrow> 'tag StrongGeneration \<Rightarrow> bool" where
  "gen_greater_eq a b \<longleftrightarrow> gen_value a \<ge> gen_value b"

text \<open>The comparisons are HOL equality and the order of the library's class.\<close>

instantiation StrongGeneration :: (type) linorder
begin

definition less_eq_StrongGeneration :: "'a StrongGeneration \<Rightarrow> 'a StrongGeneration \<Rightarrow> bool" where
  "less_eq_StrongGeneration = gen_less_eq"

definition less_StrongGeneration :: "'a StrongGeneration \<Rightarrow> 'a StrongGeneration \<Rightarrow> bool" where
  "less_StrongGeneration = gen_less"

instance
  by standard (auto simp: less_eq_StrongGeneration_def less_StrongGeneration_def intro: StrongGeneration.expand)

end

lemma gen_comparisons:
  "gen_eq a b \<longleftrightarrow> a = b" "gen_neq a b \<longleftrightarrow> a \<noteq> b"
  "gen_greater a b \<longleftrightarrow> b < a" "gen_greater_eq a b \<longleftrightarrow> b \<le> a"
  by (auto simp: gen_eq_def gen_neq_def gen_greater_def gen_greater_eq_def less_StrongGeneration_def
    less_eq_StrongGeneration_def intro: StrongGeneration.expand)

definition isNewerThan :: "'tag StrongGeneration \<Rightarrow> 'tag StrongGeneration \<Rightarrow> bool" where
  "isNewerThan g other \<longleftrightarrow> gen_value g > gen_value other"

definition isSameAs :: "'tag StrongGeneration \<Rightarrow> 'tag StrongGeneration \<Rightarrow> bool" where
  "isSameAs g other \<longleftrightarrow> gen_value g = gen_value other"

section \<open>Typed aliases\<close>

type_synonym ReservationId = "ReservationIdTag StrongId"
type_synonym ReservationGeneration = "ReservationGenerationTag StrongGeneration"
type_synonym ReservationRequestId = "ReservationRequestIdTag StrongId"
type_synonym ReservationRequestGeneration = "ReservationRequestGenerationTag StrongGeneration"
type_synonym ReservationSetId = "ReservationSetIdTag StrongId"
type_synonym ReservationSetGeneration = "ReservationSetGenerationTag StrongGeneration"
type_synonym ReservationGroupId = "ReservationGroupIdTag StrongId"
type_synonym ReservationGroupGeneration = "ReservationGroupGenerationTag StrongGeneration"
type_synonym ReservationHoldId = "ReservationHoldIdTag StrongId"
type_synonym ReservationHoldGeneration = "ReservationHoldGenerationTag StrongGeneration"
type_synonym ResourceId = "ResourceIdTag StrongId"
type_synonym ResourceGeneration = "ResourceGenerationTag StrongGeneration"
type_synonym ResourcePoolId = "ResourcePoolIdTag StrongId"
type_synonym ResourcePoolGeneration = "ResourcePoolGenerationTag StrongGeneration"
type_synonym ResourceContractId = "ResourceContractIdTag StrongId"
type_synonym ResourceContractGeneration = "ResourceContractGenerationTag StrongGeneration"
type_synonym CapacityGeneration = "CapacityGenerationTag StrongGeneration"
type_synonym OwnerId = "OwnerIdTag StrongId"
type_synonym OwnerGeneration = "OwnerGenerationTag StrongGeneration"
type_synonym WorkloadId = "WorkloadIdTag StrongId"
type_synonym WorkloadGeneration = "WorkloadGenerationTag StrongGeneration"
type_synonym ExecutionId = "ExecutionIdTag StrongId"
type_synonym ExecutionGeneration = "ExecutionGenerationTag StrongGeneration"
type_synonym TenantId = "TenantIdTag StrongId"
type_synonym PlacementId = "PlacementIdTag StrongId"
type_synonym TopologyGeneration = "TopologyGenerationTag StrongGeneration"
type_synonym CapabilityGeneration = "CapabilityGenerationTag StrongGeneration"
type_synonym PolicyGeneration = "PolicyGenerationTag StrongGeneration"
type_synonym PriorityGeneration = "PriorityGenerationTag StrongGeneration"
type_synonym CoordinatorEpoch = "CoordinatorEpochTag StrongGeneration"
type_synonym WorkerId = "WorkerIdTag StrongId"
type_synonym WorkerBootId = "WorkerBootIdTag StrongGeneration"
type_synonym ActivationGeneration = "ActivationGenerationTag StrongGeneration"
type_synonym ConsumptionGeneration = "ConsumptionGenerationTag StrongGeneration"
type_synonym ReleaseGeneration = "ReleaseGenerationTag StrongGeneration"
type_synonym TransferGeneration = "TransferGenerationTag StrongGeneration"
type_synonym RecoveryGeneration = "RecoveryGenerationTag StrongGeneration"
type_synonym AuthorityGeneration = "AuthorityGenerationTag StrongGeneration"

section \<open>Generations only move forward\<close>

lemma word_minus_one_iff_max: "(w :: u64) = - 1 \<longleftrightarrow> unat w = 2 ^ 64 - 1"
proof -
  have "unat (- 1 :: u64) = 2 ^ 64 - 1"
    by (simp add: unsigned_minus_1_eq_mask mask_eq_exp_minus_1)
  then show ?thesis by (metis word_unat_eq_iff)
qed

lemma unat_plus_one: "(w :: u64) \<noteq> - 1 \<Longrightarrow> unat (w + 1) = unat w + 1"
proof -
  assume "w \<noteq> - 1"
  then have "unat w \<noteq> 2 ^ 64 - 1" by (simp add: word_minus_one_iff_max)
  moreover have "unat w < 2 ^ 64" using unsigned_less [of w] by simp
  ultimately have "unat w + 1 < 2 ^ 64" by linarith
  then show ?thesis by (simp add: unat_word_ariths)
qed

lemma gen_next_newer: "gen_next g = Inr g' \<Longrightarrow> isNewerThan g' g"
  by (auto simp: gen_next_def isNewerThan_def word_less_nat_alt unat_plus_one split: if_splits)

lemma gen_next_valid: "gen_next g = Inr g' \<Longrightarrow> gen_valid g'"
  by (auto simp: gen_next_def gen_valid_def split: if_splits)
     (metis add.inverse_inverse add_eq_0_iff)

lemma gen_next_less: "gen_next g = Inr g' \<Longrightarrow> g < g'"
  using gen_next_newer by (auto simp: isNewerThan_def less_StrongGeneration_def)

text \<open>\<open>StrongGeneration::next\<close> yields the generation one larger as a number, valid and strictly
  newer, unless the generation is saturated; then it throws instead of wrapping to an old one.\<close>

theorem generation_next_never_wraps:
  "gen_next g =
     (if unat (gen_value g) = 2 ^ 64 - 1
      then Inl (FabricError QuantityOverflow
                  ''generation overflow: cannot advance a saturated generation'')
      else Inr (StrongGeneration (of_nat (unat (gen_value g) + 1)))) \<and>
   (case gen_next g of Inl _ \<Rightarrow> True | Inr g' \<Rightarrow>
      gen_valid g' \<and> g < g' \<and> unat (gen_value g') = unat (gen_value g) + 1)"
proof (cases "gen_value g = - 1")
  case True
  then show ?thesis
    by (simp add: gen_next_def throw_error_def word_minus_one_iff_max)
next
  case False
  moreover from False have "unat (gen_value g) \<noteq> 2 ^ 64 - 1"
    by (simp add: word_minus_one_iff_max)
  moreover have "gen_next g = Inr (StrongGeneration (gen_value g + 1))"
    using False by (simp add: gen_next_def)
  ultimately show ?thesis
    using gen_next_valid gen_next_less by (auto simp: unat_plus_one)
qed

end
