(* ===== verification/RF_Quantity.thy ===== *)
theory RF_Quantity
  imports RF_Prelude
begin

text \<open>
  \<^verbatim>\<open>include/reservation_fabric/quantity.hpp\<close>: units, non-negative quantities with checked
  arithmetic, and overbooking ratios in basis points.
\<close>

section \<open>Units\<close>

text \<open>
  A C++ enumeration with a fixed underlying type holds every value of that type; \<open>Unit_raw\<close>
  stands for the values without a name, which decoding a byte can produce.
\<close>

datatype Unit =
    Unit_None
  | Unit_Count
  | Unit_Bytes
  | Unit_BytesPerSecond
  | Unit_BitsPerSecond
  | Unit_Nodes
  | Unit_Percent
  | Unit_Hertz
  | Unit_raw u8

fun Unit_to_string :: "Unit \<Rightarrow> string" where
  "Unit_to_string Unit_Count = ''Count''"
| "Unit_to_string Unit_Bytes = ''Bytes''"
| "Unit_to_string Unit_BytesPerSecond = ''BytesPerSecond''"
| "Unit_to_string Unit_BitsPerSecond = ''BitsPerSecond''"
| "Unit_to_string Unit_Nodes = ''Nodes''"
| "Unit_to_string Unit_Percent = ''Percent''"
| "Unit_to_string Unit_Hertz = ''Hertz''"
| "Unit_to_string Unit_None = ''None''"
| "Unit_to_string (Unit_raw _) = ''Unknown''"

section \<open>Checked integer arithmetic\<close>

definition check_quantity_rep :: "int \<Rightarrow> string \<Rightarrow> unit outcome" where
  "check_quantity_rep v what =
     (if v < 0 then throw_error InvalidQuantity (what @ '' must be non-negative'') else Inr ())"

definition checked_add :: "int \<Rightarrow> int \<Rightarrow> string \<Rightarrow> int outcome" where
  "checked_add a b what =
     bind_outcome (ub_i64 (INT64_MAX - b)) (\<lambda>limit.
       if a > limit then throw_error QuantityOverflow (what @ '' addition overflow'')
       else ub_i64 (a + b))"

definition checked_mul :: "int \<Rightarrow> int \<Rightarrow> string \<Rightarrow> int outcome" where
  "checked_mul a b what =
     (if a \<noteq> 0 \<and> b > INT64_MAX sdiv a
      then throw_error QuantityOverflow (what @ '' multiplication overflow'')
      else ub_i64 (a * b))"

lemma checked_add_nonneg:
  "0 \<le> a \<Longrightarrow> a \<le> INT64_MAX \<Longrightarrow> 0 \<le> b \<Longrightarrow> b \<le> INT64_MAX \<Longrightarrow>
   checked_add a b what =
     (if a + b \<le> INT64_MAX then Inr (a + b)
      else throw_error QuantityOverflow (what @ '' addition overflow''))"
  by (auto simp: checked_add_def i64_defs)

lemma checked_mul_nonneg:
  assumes "0 \<le> a" "0 \<le> b"
  shows "checked_mul a b what =
     (if a * b \<le> INT64_MAX then Inr (a * b)
      else throw_error QuantityOverflow (what @ '' multiplication overflow''))"
proof (cases "a = 0")
  case True
  then show ?thesis by (simp add: checked_mul_def i64_defs)
next
  case False
  with assms have "INT64_MAX sdiv a = INT64_MAX div a"
    by (intro sdiv_nonneg) (auto simp: i64_defs)
  moreover from False assms have "b \<le> INT64_MAX div a \<longleftrightarrow> a * b \<le> INT64_MAX"
    by (subst le_div_iff_mult_le) (auto simp: mult.commute)
  moreover have "0 \<le> a * b" using assms by simp
  ultimately show ?thesis
    using False by (auto simp: checked_mul_def ub_i64_def in_i64_def INT64_MIN_def)
qed

section \<open>Quantity\<close>

datatype Quantity = Quantity (q_value: int) (q_unit: Unit)

definition mk_Quantity :: "int \<Rightarrow> Unit \<Rightarrow> Quantity outcome" where
  "mk_Quantity v u =
     bind_outcome (check_quantity_rep v ''quantity'') (\<lambda>_.
       if u = Unit_None
       then throw_error InvalidQuantity ''quantity requires a non-None unit''
       else Inr (Quantity v u))"

definition Quantity_count :: "int \<Rightarrow> Quantity outcome" where
  "Quantity_count v = mk_Quantity v Unit_Count"
definition Quantity_bytes :: "int \<Rightarrow> Quantity outcome" where
  "Quantity_bytes v = mk_Quantity v Unit_Bytes"
definition Quantity_bytesPerSecond :: "int \<Rightarrow> Quantity outcome" where
  "Quantity_bytesPerSecond v = mk_Quantity v Unit_BytesPerSecond"
definition Quantity_bitsPerSecond :: "int \<Rightarrow> Quantity outcome" where
  "Quantity_bitsPerSecond v = mk_Quantity v Unit_BitsPerSecond"
definition Quantity_nodes :: "int \<Rightarrow> Quantity outcome" where
  "Quantity_nodes v = mk_Quantity v Unit_Nodes"
definition Quantity_percent :: "int \<Rightarrow> Quantity outcome" where
  "Quantity_percent v = mk_Quantity v Unit_Percent"
definition Quantity_hertz :: "int \<Rightarrow> Quantity outcome" where
  "Quantity_hertz v = mk_Quantity v Unit_Hertz"

text \<open>
  \<^verbatim>\<open>Quantity::zero\<close> is \<^verbatim>\<open>noexcept\<close>, so with the unit \<^verbatim>\<open>None\<close> it would terminate the process;
  \<open>Quantity_zero\<close> is its value for every other unit, the only ones the code passes.
\<close>

definition Quantity_zero :: "Unit \<Rightarrow> Quantity" where
  "Quantity_zero u = Quantity 0 u"

definition q_isZero :: "Quantity \<Rightarrow> bool" where
  "q_isZero q \<longleftrightarrow> q_value q = 0"

definition q_add :: "Quantity \<Rightarrow> Quantity \<Rightarrow> Quantity outcome" where
  "q_add q other =
     (if q_unit other \<noteq> q_unit q
      then throw_error InvalidQuantity ''cannot add quantities of different units''
      else bind_outcome (checked_add (q_value q) (q_value other) ''quantity'')
             (\<lambda>v. mk_Quantity v (q_unit q)))"

definition q_sub :: "Quantity \<Rightarrow> Quantity \<Rightarrow> Quantity outcome" where
  "q_sub q other =
     (if q_unit other \<noteq> q_unit q
      then throw_error InvalidQuantity ''cannot subtract quantities of different units''
      else if q_value q < q_value other
      then throw_error InvalidQuantity ''quantity subtraction underflow''
      else bind_outcome (ub_i64 (q_value q - q_value other)) (\<lambda>v. mk_Quantity v (q_unit q)))"

definition q_scale :: "Quantity \<Rightarrow> int \<Rightarrow> Quantity outcome" where
  "q_scale q scalar =
     (if scalar < 0
      then throw_error InvalidQuantity ''quantity scaled by negative factor''
      else bind_outcome (checked_mul (q_value q) scalar ''quantity'')
             (\<lambda>v. mk_Quantity v (q_unit q)))"

definition q_scaledByPercent :: "Quantity \<Rightarrow> int \<Rightarrow> Quantity outcome" where
  "q_scaledByPercent q percent =
     (if percent < 0 \<or> percent > 100
      then throw_error InvalidQuantity ''percent out of range''
      else bind_outcome (ub_i64 (q_value q * percent))
             (\<lambda>p. mk_Quantity (p sdiv 100) (q_unit q)))"

text \<open>The order compares values only; equality compares the unit as well.\<close>

definition q_less :: "Quantity \<Rightarrow> Quantity \<Rightarrow> bool" where
  "q_less q other \<longleftrightarrow> q_value q < q_value other"
definition q_less_eq :: "Quantity \<Rightarrow> Quantity \<Rightarrow> bool" where
  "q_less_eq q other \<longleftrightarrow> q_value q \<le> q_value other"
definition q_eq :: "Quantity \<Rightarrow> Quantity \<Rightarrow> bool" where
  "q_eq q other \<longleftrightarrow> q_value q = q_value other \<and> q_unit q = q_unit other"
definition q_neq :: "Quantity \<Rightarrow> Quantity \<Rightarrow> bool" where
  "q_neq q other \<longleftrightarrow> \<not> q_eq q other"
definition q_greater :: "Quantity \<Rightarrow> Quantity \<Rightarrow> bool" where
  "q_greater q other \<longleftrightarrow> q_value q > q_value other"
definition q_greater_eq :: "Quantity \<Rightarrow> Quantity \<Rightarrow> bool" where
  "q_greater_eq q other \<longleftrightarrow> q_value q \<ge> q_value other"
definition q_min :: "Quantity \<Rightarrow> Quantity \<Rightarrow> Quantity" where
  "q_min q other = (if q_value q < q_value other then q else other)"
definition q_max :: "Quantity \<Rightarrow> Quantity \<Rightarrow> Quantity" where
  "q_max q other = (if q_value q > q_value other then q else other)"

lemma q_comparisons:
  "q_eq q q' \<longleftrightarrow> q = q'" "q_neq q q' \<longleftrightarrow> q \<noteq> q'"
  "q_greater q q' \<longleftrightarrow> \<not> q_less_eq q q'" "q_greater_eq q q' \<longleftrightarrow> \<not> q_less q q'"
  by (auto simp: q_eq_def q_neq_def q_greater_def q_greater_eq_def q_less_def q_less_eq_def
    intro: Quantity.expand)

text \<open>What every quantity built by the constructor satisfies.\<close>

definition quantity_wf :: "Quantity \<Rightarrow> bool" where
  "quantity_wf q \<longleftrightarrow> 0 \<le> q_value q \<and> q_value q \<le> INT64_MAX \<and> q_unit q \<noteq> Unit_None"

lemma mk_Quantity_ok [simp]:
  "0 \<le> v \<Longrightarrow> u \<noteq> Unit_None \<Longrightarrow> mk_Quantity v u = Inr (Quantity v u)"
  by (simp add: mk_Quantity_def check_quantity_rep_def)

lemma mk_Quantity_wf: "in_i64 v \<Longrightarrow> mk_Quantity v u = Inr q \<Longrightarrow> quantity_wf q"
  by (auto simp: mk_Quantity_def check_quantity_rep_def quantity_wf_def in_i64_def
           split: if_splits)

lemma q_add_cases:
  assumes "quantity_wf a" "quantity_wf b"
  shows "q_add a b =
    (if q_unit a \<noteq> q_unit b
     then throw_error InvalidQuantity ''cannot add quantities of different units''
     else if q_value a + q_value b \<le> INT64_MAX
     then Inr (Quantity (q_value a + q_value b) (q_unit a))
     else throw_error QuantityOverflow ''quantity addition overflow'')"
  using assms by (simp add: q_add_def quantity_wf_def checked_add_nonneg)

text \<open>Addition of two well-formed quantities never leaves the 64-bit range: it throws on a unit
  mismatch, throws on overflow, and otherwise returns the exact well-formed sum.\<close>

theorem quantity_add_checked:
  assumes "quantity_wf a" "quantity_wf b"
  shows "q_add a b =
    (if q_unit a \<noteq> q_unit b
     then throw_error InvalidQuantity ''cannot add quantities of different units''
     else if q_value a + q_value b \<le> INT64_MAX
     then Inr (Quantity (q_value a + q_value b) (q_unit a))
     else throw_error QuantityOverflow ''quantity addition overflow'')
   \<and> (\<forall>q. q_add a b = Inr q \<longrightarrow> quantity_wf q)"
  using assms by (auto simp: q_add_cases quantity_wf_def split: if_splits)

lemma q_sub_exact:
  "quantity_wf a \<Longrightarrow> quantity_wf b \<Longrightarrow> q_unit a = q_unit b \<Longrightarrow> q_value b \<le> q_value a \<Longrightarrow>
   q_sub a b = Inr (Quantity (q_value a - q_value b) (q_unit a))"
  by (auto simp: q_sub_def quantity_wf_def ub_i64_def in_i64_def INT64_MIN_def)

text \<open>Subtraction undoes addition exactly: releasing what was added returns the old quantity.\<close>

theorem quantity_sub_add_roundtrip:
  assumes "quantity_wf a" "quantity_wf b" "q_add a b = Inr c"
  shows "q_sub c b = Inr a"
proof -
  have units: "q_unit a = q_unit b"
    using assms(3) by (simp add: q_add_def split: if_splits)
  with assms have sum: "q_value a + q_value b \<le> INT64_MAX"
    and c: "c = Quantity (q_value a + q_value b) (q_unit a)"
    using q_add_cases [OF assms(1,2)] by (auto split: if_splits)
  from sum c assms(1,2) have "quantity_wf c" by (simp add: quantity_wf_def)
  have "q_sub c b = Inr (Quantity (q_value c - q_value b) (q_unit c))"
    using c assms units \<open>quantity_wf c\<close>
    by (intro q_sub_exact) (simp_all add: quantity_wf_def)
  then show ?thesis by (simp add: c(1))
qed

lemma q_scale_exact:
  assumes "quantity_wf q" "0 \<le> k" "q_value q * k \<le> INT64_MAX"
  shows "q_scale q k = Inr (Quantity (q_value q * k) (q_unit q))"
  using assms by (auto simp: q_scale_def quantity_wf_def checked_mul_nonneg)

text \<open>Percent scaling is the floor of the exact percentage as long as the product stays in
  range, and signed overflow otherwise: the product is the one unchecked multiplication of the class.\<close>

theorem quantity_percent_overflow:
  assumes "quantity_wf q" "0 \<le> p" "p \<le> 100"
  shows "q_scaledByPercent q p =
    (if q_value q * p \<le> INT64_MAX
     then Inr (Quantity (q_value q * p div 100) (q_unit q))
     else Inl SignedOverflow)"
proof -
  have nonneg: "0 \<le> q_value q * p" using assms by (simp add: quantity_wf_def)
  then have "INT64_MIN \<le> q_value q * p" by (simp add: INT64_MIN_def)
  moreover from nonneg have "0 \<le> q_value q * p div 100"
    by (simp add: pos_imp_zdiv_nonneg_iff)
  ultimately show ?thesis
    using assms nonneg
    by (simp add: q_scaledByPercent_def quantity_wf_def ub_i64_def in_i64_def sdiv_nonneg)
qed

section \<open>Ratio\<close>

datatype Ratio = Ratio (basisPoints: int)

definition Ratio_one :: Ratio where
  "Ratio_one = Ratio 10000"

definition Ratio_percent :: "int \<Rightarrow> Ratio outcome" where
  "Ratio_percent p =
     (if p < 0 \<or> p > 100000 then throw_error InvalidQuantity ''ratio percent out of range''
      else Inr (Ratio (p * 100)))"

definition isUnity :: "Ratio \<Rightarrow> bool" where
  "isUnity r \<longleftrightarrow> basisPoints r = 10000"

definition ratio_eq :: "Ratio \<Rightarrow> Ratio \<Rightarrow> bool" where
  "ratio_eq r other \<longleftrightarrow> basisPoints r = basisPoints other"

definition ratio_less :: "Ratio \<Rightarrow> Ratio \<Rightarrow> bool" where
  "ratio_less r other \<longleftrightarrow> basisPoints r < basisPoints other"

definition ratio_greater :: "Ratio \<Rightarrow> Ratio \<Rightarrow> bool" where
  "ratio_greater r other \<longleftrightarrow> basisPoints r > basisPoints other"

lemma ratio_order:
  "ratio_eq r s \<longleftrightarrow> r = s" "ratio_greater r s \<longleftrightarrow> ratio_less s r"
  "ratio_less r s \<or> ratio_eq r s \<or> ratio_greater r s"
  by (auto simp: ratio_eq_def ratio_less_def ratio_greater_def intro: Ratio.expand)

definition ratio_permits :: "Ratio \<Rightarrow> Quantity \<Rightarrow> Quantity \<Rightarrow> bool outcome" where
  "ratio_permits r committed physical =
     (if q_unit committed \<noteq> q_unit physical then Inr False
      else if q_value committed > 0 \<and> basisPoints r = 0 then Inl DivisionByZero
      else if q_value committed > 0 \<and> q_value physical > INT64_MAX sdiv basisPoints r
      then Inr True
      else bind_outcome (ub_i64 (q_value committed * 10000)) (\<lambda>c.
             bind_outcome (ub_i64 (q_value physical * basisPoints r)) (\<lambda>p.
               Inr (c \<le> p))))"

lemma ratio_permits_exact:
  assumes "quantity_wf committed" "quantity_wf physical" "q_unit committed = q_unit physical"
    and "0 < basisPoints r" "q_value committed * 10000 \<le> INT64_MAX"
    and "q_value physical * basisPoints r \<le> INT64_MAX"
  shows "ratio_permits r committed physical =
    Inr (q_value committed * 10000 \<le> q_value physical * basisPoints r)"
proof -
  have "INT64_MAX sdiv basisPoints r = INT64_MAX div basisPoints r"
    using assms by (intro sdiv_nonneg) (auto simp: i64_defs)
  moreover have "q_value physical \<le> INT64_MAX div basisPoints r"
    using assms by (subst le_div_iff_mult_le) auto
  moreover have "0 \<le> q_value committed * 10000" "0 \<le> q_value physical * basisPoints r"
    using assms by (auto simp: quantity_wf_def)
  ultimately show ?thesis
    using assms by (simp add: ratio_permits_def ub_i64_def in_i64_def INT64_MIN_def)
qed

text \<open>When the physical side times the ratio leaves the 64-bit range, the overflow guard
  answers that the commitment is permitted, whatever its size, although its comment calls that case
  a breach.\<close>

theorem ratio_permits_overflow_is_true:
  assumes "quantity_wf committed" "quantity_wf physical" "q_unit committed = q_unit physical"
    and "0 < q_value committed" "0 < basisPoints r"
    and "q_value physical * basisPoints r > INT64_MAX"
  shows "ratio_permits r committed physical = Inr True"
proof -
  have "INT64_MAX sdiv basisPoints r = INT64_MAX div basisPoints r"
    using assms by (intro sdiv_nonneg) (auto simp: i64_defs)
  moreover have "q_value physical > INT64_MAX div basisPoints r"
    using assms le_div_iff_mult_le [of "basisPoints r" "q_value physical" INT64_MAX]
    by (auto simp: not_le)
  ultimately show ?thesis
    using assms by (auto simp: ratio_permits_def)
qed

section \<open>Witnesses\<close>

theorem quantity_add_checked_witness:
  "quantity_wf (Quantity 60 Unit_Count) \<and> quantity_wf (Quantity 40 Unit_Count) \<and>
   q_add (Quantity 60 Unit_Count) (Quantity 40 Unit_Count) = Inr (Quantity 100 Unit_Count)"
proof -
  have wf: "quantity_wf (Quantity 60 Unit_Count)" "quantity_wf (Quantity 40 Unit_Count)"
    by (simp_all add: quantity_wf_def i64_defs)
  show ?thesis
    using wf quantity_add_checked [OF wf] by (simp add: i64_defs)
qed

theorem quantity_sub_add_roundtrip_witness:
  "q_sub (Quantity 100 Unit_Bytes) (Quantity 40 Unit_Bytes) = Inr (Quantity 60 Unit_Bytes)"
proof (rule quantity_sub_add_roundtrip)
  show "quantity_wf (Quantity 60 Unit_Bytes)" "quantity_wf (Quantity 40 Unit_Bytes)"
    by (simp_all add: quantity_wf_def i64_defs)
  show "q_add (Quantity 60 Unit_Bytes) (Quantity 40 Unit_Bytes) = Inr (Quantity 100 Unit_Bytes)"
    by (simp add: q_add_def checked_add_def i64_defs)
qed

theorem quantity_percent_overflow_witness:
  "q_scaledByPercent (Quantity INT64_MAX Unit_Bytes) 50 = Inl SignedOverflow"
proof -
  have wf: "quantity_wf (Quantity INT64_MAX Unit_Bytes)"
    by (simp add: quantity_wf_def i64_defs)
  show ?thesis
    using quantity_percent_overflow [OF wf, of 50] by (simp add: i64_defs)
qed

theorem ratio_permits_overflow_is_true_witness:
  "ratio_permits Ratio_one (Quantity INT64_MAX Unit_Bytes) (Quantity 922337203685478 Unit_Bytes)
   = Inr True"
proof (rule ratio_permits_overflow_is_true)
  show "q_value (Quantity 922337203685478 Unit_Bytes) * basisPoints Ratio_one > INT64_MAX"
    by (simp add: Ratio_one_def i64_defs)
qed (simp_all add: quantity_wf_def Ratio_one_def i64_defs)

end
