(* ===== verification/RF_Time.thy ===== *)
theory RF_Time
  imports RF_Prelude
begin

text \<open>
  \<^verbatim>\<open>include/reservation_fabric/time.hpp\<close>: durations and instants in integer nanoseconds and
  half-open intervals. The clocks are the operating system's: an operation of the runtime that reads
  one takes the instant as an argument.
\<close>

definition check_abs :: "int \<Rightarrow> string \<Rightarrow> unit outcome" where
  "check_abs v what =
     (if v < 0 then throw_error InvalidQuantity (what @ '' must be non-negative'') else Inr ())"

section \<open>Duration\<close>

datatype Duration = Duration (dur_ns: int)

definition dur_less :: "Duration \<Rightarrow> Duration \<Rightarrow> bool" where
  [simp]: "dur_less a b \<longleftrightarrow> dur_ns a < dur_ns b"

definition dur_less_eq :: "Duration \<Rightarrow> Duration \<Rightarrow> bool" where
  [simp]: "dur_less_eq a b \<longleftrightarrow> dur_ns a \<le> dur_ns b"

definition dur_eq :: "Duration \<Rightarrow> Duration \<Rightarrow> bool" where
  "dur_eq a b \<longleftrightarrow> dur_ns a = dur_ns b"

definition dur_neq :: "Duration \<Rightarrow> Duration \<Rightarrow> bool" where
  "dur_neq a b \<longleftrightarrow> dur_ns a \<noteq> dur_ns b"

definition dur_greater :: "Duration \<Rightarrow> Duration \<Rightarrow> bool" where
  "dur_greater a b \<longleftrightarrow> dur_ns a > dur_ns b"

definition dur_greater_eq :: "Duration \<Rightarrow> Duration \<Rightarrow> bool" where
  "dur_greater_eq a b \<longleftrightarrow> dur_ns a \<ge> dur_ns b"

text \<open>The comparisons are HOL equality and the order of the library's class.\<close>

instantiation Duration :: linorder
begin

definition less_eq_Duration :: "Duration \<Rightarrow> Duration \<Rightarrow> bool" where
  "less_eq_Duration = dur_less_eq"

definition less_Duration :: "Duration \<Rightarrow> Duration \<Rightarrow> bool" where
  "less_Duration = dur_less"

instance
  by standard (auto simp: less_eq_Duration_def less_Duration_def intro: Duration.expand)

end

lemma dur_comparisons:
  "dur_eq a b \<longleftrightarrow> a = b" "dur_neq a b \<longleftrightarrow> a \<noteq> b"
  "dur_greater a b \<longleftrightarrow> b < a" "dur_greater_eq a b \<longleftrightarrow> b \<le> a"
  by (auto simp: dur_eq_def dur_neq_def dur_greater_def dur_greater_eq_def less_Duration_def
    less_eq_Duration_def intro: Duration.expand)

definition Duration_zero :: Duration where
  "Duration_zero = Duration 0"

definition Duration_seconds :: "int \<Rightarrow> Duration outcome" where
  "Duration_seconds s =
     (if s > INT64_MAX sdiv 1000000000
      then throw_error QuantityOverflow ''Duration::seconds overflow''
      else bind_outcome (ub_i64 (s * 1000000000)) (\<lambda>n. Inr (Duration n)))"

definition dur_isZero :: "Duration \<Rightarrow> bool" where
  "dur_isZero d \<longleftrightarrow> dur_ns d = 0"

definition dur_isPositive :: "Duration \<Rightarrow> bool" where
  "dur_isPositive d \<longleftrightarrow> dur_ns d > 0"

definition dur_add :: "Duration \<Rightarrow> Duration \<Rightarrow> Duration outcome" where
  "dur_add d other =
     bind_outcome (ub_i64 (INT64_MAX - dur_ns other)) (\<lambda>limit.
       if dur_ns d > limit then throw_error QuantityOverflow ''Duration addition overflow''
       else bind_outcome (ub_i64 (dur_ns d + dur_ns other)) (\<lambda>n. Inr (Duration n)))"

definition dur_sub :: "Duration \<Rightarrow> Duration \<Rightarrow> Duration outcome" where
  "dur_sub d other =
     (if dur_ns d < dur_ns other
      then throw_error InvalidQuantity ''Duration subtraction underflow''
      else bind_outcome (ub_i64 (dur_ns d - dur_ns other)) (\<lambda>n. Inr (Duration n)))"

definition dur_scale :: "Duration \<Rightarrow> int \<Rightarrow> Duration outcome" where
  "dur_scale d scalar =
     (if scalar < 0
      then throw_error InvalidQuantity ''Duration multiply by negative scalar''
      else if scalar \<noteq> 0 \<and> dur_ns d > INT64_MAX sdiv scalar
      then throw_error QuantityOverflow ''Duration multiplication overflow''
      else bind_outcome (ub_i64 (dur_ns d * scalar)) (\<lambda>n. Inr (Duration n)))"

definition dur_divide :: "Duration \<Rightarrow> int \<Rightarrow> Duration outcome" where
  "dur_divide d scalar =
     (if scalar \<le> 0
      then throw_error InvalidQuantity ''Duration division by non-positive scalar''
      else Inr (Duration (dur_ns d sdiv scalar)))"

definition dur_min :: "Duration \<Rightarrow> Duration \<Rightarrow> Duration" where
  "dur_min d other = (if dur_ns d < dur_ns other then d else other)"

definition dur_max :: "Duration \<Rightarrow> Duration \<Rightarrow> Duration" where
  "dur_max d other = (if dur_ns d > dur_ns other then d else other)"

section \<open>Instant\<close>

datatype Instant = Instant (inst_ns: int)

definition inst_less :: "Instant \<Rightarrow> Instant \<Rightarrow> bool" where
  [simp]: "inst_less a b \<longleftrightarrow> inst_ns a < inst_ns b"

definition inst_less_eq :: "Instant \<Rightarrow> Instant \<Rightarrow> bool" where
  [simp]: "inst_less_eq a b \<longleftrightarrow> inst_ns a \<le> inst_ns b"

definition inst_eq :: "Instant \<Rightarrow> Instant \<Rightarrow> bool" where
  "inst_eq a b \<longleftrightarrow> inst_ns a = inst_ns b"

definition inst_neq :: "Instant \<Rightarrow> Instant \<Rightarrow> bool" where
  "inst_neq a b \<longleftrightarrow> inst_ns a \<noteq> inst_ns b"

definition inst_greater :: "Instant \<Rightarrow> Instant \<Rightarrow> bool" where
  "inst_greater a b \<longleftrightarrow> inst_ns a > inst_ns b"

definition inst_greater_eq :: "Instant \<Rightarrow> Instant \<Rightarrow> bool" where
  "inst_greater_eq a b \<longleftrightarrow> inst_ns a \<ge> inst_ns b"

text \<open>The comparisons are HOL equality and the order of the library's class.\<close>

instantiation Instant :: linorder
begin

definition less_eq_Instant :: "Instant \<Rightarrow> Instant \<Rightarrow> bool" where
  "less_eq_Instant = inst_less_eq"

definition less_Instant :: "Instant \<Rightarrow> Instant \<Rightarrow> bool" where
  "less_Instant = inst_less"

instance
  by standard (auto simp: less_eq_Instant_def less_Instant_def intro: Instant.expand)

end

lemma inst_comparisons:
  "inst_eq a b \<longleftrightarrow> a = b" "inst_neq a b \<longleftrightarrow> a \<noteq> b"
  "inst_greater a b \<longleftrightarrow> b < a" "inst_greater_eq a b \<longleftrightarrow> b \<le> a"
  by (auto simp: inst_eq_def inst_neq_def inst_greater_def inst_greater_eq_def less_Instant_def
    less_eq_Instant_def intro: Instant.expand)

definition Instant_epoch :: Instant where
  "Instant_epoch = Instant 0"

definition inst_add :: "Instant \<Rightarrow> Duration \<Rightarrow> Instant outcome" where
  "inst_add t d =
     (if dur_ns d > 0 \<and> inst_ns t > INT64_MAX - dur_ns d
      then throw_error QuantityOverflow ''Instant addition overflow''
      else bind_outcome (ub_i64 (inst_ns t + dur_ns d)) (\<lambda>n. Inr (Instant n)))"

definition inst_sub :: "Instant \<Rightarrow> Duration \<Rightarrow> Instant outcome" where
  "inst_sub t d =
     (if dur_ns d > 0 \<and> inst_ns t < INT64_MIN + dur_ns d
      then throw_error QuantityOverflow ''Instant subtraction overflow''
      else bind_outcome (ub_i64 (inst_ns t - dur_ns d)) (\<lambda>n. Inr (Instant n)))"

definition durationUntil :: "Instant \<Rightarrow> Instant \<Rightarrow> Duration outcome" where
  "durationUntil t other =
     (if inst_ns other < inst_ns t
      then throw_error InvalidInterval ''time flows forward: other precedes this''
      else bind_outcome (ub_i64 (inst_ns other - inst_ns t)) (\<lambda>n. Inr (Duration n)))"

definition durationFrom :: "Instant \<Rightarrow> Instant \<Rightarrow> Duration outcome" where
  "durationFrom t other = durationUntil other t"

definition inst_min :: "Instant \<Rightarrow> Instant \<Rightarrow> Instant" where
  "inst_min t other = (if inst_ns t < inst_ns other then t else other)"

definition inst_max :: "Instant \<Rightarrow> Instant \<Rightarrow> Instant" where
  "inst_max t other = (if inst_ns t > inst_ns other then t else other)"

section \<open>Interval\<close>

datatype Interval = Interval (iv_start: Instant) (iv_end: Instant)

text \<open>The default constructor leaves both ends at the epoch; the other two demand a positive length.\<close>

definition Interval_default :: Interval where
  "Interval_default = Interval (Instant 0) (Instant 0)"

definition mk_Interval :: "Instant \<Rightarrow> Instant \<Rightarrow> Interval outcome" where
  "mk_Interval s e =
     (if \<not> (e > s)
      then throw_error InvalidInterval ''interval end must be strictly after start''
      else Inr (Interval s e))"

definition mk_Interval_length :: "Instant \<Rightarrow> Duration \<Rightarrow> Interval outcome" where
  "mk_Interval_length s len = bind_outcome (inst_add s len) (\<lambda>e. mk_Interval s e)"

definition iv_length :: "Interval \<Rightarrow> Duration outcome" where
  "iv_length i = durationUntil (iv_start i) (iv_end i)"

definition iv_isEmpty :: "Interval \<Rightarrow> bool" where
  "iv_isEmpty i \<longleftrightarrow> iv_end i \<le> iv_start i"

definition iv_overlap :: "Interval \<Rightarrow> Interval \<Rightarrow> Duration outcome" where
  "iv_overlap i other =
     (let lo = inst_max (iv_start i) (iv_start other);
          hi = inst_min (iv_end i) (iv_end other)
      in if hi > lo then durationUntil lo hi else Inr Duration_zero)"

definition iv_overlaps :: "Interval \<Rightarrow> Interval \<Rightarrow> bool" where
  "iv_overlaps i other \<longleftrightarrow> iv_end i > iv_start other \<and> iv_start i < iv_end other"

definition iv_contains :: "Interval \<Rightarrow> Instant \<Rightarrow> bool" where
  "iv_contains i t \<longleftrightarrow> t \<ge> iv_start i \<and> t < iv_end i"

definition iv_eq :: "Interval \<Rightarrow> Interval \<Rightarrow> bool" where
  "iv_eq i other \<longleftrightarrow> inst_eq (iv_start i) (iv_start other) \<and> inst_eq (iv_end i) (iv_end other)"

definition iv_neq :: "Interval \<Rightarrow> Interval \<Rightarrow> bool" where
  "iv_neq i other \<longleftrightarrow> \<not> iv_eq i other"

lemma iv_eq_iff: "iv_eq i j \<longleftrightarrow> i = j" "iv_neq i j \<longleftrightarrow> i \<noteq> j"
  by (auto simp: iv_eq_def iv_neq_def inst_comparisons intro: Interval.expand)

lemma min_max_exact:
  "dur_min d d' = min d d'" "dur_max d d' = max d d'"
  "inst_min t t' = min t t'" "inst_max t t' = max t t'"
  by (auto simp: dur_min_def dur_max_def inst_min_def inst_max_def min_def max_def
    less_eq_Duration_def less_eq_Instant_def intro: Duration.expand Instant.expand)

section \<open>Bounds and overlap\<close>

definition instant_wf :: "Instant \<Rightarrow> bool" where
  "instant_wf t \<longleftrightarrow> in_i64 (inst_ns t)"

definition interval_wf :: "Interval \<Rightarrow> bool" where
  "interval_wf i \<longleftrightarrow> instant_wf (iv_start i) \<and> instant_wf (iv_end i) \<and> iv_start i < iv_end i"

lemma less_eq_Instant_iff [simp]: "Instant a \<le> Instant b \<longleftrightarrow> a \<le> b"
  by (simp add: less_eq_Instant_def)

lemma less_Instant_iff [simp]: "Instant a < Instant b \<longleftrightarrow> a < b"
  by (simp add: less_Instant_def)

lemma iv_contains_ns:
  "iv_contains i t \<longleftrightarrow> inst_ns (iv_start i) \<le> inst_ns t \<and> inst_ns t < inst_ns (iv_end i)"
  by (simp add: iv_contains_def less_eq_Instant_def less_Instant_def)

lemma mk_Interval_Inr:
  "mk_Interval s e = Inr i \<longleftrightarrow> i = Interval s e \<and> s < e"
  by (auto simp: mk_Interval_def)

text \<open>Adding a non-negative duration to an instant never leaves the 64-bit range: it throws
  exactly when the sum would, and returns the exact instant otherwise.\<close>

theorem instant_add_checked:
  assumes "instant_wf t" "0 \<le> dur_ns d" "in_i64 (dur_ns d)"
  shows "inst_add t d =
    (if inst_ns t + dur_ns d \<le> INT64_MAX then Inr (Instant (inst_ns t + dur_ns d))
     else throw_error QuantityOverflow ''Instant addition overflow'')"
  using assms by (simp add: inst_add_def instant_wf_def ub_i64_def in_i64_def)

theorem instant_add_checked_witness:
  "inst_add (Instant 100) (Duration 50) = Inr (Instant 150)"
  using instant_add_checked [of "Instant 100" "Duration 50"]
  by (simp add: instant_wf_def i64_defs)

text \<open>The overlap test of two proper half-open intervals is exact: it holds if and only if some
  instant lies in both, so touching intervals do not conflict.\<close>

theorem interval_overlaps_iff_common_instant:
  assumes "interval_wf i" "interval_wf j"
  shows "iv_overlaps i j \<longleftrightarrow> (\<exists>t. iv_contains i t \<and> iv_contains j t)"
proof
  assume "iv_overlaps i j"
  then have "iv_contains i (Instant (max (inst_ns (iv_start i)) (inst_ns (iv_start j)))) \<and>
             iv_contains j (Instant (max (inst_ns (iv_start i)) (inst_ns (iv_start j))))"
    using assms
    by (auto simp: iv_overlaps_def iv_contains_ns less_Instant_def interval_wf_def)
  then show "\<exists>t. iv_contains i t \<and> iv_contains j t" ..
next
  assume "\<exists>t. iv_contains i t \<and> iv_contains j t"
  then show "iv_overlaps i j"
    by (auto simp: iv_overlaps_def iv_contains_ns less_Instant_def)
qed

theorem interval_overlaps_iff_common_instant_witness:
  "\<not> (\<exists>t. iv_contains (Interval (Instant 0) (Instant 10)) t \<and>
          iv_contains (Interval (Instant 10) (Instant 20)) t)"
proof -
  have "interval_wf (Interval (Instant 0) (Instant 10))"
    "interval_wf (Interval (Instant 10) (Instant 20))"
    by (simp_all add: interval_wf_def instant_wf_def i64_defs)
  from interval_overlaps_iff_common_instant [OF this] show ?thesis
    by (simp add: iv_overlaps_def)
qed

lemma iv_overlap_positive:
  "iv_overlap i j = Inr d \<Longrightarrow> dur_isPositive d \<longleftrightarrow>
   inst_min (iv_end i) (iv_end j) > inst_max (iv_start i) (iv_start j)"
  by (auto simp: iv_overlap_def Let_def durationUntil_def dur_isPositive_def Duration_zero_def
      bind_outcome_Inr_iff less_Instant_def ub_i64_def split: if_splits)

end
