(* ===== verification/RF_Lifecycle.thy ===== *)
theory RF_Lifecycle
  imports RF_Prelude
begin

text \<open>
  \<^verbatim>\<open>include/reservation_fabric/lifecycle.hpp\<close>: the states of a reservation, which of
  them hold capacity, and the transition table. The table is the documented state machine; what the
  runtime's operations do with the state is modelled with the operations themselves.
\<close>

section \<open>States\<close>

datatype Lifecycle =
    Lifecycle_Requested
  | Lifecycle_Planned
  | Lifecycle_Holding
  | Lifecycle_Held
  | Lifecycle_Committing
  | Lifecycle_Committed
  | Lifecycle_PendingActivation
  | Lifecycle_Activating
  | Lifecycle_Active
  | Lifecycle_PartiallyConsumed
  | Lifecycle_Consumed
  | Lifecycle_Modifying
  | Lifecycle_Renewing
  | Lifecycle_Releasing
  | Lifecycle_Released
  | Lifecycle_Expired
  | Lifecycle_Cancelled
  | Lifecycle_Superseded
  | Lifecycle_Failed
  | Lifecycle_Recovering
  | Lifecycle_RevalidationRequired
  | Lifecycle_Retired
  | Lifecycle_raw u8

fun Lifecycle_to_string :: "Lifecycle \<Rightarrow> string" where
  "Lifecycle_to_string Lifecycle_Requested = ''Requested''"
| "Lifecycle_to_string Lifecycle_Planned = ''Planned''"
| "Lifecycle_to_string Lifecycle_Holding = ''Holding''"
| "Lifecycle_to_string Lifecycle_Held = ''Held''"
| "Lifecycle_to_string Lifecycle_Committing = ''Committing''"
| "Lifecycle_to_string Lifecycle_Committed = ''Committed''"
| "Lifecycle_to_string Lifecycle_PendingActivation = ''PendingActivation''"
| "Lifecycle_to_string Lifecycle_Activating = ''Activating''"
| "Lifecycle_to_string Lifecycle_Active = ''Active''"
| "Lifecycle_to_string Lifecycle_PartiallyConsumed = ''PartiallyConsumed''"
| "Lifecycle_to_string Lifecycle_Consumed = ''Consumed''"
| "Lifecycle_to_string Lifecycle_Modifying = ''Modifying''"
| "Lifecycle_to_string Lifecycle_Renewing = ''Renewing''"
| "Lifecycle_to_string Lifecycle_Releasing = ''Releasing''"
| "Lifecycle_to_string Lifecycle_Released = ''Released''"
| "Lifecycle_to_string Lifecycle_Expired = ''Expired''"
| "Lifecycle_to_string Lifecycle_Cancelled = ''Cancelled''"
| "Lifecycle_to_string Lifecycle_Superseded = ''Superseded''"
| "Lifecycle_to_string Lifecycle_Failed = ''Failed''"
| "Lifecycle_to_string Lifecycle_Recovering = ''Recovering''"
| "Lifecycle_to_string Lifecycle_RevalidationRequired = ''RevalidationRequired''"
| "Lifecycle_to_string Lifecycle_Retired = ''Retired''"
| "Lifecycle_to_string (Lifecycle_raw _) = ''Unknown''"

fun lifecycle_holds_capacity :: "Lifecycle \<Rightarrow> bool" where
  "lifecycle_holds_capacity Lifecycle_Holding = True"
| "lifecycle_holds_capacity Lifecycle_Held = True"
| "lifecycle_holds_capacity Lifecycle_Committing = True"
| "lifecycle_holds_capacity Lifecycle_Committed = True"
| "lifecycle_holds_capacity Lifecycle_PendingActivation = True"
| "lifecycle_holds_capacity Lifecycle_Activating = True"
| "lifecycle_holds_capacity Lifecycle_Active = True"
| "lifecycle_holds_capacity Lifecycle_PartiallyConsumed = True"
| "lifecycle_holds_capacity Lifecycle_Consumed = True"
| "lifecycle_holds_capacity Lifecycle_Modifying = True"
| "lifecycle_holds_capacity Lifecycle_Renewing = True"
| "lifecycle_holds_capacity Lifecycle_Releasing = True"
| "lifecycle_holds_capacity Lifecycle_Recovering = True"
| "lifecycle_holds_capacity Lifecycle_RevalidationRequired = True"
| "lifecycle_holds_capacity _ = False"

section \<open>The transition table\<close>

fun can_transition :: "Lifecycle \<Rightarrow> Lifecycle \<Rightarrow> bool" where
  "can_transition Lifecycle_Requested to =
     (to = Lifecycle_Planned \<or> to = Lifecycle_Failed \<or> to = Lifecycle_Cancelled)"
| "can_transition Lifecycle_Planned to =
     (to = Lifecycle_Holding \<or> to = Lifecycle_Cancelled \<or> to = Lifecycle_Failed)"
| "can_transition Lifecycle_Holding to =
     (to = Lifecycle_Held \<or> to = Lifecycle_Cancelled \<or> to = Lifecycle_Failed)"
| "can_transition Lifecycle_Held to =
     (to = Lifecycle_Committing \<or> to = Lifecycle_Cancelled \<or> to = Lifecycle_Releasing \<or>
      to = Lifecycle_Failed \<or> to = Lifecycle_Expired)"
| "can_transition Lifecycle_Committing to =
     (to = Lifecycle_Committed \<or> to = Lifecycle_Failed \<or> to = Lifecycle_Cancelled)"
| "can_transition Lifecycle_Committed to =
     (to = Lifecycle_PendingActivation \<or> to = Lifecycle_Cancelled \<or> to = Lifecycle_Expired \<or>
      to = Lifecycle_Modifying \<or> to = Lifecycle_Renewing \<or> to = Lifecycle_RevalidationRequired)"
| "can_transition Lifecycle_PendingActivation to =
     (to = Lifecycle_Activating \<or> to = Lifecycle_Cancelled \<or> to = Lifecycle_Expired \<or>
      to = Lifecycle_Modifying \<or> to = Lifecycle_Renewing \<or>
      to = Lifecycle_RevalidationRequired \<or> to = Lifecycle_Superseded)"
| "can_transition Lifecycle_Activating to =
     (to = Lifecycle_Active \<or> to = Lifecycle_RevalidationRequired \<or> to = Lifecycle_Cancelled \<or>
      to = Lifecycle_Failed)"
| "can_transition Lifecycle_Active to =
     (to = Lifecycle_PartiallyConsumed \<or> to = Lifecycle_Consumed \<or> to = Lifecycle_Releasing \<or>
      to = Lifecycle_RevalidationRequired \<or> to = Lifecycle_Expired \<or>
      to = Lifecycle_Modifying \<or> to = Lifecycle_Renewing)"
| "can_transition Lifecycle_PartiallyConsumed to =
     (to = Lifecycle_Consumed \<or> to = Lifecycle_PartiallyConsumed \<or> to = Lifecycle_Releasing \<or>
      to = Lifecycle_RevalidationRequired \<or> to = Lifecycle_Modifying \<or>
      to = Lifecycle_Renewing \<or> to = Lifecycle_Expired)"
| "can_transition Lifecycle_Consumed to =
     (to = Lifecycle_Releasing \<or> to = Lifecycle_Released \<or>
      to = Lifecycle_RevalidationRequired \<or> to = Lifecycle_Expired)"
| "can_transition Lifecycle_Modifying to =
     (to = Lifecycle_Committed \<or> to = Lifecycle_PendingActivation \<or> to = Lifecycle_Active \<or>
      to = Lifecycle_Failed \<or> to = Lifecycle_Superseded)"
| "can_transition Lifecycle_Renewing to =
     (to = Lifecycle_Committed \<or> to = Lifecycle_PendingActivation \<or> to = Lifecycle_Active \<or>
      to = Lifecycle_Failed \<or> to = Lifecycle_Superseded)"
| "can_transition Lifecycle_Releasing to =
     (to = Lifecycle_Released \<or> to = Lifecycle_Failed)"
| "can_transition Lifecycle_Released to =
     (to = Lifecycle_Retired \<or> to = Lifecycle_Superseded)"
| "can_transition Lifecycle_Expired to =
     (to = Lifecycle_Released \<or> to = Lifecycle_Retired \<or> to = Lifecycle_Superseded \<or>
      to = Lifecycle_RevalidationRequired)"
| "can_transition Lifecycle_Cancelled to =
     (to = Lifecycle_Released \<or> to = Lifecycle_Retired)"
| "can_transition Lifecycle_Superseded to =
     (to = Lifecycle_Retired)"
| "can_transition Lifecycle_Failed to =
     (to = Lifecycle_Requested \<or> to = Lifecycle_Planned \<or> to = Lifecycle_Retired \<or>
      to = Lifecycle_Recovering)"
| "can_transition Lifecycle_Recovering to =
     (to = Lifecycle_Committed \<or> to = Lifecycle_PendingActivation \<or>
      to = Lifecycle_RevalidationRequired \<or> to = Lifecycle_Failed)"
| "can_transition Lifecycle_RevalidationRequired to =
     (to = Lifecycle_PendingActivation \<or> to = Lifecycle_Activating \<or>
      to = Lifecycle_Committed \<or> to = Lifecycle_Recovering \<or> to = Lifecycle_Cancelled \<or>
      to = Lifecycle_Releasing \<or> to = Lifecycle_Expired)"
| "can_transition Lifecycle_Retired to = False"
| "can_transition (Lifecycle_raw _) to = False"

definition require_transition :: "Lifecycle \<Rightarrow> Lifecycle \<Rightarrow> unit outcome" where
  "require_transition from to =
     (if \<not> can_transition from to
      then throw_error InvalidTransition
             (''illegal lifecycle transition: '' @ Lifecycle_to_string from @ '' -> '' @
              Lifecycle_to_string to)
      else Inr ())"

section \<open>Paths through the table\<close>

inductive lifecycle_path :: "Lifecycle \<Rightarrow> Lifecycle \<Rightarrow> bool" where
  path_refl: "lifecycle_path s s"
| path_step: "lifecycle_path s t \<Longrightarrow> can_transition t u \<Longrightarrow> lifecycle_path s u"

text \<open>The states a reservation cannot come back from.\<close>

fun lifecycle_final :: "Lifecycle \<Rightarrow> bool" where
  "lifecycle_final Lifecycle_Released = True"
| "lifecycle_final Lifecycle_Cancelled = True"
| "lifecycle_final Lifecycle_Superseded = True"
| "lifecycle_final Lifecycle_Retired = True"
| "lifecycle_final _ = False"

lemma final_step: "can_transition s t \<Longrightarrow> lifecycle_final s \<Longrightarrow> lifecycle_final t"
  by (cases s) auto

lemma final_path: "lifecycle_path s t \<Longrightarrow> lifecycle_final s \<Longrightarrow> lifecycle_final t"
  by (induction rule: lifecycle_path.induct) (auto dest: final_step)

lemma final_no_capacity: "lifecycle_final s \<Longrightarrow> \<not> lifecycle_holds_capacity s"
  by (cases s) auto

text \<open>In the transition table a released, cancelled, superseded or retired reservation never
  reaches a state that holds capacity again, by any number of legal transitions.\<close>

theorem table_final_states_hold_no_capacity:
  assumes "lifecycle_final s" "lifecycle_path s t"
  shows "\<not> lifecycle_holds_capacity t \<and> t \<noteq> Lifecycle_Active"
  using final_no_capacity [OF final_path [OF assms(2,1)]] by auto

theorem table_final_states_hold_no_capacity_witness:
  "lifecycle_path Lifecycle_Released Lifecycle_Retired \<and>
   \<not> lifecycle_holds_capacity Lifecycle_Retired"
proof -
  have "lifecycle_path Lifecycle_Released Lifecycle_Retired"
    by (rule path_step [OF path_refl]) simp
  with table_final_states_hold_no_capacity [of Lifecycle_Released] show ?thesis by simp
qed

lemma active_only_from:
  "can_transition s Lifecycle_Active \<Longrightarrow>
   s = Lifecycle_Activating \<or> s = Lifecycle_Modifying \<or> s = Lifecycle_Renewing"
  by (cases s) auto

text \<open>The direct step to Active exists only from Activating, Modifying and Renewing, and
  \<open>require_transition\<close> rejects every other one; but Expired is not final: the table leads from
  it back to Active over RevalidationRequired and Activating.\<close>

theorem table_activation_steps:
  "(\<forall>s. require_transition s Lifecycle_Active = Inr () \<longleftrightarrow>
      s = Lifecycle_Activating \<or> s = Lifecycle_Modifying \<or> s = Lifecycle_Renewing) \<and>
   lifecycle_path Lifecycle_Expired Lifecycle_Active"
proof (intro conjI allI)
  fix s
  show "require_transition s Lifecycle_Active = Inr () \<longleftrightarrow>
      s = Lifecycle_Activating \<or> s = Lifecycle_Modifying \<or> s = Lifecycle_Renewing"
    by (cases s) (simp_all add: require_transition_def)
next
  have "lifecycle_path Lifecycle_Expired Lifecycle_RevalidationRequired"
    by (rule path_step [OF path_refl]) simp
  then have "lifecycle_path Lifecycle_Expired Lifecycle_Activating"
    by (rule path_step) simp
  then show "lifecycle_path Lifecycle_Expired Lifecycle_Active"
    by (rule path_step) simp
qed

end
