(* ===== verification/RF_Domain.thy ===== *)
theory RF_Domain
  imports RF_Identity RF_Quantity RF_Time RF_Lifecycle
begin

text \<open>
  The data model of the runtime: \<^verbatim>\<open>resource.hpp\<close>, \<^verbatim>\<open>request.hpp\<close>, \<^verbatim>\<open>hold.hpp\<close>,
  \<^verbatim>\<open>reservation.hpp\<close>, \<^verbatim>\<open>bundle.hpp\<close>, \<^verbatim>\<open>feasibility.hpp\<close> and the evidence, publication and
  result structures of \<^verbatim>\<open>runtime.hpp\<close>. A structure is a record whose fields carry a prefix of
  their own; an enumeration that is read back from bytes has a constructor for the byte values
  without a name. A 32-bit integer is a 32-bit word.
\<close>

type_synonym i32 = "32 word"

section \<open>Resources\<close>

datatype ResourceClass =
    AcceleratorCompute
  | AcceleratorMemory
  | PinnedHostMemory
  | PageableHostMemory
  | DeviceLocalMemoryPool
  | ModelResidency
  | AdapterResidency
  | KVTensorStateResidency
  | TransferBandwidth
  | PcieBandwidth
  | InterconnectBandwidth
  | NetworkBandwidth
  | StorageBandwidth
  | StorageCapacity
  | QueueServiceSlot
  | ConcurrentExecution
  | CommunicationPath
  | PlacementConstrainedCapacity
  | TopologyConstrainedCapacity
  | CompositeMultiResourceBundle
  | ResourceClass_Unknown
  | ResourceClass_raw u8

fun unit_for :: "ResourceClass \<Rightarrow> Unit" where
  "unit_for AcceleratorCompute = Unit_Count"
| "unit_for AcceleratorMemory = Unit_Bytes"
| "unit_for PinnedHostMemory = Unit_Bytes"
| "unit_for PageableHostMemory = Unit_Bytes"
| "unit_for DeviceLocalMemoryPool = Unit_Bytes"
| "unit_for ModelResidency = Unit_Bytes"
| "unit_for AdapterResidency = Unit_Bytes"
| "unit_for KVTensorStateResidency = Unit_Bytes"
| "unit_for TransferBandwidth = Unit_BytesPerSecond"
| "unit_for PcieBandwidth = Unit_BytesPerSecond"
| "unit_for InterconnectBandwidth = Unit_BytesPerSecond"
| "unit_for NetworkBandwidth = Unit_BytesPerSecond"
| "unit_for StorageBandwidth = Unit_BytesPerSecond"
| "unit_for StorageCapacity = Unit_Bytes"
| "unit_for QueueServiceSlot = Unit_Count"
| "unit_for ConcurrentExecution = Unit_Count"
| "unit_for CommunicationPath = Unit_Count"
| "unit_for PlacementConstrainedCapacity = Unit_Bytes"
| "unit_for TopologyConstrainedCapacity = Unit_Bytes"
| "unit_for CompositeMultiResourceBundle = Unit_Count"
| "unit_for ResourceClass_Unknown = Unit_Count"
| "unit_for (ResourceClass_raw _) = Unit_Count"

fun ResourceClass_to_string :: "ResourceClass \<Rightarrow> string" where
  "ResourceClass_to_string AcceleratorCompute = ''AcceleratorCompute''"
| "ResourceClass_to_string AcceleratorMemory = ''AcceleratorMemory''"
| "ResourceClass_to_string PinnedHostMemory = ''PinnedHostMemory''"
| "ResourceClass_to_string PageableHostMemory = ''PageableHostMemory''"
| "ResourceClass_to_string DeviceLocalMemoryPool = ''DeviceLocalMemoryPool''"
| "ResourceClass_to_string ModelResidency = ''ModelResidency''"
| "ResourceClass_to_string AdapterResidency = ''AdapterResidency''"
| "ResourceClass_to_string KVTensorStateResidency = ''KVTensorStateResidency''"
| "ResourceClass_to_string TransferBandwidth = ''TransferBandwidth''"
| "ResourceClass_to_string PcieBandwidth = ''PcieBandwidth''"
| "ResourceClass_to_string InterconnectBandwidth = ''InterconnectBandwidth''"
| "ResourceClass_to_string NetworkBandwidth = ''NetworkBandwidth''"
| "ResourceClass_to_string StorageBandwidth = ''StorageBandwidth''"
| "ResourceClass_to_string StorageCapacity = ''StorageCapacity''"
| "ResourceClass_to_string QueueServiceSlot = ''QueueServiceSlot''"
| "ResourceClass_to_string ConcurrentExecution = ''ConcurrentExecution''"
| "ResourceClass_to_string CommunicationPath = ''CommunicationPath''"
| "ResourceClass_to_string PlacementConstrainedCapacity = ''PlacementConstrainedCapacity''"
| "ResourceClass_to_string TopologyConstrainedCapacity = ''TopologyConstrainedCapacity''"
| "ResourceClass_to_string CompositeMultiResourceBundle = ''CompositeMultiResourceBundle''"
| "ResourceClass_to_string ResourceClass_Unknown = ''Unknown''"
| "ResourceClass_to_string (ResourceClass_raw _) = ''Unknown''"

record Resource =
  res_id :: ResourceId
  res_generation :: ResourceGeneration
  res_class :: ResourceClass
  res_unit :: Unit
  res_totalCapacity :: Quantity
  res_pool :: ResourcePoolId
  res_poolGeneration :: ResourcePoolGeneration
  res_owner :: WorkerId
  res_ownerBoot :: WorkerBootId
  res_capabilities :: CapabilityGeneration
  res_topology :: TopologyGeneration
  res_contract :: ResourceContractId
  res_contractGeneration :: ResourceContractGeneration
  res_available :: bool

record UnavailableWindow =
  uw_interval :: Interval
  uw_reason :: string

definition resource_eq :: "Resource \<Rightarrow> Resource \<Rightarrow> bool" where
  "resource_eq a b \<longleftrightarrow>
     id_eq (res_id a) (res_id b) \<and> gen_eq (res_generation a) (res_generation b) \<and>
     res_class a = res_class b \<and> res_unit a = res_unit b \<and>
     q_eq (res_totalCapacity a) (res_totalCapacity b) \<and> id_eq (res_pool a) (res_pool b) \<and>
     id_eq (res_owner a) (res_owner b) \<and> gen_eq (res_ownerBoot a) (res_ownerBoot b) \<and>
     gen_eq (res_capabilities a) (res_capabilities b) \<and>
     gen_eq (res_topology a) (res_topology b) \<and> (res_available a \<longleftrightarrow> res_available b)"

text \<open>Equality leaves out the pool's generation and the contract.\<close>

lemma resource_eq_up_to_contract:
  "resource_eq a b \<longleftrightarrow>
     a\<lparr>res_poolGeneration := g, res_contract := c, res_contractGeneration := cg\<rparr> =
     b\<lparr>res_poolGeneration := g, res_contract := c, res_contractGeneration := cg\<rparr>"
  by (cases a, cases b) (auto simp: resource_eq_def id_comparisons gen_comparisons q_comparisons)

definition uwindow_eq :: "UnavailableWindow \<Rightarrow> UnavailableWindow \<Rightarrow> bool" where
  "uwindow_eq a b \<longleftrightarrow> iv_eq (uw_interval a) (uw_interval b) \<and> uw_reason a = uw_reason b"

lemma uwindow_eq_iff: "uwindow_eq a b \<longleftrightarrow> a = b"
  by (cases a, cases b) (simp add: uwindow_eq_def iv_eq_iff)

section \<open>Requests\<close>

datatype ReservationStrength =
    Hard
  | Soft
  | Opportunistic
  | BestEffort
  | Strength_Unknown
  | Strength_raw u8

datatype ActivationMode =
    ActivateNotBefore
  | ImmediateAfterCommit
  | FixedInterval
  | LatestStart
  | DurationAfterActivation
  | ExternalAuthority
  | ActivationMode_raw u8

datatype ExclusivityMode =
    Shared
  | Exclusive
  | Exclusivity_raw u8

datatype Elasticity =
    Elasticity_None
  | ShrinkOnly
  | GrowShrink
  | Elasticity_raw u8

datatype RenewalPermission =
    Renewal_None
  | RenewAllowed
  | Renewal_raw u8

datatype TransferPermission =
    Transfer_None
  | TransferAllowed
  | Transfer_raw u8

record CapabilityConstraint =
  cc_requiredCapabilityId :: u32
  cc_capacityRequiresCapability :: bool

record LocalityConstraint =
  lc_preferredPool :: ResourcePoolId
  lc_placement :: "PlacementIdTag StrongId"
  lc_preferredClass :: ResourceClass
  lc_localityWeight :: i32

record TopologyConstraint =
  tc_topologyDomain :: u8
  tc_requireLocalPlacement :: bool

record CompatibilityConstraint =
  kc_requireSameDriverGeneration :: bool

record ReservationRequest =
  req_requestId :: ReservationRequestId
  req_requestGeneration :: ReservationRequestGeneration
  req_class :: ResourceClass
  req_unit :: Unit
  req_quantity :: Quantity
  req_partialAllowed :: bool
  req_minAcceptable :: "Quantity option"
  req_window :: Interval
  req_activationMode :: ActivationMode
  req_durationAfterActivation :: "Duration option"
  req_strength :: ReservationStrength
  req_owner :: OwnerId
  req_ownerGeneration :: OwnerGeneration
  req_workload :: "WorkloadId option"
  req_workloadGeneration :: "WorkloadGeneration option"
  req_execution :: "ExecutionId option"
  req_executionGeneration :: "ExecutionGeneration option"
  req_capability :: CapabilityConstraint
  req_locality :: LocalityConstraint
  req_topology :: TopologyConstraint
  req_compatibility :: CompatibilityConstraint
  req_minResourceGeneration :: "ResourceGeneration option"
  req_policyGeneration :: PolicyGeneration
  req_priorityGeneration :: PriorityGeneration
  req_priorityClass :: i32
  req_preemptible :: bool
  req_exclusivity :: ExclusivityMode
  req_elasticity :: Elasticity
  req_renewal :: RenewalPermission
  req_transfer :: TransferPermission
  req_fragmentationTolerance :: i32
  req_allOrNothing :: bool
  req_poolConstraint :: ResourcePoolId
  req_group :: "ReservationGroupId option"
  req_targetResource :: "ResourceId option"
  req_provenance :: string

text \<open>The structure with every member at its default.\<close>

definition CapabilityConstraint_default :: CapabilityConstraint where
  "CapabilityConstraint_default =
     \<lparr>cc_requiredCapabilityId = 0, cc_capacityRequiresCapability = False\<rparr>"

definition LocalityConstraint_default :: LocalityConstraint where
  "LocalityConstraint_default =
     \<lparr>lc_preferredPool = StrongId 0, lc_placement = StrongId 0,
      lc_preferredClass = ResourceClass_Unknown, lc_localityWeight = 0\<rparr>"

definition TopologyConstraint_default :: TopologyConstraint where
  "TopologyConstraint_default = \<lparr>tc_topologyDomain = 0, tc_requireLocalPlacement = False\<rparr>"

definition CompatibilityConstraint_default :: CompatibilityConstraint where
  "CompatibilityConstraint_default = \<lparr>kc_requireSameDriverGeneration = False\<rparr>"

definition ReservationRequest_default :: ReservationRequest where
  "ReservationRequest_default =
     \<lparr>req_requestId = StrongId 0, req_requestGeneration = StrongGeneration 0,
      req_class = ResourceClass_Unknown, req_unit = Unit_Count,
      req_quantity = Quantity_zero Unit_Count, req_partialAllowed = False,
      req_minAcceptable = None, req_window = Interval_default,
      req_activationMode = ActivateNotBefore, req_durationAfterActivation = None,
      req_strength = Hard, req_owner = StrongId 0, req_ownerGeneration = StrongGeneration 0,
      req_workload = None, req_workloadGeneration = None,
      req_execution = None, req_executionGeneration = None,
      req_capability = CapabilityConstraint_default, req_locality = LocalityConstraint_default,
      req_topology = TopologyConstraint_default,
      req_compatibility = CompatibilityConstraint_default,
      req_minResourceGeneration = None, req_policyGeneration = StrongGeneration 0,
      req_priorityGeneration = StrongGeneration 0, req_priorityClass = 0,
      req_preemptible = False, req_exclusivity = Shared, req_elasticity = Elasticity_None,
      req_renewal = Renewal_None, req_transfer = Transfer_None, req_fragmentationTolerance = 0,
      req_allOrNothing = True, req_poolConstraint = StrongId 0, req_group = None,
      req_targetResource = None, req_provenance = []\<rparr>"

text \<open>
  The checks in the order of the code. The four tests under \<^verbatim>\<open>partialAllowed\<close> dereference the
  optional minimum only after the test that it is present.
\<close>

definition validate_request :: "ReservationRequest \<Rightarrow> ErrorCode option" where
  "validate_request r =
     (if \<not> id_valid (req_requestId r) then Some InvalidArgument
      else if \<not> gen_valid (req_requestGeneration r) then Some InvalidArgument
      else if req_class r = ResourceClass_Unknown then Some InvalidArgument
      else if req_unit r = Unit_None then Some InvalidQuantity
      else if q_value (req_quantity r) \<le> 0 then Some InvalidQuantity
      else if req_unit r \<noteq> unit_for (req_class r) then Some InvalidQuantity
      else if req_partialAllowed r \<and> req_minAcceptable r = None then Some InvalidQuantity
      else if req_partialAllowed r \<and> q_unit (the (req_minAcceptable r)) \<noteq> req_unit r
      then Some InvalidQuantity
      else if req_partialAllowed r \<and> q_value (the (req_minAcceptable r)) \<le> 0
      then Some InvalidQuantity
      else if req_partialAllowed r \<and> q_value (the (req_minAcceptable r)) > q_value (req_quantity r)
      then Some InvalidQuantity
      else if (case req_durationAfterActivation r of None \<Rightarrow> False | Some d \<Rightarrow> dur_isZero d)
      then Some InvalidInterval
      else if \<not> id_valid (req_owner r) then Some InvalidArgument
      else if \<not> gen_valid (req_ownerGeneration r) then Some InvalidArgument
      else if req_strength r = Strength_Unknown then Some InvalidArgument
      else if q_unit (req_quantity r) = Unit_Percent \<and>
              (q_value (req_quantity r) < 0 \<or> q_value (req_quantity r) > 100)
      then Some InvalidQuantity
      else None)"

section \<open>Holds\<close>

datatype HoldState =
    Hold_Acquired
  | Hold_Releasing
  | Hold_Released
  | Hold_Expired
  | Hold_Committed
  | HoldState_raw u8

record HoldSpec =
  hs_holdId :: ReservationHoldId
  hs_holdGeneration :: ReservationHoldGeneration
  hs_owner :: OwnerId
  hs_ownerGeneration :: OwnerGeneration
  hs_class :: ResourceClass
  hs_unit :: Unit
  hs_quantity :: Quantity
  hs_window :: Interval
  hs_policyGeneration :: PolicyGeneration
  hs_commitAuthority :: bool
  hs_provenance :: string

record Hold =
  hold_spec :: HoldSpec
  hold_state :: HoldState
  hold_resource :: ResourceId
  hold_applied :: bool
  hold_activationMode :: "ActivationMode option"
  hold_expiry :: Instant
  hold_persisted :: bool

section \<open>Reservations\<close>

record Reservation =
  rv_id :: ReservationId
  rv_generation :: ReservationGeneration
  rv_setId :: ReservationSetId
  rv_groupId :: ReservationGroupId
  rv_strength :: ReservationStrength
  rv_class :: ResourceClass
  rv_unit :: Unit
  rv_resource :: ResourceId
  rv_boundResourceGeneration :: "ResourceGeneration option"
  rv_quantity :: Quantity
  rv_activated :: Quantity
  rv_consumed :: Quantity
  rv_window :: Interval
  rv_activationMode :: ActivationMode
  rv_lifecycle :: Lifecycle
  rv_owner :: OwnerId
  rv_ownerGeneration :: OwnerGeneration
  rv_workload :: "WorkloadId option"
  rv_workloadGeneration :: "WorkloadGeneration option"
  rv_execution :: "ExecutionId option"
  rv_executionGeneration :: "ExecutionGeneration option"
  rv_capability :: CapabilityConstraint
  rv_locality :: LocalityConstraint
  rv_topology :: TopologyConstraint
  rv_compatibility :: CompatibilityConstraint
  rv_policyGeneration :: PolicyGeneration
  rv_priorityGeneration :: PriorityGeneration
  rv_priorityClass :: i32
  rv_preemptible :: bool
  rv_exclusivity :: ExclusivityMode
  rv_elasticity :: Elasticity
  rv_renewal :: RenewalPermission
  rv_transfer :: TransferPermission
  rv_fragmentationTolerance :: i32
  rv_allOrNothing :: bool
  rv_provenance :: string
  rv_activationGeneration :: "ActivationGeneration option"
  rv_consumptionGeneration :: "ConsumptionGeneration option"
  rv_releaseGeneration :: "ReleaseGeneration option"
  rv_transferGeneration :: "TransferGeneration option"
  rv_recoveryGeneration :: "RecoveryGeneration option"
  rv_contributes :: bool
  rv_persisted :: bool
  rv_activatedAt :: "Instant option"
  rv_releasedAt :: "Instant option"

text \<open>
  \<^verbatim>\<open>remaining_quantity\<close> is \<^verbatim>\<open>noexcept\<close>; its quantity is built without the throw of the
  constructor, since the difference is not negative and no reservation has the unit \<^verbatim>\<open>None\<close>.
\<close>

definition remaining_quantity :: "Reservation \<Rightarrow> Quantity" where
  "remaining_quantity r =
     (if q_value (rv_quantity r) \<ge> q_value (rv_consumed r)
      then Quantity (q_value (rv_quantity r) - q_value (rv_consumed r)) (rv_unit r)
      else Quantity_zero (rv_unit r))"

section \<open>Composite sets\<close>

datatype SetTransactionState =
    Tx_None
  | Tx_Validating
  | Tx_HoldsAcquired
  | Tx_Committing
  | Tx_Committed
  | Tx_RolledBack
  | Tx_Failed
  | Tx_Persisted
  | Tx_raw u8

record ReservationSet =
  set_id :: ReservationSetId
  set_generation :: ReservationSetGeneration
  set_groupId :: ReservationGroupId
  set_owner :: OwnerId
  set_ownerGeneration :: OwnerGeneration
  set_allOrNothing :: bool
  set_tx :: SetTransactionState
  set_committed :: bool
  set_rolledBack :: bool
  set_persisted :: bool
  set_members :: "ReservationId list"

section \<open>Feasibility reports\<close>

datatype Feasibility =
    Admissible
  | AdmissibleWithModification
  | PartiallyAdmissible
  | RejectCapacity
  | RejectConflict
  | RejectStaleResource
  | RejectStalePolicy
  | RejectTopology
  | RejectCapability
  | RejectLocality
  | RejectInvalidInterval
  | RejectInvalidQuantity
  | RejectDuplicate
  | RejectStaleAuthority
  | Feasibility_RevalidationRequired
  | Feasibility_Unknown
  | Feasibility_raw u8

record FeasibilityReport =
  fr_outcome :: Feasibility
  fr_class :: ResourceClass
  fr_unit :: Unit
  fr_requestedQuantity :: Quantity
  fr_admissibleQuantity :: Quantity
  fr_requestedInterval :: Interval
  fr_resource :: ResourceId
  fr_currentResourceGeneration :: ResourceGeneration
  fr_staleResourceGeneration :: ResourceGeneration
  fr_policyGeneration :: PolicyGeneration
  fr_stalePolicyGeneration :: PolicyGeneration
  fr_currentEpoch :: CoordinatorEpoch
  fr_staleEpoch :: CoordinatorEpoch
  fr_conflicting :: "ReservationId list"
  fr_bottleneck :: "ResourceId list"
  fr_availableAtBottleneck :: Quantity
  fr_conflictingInterval :: Interval
  fr_blockedBySoftOnly :: bool
  fr_overbookEligible :: bool
  fr_revalidationRequired :: bool
  fr_reasons :: "string list"

definition FeasibilityReport_default :: FeasibilityReport where
  "FeasibilityReport_default =
     \<lparr>fr_outcome = Feasibility_Unknown, fr_class = ResourceClass_Unknown, fr_unit = Unit_Count,
      fr_requestedQuantity = Quantity_zero Unit_Count,
      fr_admissibleQuantity = Quantity_zero Unit_Count, fr_requestedInterval = Interval_default,
      fr_resource = StrongId 0, fr_currentResourceGeneration = StrongGeneration 0,
      fr_staleResourceGeneration = StrongGeneration 0, fr_policyGeneration = StrongGeneration 0,
      fr_stalePolicyGeneration = StrongGeneration 0, fr_currentEpoch = StrongGeneration 0,
      fr_staleEpoch = StrongGeneration 0, fr_conflicting = [], fr_bottleneck = [],
      fr_availableAtBottleneck = Quantity_zero Unit_Count,
      fr_conflictingInterval = Interval_default, fr_blockedBySoftOnly = False,
      fr_overbookEligible = False, fr_revalidationRequired = False, fr_reasons = []\<rparr>"

definition report_admissible :: "FeasibilityReport \<Rightarrow> bool" where
  "report_admissible r \<longleftrightarrow>
     fr_outcome r = Admissible \<or> fr_outcome r = AdmissibleWithModification \<or>
     fr_outcome r = PartiallyAdmissible"

definition report_admitted :: FeasibilityReport where
  "report_admitted = FeasibilityReport_default\<lparr>fr_outcome := Admissible\<rparr>"

definition report_rejected :: "Feasibility \<Rightarrow> string \<Rightarrow> FeasibilityReport" where
  "report_rejected f reason =
     FeasibilityReport_default
       \<lparr>fr_outcome := f, fr_reasons := (if reason \<noteq> [] then [reason] else [])\<rparr>"

section \<open>Publications, evidence and results\<close>

record ResourcePublication =
  pub_worker :: WorkerId
  pub_workerBoot :: WorkerBootId
  pub_id :: ResourceId
  pub_generation :: ResourceGeneration
  pub_class :: ResourceClass
  pub_unit :: Unit
  pub_totalCapacity :: Quantity
  pub_pool :: ResourcePoolId
  pub_poolGeneration :: ResourcePoolGeneration
  pub_capabilities :: CapabilityGeneration
  pub_topology :: TopologyGeneration
  pub_contract :: ResourceContractId
  pub_contractGeneration :: ResourceContractGeneration
  pub_availableFrom :: Instant
  pub_lifetime :: Duration
  pub_unavailable :: "UnavailableWindow list"
  pub_overbookRatio :: Ratio
  pub_overbookableClasses :: "ResourceClass list"

datatype ResourceRegisterResult =
    Accepted
  | AcceptedReplaced
  | RejectedStale
  | RejectedInvalid
  | RejectedDuplicate

record ActivationEvidence =
  ae_worker :: WorkerId
  ae_workerBoot :: WorkerBootId
  ae_activationGeneration :: ActivationGeneration
  ae_at :: Instant
  ae_token :: u64

record ConsumeEvidence =
  ce_worker :: WorkerId
  ce_workerBoot :: WorkerBootId
  ce_consumptionGeneration :: ConsumptionGeneration
  ce_at :: Instant

record ReleaseEvidence =
  le_worker :: WorkerId
  le_workerBoot :: WorkerBootId
  le_releaseGeneration :: ReleaseGeneration
  le_at :: Instant

record ReservationResult =
  rr_errorMessage :: string
  rr_committed :: bool
  rr_idempotent :: bool
  rr_id :: ReservationId
  rr_generation :: ReservationGeneration
  rr_feasibility :: FeasibilityReport

record CompositeResult =
  cr_errorMessage :: string
  cr_committed :: bool
  cr_rolledBack :: bool
  cr_setId :: ReservationSetId
  cr_setGeneration :: ReservationSetGeneration
  cr_memberIds :: "ReservationId list"
  cr_assessments :: "FeasibilityReport list"

record HoldResult =
  hr_errorMessage :: string
  hr_created :: bool
  hr_holdId :: ReservationHoldId
  hr_holdGeneration :: ReservationHoldGeneration
  hr_feasibility :: FeasibilityReport

record ActivationResult =
  ar_errorMessage :: string
  ar_activated :: bool
  ar_revalidationRequired :: bool
  ar_id :: ReservationId
  ar_generation :: ReservationGeneration

record ConsumeResult =
  cs_errorMessage :: string
  cs_consumed :: bool
  cs_idempotent :: bool
  cs_id :: ReservationId
  cs_generation :: ReservationGeneration
  cs_consumedQuantity :: Quantity
  cs_remaining :: Quantity

record ReleaseResult =
  rl_errorMessage :: string
  rl_released :: bool
  rl_idempotent :: bool
  rl_id :: ReservationId
  rl_generation :: ReservationGeneration

record ModifyResult =
  mr_errorMessage :: string
  mr_applied :: bool
  mr_id :: ReservationId
  mr_oldGeneration :: ReservationGeneration
  mr_newGeneration :: ReservationGeneration
  mr_releasedDelta :: int
  mr_acquiredDelta :: int

definition ReservationResult_default :: ReservationResult where
  "ReservationResult_default =
     \<lparr>rr_errorMessage = [], rr_committed = False, rr_idempotent = False, rr_id = StrongId 0,
      rr_generation = StrongGeneration 0, rr_feasibility = FeasibilityReport_default\<rparr>"

definition CompositeResult_default :: CompositeResult where
  "CompositeResult_default =
     \<lparr>cr_errorMessage = [], cr_committed = False, cr_rolledBack = False, cr_setId = StrongId 0,
      cr_setGeneration = StrongGeneration 0, cr_memberIds = [], cr_assessments = []\<rparr>"

definition HoldResult_default :: HoldResult where
  "HoldResult_default =
     \<lparr>hr_errorMessage = [], hr_created = False, hr_holdId = StrongId 0,
      hr_holdGeneration = StrongGeneration 0, hr_feasibility = FeasibilityReport_default\<rparr>"

definition mk_ActivationResult :: "ReservationId \<Rightarrow> ReservationGeneration \<Rightarrow> ActivationResult" where
  "mk_ActivationResult i g =
     \<lparr>ar_errorMessage = [], ar_activated = False, ar_revalidationRequired = False,
      ar_id = i, ar_generation = g\<rparr>"

definition mk_ConsumeResult :: "ReservationId \<Rightarrow> ReservationGeneration \<Rightarrow> ConsumeResult" where
  "mk_ConsumeResult i g =
     \<lparr>cs_errorMessage = [], cs_consumed = False, cs_idempotent = False, cs_id = i,
      cs_generation = g, cs_consumedQuantity = Quantity_zero Unit_Count,
      cs_remaining = Quantity_zero Unit_Count\<rparr>"

definition mk_ReleaseResult :: "ReservationId \<Rightarrow> ReservationGeneration \<Rightarrow> ReleaseResult" where
  "mk_ReleaseResult i g =
     \<lparr>rl_errorMessage = [], rl_released = False, rl_idempotent = False, rl_id = i,
      rl_generation = g\<rparr>"

definition mk_ModifyResult :: "ReservationId \<Rightarrow> ReservationGeneration \<Rightarrow> ModifyResult" where
  "mk_ModifyResult i g =
     \<lparr>mr_errorMessage = [], mr_applied = False, mr_id = i, mr_oldGeneration = g,
      mr_newGeneration = StrongGeneration 0, mr_releasedDelta = 0, mr_acquiredDelta = 0\<rparr>"

datatype ResourceCondition =
    Cond_Available
  | Cond_Unavailable
  | Cond_Invalidated
  | Cond_Drained
  | Cond_Degraded
  | Cond_Unknown

record InvalidationNotice =
  in_resource :: ResourceId
  in_obsoleteAtGeneration :: ResourceGeneration
  in_condition :: ResourceCondition
  in_reason :: string

record RuntimeConfig =
  cfg_maxHistoryPerReservation :: nat
  cfg_maxHolds :: nat
  cfg_maxResources :: nat
  cfg_maxReservations :: nat
  cfg_maxReservationSetMembers :: nat
  cfg_capacityHorizon :: Duration

definition RuntimeConfig_default :: RuntimeConfig where
  "RuntimeConfig_default =
     \<lparr>cfg_maxHistoryPerReservation = 64, cfg_maxHolds = 256, cfg_maxResources = 1024,
      cfg_maxReservations = 1000000, cfg_maxReservationSetMembers = 32,
      cfg_capacityHorizon = Duration 0\<rparr>"

end
