(* ===== verification/RF_Interval.thy ===== *)
theory RF_Interval
  imports RF_Time "HOL-Library.Tree"
begin

text \<open>
  \<^verbatim>\<open>include/reservation_fabric/detail/interval.hpp\<close>: the keyed lazy treap that indexes a
  capacity line. The C++ nodes live in a vector and point to each other by index; no node has two
  parents, so the structure below an index is a binary tree, here the \<^verbatim>\<open>tree\<close> of the library
  with a cell record in every node. The vector only grows: its size is kept, its dead slots are not.
  The line arithmetic on cells is mathematical: it agrees with the code as long as no value leaves
  the 64-bit range.
\<close>

section \<open>Priorities and overflow-checked products\<close>

definition det_prio :: "u64 \<Rightarrow> u32" where
  "det_prio x0 =
     (let x1 = x0 + 0x9e3779b97f4a7c15;
          x2 = (x1 XOR drop_bit 30 x1) * 0xbf58476d1ce4e5b9;
          x3 = (x2 XOR drop_bit 27 x2) * 0x94d049bb133111eb;
          x4 = x3 XOR drop_bit 31 x3
      in (ucast x4 :: u32) OR 1)"

definition mul_overflow :: "int \<Rightarrow> int \<Rightarrow> int option" where
  "mul_overflow a b =
     (if a = 0 \<or> b = 0 then Some 0
      else if a > 0 \<and> b > 0 \<and> a > INT64_MAX sdiv b then None
      else if a < 0 \<and> b < 0 \<and> a < INT64_MAX sdiv b then None
      else if a < 0 \<and> b > 0 \<and> a < INT64_MIN sdiv b then None
      else if a > 0 \<and> b < 0 \<and> b < INT64_MIN sdiv a then None
      else Some (a * b))"

section \<open>Cells\<close>

record cell =
  cl_start :: int
  cl_end :: int
  committedHard :: int
  committedSoft :: int
  held :: int
  capacity :: int
  minHard :: int
  minSoft :: int
  maxCbH :: int
  maxCbS :: int
  addH :: int
  addS :: int
  addHeld :: int
  hasSet :: bool
  setCap :: int
  prio :: u32

type_synonym treap = "cell tree"

definition effCapacity :: "int \<Rightarrow> int \<Rightarrow> int" where
  "effCapacity ratioBp cap =
     (if ratioBp = 10000 then cap
      else case mul_overflow cap ratioBp of
        None \<Rightarrow> INT64_MAX
      | Some product \<Rightarrow> product sdiv 10000)"

definition selfMinHard :: "cell \<Rightarrow> int" where
  "selfMinHard n = capacity n - committedHard n - held n"

definition selfMinSoft :: "int \<Rightarrow> cell \<Rightarrow> int" where
  "selfMinSoft ratioBp n =
     effCapacity ratioBp (capacity n) - committedHard n - committedSoft n - held n"

section \<open>Lazy updates\<close>

fun applyAddH :: "int \<Rightarrow> treap \<Rightarrow> treap" where
  "applyAddH d Leaf = Leaf"
| "applyAddH d (Node l x r) =
     (if d = 0 then Node l x r
      else Node l (x\<lparr>committedHard := committedHard x + d, minHard := minHard x - d,
                     minSoft := minSoft x - d, maxCbH := maxCbH x + d, maxCbS := maxCbS x + d,
                     addH := addH x + d\<rparr>) r)"

fun applyAddS :: "int \<Rightarrow> treap \<Rightarrow> treap" where
  "applyAddS d Leaf = Leaf"
| "applyAddS d (Node l x r) =
     (if d = 0 then Node l x r
      else Node l (x\<lparr>committedSoft := committedSoft x + d, minSoft := minSoft x - d,
                     maxCbS := maxCbS x + d, addS := addS x + d\<rparr>) r)"

fun applyAddHeld :: "int \<Rightarrow> treap \<Rightarrow> treap" where
  "applyAddHeld d Leaf = Leaf"
| "applyAddHeld d (Node l x r) =
     (if d = 0 then Node l x r
      else Node l (x\<lparr>held := held x + d, minHard := minHard x - d,
                     minSoft := minSoft x - d, maxCbH := maxCbH x + d, maxCbS := maxCbS x + d,
                     addHeld := addHeld x + d\<rparr>) r)"

fun applySetCap :: "int \<Rightarrow> int \<Rightarrow> treap \<Rightarrow> treap" where
  "applySetCap ratioBp v Leaf = Leaf"
| "applySetCap ratioBp v (Node l x r) =
     Node l (x\<lparr>capacity := v, minHard := v - maxCbH x,
               minSoft := effCapacity ratioBp v - maxCbS x, hasSet := True, setCap := v\<rparr>) r"

text \<open>
  \<^verbatim>\<open>push(n)\<close> hands the pending updates of a node to both children and clears them:
  \<open>pushed\<close> is what it does to one child, \<open>cleared\<close> what it leaves in the node.
\<close>

definition pushed :: "int \<Rightarrow> cell \<Rightarrow> treap \<Rightarrow> treap" where
  "pushed ratioBp x t =
     (let t1 = (if hasSet x then applySetCap ratioBp (setCap x) t else t);
          t2 = (if addH x \<noteq> 0 then applyAddH (addH x) t1 else t1);
          t3 = (if addS x \<noteq> 0 then applyAddS (addS x) t2 else t2)
      in (if addHeld x \<noteq> 0 then applyAddHeld (addHeld x) t3 else t3))"

definition cleared :: "cell \<Rightarrow> cell" where
  "cleared x = x\<lparr>hasSet := False, addH := 0, addS := 0, addHeld := 0\<rparr>"

fun push :: "int \<Rightarrow> treap \<Rightarrow> treap" where
  "push ratioBp Leaf = Leaf"
| "push ratioBp (Node l x r) = Node (pushed ratioBp x l) (cleared x) (pushed ratioBp x r)"

fun pull :: "int \<Rightarrow> treap \<Rightarrow> treap" where
  "pull ratioBp Leaf = Leaf"
| "pull ratioBp (Node l x r) =
     (let mh0 = selfMinHard x; ms0 = selfMinSoft ratioBp x;
          mxh0 = committedHard x + held x;
          mxs0 = committedHard x + committedSoft x + held x;
          (mh1, ms1, mxh1, mxs1) =
            (case l of Leaf \<Rightarrow> (mh0, ms0, mxh0, mxs0)
             | Node _ y _ \<Rightarrow> (min mh0 (minHard y), min ms0 (minSoft y),
                               max mxh0 (maxCbH y), max mxs0 (maxCbS y)));
          (mh2, ms2, mxh2, mxs2) =
            (case r of Leaf \<Rightarrow> (mh1, ms1, mxh1, mxs1)
             | Node _ y _ \<Rightarrow> (min mh1 (minHard y), min ms1 (minSoft y),
                               max mxh1 (maxCbH y), max mxs1 (maxCbS y)))
      in Node l (x\<lparr>minHard := mh2, minSoft := ms2, maxCbH := mxh2, maxCbS := mxs2\<rparr>) r)"

text \<open>A fresh cell carries default aggregates (zero): \<^verbatim>\<open>createCell\<close> does not pull.\<close>

definition createCell :: "int \<Rightarrow> int \<Rightarrow> int \<Rightarrow> int \<Rightarrow> int \<Rightarrow> int \<Rightarrow> treap" where
  "createCell s e cH cS hld cap =
     Node Leaf
       \<lparr>cl_start = s, cl_end = e, committedHard = cH, committedSoft = cS, held = hld,
        capacity = cap, minHard = 0, minSoft = 0, maxCbH = 0, maxCbS = 0,
        addH = 0, addS = 0, addHeld = 0, hasSet = False, setCap = 0,
        prio = det_prio (word_of_int s)\<rparr>
       Leaf"

section \<open>Merge, split and detach\<close>

lemma size_applyAddH [simp]: "size (applyAddH d t) = size t"
  by (cases t) auto

lemma size_applyAddS [simp]: "size (applyAddS d t) = size t"
  by (cases t) auto

lemma size_applyAddHeld [simp]: "size (applyAddHeld d t) = size t"
  by (cases t) auto

lemma size_applySetCap [simp]: "size (applySetCap ratioBp v t) = size t"
  by (cases t) auto

lemma size_pushed [simp]: "size (pushed ratioBp x t) = size t"
  by (simp add: pushed_def Let_def)

function mergeRec :: "int \<Rightarrow> treap \<Rightarrow> treap \<Rightarrow> treap" where
  "mergeRec ratioBp Leaf b = b"
| "mergeRec ratioBp (Node la xa ra) Leaf = Node la xa ra"
| "mergeRec ratioBp (Node la xa ra) (Node lb xb rb) =
     (if prio xa > prio xb
      then pull ratioBp
             (Node (pushed ratioBp xa la) (cleared xa)
                (mergeRec ratioBp (pushed ratioBp xa ra) (Node lb xb rb)))
      else pull ratioBp
             (Node (mergeRec ratioBp (Node la xa ra) (pushed ratioBp xb lb)) (cleared xb)
                (pushed ratioBp xb rb)))"
  by pat_completeness auto
termination
  by (relation "measure (\<lambda>(_, a, b). size a + size b)") auto

function split :: "int \<Rightarrow> treap \<Rightarrow> int \<Rightarrow> treap \<times> treap" where
  "split ratioBp Leaf key = (Leaf, Leaf)"
| "split ratioBp (Node l x r) key =
     (if cl_start x < key
      then (let (nr, b) = split ratioBp (pushed ratioBp x r) key
            in (pull ratioBp (Node (pushed ratioBp x l) (cleared x) nr), b))
      else (let (a, nl) = split ratioBp (pushed ratioBp x l) key
            in (a, pull ratioBp (Node nl (cleared x) (pushed ratioBp x r)))))"
  by pat_completeness auto
termination
  by (relation "measure (\<lambda>(_, t, _). size t)") auto

function detachMax :: "int \<Rightarrow> treap \<Rightarrow> treap \<times> cell option" where
  "detachMax ratioBp Leaf = (Leaf, None)"
| "detachMax ratioBp (Node l x r) =
     (if pushed ratioBp x r = Leaf then (pushed ratioBp x l, Some (cleared x))
      else (let (nr, m) = detachMax ratioBp (pushed ratioBp x r)
            in (pull ratioBp (Node (pushed ratioBp x l) (cleared x) nr), m)))"
  by pat_completeness auto
termination
  by (relation "measure (\<lambda>(_, t). size t)") auto

fun rightmostNode :: "treap \<Rightarrow> cell option" where
  "rightmostNode Leaf = None"
| "rightmostNode (Node l x Leaf) = Some x"
| "rightmostNode (Node l x r) = rightmostNode r"

section \<open>The aggregator\<close>

record IntervalAggregator =
  agg_pool :: nat
  agg_root :: treap
  agg_ratio :: int

definition mk_IntervalAggregator :: "int \<Rightarrow> IntervalAggregator" where
  "mk_IntervalAggregator ratioBasisPoints =
     \<lparr>agg_pool = 0, agg_root = Leaf, agg_ratio = ratioBasisPoints\<rparr>"

definition agg_initialize ::
    "Instant \<Rightarrow> Duration \<Rightarrow> int \<Rightarrow> IntervalAggregator \<Rightarrow>
     (bool \<times> IntervalAggregator) outcome" where
  "agg_initialize origin horizon cap a =
     (let a0 = a\<lparr>agg_pool := 0, agg_root := Leaf\<rparr>
      in if dur_isZero horizon then Inr (False, a0)
         else bind_outcome (ub_i64 (inst_ns origin + dur_ns horizon)) (\<lambda>e.
           Inr (True, a0\<lparr>agg_pool := 1,
                         agg_root := pull (agg_ratio a)
                           (createCell (inst_ns origin) e 0 0 0 cap)\<rparr>)))"

definition agg_empty :: "IntervalAggregator \<Rightarrow> bool" where
  "agg_empty a \<longleftrightarrow> agg_root a = Leaf"

definition agg_clear :: "IntervalAggregator \<Rightarrow> IntervalAggregator" where
  "agg_clear a = a\<lparr>agg_pool := 0, agg_root := Leaf\<rparr>"

definition cellCount :: "IntervalAggregator \<Rightarrow> nat" where
  "cellCount a = agg_pool a"

definition ensureBoundary :: "int \<Rightarrow> IntervalAggregator \<Rightarrow> IntervalAggregator" where
  "ensureBoundary t g =
     (if agg_root g = Leaf then g
      else
        let rb = agg_ratio g; (a, b) = split rb (agg_root g) t
        in case rightmostNode a of
             None \<Rightarrow> g\<lparr>agg_root := mergeRec rb a b\<rparr>
           | Some c \<Rightarrow>
               if cl_end c = t \<or> cl_end c < t then g\<lparr>agg_root := mergeRec rb a b\<rparr>
               else
                 let (a', keep) = detachMax rb a;
                     c1 = createCell (cl_start c) t (committedHard c) (committedSoft c)
                            (held c) (capacity c);
                     c2 = createCell t (cl_end c) (committedHard c) (committedSoft c)
                            (held c) (capacity c)
                 in g\<lparr>agg_pool := agg_pool g + 2,
                      agg_root := mergeRec rb (mergeRec rb (mergeRec rb a' c1) c2) b\<rparr>)"

definition rangeAdd ::
    "int \<Rightarrow> int \<Rightarrow> int \<Rightarrow> int \<Rightarrow> int \<Rightarrow> IntervalAggregator \<Rightarrow> IntervalAggregator" where
  "rangeAdd l r dH dS dHeld g =
     (if agg_root g = Leaf \<or> r \<le> l then g
      else
        let rb = agg_ratio g; g' = ensureBoundary r (ensureBoundary l g);
            (a, b) = split rb (agg_root g') r;
            (c, mid) = split rb a l;
            mid' = (if mid \<noteq> Leaf then applyAddHeld dHeld (applyAddS dS (applyAddH dH mid))
                    else mid)
        in g'\<lparr>agg_root := mergeRec rb (mergeRec rb c mid') b\<rparr>)"

definition rangeSet :: "int \<Rightarrow> int \<Rightarrow> int \<Rightarrow> IntervalAggregator \<Rightarrow> IntervalAggregator" where
  "rangeSet l r v g =
     (if agg_root g = Leaf \<or> r \<le> l then g
      else
        let rb = agg_ratio g; g' = ensureBoundary r (ensureBoundary l g);
            (a, b) = split rb (agg_root g') r;
            (c, mid) = split rb a l;
            mid' = (if mid \<noteq> Leaf then applySetCap rb v mid else mid)
        in g'\<lparr>agg_root := mergeRec rb (mergeRec rb c mid') b\<rparr>)"

text \<open>Queries cut the line at the ends of the range too, so they return the changed index.\<close>

definition minSlack ::
    "int \<Rightarrow> int \<Rightarrow> bool \<Rightarrow> IntervalAggregator \<Rightarrow> int \<times> IntervalAggregator" where
  "minSlack l r hard g =
     (if agg_root g = Leaf \<or> r \<le> l then (INT64_MAX, g)
      else
        let rb = agg_ratio g; g' = ensureBoundary r (ensureBoundary l g);
            (a, b) = split rb (agg_root g') r;
            (c, mid) = split rb a l;
            res = (case mid of Leaf \<Rightarrow> INT64_MAX
                   | Node _ x _ \<Rightarrow> if hard then minHard x else minSoft x)
        in (res, g'\<lparr>agg_root := mergeRec rb (mergeRec rb c mid) b\<rparr>))"

definition maxContrib ::
    "int \<Rightarrow> int \<Rightarrow> bool \<Rightarrow> IntervalAggregator \<Rightarrow> int \<times> IntervalAggregator" where
  "maxContrib l r hard g =
     (if agg_root g = Leaf \<or> r \<le> l then (0, g)
      else
        let rb = agg_ratio g; g' = ensureBoundary r (ensureBoundary l g);
            (a, b) = split rb (agg_root g') r;
            (c, mid) = split rb a l;
            res = (case mid of Leaf \<Rightarrow> 0
                   | Node _ x _ \<Rightarrow> if hard then maxCbH x else maxCbS x)
        in (res, g'\<lparr>agg_root := mergeRec rb (mergeRec rb c mid) b\<rparr>))"

definition agg_addCommittedHard ::
    "Instant \<Rightarrow> Instant \<Rightarrow> int \<Rightarrow> IntervalAggregator \<Rightarrow> IntervalAggregator" where
  "agg_addCommittedHard l r delta g =
     (if delta \<noteq> 0 then rangeAdd (inst_ns l) (inst_ns r) delta 0 0 g else g)"

definition agg_addCommittedSoft ::
    "Instant \<Rightarrow> Instant \<Rightarrow> int \<Rightarrow> IntervalAggregator \<Rightarrow> IntervalAggregator" where
  "agg_addCommittedSoft l r delta g =
     (if delta \<noteq> 0 then rangeAdd (inst_ns l) (inst_ns r) 0 delta 0 g else g)"

definition agg_addHeld ::
    "Instant \<Rightarrow> Instant \<Rightarrow> int \<Rightarrow> IntervalAggregator \<Rightarrow> IntervalAggregator" where
  "agg_addHeld l r delta g =
     (if delta \<noteq> 0 then rangeAdd (inst_ns l) (inst_ns r) 0 0 delta g else g)"

definition agg_setCapacity ::
    "Instant \<Rightarrow> Instant \<Rightarrow> int \<Rightarrow> IntervalAggregator \<Rightarrow> IntervalAggregator" where
  "agg_setCapacity l r v g = rangeSet (inst_ns l) (inst_ns r) v g"

definition agg_minHard ::
    "Instant \<Rightarrow> Instant \<Rightarrow> IntervalAggregator \<Rightarrow> int \<times> IntervalAggregator" where
  "agg_minHard l r g = minSlack (inst_ns l) (inst_ns r) True g"

definition agg_minSoft ::
    "Instant \<Rightarrow> Instant \<Rightarrow> IntervalAggregator \<Rightarrow> int \<times> IntervalAggregator" where
  "agg_minSoft l r g = minSlack (inst_ns l) (inst_ns r) False g"

definition agg_maxCombinedHard ::
    "Instant \<Rightarrow> Instant \<Rightarrow> IntervalAggregator \<Rightarrow> int \<times> IntervalAggregator" where
  "agg_maxCombinedHard l r g = maxContrib (inst_ns l) (inst_ns r) True g"

definition agg_maxCombinedSoft ::
    "Instant \<Rightarrow> Instant \<Rightarrow> IntervalAggregator \<Rightarrow> int \<times> IntervalAggregator" where
  "agg_maxCombinedSoft l r g = maxContrib (inst_ns l) (inst_ns r) False g"

end
