(* ===== verification/RF_Interval_Content.thy ===== *)
theory RF_Interval_Content
  imports RF_Interval
begin

text \<open>
  What the lazy treap of \<^verbatim>\<open>interval.hpp\<close> contains: \<open>flat\<close> reads it in order with every
  pending update applied, as a list of segments of the time line. Each tree operation is shown to be
  an operation on that list.
\<close>

section \<open>Points and segments\<close>

record point =
  pt_hard :: int
  pt_soft :: int
  pt_held :: int
  pt_cap :: int

record segment =
  sg_start :: int
  sg_end :: int
  sg_point :: point

definition on_point :: "(point \<Rightarrow> point) \<Rightarrow> segment \<Rightarrow> segment" where
  "on_point f s = s\<lparr>sg_point := f (sg_point s)\<rparr>"

lemma on_point_simps [simp]:
  "sg_start (on_point f s) = sg_start s"
  "sg_end (on_point f s) = sg_end s"
  "sg_point (on_point f s) = f (sg_point s)"
  by (simp_all add: on_point_def)

lemma on_point_comp [simp]: "on_point f (on_point g s) = on_point (f \<circ> g) s"
  by (simp add: on_point_def)

lemma on_point_comp' [simp]: "on_point f \<circ> on_point g = on_point (f \<circ> g)"
  by (rule ext) simp

lemma on_point_id [simp]: "on_point id = id" "on_point (\<lambda>p. p) = id"
  by (rule ext, simp add: on_point_def)+

definition add_hard :: "int \<Rightarrow> point \<Rightarrow> point" where
  "add_hard d p = p\<lparr>pt_hard := pt_hard p + d\<rparr>"
definition add_soft :: "int \<Rightarrow> point \<Rightarrow> point" where
  "add_soft d p = p\<lparr>pt_soft := pt_soft p + d\<rparr>"
definition add_held :: "int \<Rightarrow> point \<Rightarrow> point" where
  "add_held d p = p\<lparr>pt_held := pt_held p + d\<rparr>"
definition set_cap :: "int \<Rightarrow> point \<Rightarrow> point" where
  "set_cap v p = p\<lparr>pt_cap := v\<rparr>"

lemmas point_update_defs = add_hard_def add_soft_def add_held_def set_cap_def

lemma point_update_zero [simp]:
  "add_hard 0 p = p" "add_soft 0 p = p" "add_held 0 p = p"
  by (simp_all add: point_update_defs)

definition slackH :: "point \<Rightarrow> int" where
  "slackH p = pt_cap p - pt_hard p - pt_held p"
definition slackS :: "int \<Rightarrow> point \<Rightarrow> int" where
  "slackS bp p = effCapacity bp (pt_cap p) - pt_hard p - pt_soft p - pt_held p"
definition combH :: "point \<Rightarrow> int" where
  "combH p = pt_hard p + pt_held p"
definition combS :: "point \<Rightarrow> int" where
  "combS p = pt_hard p + pt_soft p + pt_held p"

lemmas point_measure_defs = slackH_def slackS_def combH_def combS_def

section \<open>The content of a treap\<close>

definition pend :: "cell \<Rightarrow> point \<Rightarrow> point" where
  "pend x p =
     add_held (addHeld x) (add_soft (addS x) (add_hard (addH x)
       (if hasSet x then set_cap (setCap x) p else p)))"

definition cell_point :: "cell \<Rightarrow> point" where
  "cell_point x = \<lparr>pt_hard = committedHard x, pt_soft = committedSoft x,
                   pt_held = held x, pt_cap = capacity x\<rparr>"

definition cell_segment :: "cell \<Rightarrow> segment" where
  "cell_segment x = \<lparr>sg_start = cl_start x, sg_end = cl_end x, sg_point = cell_point x\<rparr>"

lemma cell_segment_simps [simp]:
  "sg_start (cell_segment x) = cl_start x"
  "sg_end (cell_segment x) = cl_end x"
  "sg_point (cell_segment x) = cell_point x"
  by (simp_all add: cell_segment_def)

fun flat :: "treap \<Rightarrow> segment list" where
  "flat Leaf = []"
| "flat (Node l x r) =
     map (on_point (pend x)) (flat l) @ cell_segment x # map (on_point (pend x)) (flat r)"

definition no_pend :: "cell \<Rightarrow> bool" where
  "no_pend x \<longleftrightarrow> addH x = 0 \<and> addS x = 0 \<and> addHeld x = 0 \<and> \<not> hasSet x"

lemma no_pend_cleared [simp]: "no_pend (cleared x)"
  by (simp add: no_pend_def cleared_def)

lemma pend_no_pend [simp]: "no_pend x \<Longrightarrow> pend x = id"
  by (rule ext) (simp add: no_pend_def pend_def)

lemma cell_segment_cleared [simp]: "cell_segment (cleared x) = cell_segment x"
  by (simp add: cell_segment_def cell_point_def cleared_def)

lemma cl_start_cleared [simp]: "cl_start (cleared x) = cl_start x"
  by (simp add: cleared_def)

lemma flat_eq_Nil [simp]: "flat t = [] \<longleftrightarrow> t = Leaf"
  by (cases t) auto

lemma flat_applyAddH [simp, flat_simps]:
  "flat (applyAddH d t) = map (on_point (add_hard d)) (flat t)"
proof (cases t)
  case (Node l x r)
  have "pend (x\<lparr>committedHard := c, minHard := a, minSoft := b, maxCbH := e, maxCbS := f,
        addH := addH x + d\<rparr>) = add_hard d \<circ> pend x" for a b c e f
    by (rule ext) (simp add: pend_def point_update_defs)
  with Node show ?thesis
    by (simp add: cell_segment_def cell_point_def on_point_def add_hard_def)
qed simp

lemma flat_applyAddS [simp, flat_simps]:
  "flat (applyAddS d t) = map (on_point (add_soft d)) (flat t)"
proof (cases t)
  case (Node l x r)
  have "pend (x\<lparr>committedSoft := c, minSoft := b, maxCbS := f, addS := addS x + d\<rparr>)
        = add_soft d \<circ> pend x" for b c f
    by (rule ext) (simp add: pend_def point_update_defs)
  with Node show ?thesis
    by (simp add: cell_segment_def cell_point_def on_point_def add_soft_def)
qed simp

lemma flat_applyAddHeld [simp, flat_simps]:
  "flat (applyAddHeld d t) = map (on_point (add_held d)) (flat t)"
proof (cases t)
  case (Node l x r)
  have "pend (x\<lparr>held := c, minHard := a, minSoft := b, maxCbH := e, maxCbS := f,
        addHeld := addHeld x + d\<rparr>) = add_held d \<circ> pend x" for a b c e f
    by (rule ext) (simp add: pend_def point_update_defs)
  with Node show ?thesis
    by (simp add: cell_segment_def cell_point_def on_point_def add_held_def)
qed simp

lemma flat_applySetCap [simp, flat_simps]:
  "flat (applySetCap bp v t) = map (on_point (set_cap v)) (flat t)"
proof (cases t)
  case (Node l x r)
  have "pend (x\<lparr>capacity := c, minHard := a, minSoft := b, hasSet := True, setCap := v\<rparr>)
        = set_cap v \<circ> pend x" for a b c
    by (rule ext) (simp add: pend_def point_update_defs)
  with Node show ?thesis
    by (simp add: cell_segment_def cell_point_def on_point_def set_cap_def)
qed simp

lemma pend_eq:
  "pend x = add_held (addHeld x) \<circ> (add_soft (addS x) \<circ> (add_hard (addH x) \<circ>
     (if hasSet x then set_cap (setCap x) else id)))"
  by (rule ext) (simp add: pend_def)

lemma flat_pushed [simp, flat_simps]:
  "flat (pushed bp x t) = map (on_point (pend x)) (flat t)"
proof -
  have id: "add_held 0 = id" "add_soft 0 = id" "add_hard 0 = id"
    by (rule ext, simp)+
  show ?thesis
    by (simp add: pushed_def Let_def pend_eq id comp_assoc)
qed

lemma flat_push [simp, flat_simps]: "flat (push bp t) = flat t"
  by (cases t) simp_all

lemma flat_pull [simp, flat_simps]: "flat (pull bp t) = flat t"
proof (cases t)
  case (Node l x r)
  have "cell_segment (x\<lparr>minHard := a, minSoft := b, maxCbH := c, maxCbS := d\<rparr>) = cell_segment x"
    "pend (x\<lparr>minHard := a, minSoft := b, maxCbH := c, maxCbS := d\<rparr>) = pend x" for a b c d
    by (simp_all add: cell_segment_def cell_point_def pend_def fun_eq_iff)
  with Node show ?thesis
    by (simp add: Let_def split: prod.splits)
qed simp

declare pull.simps(2) [simp del]

lemma flat_createCell [simp, flat_simps]:
  "flat (createCell s e cH cS h cap) =
     [\<lparr>sg_start = s, sg_end = e,
       sg_point = \<lparr>pt_hard = cH, pt_soft = cS, pt_held = h, pt_cap = cap\<rparr>\<rparr>]"
  by (simp add: createCell_def cell_segment_def cell_point_def)

lemma flat_mergeRec [simp, flat_simps]: "flat (mergeRec bp a b) = flat a @ flat b"
  by (induction bp a b rule: mergeRec.induct) simp_all

section \<open>Splitting\<close>

definition starts :: "segment list \<Rightarrow> int set" where
  "starts xs = sg_start ` set xs"

lemma starts_simps [simp]:
  "starts [] = {}"
  "starts (s # xs) = insert (sg_start s) (starts xs)"
  "starts (xs @ ys) = starts xs \<union> starts ys"
  "starts (map (on_point f) xs) = starts xs"
  by (auto simp: starts_def image_image)

definition sorted_segments :: "segment list \<Rightarrow> bool" where
  "sorted_segments xs \<longleftrightarrow> sorted_wrt (<) (map sg_start xs)"

lemma sorted_segments_simps [simp]:
  "sorted_segments []"
  "sorted_segments (s # xs) \<longleftrightarrow> (\<forall>u\<in>starts xs. sg_start s < u) \<and> sorted_segments xs"
  "sorted_segments (xs @ ys) \<longleftrightarrow>
     sorted_segments xs \<and> sorted_segments ys \<and> (\<forall>u\<in>starts xs. \<forall>v\<in>starts ys. u < v)"
  "sorted_segments (map (on_point f) xs) \<longleftrightarrow> sorted_segments xs"
  by (auto simp: sorted_segments_def starts_def sorted_wrt_append comp_def)

lemma split_content:
  "split bp t key = (a, b) \<Longrightarrow> sorted_segments (flat t) \<Longrightarrow>
   flat t = flat a @ flat b \<and> (\<forall>u\<in>starts (flat a). u < key) \<and> (\<forall>u\<in>starts (flat b). key \<le> u)"
proof (induction bp t key arbitrary: a b rule: split.induct)
  case (1 bp key)
  then show ?case by simp
next
  case (2 bp l x r key)
  show ?case
  proof (cases "cl_start x < key")
    case True
    obtain nr b' where nr: "split bp (pushed bp x r) key = (nr, b')"
      by (cases "split bp (pushed bp x r) key")
    with True 2(3) have "a = pull bp (Node (pushed bp x l) (cleared x) nr)" "b = b'"
      by simp_all
    moreover note "2.IH"(1) [OF True nr]
    ultimately show ?thesis
      using True 2(4) by auto
  next
    case False
    obtain a' nl where nl: "split bp (pushed bp x l) key = (a', nl)"
      by (cases "split bp (pushed bp x l) key")
    with False 2(3) have "b = pull bp (Node nl (cleared x) (pushed bp x r))" "a = a'"
      by simp_all
    moreover note "2.IH"(2) [OF False nl]
    ultimately show ?thesis
      using False 2(4) by auto
  qed
qed

text \<open>The right spine of the left part of a split has no update pending, so the fields of its last
  cell can be read without pushing, as \<^verbatim>\<open>rightmostNode\<close> does.\<close>

fun spine_clear :: "treap \<Rightarrow> bool" where
  "spine_clear Leaf = True"
| "spine_clear (Node l x r) = (no_pend x \<and> spine_clear r)"

lemma spine_clear_pull [simp]:
  "no_pend x \<Longrightarrow> spine_clear (pull bp (Node l x r)) = spine_clear r"
  by (simp add: pull.simps(2) Let_def no_pend_def split: prod.splits)

lemma split_spine_clear: "split bp t key = (a, b) \<Longrightarrow> spine_clear a"
proof (induction bp t key arbitrary: a b rule: split.induct)
  case (1 bp key)
  then show ?case by simp
next
  case (2 bp l x r key)
  then show ?case
    by (auto split: if_splits prod.splits)
qed

lemma rightmostNode_last:
  "spine_clear t \<Longrightarrow> rightmostNode t = (if t = Leaf then None else Some c) \<Longrightarrow> t \<noteq> Leaf \<Longrightarrow>
   last (flat t) = cell_segment c"
  by (induction t rule: rightmostNode.induct) auto

lemma rightmostNode_None: "rightmostNode t = None \<longleftrightarrow> t = Leaf"
  by (induction t rule: rightmostNode.induct) auto

lemma rightmostNode_Some:
  assumes "spine_clear t" "rightmostNode t = Some c"
  shows "flat t \<noteq> [] \<and> last (flat t) = cell_segment c"
proof -
  from assms(2) have "t \<noteq> Leaf" by auto
  with assms rightmostNode_last [of t c] show ?thesis by simp
qed

lemma pushed_eq_Leaf [simp]: "pushed bp x t = Leaf \<longleftrightarrow> t = Leaf"
  by (metis size_pushed eq_size_0)

lemma detachMax_content:
  "detachMax bp t = (a, m) \<Longrightarrow> t \<noteq> Leaf \<Longrightarrow> flat a = butlast (flat t)"
proof (induction bp t arbitrary: a m rule: detachMax.induct)
  case (1 bp)
  then show ?case by simp
next
  case (2 bp l x r)
  show ?case
  proof (cases "r = Leaf")
    case True
    with 2 show ?thesis by auto
  next
    case False
    obtain nr m' where nr: "detachMax bp (pushed bp x r) = (nr, m')"
      by (cases "detachMax bp (pushed bp x r)")
    with False 2(2) have "a = pull bp (Node (pushed bp x l) (cleared x) nr)" by simp
    moreover have "flat nr = butlast (map (on_point (pend x)) (flat r))"
      using "2.IH" [OF _ nr] False by simp
    ultimately show ?thesis
      using False by (simp add: butlast_append)
  qed
qed

end
