(* ===== verification/RF_Interval_Aggregates.thy ===== *)
theory RF_Interval_Aggregates
  imports RF_Interval_Content
begin

text \<open>
  The cached aggregates of the treap. \<open>agg_ok S bp t\<close> says that every node whose subtree holds no
  cell starting in \<open>S\<close> caches the exact minima and maxima of its subtree. The set of stale starts
  is needed because \<^verbatim>\<open>createCell\<close> leaves the aggregates of a new cell at zero and
  \<^verbatim>\<open>mergeRec\<close> does not pull a leaf it only links in: after \<^verbatim>\<open>ensureBoundary\<close> the
  cells at the new boundary, and all nodes above them, may cache wrong values. The next split at that
  boundary visits exactly these nodes.
\<close>

section \<open>Exact aggregates\<close>

definition agg_vals :: "int \<Rightarrow> cell \<Rightarrow> segment list \<Rightarrow> bool" where
  "agg_vals bp x fs \<longleftrightarrow>
     minHard x = Min ((slackH \<circ> sg_point) ` set fs) \<and>
     minSoft x = Min ((slackS bp \<circ> sg_point) ` set fs) \<and>
     maxCbH x = Max ((combH \<circ> sg_point) ` set fs) \<and>
     maxCbS x = Max ((combS \<circ> sg_point) ` set fs)"

fun agg_ok :: "int set \<Rightarrow> int \<Rightarrow> treap \<Rightarrow> bool" where
  "agg_ok S bp Leaf = True"
| "agg_ok S bp (Node l x r) =
     (agg_ok S bp l \<and> agg_ok S bp r \<and>
      (starts (flat (Node l x r)) \<inter> S = {} \<longrightarrow> agg_vals bp x (flat (Node l x r))))"

lemma agg_ok_mono:
  "agg_ok S bp t \<Longrightarrow> (\<And>s. s \<in> S \<Longrightarrow> s \<in> starts (flat t) \<Longrightarrow> s \<in> S') \<Longrightarrow> agg_ok S' bp t"
proof (induction t)
  case (Node l x r)
  then show ?case by (simp del: sorted_segments_simps) blast
qed simp

lemma Min_image_minus:
  "finite A \<Longrightarrow> A \<noteq> {} \<Longrightarrow> Min ((\<lambda>a. f a - (d::int)) ` A) = Min (f ` A) - d"
  using Min_add_commute [of A f "- d"] by simp

lemma Max_image_plus:
  "finite A \<Longrightarrow> A \<noteq> {} \<Longrightarrow> Max ((\<lambda>a. f a + (d::int)) ` A) = Max (f ` A) + d"
  by (rule Max_add_commute)

lemma Min_image_const_minus:
  assumes "finite A" "A \<noteq> {}"
  shows "Min ((\<lambda>a. v - f a) ` A) = (v::int) - Max (f ` A)"
proof -
  have "Min (uminus ` (f ` A)) = - Max (f ` A)"
    using assms by (intro minus_Max_eq_Min [symmetric]) auto
  moreover have "Min ((\<lambda>a. - f a + v) ` A) = Min ((\<lambda>a. - f a) ` A) + v"
    using assms by (intro Min_add_commute)
  ultimately show ?thesis by (simp add: image_image add.commute)
qed

lemma agg_vals_shift:
  assumes "agg_vals bp x fs" "fs \<noteq> []"
    and "\<And>p. slackH (f p) = slackH p - a" "\<And>p. slackS bp (f p) = slackS bp p - b"
    and "\<And>p. combH (f p) = combH p + a" "\<And>p. combS (f p) = combS p + b"
    and "minHard y = minHard x - a" "minSoft y = minSoft x - b"
    and "maxCbH y = maxCbH x + a" "maxCbS y = maxCbS x + b"
  shows "agg_vals bp y (map (on_point f) fs)"
  using assms
  by (simp add: agg_vals_def image_image comp_def Min_image_minus Max_image_plus)

lemma agg_vals_set_cap:
  assumes "agg_vals bp x fs" "fs \<noteq> []"
    and "minHard y = v - maxCbH x" "minSoft y = effCapacity bp v - maxCbS x"
    and "maxCbH y = maxCbH x" "maxCbS y = maxCbS x"
  shows "agg_vals bp y (map (on_point (set_cap v)) fs)"
proof -
  have "slackH (set_cap v p) = v - combH p" "combH (set_cap v p) = combH p"
    "slackS bp (set_cap v p) = effCapacity bp v - combS p" "combS (set_cap v p) = combS p" for p
    by (simp_all add: set_cap_def point_measure_defs)
  with assms show ?thesis
    by (simp add: agg_vals_def image_image comp_def Min_image_const_minus)
qed

section \<open>Lazy updates keep the aggregates exact\<close>

lemma agg_ok_applyAddH [agg_intros]: "agg_ok S bp t \<Longrightarrow> agg_ok S bp (applyAddH d t)"
proof (cases t)
  case (Node l x r)
  assume ok: "agg_ok S bp t"
  let ?y = "x\<lparr>committedHard := committedHard x + d, minHard := minHard x - d,
              minSoft := minSoft x - d, maxCbH := maxCbH x + d, maxCbS := maxCbS x + d,
              addH := addH x + d\<rparr>"
  show ?thesis
  proof (cases "d = 0")
    case False
    then have t': "applyAddH d t = Node l ?y r" using Node by simp
    have flat': "flat (Node l ?y r) = map (on_point (add_hard d)) (flat t)"
      using flat_applyAddH [of d t] t' by simp
    have "agg_vals bp ?y (flat (Node l ?y r))" if "starts (flat t) \<inter> S = {}"
    proof -
      have "agg_vals bp x (flat t)" using ok that Node by simp
      then show ?thesis
        unfolding flat' using Node
        by (elim agg_vals_shift [where a = d and b = d])
           (simp_all add: add_hard_def point_measure_defs)
    qed
    moreover have "starts (flat (Node l ?y r)) = starts (flat t)"
      by (simp only: flat' starts_simps)
    ultimately show ?thesis using ok Node t' by (simp del: flat.simps)
  qed (use ok Node in simp)
qed simp

lemma agg_ok_applyAddS [agg_intros]: "agg_ok S bp t \<Longrightarrow> agg_ok S bp (applyAddS d t)"
proof (cases t)
  case (Node l x r)
  assume ok: "agg_ok S bp t"
  let ?y = "x\<lparr>committedSoft := committedSoft x + d, minSoft := minSoft x - d,
              maxCbS := maxCbS x + d, addS := addS x + d\<rparr>"
  show ?thesis
  proof (cases "d = 0")
    case False
    then have t': "applyAddS d t = Node l ?y r" using Node by simp
    have flat': "flat (Node l ?y r) = map (on_point (add_soft d)) (flat t)"
      using flat_applyAddS [of d t] t' by simp
    have "agg_vals bp ?y (flat (Node l ?y r))" if "starts (flat t) \<inter> S = {}"
    proof -
      have "agg_vals bp x (flat t)" using ok that Node by simp
      then show ?thesis
        unfolding flat' using Node
        by (elim agg_vals_shift [where a = 0 and b = d])
           (simp_all add: add_soft_def point_measure_defs)
    qed
    moreover have "starts (flat (Node l ?y r)) = starts (flat t)"
      by (simp only: flat' starts_simps)
    ultimately show ?thesis using ok Node t' by (simp del: flat.simps)
  qed (use ok Node in simp)
qed simp

lemma agg_ok_applyAddHeld [agg_intros]: "agg_ok S bp t \<Longrightarrow> agg_ok S bp (applyAddHeld d t)"
proof (cases t)
  case (Node l x r)
  assume ok: "agg_ok S bp t"
  let ?y = "x\<lparr>held := held x + d, minHard := minHard x - d,
              minSoft := minSoft x - d, maxCbH := maxCbH x + d, maxCbS := maxCbS x + d,
              addHeld := addHeld x + d\<rparr>"
  show ?thesis
  proof (cases "d = 0")
    case False
    then have t': "applyAddHeld d t = Node l ?y r" using Node by simp
    have flat': "flat (Node l ?y r) = map (on_point (add_held d)) (flat t)"
      using flat_applyAddHeld [of d t] t' by simp
    have "agg_vals bp ?y (flat (Node l ?y r))" if "starts (flat t) \<inter> S = {}"
    proof -
      have "agg_vals bp x (flat t)" using ok that Node by simp
      then show ?thesis
        unfolding flat' using Node
        by (elim agg_vals_shift [where a = d and b = d])
           (simp_all add: add_held_def point_measure_defs)
    qed
    moreover have "starts (flat (Node l ?y r)) = starts (flat t)"
      by (simp only: flat' starts_simps)
    ultimately show ?thesis using ok Node t' by (simp del: flat.simps)
  qed (use ok Node in simp)
qed simp

lemma agg_ok_applySetCap [agg_intros]: "agg_ok S bp t \<Longrightarrow> agg_ok S bp (applySetCap bp v t)"
proof (cases t)
  case (Node l x r)
  assume ok: "agg_ok S bp t"
  let ?y = "x\<lparr>capacity := v, minHard := v - maxCbH x,
              minSoft := effCapacity bp v - maxCbS x, hasSet := True, setCap := v\<rparr>"
  have t': "applySetCap bp v t = Node l ?y r" using Node by simp
  have flat': "flat (Node l ?y r) = map (on_point (set_cap v)) (flat t)"
    using flat_applySetCap [of bp v t] t' by simp
  have "agg_vals bp ?y (flat (Node l ?y r))" if "starts (flat t) \<inter> S = {}"
  proof -
    have "agg_vals bp x (flat t)" using ok that Node by simp
    then show ?thesis
      unfolding flat' using Node by (elim agg_vals_set_cap) simp_all
  qed
  moreover have "starts (flat (Node l ?y r)) = starts (flat t)"
      by (simp only: flat' starts_simps)
  ultimately show ?thesis using ok Node t' by (simp del: flat.simps)
qed simp

lemma agg_ok_pushed [agg_intros]: "agg_ok S bp t \<Longrightarrow> agg_ok S bp (pushed bp x t)"
  by (simp add: pushed_def Let_def agg_intros)

section \<open>Pulling recomputes a node\<close>

lemma pull_Node_shape: "\<exists>x'. pull bp (Node l x r) = Node l x' r"
  by (simp add: pull.simps(2) Let_def case_prod_unfold)

lemma pull_cell_fields:
  assumes "pull bp (Node l x r) = Node l x' r"
  shows "minHard x' = (let m = (case l of Leaf \<Rightarrow> selfMinHard x
                                | Node _ y _ \<Rightarrow> min (selfMinHard x) (minHard y))
                       in case r of Leaf \<Rightarrow> m | Node _ y _ \<Rightarrow> min m (minHard y))"
    and "minSoft x' = (let m = (case l of Leaf \<Rightarrow> selfMinSoft bp x
                                | Node _ y _ \<Rightarrow> min (selfMinSoft bp x) (minSoft y))
                       in case r of Leaf \<Rightarrow> m | Node _ y _ \<Rightarrow> min m (minSoft y))"
    and "maxCbH x' = (let m = (case l of Leaf \<Rightarrow> committedHard x + held x
                                | Node _ y _ \<Rightarrow> max (committedHard x + held x) (maxCbH y))
                       in case r of Leaf \<Rightarrow> m | Node _ y _ \<Rightarrow> max m (maxCbH y))"
    and "maxCbS x' = (let m = (case l of Leaf \<Rightarrow> committedHard x + committedSoft x + held x
                                | Node _ y _ \<Rightarrow>
                                    max (committedHard x + committedSoft x + held x) (maxCbS y))
                       in case r of Leaf \<Rightarrow> m | Node _ y _ \<Rightarrow> max m (maxCbS y))"
  using assms by (cases l; cases r; force simp: pull.simps(2) Let_def)+

lemma agg_vals_node:
  assumes "no_pend x"
    and "l \<noteq> Leaf \<Longrightarrow> agg_vals bp (root_val l) (flat l)"
    and "r \<noteq> Leaf \<Longrightarrow> agg_vals bp (root_val r) (flat r)"
    and root: "\<And>ll y lr. root_val (Node ll y lr) = y"
    and "pull bp (Node l x r) = Node l x' r"
  shows "agg_vals bp x' (flat (Node l x r))"
proof -
  have self: "slackH (cell_point x) = selfMinHard x"
    "slackS bp (cell_point x) = selfMinSoft bp x"
    "combH (cell_point x) = committedHard x + held x"
    "combS (cell_point x) = committedHard x + committedSoft x + held x"
    by (simp_all add: point_measure_defs cell_point_def selfMinHard_def selfMinSoft_def)
  have content: "set (flat (Node l x r)) = insert (cell_segment x) (set (flat l) \<union> set (flat r))"
    using assms(1) by auto
  have tree_case: "(case t of Leaf \<Rightarrow> a | Node _ y _ \<Rightarrow> g y) =
      (if t = Leaf then a else g (root_val t))" for t and a :: int and g
    by (cases t) (simp_all add: root)
  note fields = pull_cell_fields [OF assms(5), unfolded tree_case Let_def]
  show ?thesis
  proof (cases "l = Leaf")
    case True
    then show ?thesis
      using assms(3) unfolding agg_vals_def fields content
      by (cases "r = Leaf") (simp_all add: self)
  next
    case l: False
    show ?thesis
    proof (cases "r = Leaf")
      case True
      then show ?thesis
        using l assms(2) unfolding agg_vals_def fields content by (simp add: self)
    next
      case False
      then show ?thesis
        using l assms(2,3) unfolding agg_vals_def fields content
        by (simp add: self image_Un Min_Un Max_Un min.assoc max.assoc)
    qed
  qed
qed

lemma agg_ok_pull [agg_intros]:
  assumes "no_pend x" "agg_ok S bp l" "agg_ok S bp r"
  shows "agg_ok S bp (pull bp (Node l x r))"
proof -
  obtain x' where pl: "pull bp (Node l x r) = Node l x' r"
    using pull_Node_shape by blast
  have same: "flat (Node l x' r) = flat (Node l x r)"
    using flat_pull [of bp "Node l x r"] pl by simp
  have child: "agg_vals bp (tree.value t) (flat t)"
    if "agg_ok S bp t" "t \<noteq> Leaf" "starts (flat t) \<inter> S = {}" for t
    using that by (cases t) simp_all
  have "agg_vals bp x' (flat (Node l x r))" if "starts (flat (Node l x r)) \<inter> S = {}"
    using assms that
    by (intro agg_vals_node [OF _ _ _ _ pl, where root_val = "tree.value"] child)
       (auto simp: Int_Un_distrib2)
  with assms same show ?thesis
    by (simp only: pl agg_ok.simps) simp
qed

section \<open>Tree operations\<close>

lemma agg_ok_mergeRec [agg_intros]:
  "agg_ok S bp a \<Longrightarrow> agg_ok S bp b \<Longrightarrow> agg_ok S bp (mergeRec bp a b)"
proof (induction bp a b rule: mergeRec.induct)
  case (3 bp la xa ra lb xb rb)
  then show ?case by (auto intro!: agg_intros)
qed simp_all

text \<open>A start is adjacent to a key when no other start lies between them, on either side.\<close>

definition adjacent :: "int \<Rightarrow> int set \<Rightarrow> int \<Rightarrow> bool" where
  "adjacent key K s \<longleftrightarrow>
     (if s < key then \<forall>u\<in>K. \<not> (s < u \<and> u < key) else \<forall>u\<in>K. \<not> (key \<le> u \<and> u < s))"

lemma adjacent_antimono: "adjacent key K s \<Longrightarrow> K' \<subseteq> K \<Longrightarrow> adjacent key K' s"
  by (auto simp: adjacent_def split: if_splits)

lemma adjacent_union:
  "adjacent key (insert c (A \<union> B)) s \<Longrightarrow> adjacent key A s \<and> adjacent key B s"
  by (auto simp: adjacent_def split: if_splits)

text \<open>Splitting at a key repairs every stale cell adjacent to it.\<close>

lemma agg_ok_split:
  "split bp t key = (a, b) \<Longrightarrow> sorted_segments (flat t) \<Longrightarrow> agg_ok S bp t \<Longrightarrow>
   (\<And>s. s \<in> S \<Longrightarrow> s \<in> starts (flat t) \<Longrightarrow> s \<in> S' \<or> adjacent key (starts (flat t)) s) \<Longrightarrow>
   agg_ok S' bp a \<and> agg_ok S' bp b"
proof (induction bp t key arbitrary: a b rule: split.induct)
  case (1 bp key)
  then show ?case by simp
next
  case (2 bp l x r key)
  show ?case
  proof (cases "cl_start x < key")
    case True
    obtain nr b' where nr: "split bp (pushed bp x r) key = (nr, b')"
      by (cases "split bp (pushed bp x r) key")
    with True "2.prems"(1) have ab: "a = pull bp (Node (pushed bp x l) (cleared x) nr)" "b = b'"
      by simp_all
    have "agg_ok S' bp l"
    proof (rule agg_ok_mono)
      show "agg_ok S bp l" using "2.prems"(3) by simp
      fix s assume s: "s \<in> S" "s \<in> starts (flat l)"
      with "2.prems"(2) True have "\<not> adjacent key (starts (flat (Node l x r))) s"
        by (auto simp: adjacent_def)
      with "2.prems"(4) [of s] s show "s \<in> S'" by simp
    qed
    moreover have "agg_ok S' bp nr \<and> agg_ok S' bp b'"
    proof (rule "2.IH"(1) [OF True nr])
      fix s assume s: "s \<in> S" "s \<in> starts (flat (pushed bp x r))"
      with "2.prems"(4) [of s] show "s \<in> S' \<or> adjacent key (starts (flat (pushed bp x r))) s"
        by (auto dest: adjacent_union)
    qed (use "2.prems" in \<open>auto intro: agg_intros\<close>)
    ultimately show ?thesis by (auto simp: ab intro!: agg_intros)
  next
    case False
    obtain a' nl where nl: "split bp (pushed bp x l) key = (a', nl)"
      by (cases "split bp (pushed bp x l) key")
    with False "2.prems"(1)
    have ab: "b = pull bp (Node nl (cleared x) (pushed bp x r))" "a = a'"
      by simp_all
    have "agg_ok S' bp r"
    proof (rule agg_ok_mono)
      show "agg_ok S bp r" using "2.prems"(3) by simp
      fix s assume s: "s \<in> S" "s \<in> starts (flat r)"
      with "2.prems"(2) False have "\<not> adjacent key (starts (flat (Node l x r))) s"
        by (auto simp: adjacent_def)
      with "2.prems"(4) [of s] s show "s \<in> S'" by simp
    qed
    moreover have "agg_ok S' bp a' \<and> agg_ok S' bp nl"
    proof (rule "2.IH"(2) [OF False nl])
      fix s assume s: "s \<in> S" "s \<in> starts (flat (pushed bp x l))"
      with "2.prems"(4) [of s] show "s \<in> S' \<or> adjacent key (starts (flat (pushed bp x l))) s"
        by (auto dest: adjacent_union)
    qed (use "2.prems" in \<open>auto intro: agg_intros\<close>)
    ultimately show ?thesis by (auto simp: ab intro!: agg_intros)
  qed
qed

lemma agg_ok_detachMax:
  "detachMax bp t = (a, m) \<Longrightarrow> agg_ok S bp t \<Longrightarrow> agg_ok S bp a"
proof (induction bp t arbitrary: a m rule: detachMax.induct)
  case (1 bp)
  then show ?case by simp
next
  case (2 bp l x r)
  then show ?case
    by (auto intro!: agg_intros split: if_splits prod.splits)
qed

text \<open>A new cell is covered by declaring its own start stale.\<close>

lemma agg_ok_createCell: "s \<in> S \<Longrightarrow> agg_ok S bp (createCell s e cH cS h cap)"
  by (simp add: createCell_def)

lemma agg_ok_pulled_createCell: "agg_ok S bp (pull bp (createCell s e cH cS h cap))"
  unfolding createCell_def by (rule agg_ok_pull) (simp_all add: no_pend_def)

lemma agg_ok_root:
  "agg_ok {} bp (Node l x r) \<Longrightarrow> agg_vals bp x (flat (Node l x r))"
  by simp

end
