(* ===== verification/RF_Interval_Line.thy ===== *)
theory RF_Interval_Line
  imports RF_Interval_Aggregates
begin

text \<open>
  The abstract side of the interval index: a line is a list of adjacent segments, its profile the
  function from time to the point in force. Cutting a line at a time does not change the profile;
  updating the segments between two cuts updates exactly the instants of the range.
\<close>

section \<open>Lines\<close>

fun chain :: "int \<Rightarrow> segment list \<Rightarrow> int \<Rightarrow> bool" where
  "chain a [] b \<longleftrightarrow> a = b"
| "chain a (s # ss) b \<longleftrightarrow> sg_start s = a \<and> sg_start s < sg_end s \<and> chain (sg_end s) ss b"

lemma chain_append: "chain a (xs @ ys) b \<longleftrightarrow> (\<exists>m. chain a xs m \<and> chain m ys b)"
  by (induction xs arbitrary: a) auto

lemma chain_le: "chain a xs b \<Longrightarrow> a \<le> b"
  by (induction xs arbitrary: a) fastforce+

lemma chain_starts_lower: "chain a xs b \<Longrightarrow> u \<in> starts xs \<Longrightarrow> a \<le> u"
  by (induction xs arbitrary: a) fastforce+

lemma chain_ends_upper: "chain a xs b \<Longrightarrow> s \<in> set xs \<Longrightarrow> sg_end s \<le> b"
  by (induction xs arbitrary: a) (auto dest: chain_le)

lemma chain_sorted: "chain a xs b \<Longrightarrow> sorted_segments xs"
proof (induction xs arbitrary: a)
  case (Cons s xs)
  then have "chain (sg_end s) xs b" "sg_start s < sg_end s" by simp_all
  with Cons.IH chain_starts_lower show ?case by fastforce
qed simp

lemma chain_map_on_point [simp]: "chain a (map (on_point f) xs) b = chain a xs b"
  by (induction xs arbitrary: a) auto

definition map_range :: "int \<Rightarrow> int \<Rightarrow> (point \<Rightarrow> point) \<Rightarrow> segment list \<Rightarrow> segment list" where
  "map_range l r f = map (\<lambda>s. if l \<le> sg_start s \<and> sg_start s < r then on_point f s else s)"

lemma chain_map_range [simp]: "chain a (map_range l r f xs) b = chain a xs b"
  by (induction xs arbitrary: a) (auto simp: map_range_def)

section \<open>Profiles\<close>

definition covers :: "int \<Rightarrow> segment \<Rightarrow> bool" where
  "covers t s \<longleftrightarrow> sg_start s \<le> t \<and> t < sg_end s"

definition profile :: "segment list \<Rightarrow> int \<Rightarrow> point option" where
  "profile xs t = map_option sg_point (List.find (covers t) xs)"

lemma profile_Nil [simp]: "profile [] t = None"
  by (simp add: profile_def)

lemma profile_Cons:
  "profile (s # xs) t = (if covers t s then Some (sg_point s) else profile xs t)"
  by (simp add: profile_def)

lemma profile_map_on_point: "profile (map (on_point f) xs) t = map_option f (profile xs t)"
  by (induction xs) (auto simp: profile_Cons covers_def)

lemma profile_domain:
  "chain a xs b \<Longrightarrow> profile xs t \<noteq> None \<longleftrightarrow> a \<le> t \<and> t < b"
proof (induction xs arbitrary: a)
  case (Cons s xs)
  then have "chain (sg_end s) xs b" by simp
  with Cons chain_le [OF this] show ?case
    by (auto simp: profile_Cons covers_def)
qed simp

lemma profile_Some_segment:
  "profile xs t = Some p \<Longrightarrow> \<exists>s\<in>set xs. covers t s \<and> sg_point s = p"
  by (induction xs) (auto simp: profile_Cons split: if_splits)

lemma segment_profile:
  "chain a xs b \<Longrightarrow> s \<in> set xs \<Longrightarrow> covers t s \<Longrightarrow> profile xs t = Some (sg_point s)"
proof (induction xs arbitrary: a)
  case (Cons u xs)
  show ?case
  proof (cases "s = u")
    case True
    with Cons.prems show ?thesis by (simp add: profile_Cons)
  next
    case False
    with Cons.prems have s: "s \<in> set xs" "chain (sg_end u) xs b" by simp_all
    then have "sg_end u \<le> sg_start s"
      using chain_starts_lower [of "sg_end u" xs b "sg_start s"] by (simp add: starts_def)
    with Cons.prems(3) have "\<not> covers t u" by (auto simp: covers_def)
    with Cons.IH [OF s(2,1) Cons.prems(3)] show ?thesis by (simp add: profile_Cons)
  qed
qed simp

section \<open>Cutting\<close>

fun cut :: "int \<Rightarrow> segment list \<Rightarrow> segment list" where
  "cut k [] = []"
| "cut k (s # ss) =
     (if sg_start s < k \<and> k < sg_end s
      then s\<lparr>sg_end := k\<rparr> # s\<lparr>sg_start := k\<rparr> # ss
      else s # cut k ss)"

lemma chain_cut: "chain a xs b \<Longrightarrow> chain a (cut k xs) b"
  by (induction xs arbitrary: a) auto

lemma profile_cut [simp]: "profile (cut k xs) t = profile xs t"
  by (induction xs) (auto simp: profile_Cons covers_def)

lemma starts_cut: "starts xs \<subseteq> starts (cut k xs) \<and> starts (cut k xs) \<subseteq> insert k (starts xs)"
  by (induction xs) auto

lemma cut_append_right:
  "(\<And>s. s \<in> set xs \<Longrightarrow> \<not> (sg_start s < k \<and> k < sg_end s)) \<Longrightarrow> cut k (xs @ ys) = xs @ cut k ys"
  by (induction xs) auto

lemma cut_noop:
  "(\<And>s. s \<in> set xs \<Longrightarrow> \<not> (sg_start s < k \<and> k < sg_end s)) \<Longrightarrow> cut k xs = xs"
  using cut_append_right [of xs k "[]"] by simp

definition no_straddle :: "int \<Rightarrow> segment list \<Rightarrow> bool" where
  "no_straddle k xs \<longleftrightarrow> (\<forall>s\<in>set xs. \<not> (sg_start s < k \<and> k < sg_end s))"

lemma no_straddle_cut: "chain a xs b \<Longrightarrow> no_straddle k (cut k xs)"
proof (induction xs arbitrary: a)
  case (Cons s xs)
  then have c: "chain (sg_end s) xs b" by simp
  have "sg_end s \<le> sg_start u" if "u \<in> set xs" for u
    using chain_starts_lower [OF c, of "sg_start u"] that by (simp add: starts_def)
  with Cons.IH [OF c] show ?case
    by (fastforce simp: no_straddle_def)
qed (simp add: no_straddle_def)

lemma no_straddle_cut_other: "no_straddle l xs \<Longrightarrow> no_straddle l (cut k xs)"
  by (induction xs) (auto simp: no_straddle_def split: if_splits)

lemma profile_map_range:
  assumes "chain a xs b" "no_straddle l xs" "no_straddle r xs"
  shows "profile (map_range l r f xs) t =
    (if l \<le> t \<and> t < r then map_option f (profile xs t) else profile xs t)"
  using assms
proof (induction xs arbitrary: a)
  case (Cons s xs)
  then have IH: "profile (map_range l r f xs) t =
    (if l \<le> t \<and> t < r then map_option f (profile xs t) else profile xs t)"
    by (intro Cons.IH [of "sg_end s"]) (simp_all add: no_straddle_def)
  have "covers t s \<Longrightarrow> l \<le> t \<and> t < r \<longleftrightarrow> l \<le> sg_start s \<and> sg_start s < r"
    using Cons.prems(2,3) by (auto simp: covers_def no_straddle_def)
  with IH show ?case
    by (auto simp: map_range_def profile_Cons covers_def)
qed (simp add: map_range_def)

text \<open>The points in force during a range, read from the segments or from the profile.\<close>

definition range_points :: "int \<Rightarrow> int \<Rightarrow> segment list \<Rightarrow> point set" where
  "range_points l r xs = {p. \<exists>t. l \<le> t \<and> t < r \<and> profile xs t = Some p}"

lemma range_points_segments:
  assumes "chain a xs b" "no_straddle l xs" "no_straddle r xs"
  shows "range_points l r xs = sg_point ` {s \<in> set xs. l \<le> sg_start s \<and> sg_start s < r}"
proof (intro equalityI subsetI)
  fix p assume "p \<in> range_points l r xs"
  then obtain t where t: "l \<le> t" "t < r" "profile xs t = Some p"
    by (auto simp: range_points_def)
  then obtain s where s: "s \<in> set xs" "covers t s" "sg_point s = p"
    using profile_Some_segment by blast
  with t assms(2,3) have "l \<le> sg_start s \<and> sg_start s < r"
    by (auto simp: covers_def no_straddle_def)
  with s show "p \<in> sg_point ` {s \<in> set xs. l \<le> sg_start s \<and> sg_start s < r}" by blast
next
  fix p assume "p \<in> sg_point ` {s \<in> set xs. l \<le> sg_start s \<and> sg_start s < r}"
  then obtain s where s: "s \<in> set xs" "l \<le> sg_start s" "sg_start s < r" "p = sg_point s"
    by blast
  have "sg_start s < sg_end s"
    using assms(1) s(1) by (induction xs arbitrary: a) auto
  then have "covers (sg_start s) s" by (simp add: covers_def)
  with segment_profile [OF assms(1) s(1)] s show "p \<in> range_points l r xs"
    by (auto simp: range_points_def)
qed

lemma range_points_cut [simp]: "range_points l r (cut k xs) = range_points l r xs"
  by (simp add: range_points_def)

lemma range_points_empty:
  assumes "chain a xs b"
  shows "range_points l r xs = {} \<longleftrightarrow> \<not> (\<exists>t. l \<le> t \<and> t < r \<and> a \<le> t \<and> t < b)"
proof -
  have "range_points l r xs = {} \<longleftrightarrow> \<not> (\<exists>t. l \<le> t \<and> t < r \<and> profile xs t \<noteq> None)"
    unfolding range_points_def not_None_eq by blast
  with profile_domain [OF assms] show ?thesis by simp
qed

section \<open>ensureBoundary\<close>

text \<open>
  The invariant of the index between operations: its content is an unbroken line from \<open>a\<close> to
  \<open>b\<close> and every node caches exact aggregates.
\<close>

definition index_inv :: "int \<Rightarrow> int \<Rightarrow> IntervalAggregator \<Rightarrow> bool" where
  "index_inv a b g \<longleftrightarrow>
     chain a (flat (agg_root g)) b \<and> agg_ok {} (agg_ratio g) (agg_root g)"

lemma chain_split_point:
  assumes "chain a (xs @ ys) b" "\<forall>u\<in>starts ys. k \<le> u" "\<forall>u\<in>starts xs. u < k"
  shows "cut k (xs @ ys) =
    (if xs \<noteq> [] \<and> k < sg_end (last xs)
     then butlast xs @ [(last xs)\<lparr>sg_end := k\<rparr>, (last xs)\<lparr>sg_start := k\<rparr>] @ ys
     else xs @ ys)"
proof -
  have ys: "\<not> (sg_start s < k \<and> k < sg_end s)" if "s \<in> set ys" for s
    using assms(2) that by (force simp: starts_def)
  show ?thesis
  proof (cases "xs = []")
    case True
    then show ?thesis using cut_noop [of ys k] ys by simp
  next
    case False
    then obtain zs s where xs: "xs = zs @ [s]" by (meson rev_exhaust)
    obtain m where m: "chain a zs m" "sg_start s = m"
      using assms(1) by (auto simp: xs chain_append)
    have "sg_end u \<le> sg_start s" if "u \<in> set zs" for u
      using chain_ends_upper [OF m(1) that] m(2) by simp
    moreover have "sg_start s < k" using assms(3) xs by simp
    ultimately have "cut k (zs @ [s] @ ys) = zs @ cut k (s # ys)"
      by (subst cut_append_right) fastforce+
    with \<open>sg_start s < k\<close> cut_noop [of ys k] ys show ?thesis by (simp add: xs)
  qed
qed

lemma last_start_adjacent:
  assumes "chain a (xs @ ys) b" "xs \<noteq> []" "\<forall>u\<in>starts xs. u < k" "\<forall>u\<in>starts ys. k \<le> u"
  shows "adjacent k (insert k (starts xs \<union> starts ys)) (sg_start (last xs))"
proof -
  from assms(2) obtain zs s where xs: "xs = zs @ [s]" by (meson rev_exhaust)
  have "u < sg_start s" if "u \<in> starts zs" for u
    using chain_sorted [OF assms(1)] that by (auto simp: xs)
  with assms(3,4) show ?thesis by (force simp: xs adjacent_def)
qed

lemma ensureBoundary_ratio [simp]: "agg_ratio (ensureBoundary k g) = agg_ratio g"
  by (simp add: ensureBoundary_def Let_def split: prod.splits option.splits)

lemma ensureBoundary_flat:
  assumes "chain a (flat (agg_root g)) b"
  shows "flat (agg_root (ensureBoundary k g)) = cut k (flat (agg_root g))"
proof (cases "agg_root g = Leaf")
  case True
  then show ?thesis by (simp add: ensureBoundary_def)
next
  case False
  obtain x y where xy: "split (agg_ratio g) (agg_root g) k = (x, y)"
    by (cases "split (agg_ratio g) (agg_root g) k")
  have content: "flat (agg_root g) = flat x @ flat y"
    "\<forall>u\<in>starts (flat x). u < k" "\<forall>u\<in>starts (flat y). k \<le> u"
    using split_content [OF xy chain_sorted [OF assms]] by simp_all
  note cut = chain_split_point [OF assms [unfolded content(1)] content(3,2), folded content(1)]
  show ?thesis
  proof (cases "rightmostNode x")
    case None
    then have "x = Leaf" by (simp add: rightmostNode_None)
    with None False xy cut content(1) show ?thesis by (simp add: ensureBoundary_def Let_def)
  next
    case (Some c)
    have last: "flat x \<noteq> []" "last (flat x) = cell_segment c"
      using rightmostNode_Some [OF split_spine_clear [OF xy] Some] by simp_all
    obtain x' m where dm: "detachMax (agg_ratio g) x = (x', m)"
      by (cases "detachMax (agg_ratio g) x")
    have "flat x' = butlast (flat x)"
      using detachMax_content [OF dm] last(1) by auto
    with Some False xy dm cut content(1) last show ?thesis
      by (auto simp: ensureBoundary_def Let_def cell_segment_def cell_point_def)
  qed
qed

lemma ensureBoundary_agg_ok:
  fixes k :: int
  assumes line: "chain a (flat (agg_root g)) b" and ok: "agg_ok S (agg_ratio g) (agg_root g)"
  defines "K \<equiv> starts (flat (agg_root g))"
    and "K' \<equiv> starts (flat (agg_root (ensureBoundary k g)))"
  shows "agg_ok ({s \<in> S. \<not> adjacent k K s} \<union> {s. adjacent k K' s}) (agg_ratio g)
           (agg_root (ensureBoundary k g))"
proof (cases "agg_root g = Leaf")
  case True
  then show ?thesis by (simp add: ensureBoundary_def)
next
  case False
  let ?S = "{s \<in> S. \<not> adjacent k K s} \<union> {s. adjacent k K' s}"
  let ?bp = "agg_ratio g"
  obtain x y where xy: "split ?bp (agg_root g) k = (x, y)"
    by (cases "split ?bp (agg_root g) k")
  have content: "flat (agg_root g) = flat x @ flat y"
    "\<forall>u\<in>starts (flat x). u < k" "\<forall>u\<in>starts (flat y). k \<le> u"
    using split_content [OF xy chain_sorted [OF line]] by simp_all
  have parts: "agg_ok ?S ?bp x \<and> agg_ok ?S ?bp y"
    by (rule agg_ok_split [OF xy chain_sorted [OF line] ok]) (auto simp: K_def)
  show ?thesis
  proof (cases "rightmostNode x")
    case None
    with False xy parts show ?thesis
      by (auto simp: ensureBoundary_def Let_def intro!: agg_intros)
  next
    case (Some c)
    obtain x' m where dm: "detachMax ?bp x = (x', m)"
      by (cases "detachMax ?bp x")
    have last: "flat x \<noteq> []" "last (flat x) = cell_segment c"
      using rightmostNode_Some [OF split_spine_clear [OF xy] Some] by simp_all
    have "K' \<subseteq> insert k (starts (flat x) \<union> starts (flat y))"
      unfolding K'_def ensureBoundary_flat [OF line] using starts_cut content(1) by force
    then have "adjacent k K' (cl_start c)"
      using last_start_adjacent [OF line [unfolded content(1)] last(1) content(2,3)] last(2)
      by (auto elim: adjacent_antimono)
    moreover have "adjacent k K' k" by (simp add: adjacent_def)
    ultimately show ?thesis
      using Some False xy parts dm agg_ok_detachMax [OF dm]
      by (auto simp: ensureBoundary_def Let_def intro!: agg_intros agg_ok_createCell)
  qed
qed

section \<open>Both boundaries, then the two splits\<close>

text \<open>
  Every operation on a range opens the line the same way: boundary at the left end, boundary at the
  right end, split at the right end, split at the left end.
\<close>

lemma range_open:
  assumes inv: "index_inv a b g" and lr: "l < r"
    and g': "g' = ensureBoundary r (ensureBoundary l g)"
    and x: "split (agg_ratio g) (agg_root g') r = (x, z)"
    and c: "split (agg_ratio g) x l = (c, mid)"
  shows "cut r (cut l (flat (agg_root g))) = flat c @ flat mid @ flat z"
    and "\<forall>u\<in>starts (flat c). u < l"
    and "\<forall>u\<in>starts (flat mid). l \<le> u \<and> u < r"
    and "\<forall>u\<in>starts (flat z). r \<le> u"
    and "agg_ok {} (agg_ratio g) c" "agg_ok {} (agg_ratio g) mid" "agg_ok {} (agg_ratio g) z"
proof -
  let ?bp = "agg_ratio g"
  let ?g1 = "ensureBoundary l g"
  have line: "chain a (flat (agg_root g)) b" and ok: "agg_ok {} ?bp (agg_root g)"
    using inv by (simp_all add: index_inv_def)
  have flat1: "flat (agg_root ?g1) = cut l (flat (agg_root g))"
    by (rule ensureBoundary_flat [OF line])
  have line1: "chain a (flat (agg_root ?g1)) b"
    using chain_cut [OF line] by (simp add: flat1)
  have flat2: "flat (agg_root g') = cut r (cut l (flat (agg_root g)))"
    using ensureBoundary_flat [OF line1] flat1 by (simp add: g')
  have line2: "chain a (flat (agg_root g')) b"
    using chain_cut [OF line1] by (simp add: flat2 flat1)
  define K1 K2 where "K1 = starts (flat (agg_root ?g1))" and "K2 = starts (flat (agg_root g'))"
  have "agg_ok ({s \<in> {}. \<not> adjacent l (starts (flat (agg_root g))) s} \<union>
      {s. adjacent l K1 s}) ?bp (agg_root ?g1)"
    using ensureBoundary_agg_ok [OF line ok, of l] unfolding K1_def .
  then have ok1: "agg_ok {s. adjacent l K1 s} ?bp (agg_root ?g1)" by simp
  have ok2: "agg_ok ({s \<in> {s. adjacent l K1 s}. \<not> adjacent r K1 s} \<union> {s. adjacent r K2 s})
      ?bp (agg_root g')"
    using ensureBoundary_agg_ok [OF line1, of "{s. adjacent l K1 s}" r] ok1
    by (simp add: K1_def K2_def g')
  have K2_sub: "K2 \<subseteq> insert r K1"
    using starts_cut by (simp add: K1_def K2_def flat1 flat2)
  have keep: "adjacent l K2 s \<and> s < r" if "adjacent l K1 s" "\<not> adjacent r K1 s" for s
    using that lr K2_sub by (auto simp: adjacent_def split: if_splits)
  have cont2: "flat (agg_root g') = flat x @ flat z"
    "\<forall>u\<in>starts (flat x). u < r" "\<forall>u\<in>starts (flat z). r \<le> u"
    using split_content [OF x chain_sorted [OF line2]] by simp_all
  have xz: "agg_ok {s. adjacent l K2 s \<and> s < r} ?bp x \<and>
      agg_ok {s. adjacent l K2 s \<and> s < r} ?bp z"
    by (rule agg_ok_split [OF x chain_sorted [OF line2] ok2]) (use keep in \<open>auto simp: K2_def\<close>)
  then show "agg_ok {} ?bp z"
    by (elim conjE agg_ok_mono) (use cont2(3) in force)
  have sx: "sorted_segments (flat x)"
    using chain_sorted [OF line2] by (simp add: cont2(1))
  have contx: "flat x = flat c @ flat mid"
    "\<forall>u\<in>starts (flat c). u < l" "\<forall>u\<in>starts (flat mid). l \<le> u"
    using split_content [OF c sx] by simp_all
  have "starts (flat x) \<subseteq> K2" by (simp add: K2_def cont2(1))
  with xz have cm: "agg_ok {} ?bp c \<and> agg_ok {} ?bp mid"
    by (intro agg_ok_split [OF c sx]) (auto elim: adjacent_antimono)
  from cm show "agg_ok {} ?bp c" "agg_ok {} ?bp mid" by simp_all
  show "cut r (cut l (flat (agg_root g))) = flat c @ flat mid @ flat z"
    using flat2 cont2(1) contx(1) by simp
  show "\<forall>u\<in>starts (flat c). u < l" by (rule contx(2))
  show "\<forall>u\<in>starts (flat mid). l \<le> u \<and> u < r" using contx(1,3) cont2(2) by auto
  show "\<forall>u\<in>starts (flat z). r \<le> u" by (rule cont2(3))
qed

lemma map_range_parts:
  assumes "\<forall>u\<in>starts c. u < l" "\<forall>u\<in>starts mid. l \<le> u \<and> u < r" "\<forall>u\<in>starts z. r \<le> u"
  shows "map_range l r f (c @ mid @ z) = c @ map (on_point f) mid @ z"
proof -
  have "map_range l r f c = c"
    unfolding map_range_def using assms(1) by (intro map_idI) (force simp: starts_def)
  moreover have "map_range l r f z = z"
    unfolding map_range_def using assms(3) by (intro map_idI) (force simp: starts_def)
  moreover have "map_range l r f mid = map (on_point f) mid"
    unfolding map_range_def using assms(2) by (intro map_cong) (auto simp: starts_def)
  ultimately show ?thesis by (simp add: map_range_def)
qed

end
