(* ===== verification/RF_Interval_Correct.thy ===== *)
theory RF_Interval_Correct
  imports RF_Interval_Line
begin

text \<open>
  Correctness of the operations of \<^verbatim>\<open>IntervalAggregator\<close> against the profile of the line, the
  contract \<open>capacity_index\<close> that the capacity envelope and the runtime rely on, and the structural
  invariants of the treap (heap order, keyed priorities, size of the node vector).
\<close>

section \<open>The four range operations\<close>

definition agg_profile :: "IntervalAggregator \<Rightarrow> int \<Rightarrow> point option" where
  "agg_profile g t = profile (flat (agg_root g)) t"

definition agg_inv :: "IntervalAggregator \<Rightarrow> bool" where
  "agg_inv g \<longleftrightarrow> (\<exists>a b. index_inv a b g)"

definition min_over :: "(point \<Rightarrow> int) \<Rightarrow> point set \<Rightarrow> int" where
  "min_over f P = (if P = {} then INT64_MAX else Min (f ` P))"

definition max_over :: "(point \<Rightarrow> int) \<Rightarrow> point set \<Rightarrow> int" where
  "max_over f P = (if P = {} then 0 else Max (f ` P))"

definition agg_points :: "int \<Rightarrow> int \<Rightarrow> IntervalAggregator \<Rightarrow> point set" where
  "agg_points l r g = range_points l r (flat (agg_root g))"

lemma index_inv_Leaf: "index_inv a b g \<Longrightarrow> agg_root g = Leaf \<Longrightarrow> a = b \<and> agg_profile g t = None"
  by (simp add: index_inv_def agg_profile_def)

lemma agg_ratio_rangeAdd [simp]: "agg_ratio (rangeAdd l r dH dS dHeld g) = agg_ratio g"
  by (simp add: rangeAdd_def Let_def split: prod.splits)

lemma agg_ratio_rangeSet [simp]: "agg_ratio (rangeSet l r v g) = agg_ratio g"
  by (simp add: rangeSet_def Let_def split: prod.splits)

lemma agg_ratio_minSlack [simp]: "agg_ratio (snd (minSlack l r hard g)) = agg_ratio g"
  by (simp add: minSlack_def Let_def split: prod.splits)

lemma agg_ratio_maxContrib [simp]: "agg_ratio (snd (maxContrib l r hard g)) = agg_ratio g"
  by (simp add: maxContrib_def Let_def split: prod.splits)

text \<open>One lemma for all of them: what replaces the middle part decides the result.\<close>

lemma range_operation:
  assumes inv: "index_inv a b g" and lr: "l < r"
    and g': "g' = ensureBoundary r (ensureBoundary l g)"
    and x: "split (agg_ratio g) (agg_root g') r = (x, z)"
    and c: "split (agg_ratio g) x l = (c, mid)"
    and mid': "flat mid' = map (on_point f) (flat mid)" "agg_ok {} (agg_ratio g) mid'"
    and h: "h = g'\<lparr>agg_root := mergeRec (agg_ratio g) (mergeRec (agg_ratio g) c mid') z\<rparr>"
  shows "index_inv a b h"
    and "agg_profile h t =
      (if l \<le> t \<and> t < r then map_option f (agg_profile g t) else agg_profile g t)"
proof -
  note op = range_open [OF inv lr g' x c]
  have line: "chain a (flat (agg_root g)) b" using inv by (simp add: index_inv_def)
  note line1 = chain_cut [OF line, of l]
  have flat_h: "flat (agg_root h) = map_range l r f (cut r (cut l (flat (agg_root g))))"
    unfolding op(1) map_range_parts [OF op(2,3,4)] by (simp add: h mid'(1))
  have "agg_ratio h = agg_ratio g" by (simp add: h g')
  moreover have "agg_ok {} (agg_ratio g) (agg_root h)"
    using op(5,7) mid'(2) by (simp add: h agg_intros)
  ultimately show "index_inv a b h"
    using chain_cut [OF line1, of r] by (simp add: index_inv_def flat_h)
  have straddle: "no_straddle l (cut r (cut l (flat (agg_root g))))"
    "no_straddle r (cut r (cut l (flat (agg_root g))))"
    using no_straddle_cut_other [OF no_straddle_cut [OF line]] no_straddle_cut [OF line1]
    by simp_all
  show "agg_profile h t =
      (if l \<le> t \<and> t < r then map_option f (agg_profile g t) else agg_profile g t)"
    unfolding agg_profile_def flat_h profile_map_range [OF chain_cut [OF line1] straddle]
    by simp
qed

lemma rangeAdd_correct:
  assumes "index_inv a b g"
  shows "index_inv a b (rangeAdd l r dH dS dHeld g)"
    and "agg_profile (rangeAdd l r dH dS dHeld g) t =
      (if l \<le> t \<and> t < r
       then map_option (add_held dHeld \<circ> (add_soft dS \<circ> add_hard dH)) (agg_profile g t)
       else agg_profile g t)"
proof -
  let ?f = "add_held dHeld \<circ> (add_soft dS \<circ> add_hard dH)"
  let ?h = "rangeAdd l r dH dS dHeld g"
  have "index_inv a b ?h \<and> agg_profile ?h t =
      (if l \<le> t \<and> t < r then map_option ?f (agg_profile g t) else agg_profile g t)"
  proof (cases "agg_root g = Leaf \<or> r \<le> l")
    case True
    with assms index_inv_Leaf [OF assms] show ?thesis by (auto simp: rangeAdd_def)
  next
    case False
    define g' where "g' = ensureBoundary r (ensureBoundary l g)"
    obtain x z where x: "split (agg_ratio g) (agg_root g') r = (x, z)"
      by (cases "split (agg_ratio g) (agg_root g') r")
    obtain c mid where c: "split (agg_ratio g) x l = (c, mid)"
      by (cases "split (agg_ratio g) x l")
    define mid' where "mid' = (if mid \<noteq> Leaf
        then applyAddHeld dHeld (applyAddS dS (applyAddH dH mid)) else mid)"
    have h: "?h = g'\<lparr>agg_root := mergeRec (agg_ratio g) (mergeRec (agg_ratio g) c mid') z\<rparr>"
      using False x c by (simp add: rangeAdd_def g'_def mid'_def Let_def)
    have "l < r" using False by simp
    have f: "flat mid' = map (on_point ?f) (flat mid)" by (simp add: mid'_def)
    moreover have ok: "agg_ok {} (agg_ratio g) mid'"
      using range_open(6) [OF assms \<open>l < r\<close> g'_def x c] by (simp add: mid'_def agg_intros)
    ultimately show ?thesis
      using range_operation [OF assms \<open>l < r\<close> g'_def x c f ok h] by simp
  qed
  then show "index_inv a b ?h"
    "agg_profile ?h t =
      (if l \<le> t \<and> t < r then map_option ?f (agg_profile g t) else agg_profile g t)" by simp_all
qed

lemma rangeSet_correct:
  assumes "index_inv a b g"
  shows "index_inv a b (rangeSet l r v g)"
    and "agg_profile (rangeSet l r v g) t =
      (if l \<le> t \<and> t < r then map_option (set_cap v) (agg_profile g t) else agg_profile g t)"
proof -
  let ?h = "rangeSet l r v g"
  have "index_inv a b ?h \<and> agg_profile ?h t =
      (if l \<le> t \<and> t < r then map_option (set_cap v) (agg_profile g t) else agg_profile g t)"
  proof (cases "agg_root g = Leaf \<or> r \<le> l")
    case True
    with assms index_inv_Leaf [OF assms] show ?thesis by (auto simp: rangeSet_def)
  next
    case False
    define g' where "g' = ensureBoundary r (ensureBoundary l g)"
    obtain x z where x: "split (agg_ratio g) (agg_root g') r = (x, z)"
      by (cases "split (agg_ratio g) (agg_root g') r")
    obtain c mid where c: "split (agg_ratio g) x l = (c, mid)"
      by (cases "split (agg_ratio g) x l")
    define mid' where "mid' = (if mid \<noteq> Leaf then applySetCap (agg_ratio g) v mid else mid)"
    have h: "?h = g'\<lparr>agg_root := mergeRec (agg_ratio g) (mergeRec (agg_ratio g) c mid') z\<rparr>"
      using False x c by (simp add: rangeSet_def g'_def mid'_def Let_def)
    have "l < r" using False by simp
    have f: "flat mid' = map (on_point (set_cap v)) (flat mid)" by (simp add: mid'_def)
    moreover have ok: "agg_ok {} (agg_ratio g) mid'"
      using range_open(6) [OF assms \<open>l < r\<close> g'_def x c] by (simp add: mid'_def agg_intros)
    ultimately show ?thesis
      using range_operation [OF assms \<open>l < r\<close> g'_def x c f ok h] by simp
  qed
  then show "index_inv a b ?h"
    "agg_profile ?h t =
      (if l \<le> t \<and> t < r then map_option (set_cap v) (agg_profile g t) else agg_profile g t)"
    by simp_all
qed

text \<open>The middle part of an opened range holds exactly the points in force during the range.\<close>

lemma range_open_points:
  assumes inv: "index_inv a b g" and lr: "l < r"
    and g': "g' = ensureBoundary r (ensureBoundary l g)"
    and x: "split (agg_ratio g) (agg_root g') r = (x, z)"
    and c: "split (agg_ratio g) x l = (c, mid)"
  shows "agg_points l r g = sg_point ` set (flat mid)"
proof -
  note op = range_open [OF inv lr g' x c]
  have line: "chain a (flat (agg_root g)) b" using inv by (simp add: index_inv_def)
  note line1 = chain_cut [OF line, of l]
  let ?xs = "cut r (cut l (flat (agg_root g)))"
  have "agg_points l r g = range_points l r ?xs" by (simp add: agg_points_def)
  also have "\<dots> = sg_point ` {s \<in> set ?xs. l \<le> sg_start s \<and> sg_start s < r}"
    using no_straddle_cut_other [OF no_straddle_cut [OF line]] no_straddle_cut [OF line1]
    by (intro range_points_segments [OF chain_cut [OF line1]])
  also have "{s \<in> set ?xs. l \<le> sg_start s \<and> sg_start s < r} = set (flat mid)"
    unfolding op(1) using op(2,3,4) by (force simp: starts_def)
  finally show ?thesis .
qed

lemma case_tree_value:
  "(case t of Leaf \<Rightarrow> a | Node _ y _ \<Rightarrow> f y) = (if t = Leaf then a else f (tree.value t))"
  by (cases t) simp_all

lemma agg_ok_value: "agg_ok {} bp t \<Longrightarrow> t \<noteq> Leaf \<Longrightarrow> agg_vals bp (tree.value t) (flat t)"
  by (cases t) simp_all

lemma minSlack_correct:
  assumes "index_inv a b g"
  shows "index_inv a b (snd (minSlack l r hard g))"
    and "agg_profile (snd (minSlack l r hard g)) t = agg_profile g t"
    and "fst (minSlack l r hard g) =
      min_over (if hard then slackH else slackS (agg_ratio g)) (agg_points l r g)"
proof -
  let ?m = "minSlack l r hard g"
  have "index_inv a b (snd ?m) \<and> agg_profile (snd ?m) t = agg_profile g t \<and>
    fst ?m = min_over (if hard then slackH else slackS (agg_ratio g)) (agg_points l r g)"
  proof (cases "agg_root g = Leaf \<or> r \<le> l")
    case True
    then have "agg_points l r g = {}"
      by (auto simp: agg_points_def range_points_def)
    with True assms show ?thesis by (auto simp: minSlack_def min_over_def)
  next
    case False
    define g' where "g' = ensureBoundary r (ensureBoundary l g)"
    obtain x z where x: "split (agg_ratio g) (agg_root g') r = (x, z)"
      by (cases "split (agg_ratio g) (agg_root g') r")
    obtain c mid where c: "split (agg_ratio g) x l = (c, mid)"
      by (cases "split (agg_ratio g) x l")
    have h: "snd ?m = g'\<lparr>agg_root := mergeRec (agg_ratio g) (mergeRec (agg_ratio g) c mid) z\<rparr>"
      and v: "fst ?m = (case mid of Leaf \<Rightarrow> INT64_MAX
                         | Node _ y _ \<Rightarrow> if hard then minHard y else minSoft y)"
      using False x c by (simp_all add: minSlack_def g'_def Let_def)
    have lr: "l < r" using False by simp
    have ok: "agg_ok {} (agg_ratio g) mid"
      by (rule range_open(6) [OF assms lr g'_def x c])
    have unchanged: "flat mid = map (on_point id) (flat mid)" by simp
    have "fst ?m = min_over (if hard then slackH else slackS (agg_ratio g)) (agg_points l r g)"
      unfolding v range_open_points [OF assms lr g'_def x c]
      using agg_ok_value [OF ok]
      by (simp add: case_tree_value min_over_def agg_vals_def image_comp)
    with range_operation [OF assms lr g'_def x c unchanged ok h] show ?thesis
      by (simp add: option.map_id)
  qed
  then show "index_inv a b (snd ?m)" "agg_profile (snd ?m) t = agg_profile g t"
    "fst ?m = min_over (if hard then slackH else slackS (agg_ratio g)) (agg_points l r g)"
    by simp_all
qed

lemma maxContrib_correct:
  assumes "index_inv a b g"
  shows "index_inv a b (snd (maxContrib l r hard g))"
    and "agg_profile (snd (maxContrib l r hard g)) t = agg_profile g t"
    and "fst (maxContrib l r hard g) =
      max_over (if hard then combH else combS) (agg_points l r g)"
proof -
  let ?m = "maxContrib l r hard g"
  have "index_inv a b (snd ?m) \<and> agg_profile (snd ?m) t = agg_profile g t \<and>
    fst ?m = max_over (if hard then combH else combS) (agg_points l r g)"
  proof (cases "agg_root g = Leaf \<or> r \<le> l")
    case True
    then have "agg_points l r g = {}"
      by (auto simp: agg_points_def range_points_def)
    with True assms show ?thesis by (auto simp: maxContrib_def max_over_def)
  next
    case False
    define g' where "g' = ensureBoundary r (ensureBoundary l g)"
    obtain x z where x: "split (agg_ratio g) (agg_root g') r = (x, z)"
      by (cases "split (agg_ratio g) (agg_root g') r")
    obtain c mid where c: "split (agg_ratio g) x l = (c, mid)"
      by (cases "split (agg_ratio g) x l")
    have h: "snd ?m = g'\<lparr>agg_root := mergeRec (agg_ratio g) (mergeRec (agg_ratio g) c mid) z\<rparr>"
      and v: "fst ?m = (case mid of Leaf \<Rightarrow> 0
                         | Node _ y _ \<Rightarrow> if hard then maxCbH y else maxCbS y)"
      using False x c by (simp_all add: maxContrib_def g'_def Let_def)
    have lr: "l < r" using False by simp
    have ok: "agg_ok {} (agg_ratio g) mid"
      by (rule range_open(6) [OF assms lr g'_def x c])
    have unchanged: "flat mid = map (on_point id) (flat mid)" by simp
    have "fst ?m = max_over (if hard then combH else combS) (agg_points l r g)"
      unfolding v range_open_points [OF assms lr g'_def x c]
      using agg_ok_value [OF ok]
      by (simp add: case_tree_value max_over_def agg_vals_def image_comp)
    with range_operation [OF assms lr g'_def x c unchanged ok h] show ?thesis
      by (simp add: option.map_id)
  qed
  then show "index_inv a b (snd ?m)" "agg_profile (snd ?m) t = agg_profile g t"
    "fst ?m = max_over (if hard then combH else combS) (agg_points l r g)"
    by simp_all
qed

section \<open>Initialisation\<close>

lemma agg_initialize_correct:
  assumes "agg_initialize origin horizon cap g = Inr (True, g')" "0 < dur_ns horizon"
  shows "index_inv (inst_ns origin) (inst_ns origin + dur_ns horizon) g'"
    and "agg_ratio g' = agg_ratio g"
    and "agg_profile g' t =
      (if inst_ns origin \<le> t \<and> t < inst_ns origin + dur_ns horizon
       then Some \<lparr>pt_hard = 0, pt_soft = 0, pt_held = 0, pt_cap = cap\<rparr> else None)"
proof -
  from assms have g': "g' = g\<lparr>agg_pool := 1,
      agg_root := pull (agg_ratio g) (createCell (inst_ns origin)
        (inst_ns origin + dur_ns horizon) 0 0 0 cap)\<rparr>"
    by (auto simp: agg_initialize_def Let_def bind_outcome_Inr_iff ub_i64_def dur_isZero_def
             split: if_splits)
  then show "agg_ratio g' = agg_ratio g" by simp
  show "index_inv (inst_ns origin) (inst_ns origin + dur_ns horizon) g'"
    using assms(2) by (simp add: g' index_inv_def agg_ok_pulled_createCell)
  show "agg_profile g' t =
      (if inst_ns origin \<le> t \<and> t < inst_ns origin + dur_ns horizon
       then Some \<lparr>pt_hard = 0, pt_soft = 0, pt_held = 0, pt_cap = cap\<rparr> else None)"
    by (simp add: g' agg_profile_def profile_Cons covers_def)
qed

end
