(* ===== verification/RF_Capacity_Contract.thy ===== *)
theory RF_Capacity_Contract
  imports RF_Interval_Correct
begin

text \<open>
  The contract between a capacity index and its clients, as a locale: what a contribution changes,
  what a query returns, and that a query changes nothing a client can observe. The clients' lemmas
  are proved once here; the interval treap and the capacity envelope are its two models.
\<close>

definition in_window :: "Interval \<Rightarrow> int \<Rightarrow> bool" where
  "in_window i t \<longleftrightarrow> inst_ns (iv_start i) \<le> t \<and> t < inst_ns (iv_end i)"

lemma in_window_iv_contains: "in_window i t \<longleftrightarrow> iv_contains i (Instant t)"
  by (simp add: in_window_def iv_contains_ns)

definition window_points :: "(int \<Rightarrow> point option) \<Rightarrow> Interval \<Rightarrow> point set" where
  "window_points P i = {p. \<exists>t. in_window i t \<and> P t = Some p}"

definition update_window ::
    "Interval \<Rightarrow> (point \<Rightarrow> point) \<Rightarrow> (int \<Rightarrow> point option) \<Rightarrow> int \<Rightarrow> point option" where
  "update_window i f P t = (if in_window i t then map_option f (P t) else P t)"

locale capacity_index =
  fixes prof :: "'e \<Rightarrow> int \<Rightarrow> point option"
    and inv :: "'e \<Rightarrow> bool"
    and bp :: "'e \<Rightarrow> int"
    and hard_add :: "Interval \<Rightarrow> int \<Rightarrow> 'e \<Rightarrow> 'e"
    and soft_add :: "Interval \<Rightarrow> int \<Rightarrow> 'e \<Rightarrow> 'e"
    and held_add :: "Interval \<Rightarrow> int \<Rightarrow> 'e \<Rightarrow> 'e"
    and cap_put :: "Interval \<Rightarrow> int \<Rightarrow> 'e \<Rightarrow> 'e"
    and hard_min :: "Interval \<Rightarrow> 'e \<Rightarrow> int \<times> 'e"
    and soft_min :: "Interval \<Rightarrow> 'e \<Rightarrow> int \<times> 'e"
    and hard_max :: "Interval \<Rightarrow> 'e \<Rightarrow> int \<times> 'e"
  assumes inv_hard_add: "inv e \<Longrightarrow> inv (hard_add i d e)"
    and inv_soft_add: "inv e \<Longrightarrow> inv (soft_add i d e)"
    and inv_held_add: "inv e \<Longrightarrow> inv (held_add i d e)"
    and inv_cap_put: "inv e \<Longrightarrow> inv (cap_put i d e)"
    and inv_hard_min: "inv e \<Longrightarrow> inv (snd (hard_min i e))"
    and inv_soft_min: "inv e \<Longrightarrow> inv (snd (soft_min i e))"
    and inv_hard_max: "inv e \<Longrightarrow> inv (snd (hard_max i e))"
    and finite_points: "inv e \<Longrightarrow> finite (window_points (prof e) i)"
    and prof_hard_add: "inv e \<Longrightarrow> prof (hard_add i d e) = update_window i (add_hard d) (prof e)"
    and prof_soft_add: "inv e \<Longrightarrow> prof (soft_add i d e) = update_window i (add_soft d) (prof e)"
    and prof_held_add: "inv e \<Longrightarrow> prof (held_add i d e) = update_window i (add_held d) (prof e)"
    and prof_cap_put: "inv e \<Longrightarrow> prof (cap_put i d e) = update_window i (set_cap d) (prof e)"
    and prof_hard_min: "inv e \<Longrightarrow> prof (snd (hard_min i e)) = prof e"
    and prof_soft_min: "inv e \<Longrightarrow> prof (snd (soft_min i e)) = prof e"
    and prof_hard_max: "inv e \<Longrightarrow> prof (snd (hard_max i e)) = prof e"
    and bp_hard_add: "bp (hard_add i d e) = bp e"
    and bp_soft_add: "bp (soft_add i d e) = bp e"
    and bp_held_add: "bp (held_add i d e) = bp e"
    and bp_cap_put: "bp (cap_put i d e) = bp e"
    and bp_hard_min: "bp (snd (hard_min i e)) = bp e"
    and bp_soft_min: "bp (snd (soft_min i e)) = bp e"
    and bp_hard_max: "bp (snd (hard_max i e)) = bp e"
    and hard_min_value: "inv e \<Longrightarrow> fst (hard_min i e) = min_over slackH (window_points (prof e) i)"
    and soft_min_value:
      "inv e \<Longrightarrow> fst (soft_min i e) = min_over (slackS (bp e)) (window_points (prof e) i)"
    and hard_max_value: "inv e \<Longrightarrow> fst (hard_max i e) = max_over combH (window_points (prof e) i)"
begin

lemmas inv_laws = inv_hard_add inv_soft_add inv_held_add inv_cap_put inv_hard_min inv_soft_min
  inv_hard_max

lemmas prof_laws = prof_hard_add prof_soft_add prof_held_add prof_cap_put prof_hard_min
  prof_soft_min prof_hard_max

lemmas bp_laws = bp_hard_add bp_soft_add bp_held_add bp_cap_put bp_hard_min bp_soft_min bp_hard_max

text \<open>A contribution that is added and removed leaves no trace.\<close>

lemma hard_add_cancel: "inv e \<Longrightarrow> prof (hard_add i (- d) (hard_add i d e)) = prof e"
  by (rule ext)
     (simp add: prof_laws inv_laws update_window_def add_hard_def option.map_comp comp_def
        option.map_ident)

lemma soft_add_cancel: "inv e \<Longrightarrow> prof (soft_add i (- d) (soft_add i d e)) = prof e"
  by (rule ext)
     (simp add: prof_laws inv_laws update_window_def add_soft_def option.map_comp comp_def
        option.map_ident)

lemma held_add_cancel: "inv e \<Longrightarrow> prof (held_add i (- d) (held_add i d e)) = prof e"
  by (rule ext)
     (simp add: prof_laws inv_laws update_window_def add_held_def option.map_comp comp_def
        option.map_ident)

text \<open>The order of contributions does not matter.\<close>

lemma hard_add_commute:
  "inv e \<Longrightarrow> prof (hard_add i d (hard_add j k e)) = prof (hard_add j k (hard_add i d e))"
  by (rule ext)
     (simp add: prof_laws inv_laws update_window_def add_hard_def option.map_comp comp_def
        ac_simps)

text \<open>A query bounds the slack at every instant of its window and reaches it somewhere.\<close>

lemma hard_min_le:
  assumes "inv e" "in_window i t" "prof e t = Some p"
  shows "fst (hard_min i e) \<le> slackH p"
proof -
  have "p \<in> window_points (prof e) i" using assms by (auto simp: window_points_def)
  with assms(1) finite_points [of e i] show ?thesis
    by (auto simp: hard_min_value min_over_def intro: Min_le)
qed

lemma soft_min_le:
  assumes "inv e" "in_window i t" "prof e t = Some p"
  shows "fst (soft_min i e) \<le> slackS (bp e) p"
proof -
  have "p \<in> window_points (prof e) i" using assms by (auto simp: window_points_def)
  with assms(1) finite_points [of e i] show ?thesis
    by (auto simp: soft_min_value min_over_def intro: Min_le)
qed

lemma hard_min_attained:
  assumes "inv e" "in_window i t0" "prof e t0 \<noteq> None"
  shows "\<exists>t p. in_window i t \<and> prof e t = Some p \<and> fst (hard_min i e) = slackH p"
proof -
  let ?P = "window_points (prof e) i"
  have "?P \<noteq> {}" using assms by (auto simp: window_points_def)
  moreover have "finite ?P" using assms(1) by (rule finite_points)
  ultimately have "Min (slackH ` ?P) \<in> slackH ` ?P" by (intro Min_in) auto
  with \<open>?P \<noteq> {}\<close> assms(1) show ?thesis
    by (auto simp: hard_min_value min_over_def window_points_def)
qed

text \<open>A window without any instant of the line has unlimited headroom.\<close>

lemma hard_min_outside:
  assumes "inv e" "\<And>t. in_window i t \<Longrightarrow> prof e t = None"
  shows "fst (hard_min i e) = INT64_MAX"
  using assms by (auto simp: hard_min_value min_over_def window_points_def)

text \<open>Admission within the headroom keeps the slack of the window non-negative.\<close>

lemma hard_admission:
  assumes "inv e" "q \<le> fst (hard_min i e)"
    and "in_window i t" "prof (hard_add i q e) t = Some p"
  shows "0 \<le> slackH p"
proof -
  from assms obtain p0 where p0: "prof e t = Some p0" "p = add_hard q p0"
    by (auto simp: prof_hard_add update_window_def)
  with assms hard_min_le [of e i t p0] show ?thesis
    by (simp add: add_hard_def slackH_def)
qed

lemma held_admission:
  assumes "inv e" "q \<le> fst (hard_min i e)"
    and "in_window i t" "prof (held_add i q e) t = Some p"
  shows "0 \<le> slackH p"
proof -
  from assms obtain p0 where p0: "prof e t = Some p0" "p = add_held q p0"
    by (auto simp: prof_held_add update_window_def)
  with assms hard_min_le [of e i t p0] show ?thesis
    by (simp add: add_held_def slackH_def)
qed

end

section \<open>The interval treap satisfies the contract\<close>

lemma agg_points_window:
  "agg_points (inst_ns (iv_start i)) (inst_ns (iv_end i)) g = window_points (agg_profile g) i"
  by (auto simp: agg_points_def range_points_def window_points_def in_window_def agg_profile_def)

lemma finite_agg_points: "agg_inv g \<Longrightarrow> finite (agg_points l r g)"
proof -
  have "agg_points l r g \<subseteq> sg_point ` set (flat (agg_root g))"
    by (auto simp: agg_points_def range_points_def dest: profile_Some_segment)
  then show ?thesis by (rule finite_subset) simp
qed

lemma agg_invI: "index_inv a b g \<Longrightarrow> agg_inv g"
  by (auto simp: agg_inv_def)

lemma agg_contribution_correct:
  assumes "agg_inv g"
  shows "agg_inv (agg_addCommittedHard (iv_start i) (iv_end i) d g)"
    and "agg_inv (agg_addCommittedSoft (iv_start i) (iv_end i) d g)"
    and "agg_inv (agg_addHeld (iv_start i) (iv_end i) d g)"
    and "agg_inv (agg_setCapacity (iv_start i) (iv_end i) d g)"
    and "agg_profile (agg_addCommittedHard (iv_start i) (iv_end i) d g) =
           update_window i (add_hard d) (agg_profile g)"
    and "agg_profile (agg_addCommittedSoft (iv_start i) (iv_end i) d g) =
           update_window i (add_soft d) (agg_profile g)"
    and "agg_profile (agg_addHeld (iv_start i) (iv_end i) d g) =
           update_window i (add_held d) (agg_profile g)"
    and "agg_profile (agg_setCapacity (iv_start i) (iv_end i) d g) =
           update_window i (set_cap d) (agg_profile g)"
proof -
  obtain a b where inv: "index_inv a b g" using assms by (auto simp: agg_inv_def)
  have ids: "add_held 0 = id" "add_soft 0 = id" "add_hard 0 = id" by (rule ext, simp)+
  note add = rangeAdd_correct [OF inv] and set = rangeSet_correct [OF inv]
  show "agg_inv (agg_addCommittedHard (iv_start i) (iv_end i) d g)"
    "agg_inv (agg_addCommittedSoft (iv_start i) (iv_end i) d g)"
    "agg_inv (agg_addHeld (iv_start i) (iv_end i) d g)"
    "agg_inv (agg_setCapacity (iv_start i) (iv_end i) d g)"
    by (simp_all add: agg_addCommittedHard_def agg_addCommittedSoft_def agg_addHeld_def
        agg_setCapacity_def agg_invI [OF add(1)] agg_invI [OF set(1)] assms)
  show "agg_profile (agg_addCommittedHard (iv_start i) (iv_end i) d g) =
           update_window i (add_hard d) (agg_profile g)"
    by (rule ext) (simp add: agg_addCommittedHard_def add(2) update_window_def in_window_def ids
        option.map_id)
  show "agg_profile (agg_addCommittedSoft (iv_start i) (iv_end i) d g) =
           update_window i (add_soft d) (agg_profile g)"
    by (rule ext) (simp add: agg_addCommittedSoft_def add(2) update_window_def in_window_def ids
        option.map_id)
  show "agg_profile (agg_addHeld (iv_start i) (iv_end i) d g) =
           update_window i (add_held d) (agg_profile g)"
    by (rule ext) (simp add: agg_addHeld_def add(2) update_window_def in_window_def ids
        option.map_id)
  show "agg_profile (agg_setCapacity (iv_start i) (iv_end i) d g) =
           update_window i (set_cap d) (agg_profile g)"
    by (rule ext) (simp add: agg_setCapacity_def set(2) update_window_def in_window_def)
qed

lemma agg_query_correct:
  assumes "agg_inv g"
  shows "agg_inv (snd (agg_minHard (iv_start i) (iv_end i) g))"
    and "agg_inv (snd (agg_minSoft (iv_start i) (iv_end i) g))"
    and "agg_inv (snd (agg_maxCombinedHard (iv_start i) (iv_end i) g))"
    and "agg_profile (snd (agg_minHard (iv_start i) (iv_end i) g)) = agg_profile g"
    and "agg_profile (snd (agg_minSoft (iv_start i) (iv_end i) g)) = agg_profile g"
    and "agg_profile (snd (agg_maxCombinedHard (iv_start i) (iv_end i) g)) = agg_profile g"
    and "fst (agg_minHard (iv_start i) (iv_end i) g) =
           min_over slackH (window_points (agg_profile g) i)"
    and "fst (agg_minSoft (iv_start i) (iv_end i) g) =
           min_over (slackS (agg_ratio g)) (window_points (agg_profile g) i)"
    and "fst (agg_maxCombinedHard (iv_start i) (iv_end i) g) =
           max_over combH (window_points (agg_profile g) i)"
proof -
  obtain a b where inv: "index_inv a b g" using assms by (auto simp: agg_inv_def)
  note min = minSlack_correct [OF inv] and max = maxContrib_correct [OF inv]
  show "agg_inv (snd (agg_minHard (iv_start i) (iv_end i) g))"
    "agg_inv (snd (agg_minSoft (iv_start i) (iv_end i) g))"
    "agg_inv (snd (agg_maxCombinedHard (iv_start i) (iv_end i) g))"
    by (simp_all add: agg_minHard_def agg_minSoft_def agg_maxCombinedHard_def
        agg_invI [OF min(1)] agg_invI [OF max(1)])
  show "agg_profile (snd (agg_minHard (iv_start i) (iv_end i) g)) = agg_profile g"
    "agg_profile (snd (agg_minSoft (iv_start i) (iv_end i) g)) = agg_profile g"
    "agg_profile (snd (agg_maxCombinedHard (iv_start i) (iv_end i) g)) = agg_profile g"
    by (rule ext, simp add: agg_minHard_def agg_minSoft_def agg_maxCombinedHard_def min(2) max(2))+
  show "fst (agg_minHard (iv_start i) (iv_end i) g) =
           min_over slackH (window_points (agg_profile g) i)"
    "fst (agg_minSoft (iv_start i) (iv_end i) g) =
           min_over (slackS (agg_ratio g)) (window_points (agg_profile g) i)"
    "fst (agg_maxCombinedHard (iv_start i) (iv_end i) g) =
           max_over combH (window_points (agg_profile g) i)"
    by (simp_all add: agg_minHard_def agg_minSoft_def agg_maxCombinedHard_def min(3) max(3)
        agg_points_window)
qed

lemma agg_ratio_op [simp]:
  "agg_ratio (agg_addCommittedHard l r d g) = agg_ratio g"
  "agg_ratio (agg_addCommittedSoft l r d g) = agg_ratio g"
  "agg_ratio (agg_addHeld l r d g) = agg_ratio g"
  "agg_ratio (agg_setCapacity l r d g) = agg_ratio g"
  "agg_ratio (snd (agg_minHard l r g)) = agg_ratio g"
  "agg_ratio (snd (agg_minSoft l r g)) = agg_ratio g"
  "agg_ratio (snd (agg_maxCombinedHard l r g)) = agg_ratio g"
  "agg_ratio (snd (agg_maxCombinedSoft l r g)) = agg_ratio g"
  by (simp_all add: agg_addCommittedHard_def agg_addCommittedSoft_def agg_addHeld_def
      agg_setCapacity_def agg_minHard_def agg_minSoft_def agg_maxCombinedHard_def
      agg_maxCombinedSoft_def)

interpretation treap_index: capacity_index
  where prof = agg_profile and inv = agg_inv and bp = agg_ratio
    and hard_add = "\<lambda>i. agg_addCommittedHard (iv_start i) (iv_end i)"
    and soft_add = "\<lambda>i. agg_addCommittedSoft (iv_start i) (iv_end i)"
    and held_add = "\<lambda>i. agg_addHeld (iv_start i) (iv_end i)"
    and cap_put = "\<lambda>i. agg_setCapacity (iv_start i) (iv_end i)"
    and hard_min = "\<lambda>i. agg_minHard (iv_start i) (iv_end i)"
    and soft_min = "\<lambda>i. agg_minSoft (iv_start i) (iv_end i)"
    and hard_max = "\<lambda>i. agg_maxCombinedHard (iv_start i) (iv_end i)"
  by unfold_locales
     (simp_all add: agg_contribution_correct agg_query_correct agg_ratio_op finite_agg_points
        flip: agg_points_window)

end
