(* ===== verification/RF_Interval_Props.thy ===== *)
theory RF_Interval_Props
  imports RF_Capacity_Contract
begin

text \<open>
  What a client of the interval index sees after any sequence of operations: the line is the sum of
  the deltas, queries included, and every query is exact on that sum. Beside it the shape
  of the treap (search order, heap order, keyed priorities), the growth of the node vector, and the
  exactness of the overflow test behind the effective capacity.
\<close>

section \<open>Sequences of index operations\<close>

datatype index_op =
    AddCommittedHard Interval int
  | AddCommittedSoft Interval int
  | AddHeld Interval int
  | SetCapacity Interval int
  | QueryMinHard Interval
  | QueryMinSoft Interval
  | QueryMaxHard Interval
  | QueryMaxSoft Interval

fun index_step :: "index_op \<Rightarrow> IntervalAggregator \<Rightarrow> IntervalAggregator" where
  "index_step (AddCommittedHard i d) g = agg_addCommittedHard (iv_start i) (iv_end i) d g"
| "index_step (AddCommittedSoft i d) g = agg_addCommittedSoft (iv_start i) (iv_end i) d g"
| "index_step (AddHeld i d) g = agg_addHeld (iv_start i) (iv_end i) d g"
| "index_step (SetCapacity i v) g = agg_setCapacity (iv_start i) (iv_end i) v g"
| "index_step (QueryMinHard i) g = snd (agg_minHard (iv_start i) (iv_end i) g)"
| "index_step (QueryMinSoft i) g = snd (agg_minSoft (iv_start i) (iv_end i) g)"
| "index_step (QueryMaxHard i) g = snd (agg_maxCombinedHard (iv_start i) (iv_end i) g)"
| "index_step (QueryMaxSoft i) g = snd (agg_maxCombinedSoft (iv_start i) (iv_end i) g)"

definition index_run :: "index_op list \<Rightarrow> IntervalAggregator \<Rightarrow> IntervalAggregator" where
  "index_run ops g = fold index_step ops g"

text \<open>The reference: the total of the deltas whose window contains the instant.\<close>

fun op_hard :: "int \<Rightarrow> index_op \<Rightarrow> int" where
  "op_hard t (AddCommittedHard i d) = (if in_window i t then d else 0)"
| "op_hard t _ = 0"

fun op_soft :: "int \<Rightarrow> index_op \<Rightarrow> int" where
  "op_soft t (AddCommittedSoft i d) = (if in_window i t then d else 0)"
| "op_soft t _ = 0"

fun op_held :: "int \<Rightarrow> index_op \<Rightarrow> int" where
  "op_held t (AddHeld i d) = (if in_window i t then d else 0)"
| "op_held t _ = 0"

fun op_cap :: "int \<Rightarrow> index_op \<Rightarrow> int \<Rightarrow> int" where
  "op_cap t (SetCapacity i v) c = (if in_window i t then v else c)"
| "op_cap t _ c = c"

definition reference_point :: "int \<Rightarrow> index_op list \<Rightarrow> int \<Rightarrow> point" where
  "reference_point cap ops t =
     \<lparr>pt_hard = sum_list (map (op_hard t) ops), pt_soft = sum_list (map (op_soft t) ops),
      pt_held = sum_list (map (op_held t) ops), pt_cap = fold (op_cap t) ops cap\<rparr>"

definition reference_line ::
    "Instant \<Rightarrow> Duration \<Rightarrow> int \<Rightarrow> index_op list \<Rightarrow> int \<Rightarrow> point option" where
  "reference_line origin horizon cap ops t =
     (if inst_ns origin \<le> t \<and> t < inst_ns origin + dur_ns horizon
      then Some (reference_point cap ops t) else None)"

lemma maxSoft_unchanged:
  "agg_inv g \<Longrightarrow> agg_inv (snd (agg_maxCombinedSoft s e g)) \<and>
   agg_profile (snd (agg_maxCombinedSoft s e g)) = agg_profile g"
  by (auto simp: agg_maxCombinedSoft_def agg_inv_def maxContrib_correct intro!: ext
      dest: maxContrib_correct(1))

lemma index_step_inv: "agg_inv g \<Longrightarrow> agg_inv (index_step x g)"
  by (cases x) (simp_all add: treap_index.inv_laws maxSoft_unchanged)

lemma index_run_inv: "agg_inv g \<Longrightarrow> agg_inv (index_run ops g)"
  unfolding index_run_def by (induction ops arbitrary: g) (simp_all add: index_step_inv)

lemma index_step_ratio [simp]: "agg_ratio (index_step x g) = agg_ratio g"
  by (cases x) simp_all

lemma index_run_ratio [simp]: "agg_ratio (index_run ops g) = agg_ratio g"
  unfolding index_run_def by (induction ops arbitrary: g) simp_all

definition op_point :: "int \<Rightarrow> index_op \<Rightarrow> point \<Rightarrow> point" where
  "op_point t x p =
     \<lparr>pt_hard = pt_hard p + op_hard t x, pt_soft = pt_soft p + op_soft t x,
      pt_held = pt_held p + op_held t x, pt_cap = op_cap t x (pt_cap p)\<rparr>"

lemma index_step_profile:
  "agg_inv g \<Longrightarrow> agg_profile (index_step x g) t = map_option (op_point t x) (agg_profile g t)"
  by (cases x; cases "agg_profile g t")
     (simp_all add: treap_index.prof_laws maxSoft_unchanged update_window_def op_point_def
        add_hard_def add_soft_def add_held_def set_cap_def)

lemma index_run_profile:
  assumes "agg_inv g" "agg_profile g t = Some (reference_point cap xs t)"
  shows "agg_profile (index_run ops g) t = Some (reference_point cap (xs @ ops) t)"
  using assms unfolding index_run_def
proof (induction ops arbitrary: g xs)
  case (Cons x ops)
  have "op_point t x (reference_point cap xs t) = reference_point cap (xs @ [x]) t"
    by (simp add: op_point_def reference_point_def)
  then have "agg_profile (index_step x g) t = Some (reference_point cap (xs @ [x]) t)"
    using Cons.prems by (simp add: index_step_profile)
  from Cons.IH [OF index_step_inv [OF Cons.prems(1)] this] show ?case by simp
qed simp

lemma index_run_outside:
  "agg_inv g \<Longrightarrow> agg_profile g t = None \<Longrightarrow> agg_profile (index_run ops g) t = None"
  unfolding index_run_def
  by (induction ops arbitrary: g) (simp_all add: index_step_inv index_step_profile)

text \<open>The index after initialisation and any operations is the reference line.\<close>

lemma index_run_line:
  assumes "agg_initialize origin horizon cap (mk_IntervalAggregator bp) = Inr (True, g)"
    and "0 < dur_ns horizon"
  shows "agg_inv (index_run ops g)" "agg_ratio (index_run ops g) = bp"
    and "agg_profile (index_run ops g) = reference_line origin horizon cap ops"
proof -
  note init = agg_initialize_correct [OF assms]
  then have inv: "agg_inv g" by (auto simp: agg_inv_def)
  then show "agg_inv (index_run ops g)" by (rule index_run_inv)
  show "agg_ratio (index_run ops g) = bp"
    using init(2) by (simp add: mk_IntervalAggregator_def)
  show "agg_profile (index_run ops g) = reference_line origin horizon cap ops"
  proof
    fix t
    show "agg_profile (index_run ops g) t = reference_line origin horizon cap ops t"
      using index_run_profile [OF inv, of t cap "[]" ops] index_run_outside [OF inv, of t ops]
      by (cases "inst_ns origin \<le> t \<and> t < inst_ns origin + dur_ns horizon")
         (simp_all add: init(3) reference_line_def reference_point_def)
  qed
qed



section \<open>Shape of the treap\<close>

text \<open>No child has a greater priority than its parent, and a priority is a function of the key.\<close>

fun heap_ordered :: "treap \<Rightarrow> bool" where
  "heap_ordered Leaf = True"
| "heap_ordered (Node l x r) \<longleftrightarrow>
     heap_ordered l \<and> heap_ordered r \<and>
     (\<forall>y\<in>set_tree l. prio y \<le> prio x) \<and> (\<forall>y\<in>set_tree r. prio y \<le> prio x)"

definition keyed :: "cell \<Rightarrow> bool" where
  "keyed y \<longleftrightarrow> prio y = det_prio (word_of_int (cl_start y))"

lemma keyed_cong: "cl_start x = cl_start y \<Longrightarrow> prio x = prio y \<Longrightarrow> keyed x = keyed y"
  by (simp add: keyed_def)

definition prio_keyed :: "treap \<Rightarrow> bool" where
  "prio_keyed t \<longleftrightarrow> (\<forall>y\<in>set_tree t. keyed y)"

definition shape :: "treap \<Rightarrow> bool" where
  "shape t \<longleftrightarrow> heap_ordered t \<and> prio_keyed t"

text \<open>What the updates of a subtree may change: nothing of the starts and priorities.\<close>

definition keys :: "treap \<Rightarrow> (int \<times> u32) set" where
  "keys t = (\<lambda>y. (cl_start y, prio y)) ` set_tree t"

definition below :: "(int \<times> u32) set \<Rightarrow> u32 \<Rightarrow> bool" where
  "below K p \<longleftrightarrow> (\<forall>k\<in>K. snd k \<le> p)"

lemma below_simps [simp]:
  "below {} p" "below (insert k K) p \<longleftrightarrow> snd k \<le> p \<and> below K p"
  "below (K \<union> L) p \<longleftrightarrow> below K p \<and> below L p"
  by (auto simp: below_def)

lemma below_subset: "below K p \<Longrightarrow> L \<subseteq> K \<Longrightarrow> below L p"
  by (auto simp: below_def)

lemma below_trans: "below K p \<Longrightarrow> p \<le> q \<Longrightarrow> below K q"
  by (force simp: below_def)

lemma shape_Node:
  "shape (Node l x r) \<longleftrightarrow> shape l \<and> shape r \<and> keyed x \<and>
   below (keys l) (prio x) \<and> below (keys r) (prio x)"
  by (auto simp: shape_def prio_keyed_def keys_def below_def)

lemma shape_Leaf [simp]: "shape Leaf"
  by (simp add: shape_def prio_keyed_def)

lemma keys_Node [simp]:
  "keys Leaf = {}" "keys (Node l x r) = insert (cl_start x, prio x) (keys l \<union> keys r)"
  by (auto simp: keys_def)

lemma keyed_update [simp]:
  "keyed (x\<lparr>committedHard := a, minHard := b, minSoft := c, maxCbH := d, maxCbS := e, addH := f\<rparr>) = keyed x"
  "keyed (x\<lparr>committedSoft := a, minSoft := c, maxCbS := e, addS := f\<rparr>) = keyed x"
  "keyed (x\<lparr>held := a, minHard := b, minSoft := c, maxCbH := d, maxCbS := e, addHeld := f\<rparr>) = keyed x"
  "keyed (x\<lparr>capacity := a, minHard := b, minSoft := c, hasSet := h, setCap := f\<rparr>) = keyed x"
  by (simp_all add: keyed_def)

lemma keys_apply [simp]:
  "keys (applyAddH d t) = keys t" "keys (applyAddS d t) = keys t"
  "keys (applyAddHeld d t) = keys t" "keys (applySetCap bp d t) = keys t"
  by (cases t; simp)+

lemma shape_apply [simp]:
  "shape (applyAddH d t) = shape t" "shape (applyAddS d t) = shape t"
  "shape (applyAddHeld d t) = shape t" "shape (applySetCap bp d t) = shape t"
  by (cases t; simp add: shape_Node)+

lemma keys_pushed [simp]: "keys (pushed bp x t) = keys t"
  by (simp add: pushed_def Let_def)

lemma shape_pushed [simp]: "shape (pushed bp x t) = shape t"
  by (simp add: pushed_def Let_def)

lemma cleared_key [simp]:
  "cl_start (cleared x) = cl_start x" "prio (cleared x) = prio x" "keyed (cleared x) = keyed x"
  by (simp_all add: cleared_def keyed_def)

lemma pull_Node:
  obtains y where "pull bp (Node l x r) = Node l y r" "cl_start y = cl_start x"
    "prio y = prio x" "keyed y = keyed x"
  by (rule that [of "tree.value (pull bp (Node l x r))"])
     (simp_all add: pull.simps Let_def keyed_def split: prod.splits)

lemma keys_pull [simp]: "keys (pull bp t) = keys t"
proof (cases t)
  case (Node l x r)
  then show ?thesis by (cases rule: pull_Node [of bp l x r]) simp
qed simp

lemma shape_pull [simp]: "shape (pull bp t) = shape t"
proof (cases t)
  case (Node l x r)
  then show ?thesis by (cases rule: pull_Node [of bp l x r]) (simp add: shape_Node)
qed simp

lemma size_pull [simp]: "size (pull bp t) = size t"
proof (cases t)
  case (Node l x r)
  then show ?thesis by (cases rule: pull_Node [of bp l x r]) simp
qed simp

lemma keys_mergeRec [simp]: "keys (mergeRec bp a b) = keys a \<union> keys b"
  by (induction bp a b rule: mergeRec.induct) auto

lemma size_mergeRec [simp]: "size (mergeRec bp a b) = size a + size b"
  by (induction bp a b rule: mergeRec.induct) auto

lemma shape_mergeRec: "shape a \<Longrightarrow> shape b \<Longrightarrow> shape (mergeRec bp a b)"
proof (induction bp a b rule: mergeRec.induct)
  case (3 bp la xa ra lb xb rb)
  show ?case
  proof (cases "prio xa > prio xb")
    case True
    moreover from True have "prio xb \<le> prio xa" by simp
    ultimately show ?thesis using 3 by (auto simp: shape_Node intro: below_trans)
  next
    case False
    moreover from False have "prio xa \<le> prio xb" by simp
    ultimately show ?thesis using 3 by (auto simp: shape_Node intro: below_trans)
  qed
qed simp_all

lemma keys_split: "split bp t k = (a, b) \<Longrightarrow> keys a \<union> keys b = keys t"
  by (induction bp t k arbitrary: a b rule: split.induct) (fastforce split: if_splits prod.splits)+

lemma size_split: "split bp t k = (a, b) \<Longrightarrow> size a + size b = size t"
  by (induction bp t k arbitrary: a b rule: split.induct) (fastforce split: if_splits prod.splits)+

lemma shape_split: "split bp t k = (a, b) \<Longrightarrow> shape t \<Longrightarrow> shape a \<and> shape b"
proof (induction bp t k arbitrary: a b rule: split.induct)
  case (2 bp l x r k)
  show ?case
  proof (cases "cl_start x < k")
    case True
    obtain nr b' where s: "split bp (pushed bp x r) k = (nr, b')" by fastforce
    have "below (keys nr \<union> keys b') (prio x)"
      unfolding keys_split [OF s] using "2.prems"(2) by (simp add: shape_Node)
    with "2.IH"(1) [OF True s] "2.prems" True s show ?thesis by (auto simp: shape_Node)
  next
    case False
    obtain a' nl where s: "split bp (pushed bp x l) k = (a', nl)" by fastforce
    have "below (keys a' \<union> keys nl) (prio x)"
      unfolding keys_split [OF s] using "2.prems"(2) by (simp add: shape_Node)
    with "2.IH"(2) [OF False s] "2.prems" False s show ?thesis by (auto simp: shape_Node)
  qed
qed simp

lemma pushed_Leaf_iff: "pushed bp x t = Leaf \<longleftrightarrow> t = Leaf"
  by (metis size_pushed eq_size_0)

lemma keys_detachMax: "detachMax bp t = (a, m) \<Longrightarrow> keys a \<subseteq> keys t"
  by (induction bp t arbitrary: a m rule: detachMax.induct)
     (fastforce split: if_splits prod.splits)+

lemma size_detachMax: "detachMax bp t = (a, m) \<Longrightarrow> t \<noteq> Leaf \<Longrightarrow> size a + 1 = size t"
  by (induction bp t arbitrary: a m rule: detachMax.induct)
     (fastforce simp: pushed_Leaf_iff split: if_splits prod.splits)+

lemma shape_detachMax: "detachMax bp t = (a, m) \<Longrightarrow> shape t \<Longrightarrow> shape a"
proof (induction bp t arbitrary: a m rule: detachMax.induct)
  case (2 bp l x r)
  show ?case
  proof (cases "pushed bp x r = Leaf")
    case True
    with 2 show ?thesis by (auto simp: shape_Node)
  next
    case False
    obtain nr m' where s: "detachMax bp (pushed bp x r) = (nr, m')" by fastforce
    have "below (keys nr) (prio x)"
      using "2.prems"(2) keys_detachMax [OF s] by (auto simp: shape_Node intro: below_subset)
    with "2.IH" [OF False s] "2.prems" False s show ?thesis by (auto simp: shape_Node)
  qed
qed simp

lemma shape_createCell [simp]: "shape (createCell s e cH cS hld cap)" "size (createCell s e cH cS hld cap) = 1"
  by (simp_all add: createCell_def shape_Node keyed_def)

text \<open>The node vector grows by two for every cell cut in two; a slot is never given back.\<close>

definition arena_inv :: "IntervalAggregator \<Rightarrow> bool" where
  "arena_inv g \<longleftrightarrow> shape (agg_root g) \<and> agg_root g \<noteq> Leaf \<and> agg_pool g + 1 = 2 * size (agg_root g)"

lemma mergeRec_Leaf_iff: "mergeRec bp x y = Leaf \<longleftrightarrow> x = Leaf \<and> y = Leaf"
  by (metis add_is_0 eq_size_0 size_mergeRec)

lemma arena_ensureBoundary:
  assumes "arena_inv g"
  shows "arena_inv (ensureBoundary k g)"
proof -
  obtain a b where s: "split (agg_ratio g) (agg_root g) k = (a, b)" by fastforce
  have root: "agg_root g \<noteq> Leaf" using assms by (simp add: arena_inv_def)
  have shape: "shape a" "shape b" using shape_split [OF s] assms by (simp_all add: arena_inv_def)
  have size: "size a + size b = size (agg_root g)" by (rule size_split [OF s])
  have ne: "\<not> (a = Leaf \<and> b = Leaf)" using size root by auto
  show ?thesis
  proof (cases "rightmostNode a")
    case None
    then show ?thesis using assms s shape size ne root
      by (simp add: ensureBoundary_def arena_inv_def shape_mergeRec mergeRec_Leaf_iff)
  next
    case (Some c)
    then have a: "a \<noteq> Leaf" by auto
    obtain a' m where d: "detachMax (agg_ratio g) a = (a', m)" by fastforce
    have "size a' + 1 = size a" "shape a'"
      using size_detachMax [OF d a] shape_detachMax [OF d] shape by simp_all
    then show ?thesis using assms s shape size ne root Some d
      by (simp add: ensureBoundary_def arena_inv_def shape_mergeRec mergeRec_Leaf_iff Let_def
          createCell_def shape_Node keyed_def)
  qed
qed

text \<open>Opening a range and closing it again around a middle part of the same shape.\<close>

lemma arena_range:
  assumes "arena_inv g" and g': "g' = ensureBoundary r (ensureBoundary l g)"
    and x: "split (agg_ratio g) (agg_root g') r = (x, z)"
    and c: "split (agg_ratio g) x l = (c, mid)"
    and mid': "size mid' = size mid" "shape mid' = shape mid"
  shows "arena_inv (g'\<lparr>agg_root := mergeRec (agg_ratio g) (mergeRec (agg_ratio g) c mid') z\<rparr>)"
proof -
  have inv: "arena_inv g'" by (simp add: g' arena_ensureBoundary assms(1))
  then have "shape x" "shape z" "shape c" "shape mid"
    using shape_split [OF x] shape_split [OF c] by (simp_all add: arena_inv_def)
  moreover have "size c + size mid + size z = size (agg_root g')"
    using size_split [OF x] size_split [OF c] by simp
  moreover from this have "size c + size mid' + size z \<noteq> 0"
    using inv mid'(1) by (simp add: arena_inv_def)
  ultimately show ?thesis using inv mid'
    by (auto simp: arena_inv_def shape_mergeRec mergeRec_Leaf_iff)
qed

lemma arena_rangeAdd: "arena_inv g \<Longrightarrow> arena_inv (rangeAdd l r dH dS dHeld g)"
  by (auto simp: rangeAdd_def Let_def split: prod.splits intro!: arena_range [OF _ refl])

lemma arena_rangeSet: "arena_inv g \<Longrightarrow> arena_inv (rangeSet l r v g)"
  by (auto simp: rangeSet_def Let_def split: prod.splits intro!: arena_range [OF _ refl])

lemma arena_minSlack: "arena_inv g \<Longrightarrow> arena_inv (snd (minSlack l r hard g))"
  by (auto simp: minSlack_def Let_def split: prod.splits intro!: arena_range [OF _ refl])

lemma arena_maxContrib: "arena_inv g \<Longrightarrow> arena_inv (snd (maxContrib l r hard g))"
  by (auto simp: maxContrib_def Let_def split: prod.splits intro!: arena_range [OF _ refl])

lemma arena_index_run: "arena_inv g \<Longrightarrow> arena_inv (index_run ops g)"
  unfolding index_run_def
proof (induction ops arbitrary: g)
  case (Cons x ops)
  have "arena_inv (index_step x g)"
    using Cons.prems by (cases x) (simp_all add: agg_addCommittedHard_def agg_addCommittedSoft_def
        agg_addHeld_def agg_setCapacity_def agg_minHard_def agg_minSoft_def
        agg_maxCombinedHard_def agg_maxCombinedSoft_def arena_rangeAdd arena_rangeSet
        arena_minSlack arena_maxContrib)
  from Cons.IH [OF this] show ?case by simp
qed simp

lemma index_run_inv_bounds: "index_inv a b g \<Longrightarrow> index_inv a b (index_run ops g)"
  unfolding index_run_def
proof (induction ops arbitrary: g)
  case (Cons x ops)
  have "index_inv a b (index_step x g)"
    using Cons.prems by (cases x) (simp_all add: agg_addCommittedHard_def agg_addCommittedSoft_def
        agg_addHeld_def agg_setCapacity_def agg_minHard_def agg_minSoft_def
        agg_maxCombinedHard_def agg_maxCombinedSoft_def rangeAdd_correct(1) rangeSet_correct(1)
        minSlack_correct(1) maxContrib_correct(1))
  from Cons.IH [OF this] show ?case by simp
qed simp

lemma arena_initialize:
  assumes "agg_initialize origin horizon cap a = Inr (True, g)"
  shows "arena_inv g"
proof -
  from assms have "g = a\<lparr>agg_pool := 1, agg_root := pull (agg_ratio a)
      (createCell (inst_ns origin) (inst_ns origin + dur_ns horizon) 0 0 0 cap)\<rparr>"
    by (auto simp: agg_initialize_def Let_def bind_outcome_Inr_iff ub_i64_def split: if_splits)
  moreover have "size (pull (agg_ratio a)
      (createCell (inst_ns origin) (inst_ns origin + dur_ns horizon) 0 0 0 cap)) = 1" by simp
  ultimately show ?thesis by (auto simp: arena_inv_def simp flip: eq_size_0 intro: ccontr)
qed

text \<open>Claim C26: The index stays a treap through every operation: the cells are in search order and
  disjoint, no child outranks its parent, every priority is the hash of its start, and the node
  vector has exactly two slots less one for each cell, so a query that cuts the line grows it too
  and nothing ever shrinks it.\<close>

theorem index_stays_a_treap:
  assumes "agg_initialize origin horizon cap (mk_IntervalAggregator bp) = Inr (True, g)"
    and "0 < dur_ns horizon"
  shows "heap_ordered (agg_root (index_run ops g)) \<and> prio_keyed (agg_root (index_run ops g)) \<and>
    chain (inst_ns origin) (flat (agg_root (index_run ops g))) (inst_ns origin + dur_ns horizon) \<and>
    cellCount (index_run ops g) + 1 = 2 * size (agg_root (index_run ops g))"
proof -
  have "arena_inv (index_run ops g)"
    by (rule arena_index_run [OF arena_initialize [OF assms(1)]])
  moreover have "chain (inst_ns origin) (flat (agg_root (index_run ops g)))
      (inst_ns origin + dur_ns horizon)"
    using index_run_inv_bounds [OF agg_initialize_correct(1) [OF assms]]
    by (simp add: index_inv_def)
  ultimately show ?thesis by (simp add: arena_inv_def shape_def cellCount_def)
qed

theorem index_stays_a_treap_witness:
  "\<exists>g. agg_initialize (Instant 0) (Duration 10) 8 (mk_IntervalAggregator 10000) = Inr (True, g) \<and>
     (let h = index_run [QueryMinHard (Interval (Instant 2) (Instant 4))] g
      in size (agg_root h) = 3 \<and> cellCount h = 5)"
proof -
  let ?ops = "[QueryMinHard (Interval (Instant 2) (Instant 4))]"
  let ?g = "snd (projr (agg_initialize (Instant 0) (Duration 10) 8 (mk_IntervalAggregator 10000)))"
  have g: "agg_initialize (Instant 0) (Duration 10) 8 (mk_IntervalAggregator 10000) = Inr (True, ?g)"
    by (simp add: agg_initialize_def Let_def dur_isZero_def i64_defs)
  have "size (agg_root (index_run ?ops ?g)) = 3" by code_simp
  with index_stays_a_treap [OF g, where ops = ?ops] g show ?thesis
    by (intro exI [of _ ?g]) (simp add: Let_def)
qed

section \<open>The effective capacity\<close>

lemma sdiv_neg_pos: "a \<le> 0 \<Longrightarrow> 0 < b \<Longrightarrow> (a::int) sdiv b = - ((- a) div b)"
  by (auto simp: signed_divide_int_def sgn_if)

lemma sdiv_pos_neg: "0 \<le> a \<Longrightarrow> b < 0 \<Longrightarrow> (a::int) sdiv b = - (a div (- b))"
  by (auto simp: signed_divide_int_def sgn_if)

text \<open>The two tests by the sign of the product, for a positive divisor; the others are their mirrors.\<close>

lemma mul_above:
  assumes "0 < a" "0 < b"
  shows "a > INT64_MAX sdiv b \<longleftrightarrow> \<not> a * b \<le> INT64_MAX" "INT64_MIN \<le> a * b"
proof -
  show "a > INT64_MAX sdiv b \<longleftrightarrow> \<not> a * b \<le> INT64_MAX"
    using assms le_div_iff_mult_le [of b a INT64_MAX]
    by (simp add: sdiv_nonneg INT64_MAX_def) (metis not_le)
  have "0 < a * b" using assms by simp
  then show "INT64_MIN \<le> a * b" unfolding INT64_MIN_def by linarith
qed

lemma mul_below:
  assumes "a < 0" "0 < b"
  shows "a < INT64_MIN sdiv b \<longleftrightarrow> \<not> INT64_MIN \<le> a * b" "a * b \<le> INT64_MAX"
proof -
  have "INT64_MIN \<le> 0" by (simp add: INT64_MIN_def)
  then show "a < INT64_MIN sdiv b \<longleftrightarrow> \<not> INT64_MIN \<le> a * b"
    using assms le_div_iff_mult_le [of b "- a" "- INT64_MIN"] sdiv_neg_pos [of INT64_MIN b]
    by simp linarith
  have "a * b < 0" using assms by (simp add: mult_neg_pos)
  then show "a * b \<le> INT64_MAX" unfolding INT64_MAX_def by linarith
qed

lemma mul_both_negative:
  assumes "a < 0" "b < 0"
  shows "a < INT64_MAX sdiv b \<longleftrightarrow> \<not> a * b \<le> INT64_MAX" "INT64_MIN \<le> a * b"
  using mul_above [of "- a" "- b"] assms by (simp_all add: sdiv_pos_neg sdiv_nonneg INT64_MAX_def) linarith

text \<open>The overflow test of the 64-bit product is exact in all four sign cases: it reports an
  overflow if and only if the mathematical product leaves the range.\<close>

theorem mul_overflow_exact:
  assumes "in_i64 a" "in_i64 b"
  shows "mul_overflow a b = (if in_i64 (a * b) then Some (a * b) else None)"
proof -
  consider "a = 0 \<or> b = 0" | "0 < a \<and> 0 < b" | "a < 0 \<and> b < 0" | "a < 0 \<and> 0 < b" | "0 < a \<and> b < 0"
    by linarith
  then show ?thesis
  proof cases
    case 1
    then show ?thesis by (auto simp: mul_overflow_def i64_defs)
  next
    case 2
    with mul_above [of a b] show ?thesis by (auto simp: mul_overflow_def in_i64_def)
  next
    case 3
    with mul_both_negative [of a b] show ?thesis by (auto simp: mul_overflow_def in_i64_def)
  next
    case 4
    with mul_below [of a b] show ?thesis by (auto simp: mul_overflow_def in_i64_def)
  next
    case 5
    with mul_below [of b a] show ?thesis by (auto simp: mul_overflow_def in_i64_def mult.commute)
  qed
qed

theorem mul_overflow_exact_witness:
  "mul_overflow 9223372036854775807 20000 = None \<and> mul_overflow (- 5) 20000 = Some (- 100000)"
  using mul_overflow_exact [of "9223372036854775807" 20000] mul_overflow_exact [of "- 5" 20000]
  by (simp add: i64_defs)

end
