(* ===== verification/RF_Capacity.thy ===== *)
theory RF_Capacity
  imports RF_Domain RF_Interval_Props
begin

text \<open>
  \<^verbatim>\<open>include/reservation_fabric/capacity.hpp\<close>: the capacity envelope of a resource, a guarded
  front of the interval index. A query of the code is \<^verbatim>\<open>const\<close> and casts the constness away:
  the index is cut at the ends of the window, so the query returns the changed envelope here.
\<close>

record CapacityEnvelope =
  env_unit :: Unit
  env_capacity :: Quantity
  env_ratio :: Ratio
  env_origin :: Instant
  env_horizon :: Duration
  env_agg :: IntervalAggregator
  env_valid :: bool

definition mk_CapacityEnvelope :: "Unit \<Rightarrow> Quantity \<Rightarrow> Ratio \<Rightarrow> CapacityEnvelope" where
  "mk_CapacityEnvelope u c r =
     \<lparr>env_unit = u, env_capacity = c, env_ratio = r, env_origin = Instant 0,
      env_horizon = Duration 0, env_agg = mk_IntervalAggregator 10000, env_valid = False\<rparr>"

text \<open>The members are assigned before the index is initialised, also when that fails.\<close>

definition env_init ::
    "Instant \<Rightarrow> Duration \<Rightarrow> Quantity \<Rightarrow> Ratio \<Rightarrow> CapacityEnvelope \<Rightarrow>
     (bool \<times> CapacityEnvelope) outcome" where
  "env_init origin horizon cap ratio e =
     (if q_unit cap \<noteq> env_unit e \<and> env_unit e \<noteq> Unit_None then Inr (False, e)
      else
        let e1 = e\<lparr>env_unit := q_unit cap, env_capacity := cap, env_ratio := ratio,
                   env_origin := origin, env_horizon := horizon,
                   env_agg := mk_IntervalAggregator (basisPoints ratio)\<rparr>
        in bind_outcome (agg_initialize origin horizon (q_value cap) (env_agg e1)) (\<lambda>(ok, g).
             if \<not> ok then Inr (False, e1\<lparr>env_agg := g\<rparr>)
             else Inr (True, e1\<lparr>env_agg := g, env_valid := True\<rparr>)))"

definition env_addCommittedHard :: "Interval \<Rightarrow> int \<Rightarrow> CapacityEnvelope \<Rightarrow> CapacityEnvelope" where
  "env_addCommittedHard i qty e =
     (if \<not> env_valid e then e
      else e\<lparr>env_agg := agg_addCommittedHard (iv_start i) (iv_end i) qty (env_agg e)\<rparr>)"

definition env_addCommittedSoft :: "Interval \<Rightarrow> int \<Rightarrow> CapacityEnvelope \<Rightarrow> CapacityEnvelope" where
  "env_addCommittedSoft i qty e =
     (if \<not> env_valid e then e
      else e\<lparr>env_agg := agg_addCommittedSoft (iv_start i) (iv_end i) qty (env_agg e)\<rparr>)"

definition env_addHeld :: "Interval \<Rightarrow> int \<Rightarrow> CapacityEnvelope \<Rightarrow> CapacityEnvelope" where
  "env_addHeld i qty e =
     (if \<not> env_valid e then e
      else e\<lparr>env_agg := agg_addHeld (iv_start i) (iv_end i) qty (env_agg e)\<rparr>)"

definition env_removeCommittedHard :: "Interval \<Rightarrow> int \<Rightarrow> CapacityEnvelope \<Rightarrow> CapacityEnvelope" where
  "env_removeCommittedHard i qty e = env_addCommittedHard i (- qty) e"

definition env_removeCommittedSoft :: "Interval \<Rightarrow> int \<Rightarrow> CapacityEnvelope \<Rightarrow> CapacityEnvelope" where
  "env_removeCommittedSoft i qty e = env_addCommittedSoft i (- qty) e"

definition env_removeHeld :: "Interval \<Rightarrow> int \<Rightarrow> CapacityEnvelope \<Rightarrow> CapacityEnvelope" where
  "env_removeHeld i qty e = env_addHeld i (- qty) e"

definition env_setUnavailable :: "Interval \<Rightarrow> int \<Rightarrow> CapacityEnvelope \<Rightarrow> CapacityEnvelope" where
  "env_setUnavailable i capacityDuring e =
     (if \<not> env_valid e then e
      else e\<lparr>env_agg := agg_setCapacity (iv_start i) (iv_end i) capacityDuring (env_agg e)\<rparr>)"

definition env_minHardHeadroom :: "Interval \<Rightarrow> CapacityEnvelope \<Rightarrow> int \<times> CapacityEnvelope" where
  "env_minHardHeadroom i e =
     (if \<not> env_valid e then (INT64_MAX, e)
      else let (v, g) = agg_minHard (iv_start i) (iv_end i) (env_agg e)
           in (v, e\<lparr>env_agg := g\<rparr>))"

definition env_minSoftHeadroom :: "Interval \<Rightarrow> CapacityEnvelope \<Rightarrow> int \<times> CapacityEnvelope" where
  "env_minSoftHeadroom i e =
     (if \<not> env_valid e then (INT64_MAX, e)
      else let (v, g) = agg_minSoft (iv_start i) (iv_end i) (env_agg e)
           in (v, e\<lparr>env_agg := g\<rparr>))"

definition env_peakCombinedHard :: "Interval \<Rightarrow> CapacityEnvelope \<Rightarrow> int \<times> CapacityEnvelope" where
  "env_peakCombinedHard i e =
     (if \<not> env_valid e then (0, e)
      else let (v, g) = agg_maxCombinedHard (iv_start i) (iv_end i) (env_agg e)
           in (v, e\<lparr>env_agg := g\<rparr>))"

definition env_peakCombinedSoft :: "Interval \<Rightarrow> CapacityEnvelope \<Rightarrow> int \<times> CapacityEnvelope" where
  "env_peakCombinedSoft i e =
     (if \<not> env_valid e then (0, e)
      else let (v, g) = agg_maxCombinedSoft (iv_start i) (iv_end i) (env_agg e)
           in (v, e\<lparr>env_agg := g\<rparr>))"

section \<open>The envelope satisfies the contract of a capacity index\<close>

definition env_profile :: "CapacityEnvelope \<Rightarrow> int \<Rightarrow> point option" where
  "env_profile e = agg_profile (env_agg e)"

definition env_inv :: "CapacityEnvelope \<Rightarrow> bool" where
  "env_inv e \<longleftrightarrow> env_valid e \<and> agg_inv (env_agg e)"

definition env_bp :: "CapacityEnvelope \<Rightarrow> int" where
  "env_bp e = agg_ratio (env_agg e)"

lemmas env_op_defs = env_addCommittedHard_def env_addCommittedSoft_def env_addHeld_def
  env_setUnavailable_def env_minHardHeadroom_def env_minSoftHeadroom_def
  env_peakCombinedHard_def env_peakCombinedSoft_def

interpretation envelope: capacity_index
  where prof = env_profile and inv = env_inv and bp = env_bp
    and hard_add = env_addCommittedHard and soft_add = env_addCommittedSoft
    and held_add = env_addHeld and cap_put = env_setUnavailable
    and hard_min = env_minHardHeadroom and soft_min = env_minSoftHeadroom
    and hard_max = env_peakCombinedHard
  by unfold_locales
     (simp_all add: env_profile_def env_inv_def env_bp_def env_op_defs case_prod_beta
        treap_index.inv_laws treap_index.prof_laws treap_index.finite_points
        treap_index.hard_min_value treap_index.soft_min_value treap_index.hard_max_value)

lemma env_frame [simp]:
  "env_unit (env_addCommittedHard i q e) = env_unit e"
  "env_unit (env_addCommittedSoft i q e) = env_unit e"
  "env_unit (env_addHeld i q e) = env_unit e"
  "env_unit (snd (env_minHardHeadroom i e)) = env_unit e"
  "env_unit (snd (env_minSoftHeadroom i e)) = env_unit e"
  "env_unit (snd (env_peakCombinedHard i e)) = env_unit e"
  "env_origin (snd (env_minHardHeadroom i e)) = env_origin e"
  "env_horizon (snd (env_minHardHeadroom i e)) = env_horizon e"
  "env_valid (snd (env_minHardHeadroom i e)) = env_valid e"
  "env_valid (snd (env_minSoftHeadroom i e)) = env_valid e"
  by (simp_all add: env_op_defs case_prod_beta)

lemma env_init_correct:
  assumes "env_init origin horizon cap ratio e = Inr (True, e')" "0 < dur_ns horizon"
  shows "env_inv e'" "env_unit e' = q_unit cap" "env_origin e' = origin" "env_horizon e' = horizon"
    and "env_bp e' = basisPoints ratio"
    and "env_profile e' t =
      (if inst_ns origin \<le> t \<and> t < inst_ns origin + dur_ns horizon
       then Some \<lparr>pt_hard = 0, pt_soft = 0, pt_held = 0, pt_cap = q_value cap\<rparr> else None)"
proof -
  from assms obtain g where
    g: "agg_initialize origin horizon (q_value cap) (mk_IntervalAggregator (basisPoints ratio))
        = Inr (True, g)"
    and e': "e' = e\<lparr>env_unit := q_unit cap, env_capacity := cap, env_ratio := ratio,
        env_origin := origin, env_horizon := horizon, env_agg := g, env_valid := True\<rparr>"
    by (auto simp: env_init_def Let_def bind_outcome_Inr_iff split: if_splits)
  note init = agg_initialize_correct [OF g assms(2)]
  show "env_unit e' = q_unit cap" "env_origin e' = origin" "env_horizon e' = horizon"
    by (simp_all add: e')
  show "env_inv e'" using agg_invI [OF init(1)] by (simp add: e' env_inv_def)
  show "env_bp e' = basisPoints ratio" using init(2)
    by (simp add: e' env_bp_def mk_IntervalAggregator_def)
  show "env_profile e' t =
      (if inst_ns origin \<le> t \<and> t < inst_ns origin + dur_ns horizon
       then Some \<lparr>pt_hard = 0, pt_soft = 0, pt_held = 0, pt_cap = q_value cap\<rparr> else None)"
    using init(3) by (simp add: e' env_profile_def)
qed

section \<open>Accounting snapshots\<close>

record CapacityAccounting =
  ca_resource :: ResourceId
  ca_generation :: ResourceGeneration
  ca_class :: ResourceClass
  ca_unit :: Unit
  ca_total :: Quantity
  ca_committed :: Quantity
  ca_softCommitted :: Quantity
  ca_held :: Quantity
  ca_active :: Quantity
  ca_consumed :: Quantity
  ca_released :: Quantity
  ca_expired :: Quantity
  ca_cancelled :: Quantity
  ca_unavailable :: Quantity
  ca_unknown :: Quantity
  ca_headroom :: Quantity
  ca_peakCommittedFuture :: Quantity
  ca_consistent :: bool

definition CapacityAccounting_default :: CapacityAccounting where
  "CapacityAccounting_default =
     (let z = Quantity_zero Unit_Count
      in \<lparr>ca_resource = StrongId 0, ca_generation = StrongGeneration 0,
          ca_class = ResourceClass_Unknown, ca_unit = Unit_Count, ca_total = z, ca_committed = z,
          ca_softCommitted = z, ca_held = z, ca_active = z, ca_consumed = z, ca_released = z,
          ca_expired = z, ca_cancelled = z, ca_unavailable = z, ca_unknown = z, ca_headroom = z,
          ca_peakCommittedFuture = z, ca_consistent = False\<rparr>)"

end
