(* ===== verification/RF_Registry.thy ===== *)
theory RF_Registry
  imports RF_Capacity
begin

text \<open>
  \<^verbatim>\<open>src/impl.hpp\<close>: the state of the runtime, its lookups, and the two operations that keep the
  capacity envelopes in step with the registry. The envelopes are an index that must mirror the
  reservations and holds; \<open>mirrors\<close> says so, instant by instant.
\<close>

section \<open>State\<close>

definition defaultHoldLease :: Duration where
  "defaultHoldLease = Duration 900000000000"

definition defaultHorizon :: Duration where
  "defaultHorizon = Duration 31536000000000000"

lemma default_durations:
  "Duration_seconds 900 = Inr defaultHoldLease"
  "Duration_seconds (365 * 24 * 3600) = Inr defaultHorizon"
  by (simp_all add: Duration_seconds_def defaultHoldLease_def defaultHorizon_def sdiv_nonneg
      i64_defs)

definition isHard :: "ReservationStrength \<Rightarrow> bool" where
  "isHard s \<longleftrightarrow> s = Hard"

type_synonym envelopes = "(ResourceId \<times> CapacityEnvelope) list"
type_synonym reservations = "(ReservationId \<times> Reservation) list"
type_synonym hold_map = "(ReservationHoldId \<times> Hold) list"

record Impl =
  st_config :: RuntimeConfig
  st_epoch :: CoordinatorEpoch
  st_authority :: AuthorityGeneration
  st_resources :: "(ResourceId \<times> Resource) list"
  st_envelopes :: envelopes
  st_workerBoots :: "(WorkerId \<times> WorkerBootId) list"
  st_requests :: "(ReservationRequestId \<times> ReservationId) list"
  st_reservations :: reservations
  st_currentGen :: "(ReservationId \<times> ReservationGeneration) list"
  st_history :: "(ReservationId \<times> Reservation list) list"
  st_sets :: "(ReservationSetId \<times> ReservationSet) list"
  st_holds :: hold_map
  st_nextReservationId :: u64
  st_nextHoldId :: u64
  st_nextSetId :: u64
  st_horizon :: Duration

definition mk_Impl :: "RuntimeConfig \<Rightarrow> Impl" where
  "mk_Impl config =
     \<lparr>st_config = config, st_epoch = StrongGeneration 1, st_authority = StrongGeneration 1,
      st_resources = [], st_envelopes = [], st_workerBoots = [], st_requests = [],
      st_reservations = [], st_currentGen = [], st_history = [], st_sets = [], st_holds = [],
      st_nextReservationId = 1, st_nextHoldId = 1, st_nextSetId = 1,
      st_horizon = (if dur_isZero (cfg_capacityHorizon config) then defaultHorizon
                    else cfg_capacityHorizon config)\<rparr>"

text \<open>
  An operation that can throw returns the state too: what it changed before the throw stays changed.
\<close>

type_synonym 'a operation = "Impl \<Rightarrow> 'a outcome \<times> Impl"

definition findResourceLocked :: "ResourceId \<Rightarrow> Impl \<Rightarrow> Resource option" where
  "findResourceLocked i st = map_of (st_resources st) i"

definition envelopeLocked :: "ResourceId \<Rightarrow> envelopes \<Rightarrow> CapacityEnvelope option" where
  "envelopeLocked i es = map_of es i"

definition reservationLocked :: "ReservationId \<Rightarrow> Impl \<Rightarrow> Reservation option" where
  "reservationLocked i st = map_of (st_reservations st) i"

definition reservationByGenLocked ::
    "ReservationId \<Rightarrow> ReservationGeneration \<Rightarrow> Impl \<Rightarrow> Reservation option" where
  "reservationByGenLocked i gen st =
     (case map_of (st_reservations st) i of
        Some r \<Rightarrow>
          if rv_generation r = gen then Some r
          else (case map_of (st_history st) i of
                  None \<Rightarrow> None
                | Some h \<Rightarrow> List.find (\<lambda>r. rv_generation r = gen) h)
      | None \<Rightarrow> (case map_of (st_history st) i of
                  None \<Rightarrow> None
                | Some h \<Rightarrow> List.find (\<lambda>r. rv_generation r = gen) h))"

section \<open>Contributions\<close>

definition addContributionLocked :: "Reservation \<Rightarrow> envelopes \<Rightarrow> Reservation \<times> envelopes" where
  "addContributionLocked r es =
     (case envelopeLocked (rv_resource r) es of
        None \<Rightarrow> (r, es)
      | Some e \<Rightarrow>
          if rv_contributes r then (r, es)
          else (r\<lparr>rv_contributes := True\<rparr>,
                AList.update (rv_resource r)
                  (if isHard (rv_strength r)
                   then env_addCommittedHard (rv_window r) (q_value (rv_quantity r)) e
                   else env_addCommittedSoft (rv_window r) (q_value (rv_quantity r)) e) es))"

definition removeContributionLocked :: "Reservation \<Rightarrow> envelopes \<Rightarrow> Reservation \<times> envelopes" where
  "removeContributionLocked r es =
     (case envelopeLocked (rv_resource r) es of
        None \<Rightarrow> (r, es)
      | Some e \<Rightarrow>
          if \<not> rv_contributes r then (r, es)
          else (r\<lparr>rv_contributes := False\<rparr>,
                AList.update (rv_resource r)
                  (if isHard (rv_strength r)
                   then env_removeCommittedHard (rv_window r) (q_value (rv_quantity r)) e
                   else env_removeCommittedSoft (rv_window r) (q_value (rv_quantity r)) e) es))"

text \<open>\<^verbatim>\<open>if (CapacityEnvelope* e = envelopeLocked(id)) e->addHeld(window, qty);\<close>\<close>

definition addHeldLocked :: "ResourceId \<Rightarrow> Interval \<Rightarrow> int \<Rightarrow> envelopes \<Rightarrow> envelopes" where
  "addHeldLocked i w q es =
     (case envelopeLocked i es of None \<Rightarrow> es | Some e \<Rightarrow> AList.update i (env_addHeld w q e) es)"

text \<open>A loop \<^verbatim>\<open>for (auto& [key, x] : map)\<close> whose body changes the entry and the envelopes.\<close>

fun for_each :: "('v \<Rightarrow> envelopes \<Rightarrow> 'v \<times> envelopes) \<Rightarrow> ('k \<times> 'v) list \<Rightarrow> envelopes \<Rightarrow>
    ('k \<times> 'v) list \<times> envelopes" where
  "for_each f [] es = ([], es)"
| "for_each f ((k, v) # xs) es =
     (let (v', es1) = f v es; (xs', es2) = for_each f xs es1 in ((k, v') # xs', es2))"

section \<open>The envelope mirrors the registry\<close>

definition hard_of :: "ResourceId \<Rightarrow> int \<Rightarrow> Reservation \<Rightarrow> int" where
  "hard_of i t r =
     (if rv_resource r = i \<and> rv_contributes r \<and> isHard (rv_strength r) \<and> in_window (rv_window r) t
      then q_value (rv_quantity r) else 0)"

definition soft_of :: "ResourceId \<Rightarrow> int \<Rightarrow> Reservation \<Rightarrow> int" where
  "soft_of i t r =
     (if rv_resource r = i \<and> rv_contributes r \<and> \<not> isHard (rv_strength r) \<and> in_window (rv_window r) t
      then q_value (rv_quantity r) else 0)"

definition held_of :: "ResourceId \<Rightarrow> int \<Rightarrow> Hold \<Rightarrow> int" where
  "held_of i t h =
     (if hold_resource h = i \<and> hold_applied h \<and> in_window (hs_window (hold_spec h)) t
      then q_value (hs_quantity (hold_spec h)) else 0)"

definition env_point :: "envelopes \<Rightarrow> ResourceId \<Rightarrow> int \<Rightarrow> point option" where
  "env_point es i t = (case map_of es i of None \<Rightarrow> None | Some e \<Rightarrow> env_profile e t)"

definition envs_ok :: "envelopes \<Rightarrow> bool" where
  "envs_ok es \<longleftrightarrow> keys_distinct es \<and> (\<forall>i e. map_of es i = Some e \<longrightarrow> env_inv e)"

text \<open>The load the registry puts on resource \<open>i\<close> at instant \<open>t\<close> is what the envelope records.\<close>

definition mirrors :: "envelopes \<Rightarrow> reservations \<Rightarrow> hold_map \<Rightarrow> bool" where
  "mirrors es rs hs \<longleftrightarrow> (\<forall>i t p. env_point es i t = Some p \<longrightarrow>
     pt_hard p = asum (hard_of i t) rs \<and> pt_soft p = asum (soft_of i t) rs \<and>
     pt_held p = asum (held_of i t) hs)"

definition mirror_inv :: "Impl \<Rightarrow> bool" where
  "mirror_inv st \<longleftrightarrow> envs_ok (st_envelopes st) \<and> keys_distinct (st_reservations st) \<and>
     keys_distinct (st_holds st) \<and>
     mirrors (st_envelopes st) (st_reservations st) (st_holds st)"

text \<open>What a step does to the recorded load, whatever the resource and the instant.\<close>

definition shift :: "int \<Rightarrow> int \<Rightarrow> int \<Rightarrow> point \<Rightarrow> point" where
  "shift h s l p = p\<lparr>pt_hard := pt_hard p + h, pt_soft := pt_soft p + s, pt_held := pt_held p + l\<rparr>"

lemma shift_zero [simp]: "shift 0 0 0 = id"
  by (rule ext) (simp add: shift_def)

lemma shift_shift [simp]: "shift h s l (shift h' s' l' p) = shift (h + h') (s + s') (l + l') p"
  by (simp add: shift_def)

lemma shift_sel [simp]:
  "pt_hard (shift h s l p) = pt_hard p + h" "pt_soft (shift h s l p) = pt_soft p + s"
  "pt_held (shift h s l p) = pt_held p + l" "pt_cap (shift h s l p) = pt_cap p"
  by (simp_all add: shift_def)

definition moves ::
    "envelopes \<Rightarrow> envelopes \<Rightarrow> (ResourceId \<Rightarrow> int \<Rightarrow> int) \<Rightarrow> (ResourceId \<Rightarrow> int \<Rightarrow> int) \<Rightarrow>
     (ResourceId \<Rightarrow> int \<Rightarrow> int) \<Rightarrow> bool" where
  "moves es es' h s l \<longleftrightarrow> envs_ok es' \<and> map fst es' = map fst es \<and>
     (\<forall>i. map_option env_bp (map_of es' i) = map_option env_bp (map_of es i)) \<and>
     (\<forall>i t. env_point es' i t = map_option (shift (h i t) (s i t) (l i t)) (env_point es i t))"

lemma moves_refl: "envs_ok es \<Longrightarrow> moves es es (\<lambda>_ _. 0) (\<lambda>_ _. 0) (\<lambda>_ _. 0)"
  by (simp add: moves_def option.map_id)

lemma moves_cong:
  "moves es es' h s l \<Longrightarrow> (\<And>i t. h i t = h' i t) \<Longrightarrow> (\<And>i t. s i t = s' i t) \<Longrightarrow>
   (\<And>i t. l i t = l' i t) \<Longrightarrow> moves es es' h' s' l'"
  by (simp add: moves_def)

lemma moves_trans:
  assumes "moves es es1 h s l" "moves es1 es2 h' s' l'"
  shows "moves es es2 (\<lambda>i t. h i t + h' i t) (\<lambda>i t. s i t + s' i t) (\<lambda>i t. l i t + l' i t)"
  using assms by (simp add: moves_def option.map_comp comp_def add.commute)

lemma map_fst_update_present:
  "map_of es i = Some e \<Longrightarrow> map fst (AList.update i e' es) = map fst es"
  by (induction es) (auto split: if_splits)

lemma moves_update:
  assumes ok: "envs_ok es" and e: "map_of es i = Some e" and "env_inv e'"
    and "env_bp e' = env_bp e"
    and prof: "\<And>t. env_profile e' t = map_option (shift (h t) (s t) (l t)) (env_profile e t)"
  shows "moves es (AList.update i e' es) (\<lambda>j t. if j = i then h t else 0)
           (\<lambda>j t. if j = i then s t else 0) (\<lambda>j t. if j = i then l t else 0)"
  using assms
  by (auto simp: moves_def envs_ok_def env_point_def option.map_id map_fst_update_present
      split: option.splits if_splits)

lemma update_window_shift:
  "update_window w (add_hard q) P t = map_option (shift (if in_window w t then q else 0) 0 0) (P t)"
  "update_window w (add_soft q) P t = map_option (shift 0 (if in_window w t then q else 0) 0) (P t)"
  "update_window w (add_held q) P t = map_option (shift 0 0 (if in_window w t then q else 0)) (P t)"
  by (cases "P t"; simp add: update_window_def add_hard_def add_soft_def add_held_def shift_def)+

lemma addContribution_moves:
  assumes "envs_ok es" "addContributionLocked r es = (r', es')"
  shows "moves es es' (\<lambda>i t. hard_of i t r' - hard_of i t r) (\<lambda>i t. soft_of i t r' - soft_of i t r)
           (\<lambda>_ _. 0)"
proof (cases "map_of es (rv_resource r) = None \<or> rv_contributes r")
  case True
  then have "r' = r" "es' = es"
    using assms(2) by (auto simp: addContributionLocked_def envelopeLocked_def split: option.splits)
  then show ?thesis using moves_refl [OF assms(1)] by simp
next
  case False
  then obtain e where e: "map_of es (rv_resource r) = Some e" "\<not> rv_contributes r" by auto
  let ?e' = "if isHard (rv_strength r)
    then env_addCommittedHard (rv_window r) (q_value (rv_quantity r)) e
    else env_addCommittedSoft (rv_window r) (q_value (rv_quantity r)) e"
  have r': "r' = r\<lparr>rv_contributes := True\<rparr>" and es': "es' = AList.update (rv_resource r) ?e' es"
    using assms(2) e by (simp_all add: addContributionLocked_def envelopeLocked_def)
  have inv: "env_inv e" using assms(1) e by (simp add: envs_ok_def)
  have "moves es es'
      (\<lambda>j t. if j = rv_resource r then hard_of (rv_resource r) t r' - hard_of (rv_resource r) t r else 0)
      (\<lambda>j t. if j = rv_resource r then soft_of (rv_resource r) t r' - soft_of (rv_resource r) t r else 0)
      (\<lambda>j t. if j = rv_resource r then 0 else 0)"
    unfolding es' using inv e
    by (intro moves_update [OF assms(1) e(1)])
       (simp_all add: envelope.inv_laws envelope.bp_laws envelope.prof_laws update_window_shift r' hard_of_def
          soft_of_def)
  then show ?thesis
    by (rule moves_cong) (auto simp: r' hard_of_def soft_of_def)
qed

lemma removeContribution_moves:
  assumes "envs_ok es" "removeContributionLocked r es = (r', es')"
  shows "moves es es' (\<lambda>i t. hard_of i t r' - hard_of i t r) (\<lambda>i t. soft_of i t r' - soft_of i t r)
           (\<lambda>_ _. 0)"
proof (cases "map_of es (rv_resource r) = None \<or> \<not> rv_contributes r")
  case True
  then have "r' = r" "es' = es"
    using assms(2)
    by (auto simp: removeContributionLocked_def envelopeLocked_def split: option.splits)
  then show ?thesis using moves_refl [OF assms(1)] by simp
next
  case False
  then obtain e where e: "map_of es (rv_resource r) = Some e" "rv_contributes r" by auto
  let ?e' = "if isHard (rv_strength r)
    then env_removeCommittedHard (rv_window r) (q_value (rv_quantity r)) e
    else env_removeCommittedSoft (rv_window r) (q_value (rv_quantity r)) e"
  have r': "r' = r\<lparr>rv_contributes := False\<rparr>" and es': "es' = AList.update (rv_resource r) ?e' es"
    using assms(2) e by (simp_all add: removeContributionLocked_def envelopeLocked_def)
  have inv: "env_inv e" using assms(1) e by (simp add: envs_ok_def)
  have "moves es es'
      (\<lambda>j t. if j = rv_resource r then hard_of (rv_resource r) t r' - hard_of (rv_resource r) t r else 0)
      (\<lambda>j t. if j = rv_resource r then soft_of (rv_resource r) t r' - soft_of (rv_resource r) t r else 0)
      (\<lambda>j t. if j = rv_resource r then 0 else 0)"
    unfolding es' using inv e
    by (intro moves_update [OF assms(1) e(1)])
       (simp_all add: env_removeCommittedHard_def env_removeCommittedSoft_def envelope.inv_laws envelope.bp_laws
          envelope.prof_laws update_window_shift r' hard_of_def soft_of_def)
  then show ?thesis
    by (rule moves_cong) (auto simp: r' hard_of_def soft_of_def)
qed

lemma addHeld_moves:
  assumes "envs_ok es"
  shows "moves es (addHeldLocked i w q es) (\<lambda>_ _. 0) (\<lambda>_ _. 0)
           (\<lambda>j t. if j = i \<and> in_window w t then q else 0)"
proof (cases "map_of es i")
  case None
  with assms show ?thesis
    by (auto simp: moves_def addHeldLocked_def envelopeLocked_def env_point_def option.map_id
        split: option.splits)
next
  case (Some e)
  then have inv: "env_inv e" using assms by (simp add: envs_ok_def)
  have "moves es (addHeldLocked i w q es) (\<lambda>j t. if j = i then 0 else 0)
      (\<lambda>j t. if j = i then 0 else 0) (\<lambda>j t. if j = i then if in_window w t then q else 0 else 0)"
    using inv Some unfolding addHeldLocked_def envelopeLocked_def Some option.case
    by (intro moves_update [OF assms Some])
       (simp_all add: envelope.inv_laws envelope.bp_laws envelope.prof_laws update_window_shift)
  then show ?thesis by (rule moves_cong) auto
qed

lemma addContribution_frame:
  "addContributionLocked r es = (r', es') \<Longrightarrow> r' = r\<lparr>rv_contributes := rv_contributes r'\<rparr>"
  by (auto simp: addContributionLocked_def split: option.splits if_splits)

lemma removeContribution_frame:
  "removeContributionLocked r es = (r', es') \<Longrightarrow> r' = r\<lparr>rv_contributes := rv_contributes r'\<rparr>"
  by (auto simp: removeContributionLocked_def split: option.splits if_splits)

section \<open>Keeping the mirror\<close>

text \<open>A step that moves the envelopes by exactly what it changes in the maps keeps the mirror.\<close>

lemma mirrors_moves:
  assumes "mirrors es rs hs" "moves es es' h s l"
    and "\<And>i t. env_point es i t \<noteq> None \<Longrightarrow> asum (hard_of i t) rs' = asum (hard_of i t) rs + h i t"
    and "\<And>i t. env_point es i t \<noteq> None \<Longrightarrow> asum (soft_of i t) rs' = asum (soft_of i t) rs + s i t"
    and "\<And>i t. env_point es i t \<noteq> None \<Longrightarrow> asum (held_of i t) hs' = asum (held_of i t) hs + l i t"
  shows "mirrors es' rs' hs'"
  unfolding mirrors_def
proof (intro allI impI)
  fix i t p assume "env_point es' i t = Some p"
  with assms(2) obtain q where q: "env_point es i t = Some q" "p = shift (h i t) (s i t) (l i t) q"
    by (auto simp: moves_def)
  with assms(1) have "pt_hard q = asum (hard_of i t) rs" "pt_soft q = asum (soft_of i t) rs"
    "pt_held q = asum (held_of i t) hs" by (simp_all add: mirrors_def)
  with q assms(3-5) show "pt_hard p = asum (hard_of i t) rs' \<and> pt_soft p = asum (soft_of i t) rs' \<and>
     pt_held p = asum (held_of i t) hs'" by simp
qed

lemma mirror_inv_step:
  assumes "mirror_inv st" "moves (st_envelopes st) (st_envelopes st') h s l"
    and "keys_distinct (st_reservations st')" "keys_distinct (st_holds st')"
    and "\<And>i t. env_point (st_envelopes st) i t \<noteq> None \<Longrightarrow>
      asum (hard_of i t) (st_reservations st') = asum (hard_of i t) (st_reservations st) + h i t"
    and "\<And>i t. env_point (st_envelopes st) i t \<noteq> None \<Longrightarrow>
      asum (soft_of i t) (st_reservations st') = asum (soft_of i t) (st_reservations st) + s i t"
    and "\<And>i t. env_point (st_envelopes st) i t \<noteq> None \<Longrightarrow>
      asum (held_of i t) (st_holds st') = asum (held_of i t) (st_holds st) + l i t"
  shows "mirror_inv st'"
  unfolding mirror_inv_def
  using mirrors_moves [of "st_envelopes st" "st_reservations st" "st_holds st", OF _ assms(2)] assms
  by (simp add: mirror_inv_def moves_def)

text \<open>A loop whose body moves the envelopes by its change of the entry does so for the whole map.\<close>

lemma for_each_keys: "for_each f xs es = (xs', es') \<Longrightarrow> map fst xs' = map fst xs"
  by (induction f xs es arbitrary: xs' es' rule: for_each.induct)
     (auto simp: Let_def split: prod.splits)

lemma for_each_moves:
  assumes step: "\<And>v es v' es'. envs_ok es \<Longrightarrow> f v es = (v', es') \<Longrightarrow>
    moves es es' (\<lambda>i t. H i t v' - H i t v) (\<lambda>i t. S i t v' - S i t v) (\<lambda>i t. L i t v' - L i t v)"
  shows "envs_ok es \<Longrightarrow> for_each f xs es = (xs', es') \<Longrightarrow>
    moves es es' (\<lambda>i t. asum (H i t) xs' - asum (H i t) xs)
      (\<lambda>i t. asum (S i t) xs' - asum (S i t) xs) (\<lambda>i t. asum (L i t) xs' - asum (L i t) xs)"
proof (induction xs arbitrary: es xs' es')
  case Nil
  then show ?case by (simp add: moves_refl)
next
  case (Cons kv xs)
  obtain k v where kv: "kv = (k, v)" by fastforce
  obtain v' es1 where v: "f v es = (v', es1)" by fastforce
  obtain ys es2 where ys: "for_each f xs es1 = (ys, es2)" by fastforce
  note first = step [OF Cons.prems(1) v]
  then have "envs_ok es1" by (simp add: moves_def)
  from moves_trans [OF first Cons.IH [OF this ys]]
  show ?case using Cons.prems v ys kv by (auto elim!: moves_cong)
qed

lemmas reservation_loop = for_each_moves [where H = hard_of and S = soft_of and L = "\<lambda>_ _ _. 0"]

lemmas hold_loop = for_each_moves [where H = "\<lambda>_ _ _. 0" and S = "\<lambda>_ _ _. 0" and L = held_of]

lemma asum_zero [simp]: "asum (\<lambda>_. 0) xs = 0"
  by (induction xs) auto

end
