(* ===== verification/RF_Admission.thy ===== *)
theory RF_Admission
  imports RF_Registry
begin

text \<open>
  Admission of one request: the matching and selection of \<^verbatim>\<open>src/impl.hpp\<close>, \<^verbatim>\<open>assessOne\<close> and the
  headroom queries of \<^verbatim>\<open>src/runtime_core.cpp\<close>. A headroom query cuts the capacity line, so an
  assessment returns the state with the changed envelopes.
\<close>

section \<open>Matching\<close>

record QualifiedResource =
  qr_id :: ResourceId
  qr_generation :: ResourceGeneration
  qr_class :: ResourceClass
  qr_unit :: Unit
  qr_capacity :: Quantity
  qr_pool :: ResourcePoolId

definition resourceGenerationSatisfiesLocked :: "Resource \<Rightarrow> ReservationRequest \<Rightarrow> bool" where
  "resourceGenerationSatisfiesLocked res req =
     (case req_minResourceGeneration req of None \<Rightarrow> True | Some g \<Rightarrow> \<not> res_generation res < g)"

definition resourceConstraintsSatisfiedLocked :: "Resource \<Rightarrow> ReservationRequest \<Rightarrow> bool" where
  "resourceConstraintsSatisfiedLocked res req =
     (if req_class req \<noteq> ResourceClass_Unknown \<and> res_class res \<noteq> req_class req then False
      else if res_unit res \<noteq> req_unit req then False
      else if id_valid (req_poolConstraint req) \<and> res_pool res \<noteq> req_poolConstraint req then False
      else if \<not> res_available res then False
      else if cc_requiredCapabilityId (req_capability req) \<noteq> 0 \<and>
              gen_value (res_capabilities res) <
                ucast (cc_requiredCapabilityId (req_capability req)) then False
      else if id_valid (lc_preferredPool (req_locality req)) \<and>
              res_pool res \<noteq> lc_preferredPool (req_locality req) then False
      else resourceGenerationSatisfiesLocked res req)"

definition matches_request :: "ReservationRequest \<Rightarrow> ResourceId \<times> Resource \<Rightarrow> bool" where
  "matches_request req = (\<lambda>(i, res).
     \<not> (case req_targetResource req of None \<Rightarrow> False | Some t \<Rightarrow> i \<noteq> t) \<and>
     \<not> (req_class req \<noteq> ResourceClass_Unknown \<and> res_class res \<noteq> req_class req) \<and>
     \<not> res_unit res \<noteq> req_unit req \<and>
     \<not> \<not> res_available res \<and>
     \<not> (case req_minResourceGeneration req of None \<Rightarrow> False | Some g \<Rightarrow> res_generation res < g))"

definition matchingResourcesLocked :: "ReservationRequest \<Rightarrow> Impl \<Rightarrow> QualifiedResource list" where
  "matchingResourcesLocked req st =
     map (\<lambda>(i, res). \<lparr>qr_id = i, qr_generation = res_generation res, qr_class = res_class res,
                      qr_unit = res_unit res, qr_capacity = res_totalCapacity res,
                      qr_pool = res_pool res\<rparr>)
         (filter (matches_request req) (st_resources st))"

definition hasAnyResourceOfClassLocked :: "ResourceClass \<Rightarrow> Impl \<Rightarrow> bool" where
  "hasAnyResourceOfClassLocked cls st = list_ex (\<lambda>(i, res). res_class res = cls) (st_resources st)"

section \<open>Headroom and selection\<close>

definition headroomForLocked ::
    "ReservationRequest \<Rightarrow> ResourceId \<Rightarrow> envelopes \<Rightarrow> int \<times> envelopes" where
  "headroomForLocked req i es =
     (case envelopeLocked i es of
        None \<Rightarrow> (0, es)
      | Some e \<Rightarrow>
          let (h, e') = (if isHard (req_strength req) then env_minHardHeadroom (req_window req) e
                         else env_minSoftHeadroom (req_window req) e)
          in (h, AList.update i e' es))"

text \<open>The loop that chooses the resource with the greatest headroom, the smaller identity on ties.\<close>

fun choose_best ::
    "ReservationRequest \<Rightarrow> QualifiedResource list \<Rightarrow> ResourceId \<Rightarrow> int \<Rightarrow> envelopes \<Rightarrow>
     ResourceId \<times> int \<times> envelopes" where
  "choose_best req [] best bestHeadroom es = (best, bestHeadroom, es)"
| "choose_best req (m # ms) best bestHeadroom es =
     (let (h, es') = headroomForLocked req (qr_id m) es
      in if h > bestHeadroom \<or> (h = bestHeadroom \<and> (\<not> id_valid best \<or> qr_id m < best))
         then choose_best req ms (qr_id m) h es'
         else choose_best req ms best bestHeadroom es')"

text \<open>The bounded enumeration of the conflicting reservations: at most 64 identities.\<close>

fun conflicts ::
    "ResourceId \<Rightarrow> Interval \<Rightarrow> reservations \<Rightarrow> ReservationId list \<Rightarrow> bool \<Rightarrow>
     ReservationId list \<times> bool" where
  "conflicts best w [] found soft = (found, soft)"
| "conflicts best w ((rid, r) # rs) found soft =
     (if rv_resource r = best \<and> lifecycle_holds_capacity (rv_lifecycle r) \<and>
         iv_overlaps (rv_window r) w
      then (let found' = found @ [rid]; soft' = (if \<not> isHard (rv_strength r) then True else soft)
            in if length found' \<ge> 64 then (found', soft')
               else conflicts best w rs found' soft')
      else conflicts best w rs found soft)"

section \<open>Assessment\<close>

definition rejected_for :: "ReservationRequest \<Rightarrow> Feasibility \<Rightarrow> string \<Rightarrow> FeasibilityReport" where
  "rejected_for req f reason =
     (report_rejected f reason)\<lparr>fr_class := req_class req, fr_unit := req_unit req,
        fr_requestedQuantity := req_quantity req, fr_requestedInterval := req_window req\<rparr>"

text \<open>
  The report for the chosen resource and its headroom. The quantities are built with \<open>Quantity\<close>
  itself: the value is not negative and the unit is not \<^verbatim>\<open>None\<close> once the request is
  validated, so the checks of the constructor cannot throw (\<open>assess_quantities_do_not_throw\<close>).
\<close>

definition report_best ::
    "ReservationRequest \<Rightarrow> Impl \<Rightarrow> ResourceId \<Rightarrow> int \<Rightarrow> FeasibilityReport" where
  "report_best req st best bestHeadroom =
     (let avail = Quantity (if bestHeadroom > 0 then bestHeadroom else 0) (req_unit req);
          rep = FeasibilityReport_default\<lparr>fr_class := req_class req, fr_unit := req_unit req,
            fr_requestedQuantity := req_quantity req, fr_requestedInterval := req_window req,
            fr_policyGeneration := req_policyGeneration req,
            fr_resource := best,
            fr_currentResourceGeneration :=
              (case findResourceLocked best st of
                 None \<Rightarrow> StrongGeneration 0 | Some res \<Rightarrow> res_generation res),
            fr_availableAtBottleneck := avail, fr_bottleneck := [best],
            fr_admissibleQuantity := avail\<rparr>
      in if bestHeadroom \<ge> q_value (req_quantity req) then rep\<lparr>fr_outcome := Admissible\<rparr>
         else if req_partialAllowed req \<and>
                 (case req_minAcceptable req of
                    None \<Rightarrow> False | Some m \<Rightarrow> bestHeadroom \<ge> q_value m)
         then rep\<lparr>fr_outcome := AdmissibleWithModification,
                  fr_admissibleQuantity :=
                    Quantity (min (q_value (req_quantity req)) bestHeadroom) (req_unit req),
                  fr_reasons :=
                    [''full requested quantity not available; reduced quantity admissible'']\<rparr>
         else
           let (found, soft) = conflicts best (req_window req) (st_reservations st) [] False
           in rep\<lparr>fr_conflicting := sort found, fr_blockedBySoftOnly := soft,
                  fr_outcome :=
                    (if soft \<and> bestHeadroom > 0 then RejectCapacity else RejectConflict),
                  fr_reasons :=
                    [''requested quantity exceeds remaining headroom over the window'']\<rparr>)"

definition is_duplicate :: "ReservationRequest \<Rightarrow> Impl \<Rightarrow> bool" where
  "is_duplicate req st =
     (case map_of (st_requests st) (req_requestId req) of
        None \<Rightarrow> False
      | Some rid \<Rightarrow> (case map_of (st_reservations st) rid of
                      None \<Rightarrow> False
                    | Some r \<Rightarrow> lifecycle_holds_capacity (rv_lifecycle r)))"

definition assessOne :: "ReservationRequest \<Rightarrow> Impl \<Rightarrow> FeasibilityReport \<times> Impl" where
  "assessOne req st =
     (if validate_request req \<noteq> None
      then (rejected_for req RejectInvalidQuantity ''invalid reservation request'', st)
      else if is_duplicate req st
      then (report_rejected RejectDuplicate ''duplicate reservation request identity'', st)
      else
        let matches = matchingResourcesLocked req st
        in if matches = []
           then (if \<not> hasAnyResourceOfClassLocked (req_class req) st
                 then (rejected_for req RejectCapability
                         ''no resource of the requested class is present'', st)
                 else if \<not> resourceConstraintsSatisfiedLocked (snd (hd (st_resources st))) req
                 then (rejected_for req RejectTopology
                         ''no matching resource satisfies topology/constraints'', st)
                 else (rejected_for req RejectCapacity
                         ''no matching resource has capacity'', st))
           else
             let (best, bestHeadroom, es) =
                   choose_best req matches (StrongId 0) INT64_MIN (st_envelopes st)
             in (report_best req st best bestHeadroom, st\<lparr>st_envelopes := es\<rparr>))"

definition rf_assess :: "ReservationRequest \<Rightarrow> Impl \<Rightarrow> FeasibilityReport \<times> Impl" where
  "rf_assess req st = assessOne req st"

fun assess_bundle :: "ReservationRequest list \<Rightarrow> Impl \<Rightarrow> FeasibilityReport list \<times> Impl" where
  "assess_bundle [] st = ([], st)"
| "assess_bundle (r # rs) st =
     (let (rep, st1) = assessOne r st; (reps, st2) = assess_bundle rs st1 in (rep # reps, st2))"

section \<open>Headroom queries of the runtime\<close>

definition headroomOverWindow ::
    "ResourceId \<Rightarrow> Interval \<Rightarrow> bool \<Rightarrow> Quantity operation" where
  "headroomOverWindow i w hard st =
     (case envelopeLocked i (st_envelopes st) of
        None \<Rightarrow> (Inr (Quantity_zero Unit_Count), st)
      | Some e \<Rightarrow>
          let (h, e') = (if hard then env_minHardHeadroom w e else env_minSoftHeadroom w e)
          in (mk_Quantity (if h < 0 then 0 else h) (env_unit e'),
              st\<lparr>st_envelopes := AList.update i e' (st_envelopes st)\<rparr>))"

definition headroomAt :: "ResourceId \<Rightarrow> Instant \<Rightarrow> bool \<Rightarrow> Quantity operation" where
  "headroomAt i t hard st =
     (case envelopeLocked i (st_envelopes st) of
        None \<Rightarrow> (Inr (Quantity_zero Unit_Count), st)
      | Some e \<Rightarrow>
          (case mk_Interval_length t (Duration 1) of
             Inl f \<Rightarrow> (Inl f, st)
           | Inr w \<Rightarrow>
               let (h, e') = (if hard then env_minHardHeadroom w e else env_minSoftHeadroom w e)
               in (mk_Quantity (if h < 0 then 0 else h) (env_unit e'),
                   st\<lparr>st_envelopes := AList.update i e' (st_envelopes st)\<rparr>)))"

definition capacityAt :: "ResourceId \<Rightarrow> Instant \<Rightarrow> Impl \<Rightarrow> Quantity" where
  "capacityAt i t st =
     (case findResourceLocked i st of
        None \<Rightarrow> Quantity_zero Unit_Count
      | Some r \<Rightarrow> res_totalCapacity r)"

section \<open>A query changes nothing a client can observe\<close>

lemma headroomFor_moves:
  assumes "envs_ok es" "headroomForLocked req i es = (h, es')"
  shows "moves es es' (\<lambda>_ _. 0) (\<lambda>_ _. 0) (\<lambda>_ _. 0)"
proof (cases "map_of es i")
  case None
  with assms show ?thesis by (auto simp: headroomForLocked_def envelopeLocked_def moves_refl)
next
  case (Some e)
  then have inv: "env_inv e" using assms(1) by (simp add: envs_ok_def)
  let ?e' = "snd (if isHard (req_strength req) then env_minHardHeadroom (req_window req) e
    else env_minSoftHeadroom (req_window req) e)"
  have es': "es' = AList.update i ?e' es"
    using assms(2) Some by (auto simp: headroomForLocked_def envelopeLocked_def case_prod_beta)
  have "moves es es' (\<lambda>j t. if j = i then 0 else 0) (\<lambda>j t. if j = i then 0 else 0)
      (\<lambda>j t. if j = i then 0 else 0)"
    unfolding es' using inv
    by (intro moves_update [OF assms(1) Some])
       (simp_all add: envelope.inv_laws envelope.bp_laws envelope.prof_laws option.map_id)
  then show ?thesis by (rule moves_cong) simp_all
qed

lemma choose_best_moves:
  "envs_ok es \<Longrightarrow> choose_best req ms b bh es = (b', bh', es') \<Longrightarrow>
   moves es es' (\<lambda>_ _. 0) (\<lambda>_ _. 0) (\<lambda>_ _. 0)"
proof (induction ms arbitrary: b bh es)
  case Nil
  then show ?case by (simp add: moves_refl)
next
  case (Cons m ms)
  obtain h es1 where h: "headroomForLocked req (qr_id m) es = (h, es1)" by fastforce
  note first = headroomFor_moves [OF Cons.prems(1) h]
  then have ok: "envs_ok es1" by (simp add: moves_def)
  have "moves es1 es' (\<lambda>_ _. 0) (\<lambda>_ _. 0) (\<lambda>_ _. 0)"
    using Cons.prems(2) h by (auto split: if_splits intro: Cons.IH [OF ok])
  from moves_trans [OF first this] show ?case by simp
qed

text \<open>An assessment changes the envelopes only, and of these only the cuts.\<close>

lemma assessOne_state:
  assumes "assessOne req st = (rep, st')"
  shows "st' = st\<lparr>st_envelopes := st_envelopes st'\<rparr>"
    and "envs_ok (st_envelopes st) \<Longrightarrow>
      moves (st_envelopes st) (st_envelopes st') (\<lambda>_ _. 0) (\<lambda>_ _. 0) (\<lambda>_ _. 0)"
proof -
  have "st' = st \<or> (\<exists>es b bh. st' = st\<lparr>st_envelopes := es\<rparr> \<and>
    choose_best req (matchingResourcesLocked req st) (StrongId 0) INT64_MIN (st_envelopes st)
      = (b, bh, es))"
    using assms by (auto simp: assessOne_def Let_def split: if_splits prod.splits)
  then show "st' = st\<lparr>st_envelopes := st_envelopes st'\<rparr>"
    and "envs_ok (st_envelopes st) \<Longrightarrow>
      moves (st_envelopes st) (st_envelopes st') (\<lambda>_ _. 0) (\<lambda>_ _. 0) (\<lambda>_ _. 0)"
    by (auto intro: moves_refl choose_best_moves)
qed

lemma assessOne_frame:
  assumes "assessOne req st = (rep, st')"
  obtains es where "st' = st\<lparr>st_envelopes := es\<rparr>"
    and "envs_ok (st_envelopes st) \<Longrightarrow> moves (st_envelopes st) es (\<lambda>_ _. 0) (\<lambda>_ _. 0) (\<lambda>_ _. 0)"
  using assessOne_state [OF assms] by (metis Impl.select_convs(5) Impl.surjective Impl.update_convs(5))

lemma mirror_inv_query:
  assumes "mirror_inv st" "moves (st_envelopes st) es (\<lambda>_ _. 0) (\<lambda>_ _. 0) (\<lambda>_ _. 0)"
  shows "mirror_inv (st\<lparr>st_envelopes := es\<rparr>)"
  by (rule mirror_inv_step [OF assms(1), where h = "\<lambda>_ _. 0" and s = "\<lambda>_ _. 0" and l = "\<lambda>_ _. 0"])
     (use assms in \<open>simp_all add: mirror_inv_def\<close>)

lemma assessOne_mirror:
  assumes "mirror_inv st" "assessOne req st = (rep, st')"
  shows "mirror_inv st'"
proof (rule assessOne_frame [OF assms(2)])
  fix es assume st': "st' = st\<lparr>st_envelopes := es\<rparr>"
    and moves: "envs_ok (st_envelopes st) \<Longrightarrow>
      moves (st_envelopes st) es (\<lambda>_ _. 0) (\<lambda>_ _. 0) (\<lambda>_ _. 0)"
  have "envs_ok (st_envelopes st)" using assms(1) by (simp add: mirror_inv_def)
  from mirror_inv_query [OF assms(1) moves [OF this]] show ?thesis by (simp add: st')
qed

section \<open>Selection\<close>

text \<open>The headroom a query reports, stated over the recorded points of the window.\<close>

definition line_headroom :: "ReservationRequest \<Rightarrow> envelopes \<Rightarrow> ResourceId \<Rightarrow> int" where
  "line_headroom req es i =
     (case map_of es i of
        None \<Rightarrow> 0
      | Some e \<Rightarrow> min_over (if isHard (req_strength req) then slackH else slackS (env_bp e))
                   (window_points (env_point es i) (req_window req)))"

lemma headroomFor_value:
  assumes "envs_ok es"
  shows "fst (headroomForLocked req i es) = line_headroom req es i"
proof (cases "map_of es i")
  case None
  then show ?thesis by (simp add: headroomForLocked_def line_headroom_def envelopeLocked_def)
next
  case (Some e)
  then have "env_inv e" using assms by (simp add: envs_ok_def)
  moreover have "env_point es i = env_profile e" using Some by (intro ext) (simp add: env_point_def)
  ultimately show ?thesis using Some
    by (simp add: headroomForLocked_def line_headroom_def envelopeLocked_def case_prod_beta
        envelope.hard_min_value envelope.soft_min_value)
qed

lemma line_headroom_moves:
  assumes "moves es es' (\<lambda>_ _. 0) (\<lambda>_ _. 0) (\<lambda>_ _. 0)"
  shows "line_headroom req es' i = line_headroom req es i"
proof -
  have "env_point es' i = env_point es i"
    using assms by (intro ext) (simp add: moves_def option.map_id)
  moreover have "map_option env_bp (map_of es' i) = map_option env_bp (map_of es i)"
    using assms by (simp add: moves_def)
  ultimately show ?thesis
    by (cases "map_of es i"; cases "map_of es' i") (simp_all add: line_headroom_def)
qed

text \<open>The choice without the state: fold over the pairs of identity and headroom.\<close>

fun best_of :: "(ResourceId \<times> int) list \<Rightarrow> ResourceId \<Rightarrow> int \<Rightarrow> ResourceId \<times> int" where
  "best_of [] b bh = (b, bh)"
| "best_of ((i, h) # xs) b bh =
     (if h > bh \<or> (h = bh \<and> (\<not> id_valid b \<or> i < b)) then best_of xs i h else best_of xs b bh)"

definition candidates :: "ReservationRequest \<Rightarrow> Impl \<Rightarrow> (ResourceId \<times> int) list" where
  "candidates req st =
     map (\<lambda>m. (qr_id m, line_headroom req (st_envelopes st) (qr_id m)))
       (matchingResourcesLocked req st)"

lemma choose_best_best_of:
  "envs_ok es \<Longrightarrow> choose_best req ms b bh es = (b', bh', es') \<Longrightarrow>
   best_of (map (\<lambda>m. (qr_id m, line_headroom req es (qr_id m))) ms) b bh = (b', bh')"
proof (induction ms arbitrary: b bh es)
  case (Cons m ms)
  obtain h es1 where h: "headroomForLocked req (qr_id m) es = (h, es1)" by fastforce
  note first = headroomFor_moves [OF Cons.prems(1) h]
  then have ok: "envs_ok es1" by (simp add: moves_def)
  have "h = line_headroom req es (qr_id m)"
    using headroomFor_value [OF Cons.prems(1), of req "qr_id m"] h by simp
  with Cons.prems(2) h Cons.IH [OF ok] show ?case
    by (auto simp: line_headroom_moves [OF first] split: if_splits)
qed simp

lemma best_of_mem: "best_of xs b bh = (b', bh') \<Longrightarrow> (b', bh') = (b, bh) \<or> (b', bh') \<in> set xs"
  by (induction xs b bh rule: best_of.induct) (auto split: if_splits)

lemma best_of_ge:
  "best_of xs b bh = (b', bh') \<Longrightarrow> bh \<le> bh' \<and> (\<forall>x\<in>set xs. snd x \<le> bh')"
proof (induction xs arbitrary: b bh)
  case (Cons x xs)
  obtain i h where x: "x = (i, h)" by fastforce
  show ?case
  proof (cases "h > bh \<or> (h = bh \<and> (\<not> id_valid b \<or> i < b))")
    case True
    with Cons.prems have rest: "best_of xs i h = (b', bh')" by (auto simp: x split: if_splits)
    from Cons.IH [OF rest] True show ?thesis by (auto simp: x)
  next
    case False
    with Cons.prems have rest: "best_of xs b bh = (b', bh')" by (auto simp: x split: if_splits)
    from Cons.IH [OF rest] False show ?thesis by (auto simp: x)
  qed
qed simp

lemma best_of_least:
  "best_of xs b bh = (b', bh') \<Longrightarrow> \<forall>x\<in>set xs. id_valid (fst x) \<Longrightarrow>
   (\<forall>x\<in>set xs. snd x = bh' \<longrightarrow> b' \<le> fst x) \<and> (id_valid b \<longrightarrow> bh = bh' \<longrightarrow> b' \<le> b)"
proof (induction xs arbitrary: b bh)
  case (Cons x xs)
  obtain i h where x: "x = (i, h)" by fastforce
  show ?case
  proof (cases "h > bh \<or> (h = bh \<and> (\<not> id_valid b \<or> i < b))")
    case True
    with Cons.prems have rest: "best_of xs i h = (b', bh')" by (auto simp: x split: if_splits)
    from Cons.IH [OF rest] Cons.prems(2) best_of_ge [OF rest] True show ?thesis
      by (auto simp: x)
  next
    case False
    with Cons.prems have rest: "best_of xs b bh = (b', bh')" by (auto simp: x split: if_splits)
    from Cons.IH [OF rest] Cons.prems(2) best_of_ge [OF rest] False show ?thesis
      by (auto simp: x)
  qed
qed simp

section \<open>What an assessment decides\<close>

definition assessable :: "ReservationRequest \<Rightarrow> Impl \<Rightarrow> bool" where
  "assessable req st \<longleftrightarrow> validate_request req = None \<and> \<not> is_duplicate req st \<and>
     candidates req st \<noteq> []"

lemma candidates_Nil [simp]: "candidates req st = [] \<longleftrightarrow> matchingResourcesLocked req st = []"
  by (simp add: candidates_def)

lemma assessOne_unassessable:
  assumes "\<not> assessable req st" "assessOne req st = (rep, st')"
  shows "st' = st \<and> \<not> report_admissible rep \<and> fr_outcome rep \<noteq> Feasibility_Unknown"
  using assms
  by (auto simp: assessable_def is_duplicate_def assessOne_def Let_def rejected_for_def
      report_rejected_def report_admissible_def split: if_splits)

lemma assessOne_assessable:
  assumes "assessable req st" "envs_ok (st_envelopes st)"
    and "best_of (candidates req st) (StrongId 0) INT64_MIN = (b, h)"
    and "assessOne req st = (rep, st')"
  shows "fr_resource rep = b"
    and "fr_availableAtBottleneck rep = Quantity (if h > 0 then h else 0) (req_unit req)"
    and "fr_outcome rep = Admissible \<longleftrightarrow> q_value (req_quantity req) \<le> h"
    and "fr_outcome rep = AdmissibleWithModification \<longleftrightarrow>
      h < q_value (req_quantity req) \<and> req_partialAllowed req \<and>
      (\<exists>m. req_minAcceptable req = Some m \<and> q_value m \<le> h)"
    and "fr_outcome rep \<in> {Admissible, AdmissibleWithModification, RejectCapacity, RejectConflict}"
    and "fr_outcome rep = AdmissibleWithModification \<Longrightarrow>
      fr_admissibleQuantity rep = Quantity h (req_unit req)"
proof -
  obtain b' h' es where ch: "choose_best req (matchingResourcesLocked req st) (StrongId 0) INT64_MIN
      (st_envelopes st) = (b', h', es)" by (metis prod_cases3)
  from choose_best_best_of [OF assms(2) ch] assms(3)
  have bh: "b' = b" "h' = h" by (simp_all add: candidates_def)
  have rep: "rep = report_best req st b h"
    using assms(1,4) by (simp add: assessOne_def assessable_def ch bh)
  show "fr_resource rep = b"
    "fr_availableAtBottleneck rep = Quantity (if h > 0 then h else 0) (req_unit req)"
    by (simp_all add: rep report_best_def Let_def split: prod.splits)
  show "fr_outcome rep = Admissible \<longleftrightarrow> q_value (req_quantity req) \<le> h"
    by (simp add: rep report_best_def Let_def split: prod.splits)
  show "fr_outcome rep = AdmissibleWithModification \<longleftrightarrow>
      h < q_value (req_quantity req) \<and> req_partialAllowed req \<and>
      (\<exists>m. req_minAcceptable req = Some m \<and> q_value m \<le> h)"
    by (simp add: rep report_best_def Let_def split: prod.splits option.splits)
  show "fr_outcome rep \<in> {Admissible, AdmissibleWithModification, RejectCapacity, RejectConflict}"
    by (simp add: rep report_best_def Let_def split: prod.splits)
  show "fr_outcome rep = AdmissibleWithModification \<Longrightarrow>
      fr_admissibleQuantity rep = Quantity h (req_unit req)"
    by (simp add: rep report_best_def Let_def split: prod.splits if_splits)
qed

lemma assess_quantities_do_not_throw:
  assumes "validate_request req = None"
  shows "mk_Quantity (if h > 0 then h else 0) (req_unit req) =
      Inr (Quantity (if h > 0 then h else 0) (req_unit req))"
    and "req_partialAllowed req \<Longrightarrow> req_minAcceptable req = Some m \<Longrightarrow> q_value m \<le> h \<Longrightarrow>
      mk_Quantity (min (q_value (req_quantity req)) h) (req_unit req) =
      Inr (Quantity (min (q_value (req_quantity req)) h) (req_unit req))"
proof -
  from assms have unit: "req_unit req \<noteq> Unit_None"
    by (simp add: validate_request_def split: if_splits)
  then show "mk_Quantity (if h > 0 then h else 0) (req_unit req) =
      Inr (Quantity (if h > 0 then h else 0) (req_unit req))" by simp
  assume "req_partialAllowed req" "req_minAcceptable req = Some m" "q_value m \<le> h"
  with assms unit show "mk_Quantity (min (q_value (req_quantity req)) h) (req_unit req) =
      Inr (Quantity (min (q_value (req_quantity req)) h) (req_unit req))"
    by (simp add: validate_request_def split: if_splits)
qed

end
