(* ===== verification/RF_Publish.thy ===== *)
theory RF_Publish
  imports RF_Admission
begin

text \<open>
  Authority and resource publications, \<^verbatim>\<open>src/runtime_core.cpp\<close>: the coordinator epoch, a
  worker's publication of a resource, and the three ways its evidence changes (invalidation, advance
  of the generation, revalidation).
\<close>

section \<open>Authority\<close>

definition coordinatorEpoch :: "Impl \<Rightarrow> CoordinatorEpoch" where
  "coordinatorEpoch st = st_epoch st"

definition authorityGeneration :: "Impl \<Rightarrow> AuthorityGeneration" where
  "authorityGeneration st = st_authority st"

text \<open>The epoch is assigned before \<^verbatim>\<open>next()\<close> can throw on a saturated authority generation.\<close>

definition setCoordinatorEpoch :: "CoordinatorEpoch \<Rightarrow> unit operation" where
  "setCoordinatorEpoch epoch st =
     (if epoch < st_epoch st
      then (throw_error StaleAuthority ''stale coordinator epoch rejected'', st)
      else let st1 = st\<lparr>st_epoch := epoch\<rparr>
           in (case gen_next (st_authority st1) of
                 Inl f \<Rightarrow> (Inl f, st1)
               | Inr a \<Rightarrow> (Inr (), st1\<lparr>st_authority := a\<rparr>)))"

section \<open>Publication\<close>

text \<open>\<^verbatim>\<open>for (const auto& w : pub.unavailable)\<close>: windows that meet the horizon lose their capacity.\<close>

fun apply_windows ::
    "Instant \<Rightarrow> Duration \<Rightarrow> UnavailableWindow list \<Rightarrow> CapacityEnvelope \<Rightarrow>
     CapacityEnvelope outcome" where
  "apply_windows from horizon [] e = Inr e"
| "apply_windows from horizon (w # ws) e =
     (if iv_end (uw_interval w) \<le> from then apply_windows from horizon ws e
      else bind_outcome (inst_add from horizon) (\<lambda>limit.
        if iv_start (uw_interval w) \<ge> limit then apply_windows from horizon ws e
        else apply_windows from horizon ws (env_setUnavailable (uw_interval w) 0 e)))"

definition needs_revalidation :: "Lifecycle \<Rightarrow> bool" where
  "needs_revalidation l \<longleftrightarrow> l = Lifecycle_Active \<or> l = Lifecycle_PartiallyConsumed \<or>
     l = Lifecycle_Consumed"

definition flag_revalidation :: "Reservation \<Rightarrow> Reservation" where
  "flag_revalidation r =
     (if needs_revalidation (rv_lifecycle r)
      then r\<lparr>rv_lifecycle := Lifecycle_RevalidationRequired\<rparr> else r)"

text \<open>The loop of a replacing publication over the reservations of the resource.\<close>

definition readvance :: "ResourceId \<Rightarrow> Reservation \<Rightarrow> envelopes \<Rightarrow> Reservation \<times> envelopes" where
  "readvance i r es =
     (if rv_resource r = i \<and> lifecycle_holds_capacity (rv_lifecycle r)
      then (let (r1, es1) = (if \<not> rv_contributes r then addContributionLocked r es else (r, es))
            in (flag_revalidation r1, es1))
      else (r, es))"

definition resource_of :: "ResourcePublication \<Rightarrow> Resource" where
  "resource_of pub =
     \<lparr>res_id = pub_id pub, res_generation = pub_generation pub, res_class = pub_class pub,
      res_unit = pub_unit pub, res_totalCapacity = pub_totalCapacity pub,
      res_pool = pub_pool pub, res_poolGeneration = pub_poolGeneration pub,
      res_owner = pub_worker pub, res_ownerBoot = pub_workerBoot pub,
      res_capabilities = pub_capabilities pub, res_topology = pub_topology pub,
      res_contract = pub_contract pub, res_contractGeneration = pub_contractGeneration pub,
      res_available = True\<rparr>"

text \<open>
  The second component of the answer is what the code writes to \<^verbatim>\<open>*error\<close>, if anything. The
  boot identity of the worker is recorded before the generation of the resource is checked.
\<close>

definition publishResource ::
    "ResourcePublication \<Rightarrow> (ResourceRegisterResult \<times> string option) operation" where
  "publishResource pub st =
     (if q_value (pub_totalCapacity pub) \<le> 0 \<or> q_unit (pub_totalCapacity pub) \<noteq> pub_unit pub
      then (Inr (RejectedInvalid, Some ''invalid resource capacity''), st)
      else if \<not> id_valid (pub_id pub) \<or> \<not> gen_valid (pub_generation pub) \<or>
              \<not> id_valid (pub_worker pub) \<or> \<not> gen_valid (pub_workerBoot pub)
      then (Inr (RejectedInvalid, Some ''invalid resource identity/authority''), st)
      else if (case map_of (st_workerBoots st) (pub_worker pub) of
                 None \<Rightarrow> False | Some boot \<Rightarrow> boot > pub_workerBoot pub)
      then (Inr (RejectedStale, Some ''stale worker boot id''), st)
      else
        let st1 = st\<lparr>st_workerBoots :=
                       AList.update (pub_worker pub) (pub_workerBoot pub) (st_workerBoots st)\<rparr>;
            existing = map_of (st_resources st1) (pub_id pub)
        in if (case existing of None \<Rightarrow> False | Some r \<Rightarrow> pub_generation pub < res_generation r)
           then (Inr (RejectedStale, Some ''stale resource generation''), st1)
           else if (case existing of None \<Rightarrow> False | Some r \<Rightarrow> pub_generation pub = res_generation r)
           then (Inr (RejectedDuplicate, Some ''duplicate resource generation''), st1)
           else
             case env_init (pub_availableFrom pub) (st_horizon st1) (pub_totalCapacity pub)
                    (pub_overbookRatio pub)
                    (mk_CapacityEnvelope (pub_unit pub) (pub_totalCapacity pub)
                       (pub_overbookRatio pub)) of
               Inl f \<Rightarrow> (Inl f, st1)
             | Inr (ok, env) \<Rightarrow>
                 if \<not> ok
                 then (Inr (RejectedInvalid, Some ''capacity envelope init failed''), st1)
                 else
                   case apply_windows (pub_availableFrom pub) (st_horizon st1)
                          (pub_unavailable pub) env of
                     Inl f \<Rightarrow> (Inl f, st1)
                   | Inr env' \<Rightarrow>
                       let st2 = st1\<lparr>
                             st_resources :=
                               AList.update (pub_id pub) (resource_of pub) (st_resources st1),
                             st_envelopes :=
                               AList.update (pub_id pub) env' (st_envelopes st1)\<rparr>
                       in case existing of
                            None \<Rightarrow> (Inr (Accepted, None), st2)
                          | Some _ \<Rightarrow>
                              let (rs, es) = for_each (readvance (pub_id pub))
                                               (st_reservations st2) (st_envelopes st2)
                              in (Inr (AcceptedReplaced, None),
                                  st2\<lparr>st_reservations := rs, st_envelopes := es\<rparr>))"

definition rf_resource :: "ResourceId \<Rightarrow> Impl \<Rightarrow> Resource option" where
  "rf_resource i st = findResourceLocked i st"

definition resourceIds :: "Impl \<Rightarrow> ResourceId list" where
  "resourceIds st = map fst (st_resources st)"

section \<open>Changes of the evidence\<close>

definition put_resource :: "ResourceId \<Rightarrow> Resource \<Rightarrow> Impl \<Rightarrow> Impl" where
  "put_resource i res st = st\<lparr>st_resources := AList.update i res (st_resources st)\<rparr>"

definition invalidateResource :: "InvalidationNotice \<Rightarrow> unit operation" where
  "invalidateResource notice st =
     (case map_of (st_resources st) (in_resource notice) of
        None \<Rightarrow> (throw_error NotFound ''resource not found'', st)
      | Some res \<Rightarrow>
          let st1 = put_resource (in_resource notice) (res\<lparr>res_available := False\<rparr>) st
          in (Inr (), st1\<lparr>st_reservations := amap_values (\<lambda>r.
                if rv_resource r = in_resource notice \<and> lifecycle_holds_capacity (rv_lifecycle r) \<and>
                   \<not> (rv_lifecycle r = Lifecycle_Released \<or> rv_lifecycle r = Lifecycle_Expired \<or>
                      rv_lifecycle r = Lifecycle_Cancelled)
                then r\<lparr>rv_lifecycle := Lifecycle_RevalidationRequired\<rparr> else r)
              (st_reservations st1)\<rparr>))"

definition advanceResourceGeneration ::
    "ResourceId \<Rightarrow> ResourceGeneration \<Rightarrow> ResourceCondition \<Rightarrow> nat operation" where
  "advanceResourceGeneration i newGeneration condition st =
     (case map_of (st_resources st) i of
        None \<Rightarrow> (throw_error NotFound ''resource not found'', st)
      | Some res \<Rightarrow>
          if newGeneration \<le> res_generation res
          then (throw_error StaleGeneration ''resource generation must advance'', st)
          else
            let st1 = put_resource i (res\<lparr>res_generation := newGeneration,
                        res_available := (condition \<noteq> Cond_Unavailable \<and>
                                          condition \<noteq> Cond_Invalidated)\<rparr>) st;
                flagged = length (filter (\<lambda>(_, r). rv_resource r = i \<and>
                            lifecycle_holds_capacity (rv_lifecycle r)) (st_reservations st1))
            in (Inr flagged, st1\<lparr>st_reservations := amap_values (\<lambda>r.
                  if rv_resource r = i \<and> lifecycle_holds_capacity (rv_lifecycle r)
                  then flag_revalidation r else r) (st_reservations st1)\<rparr>))"

definition revalidateResource :: "ResourceId \<Rightarrow> ResourcePublication \<Rightarrow> nat operation" where
  "revalidateResource i fresh st =
     (case map_of (st_resources st) i of
        None \<Rightarrow> (throw_error NotFound ''resource not found'', st)
      | Some res \<Rightarrow>
          if (case map_of (st_workerBoots st) (pub_worker fresh) of
                None \<Rightarrow> False | Some boot \<Rightarrow> boot > pub_workerBoot fresh)
          then (throw_error StaleAuthority ''stale worker boot id'', st)
          else
            let st1 = st\<lparr>st_workerBoots :=
                  AList.update (pub_worker fresh) (pub_workerBoot fresh) (st_workerBoots st)\<rparr>;
                st2 = put_resource i (res\<lparr>res_generation := pub_generation fresh,
                        res_owner := pub_worker fresh, res_ownerBoot := pub_workerBoot fresh,
                        res_capabilities := pub_capabilities fresh,
                        res_topology := pub_topology fresh, res_available := True\<rparr>) st1;
                hit = (\<lambda>r. rv_resource r = i \<and> rv_lifecycle r = Lifecycle_RevalidationRequired)
            in (Inr (length (filter (\<lambda>(_, r). hit r) (st_reservations st2))),
                st2\<lparr>st_reservations := amap_values (\<lambda>r.
                  if hit r
                  then r\<lparr>rv_lifecycle := Lifecycle_PendingActivation,
                         rv_boundResourceGeneration := Some (pub_generation fresh)\<rparr>
                  else r) (st_reservations st2)\<rparr>))"

end
