(* ===== verification/RF_Holds.thy ===== *)
theory RF_Holds
  imports RF_Publish
begin

text \<open>
  Provisional holds: \<^verbatim>\<open>acquireHoldLocked\<close> of \<^verbatim>\<open>src/impl.hpp\<close>, the hold operations of
  \<^verbatim>\<open>src/runtime_core.cpp\<close> and \<^verbatim>\<open>releaseHoldLocked\<close> of \<^verbatim>\<open>src/runtime_commit.cpp\<close>. The clock
  the acquisition reads is the argument \<open>now\<close>.
\<close>

definition hold_error :: "string \<Rightarrow> HoldResult" where
  "hold_error m = HoldResult_default\<lparr>hr_errorMessage := m\<rparr>"

definition hold_probe :: "HoldSpec \<Rightarrow> ReservationRequest" where
  "hold_probe spec =
     ReservationRequest_default
       \<lparr>req_requestId := StrongId 0, req_requestGeneration := StrongGeneration 1,
        req_class := hs_class spec, req_unit := hs_unit spec, req_quantity := hs_quantity spec,
        req_window := hs_window spec, req_strength := Hard, req_owner := hs_owner spec,
        req_ownerGeneration := hs_ownerGeneration spec,
        req_policyGeneration := hs_policyGeneration spec\<rparr>"

definition acquireHoldLocked :: "Instant \<Rightarrow> HoldSpec \<Rightarrow> HoldResult operation" where
  "acquireHoldLocked now spec st =
     (if \<not> id_valid (hs_holdId spec) \<or> \<not> gen_valid (hs_holdGeneration spec)
      then (Inr (hold_error ''invalid hold identity''), st)
      else if q_value (hs_quantity spec) \<le> 0
      then (Inr (hold_error ''invalid hold quantity''), st)
      else if hs_unit spec \<noteq> q_unit (hs_quantity spec) \<or> hs_unit spec \<noteq> unit_for (hs_class spec)
      then (Inr (hold_error ''hold unit mismatch''), st)
      else if length (st_holds st) \<ge> cfg_maxHolds (st_config st)
      then (Inr (hold_error ''hold count bound exceeded''), st)
      else
        let probe = hold_probe spec;
            (best, bestHeadroom, es) =
              choose_best probe (matchingResourcesLocked probe st) (StrongId 0) INT64_MIN
                (st_envelopes st);
            st1 = st\<lparr>st_envelopes := es\<rparr>
        in if \<not> id_valid best \<or> bestHeadroom < q_value (hs_quantity spec)
           then (Inr (hold_error ''hold not admissible''), st1)
           else
             case inst_add now defaultHoldLease of
               Inl f \<Rightarrow> (Inl f, st1)
             | Inr expiry \<Rightarrow>
                 let h = \<lparr>hold_spec = spec, hold_state = Hold_Acquired, hold_resource = best,
                          hold_applied = True, hold_activationMode = None,
                          hold_expiry = expiry, hold_persisted = False\<rparr>
                 in (Inr (HoldResult_default\<lparr>hr_created := True, hr_holdId := hs_holdId spec,
                            hr_holdGeneration := hs_holdGeneration spec\<rparr>),
                     st1\<lparr>st_holds := AList.update (hs_holdId spec) h (st_holds st1),
                         st_envelopes := addHeldLocked best (hs_window spec)
                           (q_value (hs_quantity spec)) (st_envelopes st1)\<rparr>))"

definition createHold :: "Instant \<Rightarrow> HoldSpec \<Rightarrow> HoldResult operation" where
  "createHold now spec st = acquireHoldLocked now spec st"

text \<open>Take an applied hold off its envelope and put the hold into the given state.\<close>

definition drop_hold :: "HoldState \<Rightarrow> Hold \<Rightarrow> envelopes \<Rightarrow> Hold \<times> envelopes" where
  "drop_hold s h es =
     (if hold_applied h
      then (h\<lparr>hold_applied := False, hold_state := s\<rparr>,
            addHeldLocked (hold_resource h) (hs_window (hold_spec h))
              (- q_value (hs_quantity (hold_spec h))) es)
      else (h\<lparr>hold_state := s\<rparr>, es))"

definition put_hold :: "ReservationHoldId \<Rightarrow> Hold \<times> envelopes \<Rightarrow> Impl \<Rightarrow> Impl" where
  "put_hold i = (\<lambda>(h, es) st.
     st\<lparr>st_holds := AList.update i h (st_holds st), st_envelopes := es\<rparr>)"

definition releaseHold ::
    "ReservationHoldId \<Rightarrow> ReservationHoldGeneration \<Rightarrow> unit operation" where
  "releaseHold i generation st =
     (case map_of (st_holds st) i of
        None \<Rightarrow> (throw_error NotFound ''hold not found'', st)
      | Some h \<Rightarrow>
          if hs_holdGeneration (hold_spec h) \<noteq> generation
          then (throw_error StaleGeneration ''stale hold generation'', st)
          else if hold_state h = Hold_Released \<or> hold_state h = Hold_Expired then (Inr (), st)
          else (Inr (), put_hold i (drop_hold Hold_Released h (st_envelopes st)) st))"

definition expire_hold :: "Instant \<Rightarrow> Hold \<Rightarrow> envelopes \<Rightarrow> Hold \<times> envelopes" where
  "expire_hold now h es =
     (if hold_state h = Hold_Acquired \<and> hold_expiry h < now
      then drop_hold Hold_Expired h es else (h, es))"

definition expireHolds :: "Instant \<Rightarrow> Impl \<Rightarrow> Impl" where
  "expireHolds now st =
     (let (hs, es) = for_each (expire_hold now) (st_holds st) (st_envelopes st)
      in st\<lparr>st_holds := hs, st_envelopes := es\<rparr>)"

definition holdState :: "ReservationHoldId \<Rightarrow> Impl \<Rightarrow> HoldState" where
  "holdState i st =
     (case map_of (st_holds st) i of None \<Rightarrow> Hold_Released | Some h \<Rightarrow> hold_state h)"

text \<open>The rollback's release: a hold in a final state is only marked, without touching the line.\<close>

definition releaseHoldLocked :: "ReservationHoldId \<Rightarrow> Impl \<Rightarrow> Impl" where
  "releaseHoldLocked i st =
     (case map_of (st_holds st) i of
        None \<Rightarrow> st
      | Some h \<Rightarrow>
          if hold_state h = Hold_Released \<or> hold_state h = Hold_Expired \<or>
             hold_state h = Hold_Committed
          then put_hold i (h\<lparr>hold_state := Hold_Released, hold_applied := False\<rparr>, st_envelopes st) st
          else put_hold i (drop_hold Hold_Released h (st_envelopes st)) st)"

section \<open>The mirror is kept\<close>

lemma drop_hold_moves:
  assumes "envs_ok es" "drop_hold s h es = (h', es')"
  shows "moves es es' (\<lambda>_ _. 0) (\<lambda>_ _. 0) (\<lambda>i t. held_of i t h' - held_of i t h)"
proof (cases "hold_applied h")
  case False
  then have "es' = es" "\<And>i t. held_of i t h' = held_of i t h"
    using assms(2) by (auto simp: drop_hold_def held_of_def)
  then show ?thesis using moves_refl [OF assms(1)] by simp
next
  case True
  then have h': "h' = h\<lparr>hold_applied := False, hold_state := s\<rparr>"
    and es': "es' = addHeldLocked (hold_resource h) (hs_window (hold_spec h))
      (- q_value (hs_quantity (hold_spec h))) es"
    using assms(2) by (simp_all add: drop_hold_def)
  have "moves es es' (\<lambda>_ _. 0) (\<lambda>_ _. 0) (\<lambda>j t. if j = hold_resource h \<and>
      in_window (hs_window (hold_spec h)) t then - q_value (hs_quantity (hold_spec h)) else 0)"
    unfolding es' by (rule addHeld_moves [OF assms(1)])
  then show ?thesis
    by (rule moves_cong) (auto simp: h' held_of_def True)
qed

lemma expire_hold_moves:
  assumes "envs_ok es" "expire_hold now h es = (h', es')"
  shows "moves es es' (\<lambda>_ _. 0) (\<lambda>_ _. 0) (\<lambda>i t. held_of i t h' - held_of i t h)"
proof (cases "hold_state h = Hold_Acquired \<and> hold_expiry h < now")
  case True
  then show ?thesis using assms by (auto simp: expire_hold_def intro: drop_hold_moves)
next
  case False
  then have "h' = h" "es' = es" using assms(2) by (auto simp: expire_hold_def)
  then show ?thesis using moves_refl [OF assms(1)] by simp
qed

lemma put_hold_mirror:
  assumes "mirror_inv st" "map_of (st_holds st) i = Some h"
    and "moves (st_envelopes st) es (\<lambda>_ _. 0) (\<lambda>_ _. 0) (\<lambda>j t. held_of j t h' - held_of j t h)"
  shows "mirror_inv (put_hold i (h', es) st)"
  by (rule mirror_inv_step [OF assms(1), where h = "\<lambda>_ _. 0" and s = "\<lambda>_ _. 0"
        and l = "\<lambda>j t. held_of j t h' - held_of j t h"])
     (use assms in \<open>simp_all add: put_hold_def mirror_inv_def asum_update_present\<close>)

lemma releaseHold_mirror:
  assumes "mirror_inv st"
  shows "mirror_inv (snd (releaseHold i g st))"
proof (cases "map_of (st_holds st) i")
  case None
  then show ?thesis using assms by (simp add: releaseHold_def)
next
  case (Some h)
  obtain h' es where d: "drop_hold Hold_Released h (st_envelopes st) = (h', es)" by fastforce
  have "envs_ok (st_envelopes st)" using assms by (simp add: mirror_inv_def)
  from put_hold_mirror [OF assms Some drop_hold_moves [OF this d]] show ?thesis
    using assms Some d by (simp add: releaseHold_def)
qed

lemma expireHolds_mirror:
  assumes "mirror_inv st"
  shows "mirror_inv (expireHolds now st)"
proof -
  obtain hs es where l: "for_each (expire_hold now) (st_holds st) (st_envelopes st) = (hs, es)"
    by fastforce
  have ok: "envs_ok (st_envelopes st)" using assms by (simp add: mirror_inv_def)
  have "moves (st_envelopes st) es (\<lambda>_ _. 0) (\<lambda>_ _. 0)
      (\<lambda>i t. asum (held_of i t) hs - asum (held_of i t) (st_holds st))"
    using hold_loop [OF _ ok l] expire_hold_moves by (fastforce intro: moves_cong)
  then show ?thesis
    using assms for_each_keys [OF l]
    by (intro mirror_inv_step [OF assms, where h = "\<lambda>_ _. 0" and s = "\<lambda>_ _. 0" and
          l = "\<lambda>i t. asum (held_of i t) hs - asum (held_of i t) (st_holds st)"])
       (simp_all add: expireHolds_def l mirror_inv_def)
qed

text \<open>A hold whose identity is new adds its quantity to the line, and nothing else changes.\<close>

lemma acquireHold_mirror:
  assumes "mirror_inv st" "map_of (st_holds st) (hs_holdId spec) = None"
  shows "mirror_inv (snd (acquireHoldLocked now spec st))"
proof -
  let ?p = "hold_probe spec"
  obtain b bh es where ch: "choose_best ?p (matchingResourcesLocked ?p st) (StrongId 0) INT64_MIN
      (st_envelopes st) = (b, bh, es)" by (metis prod_cases3)
  have ok: "envs_ok (st_envelopes st)" using assms(1) by (simp add: mirror_inv_def)
  note q = choose_best_moves [OF ok ch]
  then have ok': "envs_ok es" by (simp add: moves_def)
  have query: "mirror_inv (st\<lparr>st_envelopes := es\<rparr>)" by (rule mirror_inv_query [OF assms(1) q])
  have add: "mirror_inv (st\<lparr>st_holds := AList.update (hs_holdId spec)
      \<lparr>hold_spec = spec, hold_state = Hold_Acquired, hold_resource = b, hold_applied = True,
       hold_activationMode = None, hold_expiry = x, hold_persisted = False\<rparr> (st_holds st),
      st_envelopes := addHeldLocked b (hs_window spec) (q_value (hs_quantity spec)) es\<rparr>)" for x
    by (rule mirror_inv_step [OF query, where h = "\<lambda>_ _. 0" and s = "\<lambda>_ _. 0" and
          l = "\<lambda>j t. if j = b \<and> in_window (hs_window spec) t then q_value (hs_quantity spec) else 0"])
       (use addHeld_moves [OF ok'] assms in
         \<open>simp_all add: mirror_inv_def asum_update_fresh held_of_def\<close>)
  show ?thesis
    using assms(1) query add
    by (simp add: acquireHoldLocked_def Let_def ch split: sum.splits)
qed

end
