(* ===== verification/RF_Commit.thy ===== *)
theory RF_Commit
  imports RF_Holds
begin

text \<open>
  \<^verbatim>\<open>src/runtime_commit.cpp\<close>: the commitment of one request, with or without a hold, and the
  all-or-nothing commitment of a bundle in three phases (assess, hold, commit) with its rollback.
\<close>

section \<open>One request\<close>

definition makeReservationFromRequest ::
    "ReservationRequest \<Rightarrow> ResourceId \<Rightarrow> ResourceGeneration \<Rightarrow> ReservationId \<Rightarrow>
     ReservationGeneration \<Rightarrow> Reservation" where
  "makeReservationFromRequest req resource boundGen i gen =
     \<lparr>rv_id = i, rv_generation = gen, rv_setId = StrongId 0, rv_groupId = StrongId 0,
      rv_strength = req_strength req, rv_class = req_class req, rv_unit = req_unit req,
      rv_resource = resource, rv_boundResourceGeneration = Some boundGen,
      rv_quantity = req_quantity req, rv_activated = Quantity_zero Unit_Count,
      rv_consumed = Quantity_zero Unit_Count, rv_window = req_window req,
      rv_activationMode = req_activationMode req, rv_lifecycle = Lifecycle_Committed,
      rv_owner = req_owner req, rv_ownerGeneration = req_ownerGeneration req,
      rv_workload = req_workload req, rv_workloadGeneration = req_workloadGeneration req,
      rv_execution = req_execution req, rv_executionGeneration = req_executionGeneration req,
      rv_capability = req_capability req, rv_locality = req_locality req,
      rv_topology = req_topology req, rv_compatibility = req_compatibility req,
      rv_policyGeneration = req_policyGeneration req,
      rv_priorityGeneration = req_priorityGeneration req,
      rv_priorityClass = req_priorityClass req, rv_preemptible = req_preemptible req,
      rv_exclusivity = req_exclusivity req, rv_elasticity = req_elasticity req,
      rv_renewal = req_renewal req, rv_transfer = req_transfer req,
      rv_fragmentationTolerance = req_fragmentationTolerance req,
      rv_allOrNothing = req_allOrNothing req, rv_provenance = req_provenance req,
      rv_activationGeneration = None, rv_consumptionGeneration = None,
      rv_releaseGeneration = None, rv_transferGeneration = None, rv_recoveryGeneration = None,
      rv_contributes = False, rv_persisted = False, rv_activatedAt = None,
      rv_releasedAt = None\<rparr>"

text \<open>
  Why a given hold does not serve the chosen resource. The callers pass only identities that are
  in the map.
\<close>

definition hold_refusal :: "ReservationHoldId option \<Rightarrow> ResourceId \<Rightarrow> Impl \<Rightarrow> string option" where
  "hold_refusal hold resourceId st =
     (case hold of
        None \<Rightarrow> None
      | Some i \<Rightarrow>
          (case map_of (st_holds st) i of
             None \<Rightarrow> Some ''hold resource mismatch''
           | Some h \<Rightarrow>
               if hold_state h \<noteq> Hold_Acquired then Some ''hold is not acquired''
               else if hold_resource h \<noteq> resourceId then Some ''hold resource mismatch''
               else None))"

text \<open>The committed hold leaves the line: its quantity is taken off whether it was applied or not.\<close>

definition commit_hold :: "ReservationHoldId \<Rightarrow> Impl \<Rightarrow> Impl" where
  "commit_hold i st =
     (case map_of (st_holds st) i of
        None \<Rightarrow> st
      | Some h \<Rightarrow>
          put_hold i (h\<lparr>hold_applied := False, hold_state := Hold_Committed\<rparr>,
            addHeldLocked (hold_resource h) (hs_window (hold_spec h))
              (- q_value (hs_quantity (hold_spec h))) (st_envelopes st)) st)"

definition next_generation :: "ReservationId \<Rightarrow> Impl \<Rightarrow> ReservationGeneration outcome" where
  "next_generation rid st =
     (case map_of (st_currentGen st) rid of
        None \<Rightarrow> Inr (StrongGeneration 1)
      | Some g \<Rightarrow> gen_next g)"

definition insert_reservation ::
    "ReservationRequest \<Rightarrow> ResourceId \<Rightarrow> ResourceGeneration \<Rightarrow> ReservationId \<Rightarrow>
     ReservationGeneration \<Rightarrow> Impl \<Rightarrow> Impl" where
  "insert_reservation req resourceId boundGen rid gen st =
     (let (r, es) = addContributionLocked
                      (makeReservationFromRequest req resourceId boundGen rid gen)
                      (st_envelopes st)
      in st\<lparr>st_currentGen := AList.update rid gen (st_currentGen st),
            st_envelopes := es,
            st_reservations := AList.update rid r (st_reservations st),
            st_requests :=
              (case map_of (st_requests st) (req_requestId req) of
                 None \<Rightarrow> AList.update (req_requestId req) rid (st_requests st)
               | Some _ \<Rightarrow> st_requests st)\<rparr>)"

definition commitOneLocked ::
    "ReservationRequest \<Rightarrow> ReservationHoldId option \<Rightarrow> ReservationResult operation" where
  "commitOneLocked req hold st =
     (let (rep, st1) = assessOne req st;
          out = ReservationResult_default\<lparr>rr_feasibility := rep\<rparr>
      in if \<not> report_admissible rep
         then (Inr (out\<lparr>rr_errorMessage := ''not admissible''\<rparr>), st1)
         else
           case findResourceLocked (fr_resource rep) st1 of
             None \<Rightarrow> (Inr (out\<lparr>rr_errorMessage := ''selected resource missing''\<rparr>), st1)
           | Some res \<Rightarrow>
               (case hold_refusal hold (fr_resource rep) st1 of
                  Some m \<Rightarrow> (Inr (out\<lparr>rr_errorMessage := m\<rparr>), st1)
                | None \<Rightarrow>
                    let rid = StrongId (st_nextReservationId st1 + 1);
                        st2 = st1\<lparr>st_nextReservationId := st_nextReservationId st1 + 1\<rparr>
                    in (case next_generation rid st2 of
                          Inl f \<Rightarrow> (Inl f, st2)
                        | Inr gen \<Rightarrow>
                            let st3 = insert_reservation req (fr_resource rep)
                                        (res_generation res) rid gen st2;
                                st4 = (case hold of None \<Rightarrow> st3 | Some i \<Rightarrow> commit_hold i st3)
                            in (Inr (out\<lparr>rr_committed := True, rr_id := rid,
                                        rr_generation := gen\<rparr>), st4))))"

definition rf_commit ::
    "ReservationRequest \<Rightarrow> ReservationHoldId option \<Rightarrow> ReservationResult operation" where
  "rf_commit req hold st =
     (case hold of
        None \<Rightarrow> commitOneLocked req None st
      | Some i \<Rightarrow>
          (case map_of (st_holds st) i of
             None \<Rightarrow> (Inr (ReservationResult_default\<lparr>rr_errorMessage := ''hold not found''\<rparr>), st)
           | Some _ \<Rightarrow> commitOneLocked req (Some i) st))"

section \<open>Bundles\<close>

definition bundle_hold_spec :: "ReservationRequest \<Rightarrow> ReservationHoldId \<Rightarrow> HoldSpec" where
  "bundle_hold_spec m i =
     \<lparr>hs_holdId = i, hs_holdGeneration = StrongGeneration 1, hs_owner = req_owner m,
      hs_ownerGeneration = req_ownerGeneration m, hs_class = req_class m, hs_unit = req_unit m,
      hs_quantity = req_quantity m, hs_window = req_window m,
      hs_policyGeneration = req_policyGeneration m, hs_commitAuthority = True,
      hs_provenance = []\<rparr>"

definition release_holds :: "ReservationHoldId list \<Rightarrow> Impl \<Rightarrow> Impl" where
  "release_holds ids st = fold releaseHoldLocked ids st"

text \<open>
  Phase 2: one hold for each member, in order; \<open>clock n\<close> is the \<open>n\<close>-th reading of the clock. The
  first refusal releases what was acquired. The answer is the list of hold identities, or \<open>None\<close>.
\<close>

fun acquire_all ::
    "(nat \<Rightarrow> Instant) \<Rightarrow> nat \<Rightarrow> ReservationRequest list \<Rightarrow> ReservationHoldId list \<Rightarrow>
     ReservationHoldId list option operation" where
  "acquire_all clock n [] holdIds st = (Inr (Some holdIds), st)"
| "acquire_all clock n (m # ms) holdIds st =
     (let i = StrongId (st_nextHoldId st + 1);
          st1 = st\<lparr>st_nextHoldId := st_nextHoldId st + 1\<rparr>
      in case acquireHoldLocked (clock n) (bundle_hold_spec m i) st1 of
           (Inl f, st2) \<Rightarrow> (Inl f, st2)
         | (Inr hr, st2) \<Rightarrow>
             if \<not> hr_created hr then (Inr None, release_holds holdIds st2)
             else acquire_all clock (n + 1) ms (holdIds @ [i]) st2)"

definition rollback_member :: "ReservationId \<Rightarrow> Impl \<Rightarrow> Impl" where
  "rollback_member i st =
     (case map_of (st_reservations st) i of
        None \<Rightarrow> st
      | Some r \<Rightarrow>
          let (r', es) = removeContributionLocked r (st_envelopes st)
          in st\<lparr>st_reservations :=
                   AList.update i (r'\<lparr>rv_lifecycle := Lifecycle_Cancelled\<rparr>) (st_reservations st),
                st_envelopes := es\<rparr>)"

text \<open>Phase 3: commit each member with its hold; on a refusal undo the members and drop the holds.\<close>

fun commit_all ::
    "ReservationRequest list \<Rightarrow> ReservationHoldId list \<Rightarrow> ReservationId list \<Rightarrow>
     ReservationId list option operation" where
  "commit_all (m # ms) (i # is) memberIds st =
     (case commitOneLocked m (Some i) st of
        (Inl f, st1) \<Rightarrow> (Inl f, st1)
      | (Inr rr, st1) \<Rightarrow>
          if \<not> rr_committed rr
          then (Inr None, release_holds (i # is) (fold rollback_member memberIds st1))
          else commit_all ms is (memberIds @ [rr_id rr]) st1)"
| "commit_all _ _ memberIds st = (Inr (Some memberIds), st)"

definition committed_set ::
    "ReservationRequest list \<Rightarrow> ReservationSetId \<Rightarrow> ReservationId list \<Rightarrow> ReservationSet" where
  "committed_set members sid memberIds =
     \<lparr>set_id = sid, set_generation = StrongGeneration 1, set_groupId = StrongId 0,
      set_owner = (if members = [] then StrongId 0 else req_owner (hd members)),
      set_ownerGeneration =
        (if members = [] then StrongGeneration 0 else req_ownerGeneration (hd members)),
      set_allOrNothing = True, set_tx = Tx_Committed, set_committed = True,
      set_rolledBack = False, set_persisted = False, set_members = memberIds\<rparr>"

definition commitBundle ::
    "(nat \<Rightarrow> Instant) \<Rightarrow> ReservationRequest list \<Rightarrow> ReservationHoldId option \<Rightarrow>
     CompositeResult operation" where
  "commitBundle clock members hold st =
     (let sid = StrongId (st_nextSetId st + 1);
          st1 = st\<lparr>st_nextSetId := st_nextSetId st + 1\<rparr>;
          (reps, st2) = assess_bundle members st1;
          out = CompositeResult_default\<lparr>cr_setId := sid, cr_assessments := reps\<rparr>
      in if list_ex (\<lambda>rep. \<not> report_admissible rep) reps
         then (Inr (out\<lparr>cr_rolledBack := True,
                 cr_errorMessage := ''bundle member not admissible; nothing committed''\<rparr>), st2)
         else
           case acquire_all clock 0 members [] st2 of
             (Inl f, st3) \<Rightarrow> (Inl f, st3)
           | (Inr None, st3) \<Rightarrow>
               (Inr (out\<lparr>cr_rolledBack := True, cr_errorMessage :=
                  ''bundle hold acquisition failed; all provisional holds released''\<rparr>), st3)
           | (Inr (Some holdIds), st3) \<Rightarrow>
               (case commit_all members holdIds [] st3 of
                  (Inl f, st4) \<Rightarrow> (Inl f, st4)
                | (Inr None, st4) \<Rightarrow>
                    (Inr (out\<lparr>cr_rolledBack := True,
                       cr_errorMessage := ''bundle commit failed; rolled back''\<rparr>), st4)
                | (Inr (Some memberIds), st4) \<Rightarrow>
                    (Inr (out\<lparr>cr_committed := True, cr_setGeneration := StrongGeneration 1,
                       cr_memberIds := memberIds\<rparr>),
                     st4\<lparr>st_sets := AList.update sid (committed_set members sid memberIds)
                                      (st_sets st4)\<rparr>)))"

end
