(* ===== verification/RF_Ops.thy ===== *)
theory RF_Ops
  imports RF_Commit
begin

text \<open>
  \<^verbatim>\<open>src/runtime_lifecycle.cpp\<close>: activation, consumption, release, cancellation and expiry of a
  reservation, and the three operations that make its next generation (resize, renew, transfer).
  The guards and their order are those of the code.
\<close>

section \<open>Evidence\<close>

text \<open>The three C++ helpers differ only in the type of the evidence.\<close>

definition worker_fresh :: "WorkerId \<Rightarrow> WorkerBootId \<Rightarrow> Resource \<Rightarrow> bool" where
  "worker_fresh w boot res \<longleftrightarrow> w = res_owner res \<and> boot = res_ownerBoot res"

definition workerEvidenceFreshLocked ::
    "Reservation \<Rightarrow> WorkerId \<Rightarrow> WorkerBootId \<Rightarrow> Impl \<Rightarrow> bool" where
  "workerEvidenceFreshLocked r w boot st =
     (case findResourceLocked (rv_resource r) st of
        None \<Rightarrow> False
      | Some res \<Rightarrow> res_available res \<and> worker_fresh w boot res)"

definition put_reservation :: "ReservationId \<Rightarrow> Reservation \<Rightarrow> Impl \<Rightarrow> Impl" where
  "put_reservation i r st = st\<lparr>st_reservations := AList.update i r (st_reservations st)\<rparr>"

text \<open>\<^verbatim>\<open>!r || r->generation != generation\<close>\<close>

definition current_reservation ::
    "ReservationId \<Rightarrow> ReservationGeneration \<Rightarrow> Impl \<Rightarrow> Reservation option" where
  "current_reservation i g st =
     (case reservationLocked i st of
        None \<Rightarrow> None
      | Some r \<Rightarrow> if rv_generation r \<noteq> g then None else Some r)"

section \<open>Activation\<close>

definition rf_activate ::
    "ReservationId \<Rightarrow> ReservationGeneration \<Rightarrow> ActivationEvidence \<Rightarrow> Impl \<Rightarrow>
     ActivationResult \<times> Impl" where
  "rf_activate i generation evidence st =
     (let out = mk_ActivationResult i generation
      in case current_reservation i generation st of
           None \<Rightarrow> (out\<lparr>ar_errorMessage := ''stale reservation generation''\<rparr>, st)
         | Some r \<Rightarrow>
             if rv_lifecycle r = Lifecycle_Active then (out\<lparr>ar_activated := True\<rparr>, st)
             else
               case findResourceLocked (rv_resource r) st of
                 None \<Rightarrow> (out\<lparr>ar_errorMessage := ''resource missing''\<rparr>, st)
               | Some res \<Rightarrow>
                   let resourceAdvanced = (case rv_boundResourceGeneration r of
                         None \<Rightarrow> False | Some g \<Rightarrow> res_generation res > g)
                   in if \<not> res_available res \<or> resourceAdvanced
                      then (out\<lparr>ar_revalidationRequired := True\<rparr>,
                            put_reservation i
                              (r\<lparr>rv_lifecycle := Lifecycle_RevalidationRequired\<rparr>) st)
                      else if \<not> worker_fresh (ae_worker evidence) (ae_workerBoot evidence) res
                      then (out\<lparr>ar_errorMessage :=
                              ''stale worker boot id cannot publish activation''\<rparr>, st)
                      else if \<not> iv_contains (rv_window r) (ae_at evidence)
                      then (out\<lparr>ar_errorMessage :=
                              ''activation instant outside reservation window''\<rparr>, st)
                      else if (case rv_activationGeneration r of
                                 None \<Rightarrow> False
                               | Some g \<Rightarrow> ae_activationGeneration evidence < g)
                      then (out\<lparr>ar_errorMessage := ''stale activation generation''\<rparr>, st)
                      else if \<not> (rv_lifecycle r = Lifecycle_Committed \<or>
                                 rv_lifecycle r = Lifecycle_PendingActivation \<or>
                                 rv_lifecycle r = Lifecycle_Activating)
                      then (out\<lparr>ar_errorMessage :=
                              ''reservation cannot activate from its current lifecycle''\<rparr>, st)
                      else (out\<lparr>ar_activated := True\<rparr>,
                            put_reservation i
                              (r\<lparr>rv_lifecycle := Lifecycle_Active,
                                 rv_activatedAt := Some (ae_at evidence),
                                 rv_activationGeneration := Some (ae_activationGeneration evidence),
                                 rv_activated := rv_quantity r\<rparr>) st))"

section \<open>Consumption\<close>

text \<open>
  The new consumed quantity is built with \<open>Quantity\<close> itself: it is at most the reserved one and
  has the unit of \<open>amount\<close>, so neither the addition nor the constructor can fail.
\<close>

definition rf_consume ::
    "ReservationId \<Rightarrow> ReservationGeneration \<Rightarrow> Quantity \<Rightarrow> ConsumeEvidence \<Rightarrow> Impl \<Rightarrow>
     ConsumeResult \<times> Impl" where
  "rf_consume i generation amount evidence st =
     (let out = mk_ConsumeResult i generation
      in case current_reservation i generation st of
           None \<Rightarrow> (out\<lparr>cs_errorMessage := ''stale reservation generation''\<rparr>, st)
         | Some r \<Rightarrow>
             if \<not> (rv_lifecycle r = Lifecycle_Active \<or>
                    rv_lifecycle r = Lifecycle_PartiallyConsumed \<or>
                    rv_lifecycle r = Lifecycle_Consumed)
             then (out\<lparr>cs_errorMessage := ''consumption requires an active reservation''\<rparr>, st)
             else if q_value amount \<le> 0 \<or> q_unit amount \<noteq> rv_unit r
             then (out\<lparr>cs_errorMessage := ''invalid consumption amount''\<rparr>, st)
             else if \<not> workerEvidenceFreshLocked r (ce_worker evidence) (ce_workerBoot evidence) st
             then (out\<lparr>cs_errorMessage := ''stale worker boot id cannot publish consumption''\<rparr>, st)
             else if (case rv_consumptionGeneration r of
                        None \<Rightarrow> False | Some g \<Rightarrow> ce_consumptionGeneration evidence < g)
             then (out\<lparr>cs_errorMessage := ''stale consumption generation''\<rparr>, st)
             else if (case rv_consumptionGeneration r of
                        None \<Rightarrow> False | Some g \<Rightarrow> ce_consumptionGeneration evidence = g)
             then (out\<lparr>cs_idempotent := True, cs_consumedQuantity := rv_consumed r,
                      cs_remaining := remaining_quantity r\<rparr>, st)
             else if q_value amount > q_value (rv_quantity r) - q_value (rv_consumed r)
             then (out\<lparr>cs_errorMessage :=
                      ''consumption exceeds remaining reservation quantity''\<rparr>, st)
             else
               let c = Quantity (q_value (rv_consumed r) + q_value amount) (rv_unit r);
                   r' = r\<lparr>rv_consumed := c,
                          rv_consumptionGeneration := Some (ce_consumptionGeneration evidence),
                          rv_lifecycle := (if c = rv_quantity r then Lifecycle_Consumed
                                           else Lifecycle_PartiallyConsumed)\<rparr>
               in (out\<lparr>cs_consumed := True, cs_consumedQuantity := c,
                       cs_remaining := remaining_quantity r'\<rparr>,
                   put_reservation i r' st))"

section \<open>Release, cancellation, expiry\<close>

text \<open>Take the reservation off the line and change the entry by \<open>f\<close>.\<close>

definition withdraw :: "ReservationId \<Rightarrow> (Reservation \<Rightarrow> Reservation) \<Rightarrow> Reservation \<Rightarrow> Impl \<Rightarrow> Impl" where
  "withdraw i f r st =
     (let (r', es) = removeContributionLocked r (st_envelopes st)
      in put_reservation i (f r') (st\<lparr>st_envelopes := es\<rparr>))"

definition rf_release ::
    "ReservationId \<Rightarrow> ReservationGeneration \<Rightarrow> ReleaseEvidence \<Rightarrow> Impl \<Rightarrow>
     ReleaseResult \<times> Impl" where
  "rf_release i generation evidence st =
     (let out = mk_ReleaseResult i generation
      in case current_reservation i generation st of
           None \<Rightarrow> (out\<lparr>rl_errorMessage := ''stale reservation generation''\<rparr>, st)
         | Some r \<Rightarrow>
             if rv_lifecycle r = Lifecycle_Released
             then (out\<lparr>rl_released := True, rl_idempotent := True\<rparr>, st)
             else if rv_lifecycle r = Lifecycle_Expired \<or> rv_lifecycle r = Lifecycle_Cancelled
             then (out\<lparr>rl_released := True, rl_idempotent := True\<rparr>, st)
             else if \<not> workerEvidenceFreshLocked r (le_worker evidence) (le_workerBoot evidence) st
             then (out\<lparr>rl_errorMessage :=
                     ''stale worker boot id cannot publish release evidence''\<rparr>, st)
             else if (case rv_releaseGeneration r of
                        None \<Rightarrow> False | Some g \<Rightarrow> le_releaseGeneration evidence < g)
             then (out\<lparr>rl_errorMessage := ''stale release generation''\<rparr>, st)
             else (out\<lparr>rl_released := True\<rparr>,
                   withdraw i (\<lambda>r'. r'\<lparr>rv_lifecycle := Lifecycle_Released,
                       rv_releasedAt := Some (le_at evidence),
                       rv_releaseGeneration := Some (le_releaseGeneration evidence)\<rparr>) r st))"

definition rf_cancel :: "ReservationId \<Rightarrow> ReservationGeneration \<Rightarrow> unit operation" where
  "rf_cancel i generation st =
     (case current_reservation i generation st of
        None \<Rightarrow> (throw_error StaleGeneration ''stale reservation generation'', st)
      | Some r \<Rightarrow>
          if rv_lifecycle r = Lifecycle_Cancelled \<or> rv_lifecycle r = Lifecycle_Released \<or>
             rv_lifecycle r = Lifecycle_Expired
          then (Inr (), st)
          else (Inr (), withdraw i (\<lambda>r'. r'\<lparr>rv_lifecycle := Lifecycle_Cancelled\<rparr>) r st))"

text \<open>
  The second disjunct of the C++ condition ends in \<^verbatim>\<open>&& false\<close>. A window is due when its end
  lies strictly before \<open>now\<close>.
\<close>

definition is_due :: "Instant \<Rightarrow> Reservation \<Rightarrow> bool" where
  "is_due now r \<longleftrightarrow>
     lifecycle_holds_capacity (rv_lifecycle r) \<and>
     \<not> (rv_lifecycle r = Lifecycle_Released \<or> rv_lifecycle r = Lifecycle_Expired \<or>
        rv_lifecycle r = Lifecycle_Cancelled \<or> rv_lifecycle r = Lifecycle_Superseded) \<and>
     (iv_end (rv_window r) < now \<or> (rv_activationMode r = ImmediateAfterCommit \<and> False))"

definition expire_reservation ::
    "Instant \<Rightarrow> Reservation \<Rightarrow> envelopes \<Rightarrow> Reservation \<times> envelopes" where
  "expire_reservation now r es =
     (if is_due now r
      then (let (r', es') = removeContributionLocked r es
            in (r'\<lparr>rv_lifecycle := Lifecycle_Expired, rv_releasedAt := Some now\<rparr>, es'))
      else (r, es))"

definition expireDue :: "Instant \<Rightarrow> Impl \<Rightarrow> nat \<times> Impl" where
  "expireDue now st =
     (let (rs, es) = for_each (expire_reservation now) (st_reservations st) (st_envelopes st)
      in (length (filter (\<lambda>(_, r). is_due now r) (st_reservations st)),
          st\<lparr>st_reservations := rs, st_envelopes := es\<rparr>))"

section \<open>The next generation\<close>

definition history_of :: "ReservationId \<Rightarrow> Impl \<Rightarrow> Reservation list" where
  "history_of i st = (case map_of (st_history st) i of None \<Rightarrow> [] | Some h \<Rightarrow> h)"

text \<open>\<^verbatim>\<open>history[id].push_back(old); if (history[id].size() > max) history[id].pop_front();\<close>\<close>

definition push_history :: "ReservationId \<Rightarrow> Reservation \<Rightarrow> Impl \<Rightarrow> Impl" where
  "push_history i r st =
     (let h = history_of i st @ [r\<lparr>rv_contributes := False\<rparr>];
          h' = (if length h > cfg_maxHistoryPerReservation (st_config st) then tl h else h)
      in st\<lparr>st_history := AList.update i h' (st_history st)\<rparr>)"

text \<open>\<^verbatim>\<open>currentGen[id]\<close> of a missing entry is the default generation, zero.\<close>

definition current_gen :: "ReservationId \<Rightarrow> Impl \<Rightarrow> ReservationGeneration" where
  "current_gen i st =
     (case map_of (st_currentGen st) i of None \<Rightarrow> StrongGeneration 0 | Some g \<Rightarrow> g)"

text \<open>The headroom on the reservation's resource for a window, zero without an envelope.\<close>

definition headroom_on ::
    "ReservationStrength \<Rightarrow> ResourceId \<Rightarrow> Interval \<Rightarrow> envelopes \<Rightarrow> int \<times> envelopes" where
  "headroom_on s i w es =
     (case envelopeLocked i es of
        None \<Rightarrow> (0, es)
      | Some e \<Rightarrow>
          let (h, e') = (if isHard s then env_minHardHeadroom w e else env_minSoftHeadroom w e)
          in (h, AList.update i e' es))"

text \<open>
  The common tail of resize and renew: the old value goes to the history, the new generation is
  marked as contributing and then handed to \<^verbatim>\<open>addContributionLocked\<close>, and replaces the old one.
\<close>

definition supersede ::
    "ReservationId \<Rightarrow> Reservation \<Rightarrow> (Reservation \<Rightarrow> Reservation) \<Rightarrow>
     ReservationGeneration operation" where
  "supersede i r change st =
     (let st1 = push_history i r st
      in case gen_next (current_gen i st1) of
           Inl f \<Rightarrow> (Inl f, st1)
         | Inr g \<Rightarrow>
             let nr = (change r)\<lparr>rv_generation := g, rv_lifecycle := Lifecycle_Committed,
                        rv_activationGeneration := None, rv_contributes := True\<rparr>;
                 (nr', es) = addContributionLocked nr (st_envelopes st1)
             in (Inr g, st1\<lparr>st_envelopes := es,
                   st_currentGen := AList.update i g (st_currentGen st1),
                   st_reservations := AList.update i nr' (st_reservations st1)\<rparr>))"

definition rf_resize ::
    "ReservationId \<Rightarrow> ReservationGeneration \<Rightarrow> Quantity \<Rightarrow> PolicyGeneration \<Rightarrow>
     ModifyResult operation" where
  "rf_resize i generation newQuantity policyGeneration st =
     (let out = mk_ModifyResult i generation
      in case current_reservation i generation st of
           None \<Rightarrow> (Inr (out\<lparr>mr_errorMessage := ''stale reservation generation''\<rparr>), st)
         | Some r \<Rightarrow>
             if q_value newQuantity \<le> 0 \<or> q_unit newQuantity \<noteq> rv_unit r
             then (Inr (out\<lparr>mr_errorMessage := ''invalid new quantity''\<rparr>), st)
             else if policyGeneration < rv_policyGeneration r
             then (Inr (out\<lparr>mr_errorMessage := ''stale policy generation''\<rparr>), st)
             else
               let oldV = q_value (rv_quantity r); newV = q_value newQuantity;
                   (r1, es1) = removeContributionLocked r (st_envelopes st);
                   (headroom, es2) =
                     headroom_on (rv_strength r1) (rv_resource r1) (rv_window r1) es1
               in if headroom < newV
                  then (let (r2, es3) = addContributionLocked r1 es2
                        in (Inr (out\<lparr>mr_errorMessage :=
                              ''resize rejected: proposed quantity not admissible''\<rparr>),
                            put_reservation i r2 (st\<lparr>st_envelopes := es3\<rparr>)))
                  else
                    let st1 = put_reservation i r1 (st\<lparr>st_envelopes := es2\<rparr>)
                    in case supersede i r1 (\<lambda>r. r\<lparr>rv_quantity := newQuantity,
                              rv_policyGeneration := policyGeneration,
                              rv_consumed := Quantity_zero (rv_unit r),
                              rv_activated := Quantity_zero (rv_unit r)\<rparr>) st1 of
                         (Inl f, st2) \<Rightarrow> (Inl f, st2)
                       | (Inr g, st2) \<Rightarrow>
                           (Inr (out\<lparr>mr_acquiredDelta := (if newV > oldV then newV - oldV else 0),
                                     mr_releasedDelta := (if newV > oldV then 0 else oldV - newV),
                                     mr_newGeneration := g, mr_applied := True\<rparr>), st2))"

definition rf_renew ::
    "ReservationId \<Rightarrow> ReservationGeneration \<Rightarrow> Interval \<Rightarrow> PolicyGeneration \<Rightarrow>
     ModifyResult operation" where
  "rf_renew i generation newWindow policyGeneration st =
     (let out = mk_ModifyResult i generation
      in case current_reservation i generation st of
           None \<Rightarrow> (Inr (out\<lparr>mr_errorMessage := ''stale reservation generation''\<rparr>), st)
         | Some r \<Rightarrow>
             if policyGeneration < rv_policyGeneration r
             then (Inr (out\<lparr>mr_errorMessage := ''stale policy generation''\<rparr>), st)
             else
               let (r1, es1) = removeContributionLocked r (st_envelopes st);
                   (headroom, es2) =
                     headroom_on (rv_strength r1) (rv_resource r1) newWindow es1
               in if headroom < q_value (rv_quantity r1)
                  then (let (r2, es3) = addContributionLocked r1 es2
                        in (Inr (out\<lparr>mr_errorMessage :=
                              ''renew rejected: new window not admissible''\<rparr>),
                            put_reservation i r2 (st\<lparr>st_envelopes := es3\<rparr>)))
                  else
                    let st1 = put_reservation i r1 (st\<lparr>st_envelopes := es2\<rparr>)
                    in case supersede i r1 (\<lambda>r. r\<lparr>rv_window := newWindow,
                              rv_policyGeneration := policyGeneration\<rparr>) st1 of
                         (Inl f, st2) \<Rightarrow> (Inl f, st2)
                       | (Inr g, st2) \<Rightarrow>
                           (Inr (out\<lparr>mr_newGeneration := g, mr_applied := True\<rparr>), st2))"

definition rf_transfer ::
    "ReservationId \<Rightarrow> ReservationGeneration \<Rightarrow> OwnerId \<Rightarrow> OwnerGeneration \<Rightarrow>
     ActivationEvidence \<Rightarrow> ModifyResult operation" where
  "rf_transfer i generation newOwner newOwnerGeneration evidence st =
     (let out = mk_ModifyResult i generation
      in case current_reservation i generation st of
           None \<Rightarrow> (Inr (out\<lparr>mr_errorMessage := ''stale reservation generation''\<rparr>), st)
         | Some r \<Rightarrow>
             if rv_transfer r \<noteq> TransferAllowed
             then (Inr (out\<lparr>mr_errorMessage := ''transfer not permitted by reservation policy''\<rparr>), st)
             else if \<not> (id_valid newOwner \<and> gen_valid newOwnerGeneration)
             then (Inr (out\<lparr>mr_errorMessage := ''invalid destination authority''\<rparr>), st)
             else if \<not> workerEvidenceFreshLocked r (ae_worker evidence) (ae_workerBoot evidence) st
             then (Inr (out\<lparr>mr_errorMessage := ''stale transfer authority''\<rparr>), st)
             else
               let st1 = push_history i r st
               in case gen_next (current_gen i st1) of
                    Inl f \<Rightarrow> (Inl f, st1)
                  | Inr g \<Rightarrow>
                      let nr = r\<lparr>rv_generation := g, rv_owner := newOwner,
                                 rv_ownerGeneration := newOwnerGeneration,
                                 rv_transferGeneration := Some (StrongGeneration 1),
                                 rv_lifecycle := Lifecycle_Committed,
                                 rv_activationGeneration := None\<rparr>
                      in (Inr (out\<lparr>mr_newGeneration := g, mr_applied := True\<rparr>),
                          st1\<lparr>st_currentGen := AList.update i g (st_currentGen st1),
                              st_reservations := AList.update i nr (st_reservations st1)\<rparr>))"

end
