(* ===== verification/RF_Query.thy ===== *)
theory RF_Query
  imports RF_Ops
begin

text \<open>
  \<^verbatim>\<open>src/runtime_query.cpp\<close>: lookups and counts over the registry, and the accounting snapshot
  of a resource. The totals of the snapshot are 64-bit sums in the code; a sum that leaves the range
  is the failure \<open>SignedOverflow\<close>.
\<close>

section \<open>Lookups and counts\<close>

definition rf_reservation :: "ReservationId \<Rightarrow> Impl \<Rightarrow> Reservation option" where
  "rf_reservation i st = map_of (st_reservations st) i"

definition rf_reservation_gen ::
    "ReservationId \<Rightarrow> ReservationGeneration \<Rightarrow> Impl \<Rightarrow> Reservation option" where
  "rf_reservation_gen i g st = reservationByGenLocked i g st"

definition reservationIds :: "Impl \<Rightarrow> ReservationId list" where
  "reservationIds st = map fst (st_reservations st)"

definition reservationsForResource :: "ResourceId \<Rightarrow> Impl \<Rightarrow> ReservationId list" where
  "reservationsForResource i st =
     map fst (filter (\<lambda>(_, r). rv_resource r = i) (st_reservations st))"

definition reservationsForOwner :: "OwnerId \<Rightarrow> Impl \<Rightarrow> ReservationId list" where
  "reservationsForOwner o' st =
     map fst (filter (\<lambda>(_, r). rv_owner r = o') (st_reservations st))"

definition currentReservationCount :: "Impl \<Rightarrow> nat" where
  "currentReservationCount st = length (st_reservations st)"

definition resourceCount :: "Impl \<Rightarrow> nat" where
  "resourceCount st = length (st_resources st)"

definition holdCount :: "Impl \<Rightarrow> nat" where
  "holdCount st = length (filter (\<lambda>(_, h). hold_state h = Hold_Acquired) (st_holds st))"

definition setCount :: "Impl \<Rightarrow> nat" where
  "setCount st = length (st_sets st)"

definition isRetiredLifecycle :: "Lifecycle \<Rightarrow> bool" where
  "isRetiredLifecycle l \<longleftrightarrow> l = Lifecycle_Released \<or> l = Lifecycle_Expired \<or>
     l = Lifecycle_Cancelled \<or> l = Lifecycle_Superseded \<or> l = Lifecycle_Retired"

section \<open>Accounting\<close>

record Totals =
  tt_committed :: int
  tt_softCommitted :: int
  tt_active :: int
  tt_consumed :: int
  tt_released :: int
  tt_expired :: int
  tt_cancelled :: int

definition Totals_zero :: Totals where
  "Totals_zero = \<lparr>tt_committed = 0, tt_softCommitted = 0, tt_active = 0, tt_consumed = 0,
     tt_released = 0, tt_expired = 0, tt_cancelled = 0\<rparr>"

text \<open>One turn of the loop over the reservations: the contribution, then the lifecycle category.\<close>

definition account_contribution :: "Reservation \<Rightarrow> Totals \<Rightarrow> Totals outcome" where
  "account_contribution r t =
     (if \<not> rv_contributes r then Inr t
      else if isHard (rv_strength r)
      then bind_outcome (ub_i64 (tt_committed t + q_value (rv_quantity r)))
             (\<lambda>v. Inr (t\<lparr>tt_committed := v\<rparr>))
      else bind_outcome (ub_i64 (tt_softCommitted t + q_value (rv_quantity r)))
             (\<lambda>v. Inr (t\<lparr>tt_softCommitted := v\<rparr>)))"

fun account_lifecycle :: "Lifecycle \<Rightarrow> int \<Rightarrow> int \<Rightarrow> Totals \<Rightarrow> Totals outcome" where
  "account_lifecycle Lifecycle_Active q c t =
     bind_outcome (ub_i64 (tt_active t + q)) (\<lambda>v.
       bind_outcome (ub_i64 (tt_consumed t + c)) (\<lambda>w.
         Inr (t\<lparr>tt_active := v, tt_consumed := w\<rparr>)))"
| "account_lifecycle Lifecycle_PartiallyConsumed q c t =
     bind_outcome (ub_i64 (tt_active t + q)) (\<lambda>v.
       bind_outcome (ub_i64 (tt_consumed t + c)) (\<lambda>w.
         Inr (t\<lparr>tt_active := v, tt_consumed := w\<rparr>)))"
| "account_lifecycle Lifecycle_Consumed q c t =
     bind_outcome (ub_i64 (tt_active t + q)) (\<lambda>v.
       bind_outcome (ub_i64 (tt_consumed t + c)) (\<lambda>w.
         Inr (t\<lparr>tt_active := v, tt_consumed := w\<rparr>)))"
| "account_lifecycle Lifecycle_Released q c t =
     bind_outcome (ub_i64 (tt_released t + q)) (\<lambda>v. Inr (t\<lparr>tt_released := v\<rparr>))"
| "account_lifecycle Lifecycle_Expired q c t =
     bind_outcome (ub_i64 (tt_expired t + q)) (\<lambda>v. Inr (t\<lparr>tt_expired := v\<rparr>))"
| "account_lifecycle Lifecycle_Cancelled q c t =
     bind_outcome (ub_i64 (tt_cancelled t + q)) (\<lambda>v. Inr (t\<lparr>tt_cancelled := v\<rparr>))"
| "account_lifecycle _ q c t = Inr t"

fun account_reservations :: "ResourceId \<Rightarrow> reservations \<Rightarrow> Totals \<Rightarrow> Totals outcome" where
  "account_reservations i [] t = Inr t"
| "account_reservations i ((_, r) # rs) t =
     (if rv_resource r \<noteq> i then account_reservations i rs t
      else bind_outcome (account_contribution r t) (\<lambda>t1.
        bind_outcome (account_lifecycle (rv_lifecycle r) (q_value (rv_quantity r))
                        (q_value (rv_consumed r)) t1)
          (account_reservations i rs)))"

fun account_holds :: "ResourceId \<Rightarrow> hold_map \<Rightarrow> int \<Rightarrow> int outcome" where
  "account_holds i [] heldV = Inr heldV"
| "account_holds i ((_, h) # hs) heldV =
     (if hold_applied h \<and> hold_resource h = i
      then bind_outcome (ub_i64 (heldV + q_value (hs_quantity (hold_spec h))))
             (account_holds i hs)
      else account_holds i hs heldV)"

text \<open>Headroom and peak over the whole horizon of the envelope, zero without an envelope.\<close>

definition account_envelope ::
    "ResourceId \<Rightarrow> envelopes \<Rightarrow> (int \<times> int \<times> envelopes) outcome" where
  "account_envelope i es =
     (case envelopeLocked i es of
        None \<Rightarrow> Inr (0, 0, es)
      | Some e \<Rightarrow>
          bind_outcome (mk_Interval_length (env_origin e) (env_horizon e)) (\<lambda>whole.
            let (h, e1) = env_minHardHeadroom whole e; (p, e2) = env_peakCombinedHard whole e1
            in Inr (h, p, AList.update i e2 es)))"

definition fill_accounting ::
    "ResourceId \<Rightarrow> Resource \<Rightarrow> Totals \<Rightarrow> int \<Rightarrow> int \<Rightarrow> int \<Rightarrow> CapacityAccounting outcome" where
  "fill_accounting i res t heldV headroom peak =
     (let q = (\<lambda>v. mk_Quantity v (res_unit res)) in
      bind_outcome (q (tt_committed t)) (\<lambda>committed.
      bind_outcome (q (tt_softCommitted t)) (\<lambda>soft.
      bind_outcome (q heldV) (\<lambda>heldQ.
      bind_outcome (q (tt_active t)) (\<lambda>active.
      bind_outcome (q (tt_consumed t)) (\<lambda>consumed.
      bind_outcome (q (tt_released t)) (\<lambda>released.
      bind_outcome (q (tt_expired t)) (\<lambda>expired.
      bind_outcome (q (tt_cancelled t)) (\<lambda>cancelled.
      bind_outcome (q (if headroom < 0 then 0 else headroom)) (\<lambda>headroomQ.
      bind_outcome (q peak) (\<lambda>peakQ.
      bind_outcome (ub_i64 (tt_committed t + tt_softCommitted t)) (\<lambda>s1.
      bind_outcome (ub_i64 (s1 + heldV)) (\<lambda>s2.
        Inr (CapacityAccounting_default\<lparr>ca_resource := i, ca_generation := res_generation res,
          ca_class := res_class res, ca_unit := res_unit res, ca_total := res_totalCapacity res,
          ca_committed := committed, ca_softCommitted := soft, ca_held := heldQ,
          ca_active := active, ca_consumed := consumed, ca_released := released,
          ca_expired := expired, ca_cancelled := cancelled, ca_headroom := headroomQ,
          ca_peakCommittedFuture := peakQ,
          ca_consistent :=
            (s2 \<le> q_value (res_totalCapacity res) \<and> headroom \<ge> 0)\<rparr>))))))))))))))"

definition rf_accounting :: "ResourceId \<Rightarrow> CapacityAccounting operation" where
  "rf_accounting i st =
     (case findResourceLocked i st of
        None \<Rightarrow> (Inr CapacityAccounting_default, st)
      | Some res \<Rightarrow>
          (case account_reservations i (st_reservations st) Totals_zero of
             Inl f \<Rightarrow> (Inl f, st)
           | Inr t \<Rightarrow>
               (case account_holds i (st_holds st) 0 of
                  Inl f \<Rightarrow> (Inl f, st)
                | Inr heldV \<Rightarrow>
                    (case account_envelope i (st_envelopes st) of
                       Inl f \<Rightarrow> (Inl f, st)
                     | Inr (headroom, peak, es) \<Rightarrow>
                         (fill_accounting i res t heldV headroom peak,
                          st\<lparr>st_envelopes := es\<rparr>)))))"

end
