(* ===== verification/RF_Invariant.thy ===== *)
theory RF_Invariant
  imports RF_Query
begin

text \<open>
  The invariant of the runtime and its preservation by each operation: the envelopes mirror the
  registry, every contribution is on an existing envelope, every quantity is non-negative, a hold is
  on the line exactly while it is acquired, and no identity above the counter is in use.
\<close>

definition resv_ok :: "ResourceId set \<Rightarrow> u64 \<Rightarrow> ReservationId \<Rightarrow> Reservation \<Rightarrow> bool" where
  "resv_ok E n k r \<longleftrightarrow> id_value k \<le> n \<and> 0 \<le> q_value (rv_quantity r) \<and>
     (rv_contributes r \<longrightarrow> rv_resource r \<in> E)"

definition hold_ok :: "ResourceId set \<Rightarrow> Hold \<Rightarrow> bool" where
  "hold_ok E h \<longleftrightarrow> 0 \<le> q_value (hs_quantity (hold_spec h)) \<and>
     (hold_applied h \<longleftrightarrow> hold_state h = Hold_Acquired) \<and>
     (hold_applied h \<longrightarrow> hold_resource h \<in> E)"

definition resvs_ok :: "ResourceId set \<Rightarrow> u64 \<Rightarrow> reservations \<Rightarrow> bool" where
  "resvs_ok E n rs \<longleftrightarrow> (\<forall>(k, r)\<in>set rs. resv_ok E n k r)"

definition holds_ok :: "ResourceId set \<Rightarrow> hold_map \<Rightarrow> bool" where
  "holds_ok E hs \<longleftrightarrow> (\<forall>(k, h)\<in>set hs. hold_ok E h)"

definition runtime_inv :: "Impl \<Rightarrow> bool" where
  "runtime_inv st \<longleftrightarrow> mirror_inv st \<and> 0 < dur_ns (st_horizon st) \<and>
     map fst (st_resources st) = map fst (st_envelopes st) \<and>
     resvs_ok (fst ` set (st_envelopes st)) (st_nextReservationId st) (st_reservations st) \<and>
     holds_ok (fst ` set (st_envelopes st)) (st_holds st)"

text \<open>No instant of any line carries more hard commitments and holds than its capacity.\<close>

definition hard_safe :: "Impl \<Rightarrow> bool" where
  "hard_safe st \<longleftrightarrow> (\<forall>i t p. env_point (st_envelopes st) i t = Some p \<longrightarrow>
     pt_hard p + pt_held p \<le> pt_cap p)"

section \<open>The shape of a step\<close>

text \<open>
  \<open>effect st st' h l\<close>: the step keeps the invariant and moves the hard load by \<open>h\<close> and the held
  load by \<open>l\<close>.
\<close>

definition effect ::
    "Impl \<Rightarrow> Impl \<Rightarrow> (ResourceId \<Rightarrow> int \<Rightarrow> int) \<Rightarrow> (ResourceId \<Rightarrow> int \<Rightarrow> int) \<Rightarrow> bool" where
  "effect st st' h l \<longleftrightarrow> runtime_inv st' \<and>
     (\<exists>s. moves (st_envelopes st) (st_envelopes st') h s l)"

lemma effect_safe:
  assumes "effect st st' h l" "hard_safe st"
    and "\<And>i t. env_point (st_envelopes st) i t \<noteq> None \<Longrightarrow> h i t + l i t \<le> 0"
  shows "runtime_inv st' \<and> hard_safe st'"
proof -
  from assms(1) obtain s where m: "moves (st_envelopes st) (st_envelopes st') h s l"
    and inv: "runtime_inv st'" by (auto simp: effect_def)
  have "pt_hard p + pt_held p \<le> pt_cap p" if p: "env_point (st_envelopes st') i t = Some p" for i t p
  proof -
    from m p obtain q where q: "env_point (st_envelopes st) i t = Some q"
      "p = shift (h i t) (s i t) (l i t) q" by (auto simp: moves_def)
    with assms(2) have "pt_hard q + pt_held q \<le> pt_cap q" by (simp add: hard_safe_def)
    with q assms(3) [of i t] show ?thesis by simp
  qed
  with inv show ?thesis by (simp add: hard_safe_def)
qed

lemma moves_keys: "moves es es' h s l \<Longrightarrow> fst ` set es' = fst ` set es"
  by (metis moves_def set_map)

lemma effectI:
  assumes inv: "runtime_inv st" and m: "moves (st_envelopes st) (st_envelopes st') h s l"
    and keys: "keys_distinct (st_reservations st')" "keys_distinct (st_holds st')"
    and H: "\<And>i t. env_point (st_envelopes st) i t \<noteq> None \<Longrightarrow>
      asum (hard_of i t) (st_reservations st') = asum (hard_of i t) (st_reservations st) + h i t"
    and S: "\<And>i t. env_point (st_envelopes st) i t \<noteq> None \<Longrightarrow>
      asum (soft_of i t) (st_reservations st') = asum (soft_of i t) (st_reservations st) + s i t"
    and L: "\<And>i t. env_point (st_envelopes st) i t \<noteq> None \<Longrightarrow>
      asum (held_of i t) (st_holds st') = asum (held_of i t) (st_holds st) + l i t"
    and res: "map fst (st_resources st') = map fst (st_resources st)" "st_horizon st' = st_horizon st"
    and rs: "resvs_ok (fst ` set (st_envelopes st)) (st_nextReservationId st') (st_reservations st')"
    and hs: "holds_ok (fst ` set (st_envelopes st)) (st_holds st')"
  shows "effect st st' h l"
proof -
  have mir: "mirror_inv st" using inv by (simp add: runtime_inv_def)
  have "mirror_inv st'" by (rule mirror_inv_step [OF mir m keys H S L])
  moreover have "map fst (st_envelopes st') = map fst (st_envelopes st)"
    using m by (simp add: moves_def)
  ultimately have "runtime_inv st'"
    using inv res rs hs moves_keys [OF m] by (simp add: runtime_inv_def)
  with m show ?thesis by (auto simp: effect_def)
qed

subsection \<open>Steps that change no load\<close>

text \<open>The part of a reservation that the line depends on.\<close>

definition same_load :: "Reservation \<Rightarrow> Reservation \<Rightarrow> bool" where
  "same_load r r' \<longleftrightarrow> rv_resource r' = rv_resource r \<and> rv_window r' = rv_window r \<and>
     rv_strength r' = rv_strength r \<and> rv_contributes r' = rv_contributes r \<and>
     q_value (rv_quantity r') = q_value (rv_quantity r)"

lemma same_load_of [simp]:
  "same_load r r' \<Longrightarrow> hard_of i t r' = hard_of i t r"
  "same_load r r' \<Longrightarrow> soft_of i t r' = soft_of i t r"
  "same_load r r' \<Longrightarrow> resv_ok E n k r' = resv_ok E n k r"
  by (simp_all add: same_load_def hard_of_def soft_of_def resv_ok_def)

lemma resvs_ok_update:
  "resvs_ok E n rs \<Longrightarrow> resv_ok E n k r \<Longrightarrow> resvs_ok E n (AList.update k r rs)"
  by (induction rs) (auto simp: resvs_ok_def)

lemma holds_ok_update: "holds_ok E hs \<Longrightarrow> hold_ok E h \<Longrightarrow> holds_ok E (AList.update k h hs)"
  by (induction hs) (auto simp: holds_ok_def)

lemma resvs_okD: "resvs_ok E n rs \<Longrightarrow> map_of rs k = Some r \<Longrightarrow> resv_ok E n k r"
  by (auto simp: resvs_ok_def dest: map_of_SomeD)

lemma holds_okD: "holds_ok E hs \<Longrightarrow> map_of hs k = Some h \<Longrightarrow> hold_ok E h"
  by (auto simp: holds_ok_def dest: map_of_SomeD)

lemma resvs_ok_amap:
  assumes "\<And>r. same_load r (f r)"
  shows "resvs_ok E n (amap_values f rs) = resvs_ok E n rs"
proof -
  have "resv_ok E n k (f r) = resv_ok E n k r" for k r using assms [of r] by simp
  then show ?thesis by (simp add: resvs_ok_def amap_values_def split_beta)
qed

lemma asum_amap_same:
  assumes "\<And>r. same_load r (f r)"
  shows "asum (hard_of i t) (amap_values f rs) = asum (hard_of i t) rs"
    and "asum (soft_of i t) (amap_values f rs) = asum (soft_of i t) rs"
  by (simp_all add: comp_def same_load_of [OF assms])

definition quiet :: "Impl \<Rightarrow> Impl \<Rightarrow> bool" where
  "quiet st st' \<longleftrightarrow> effect st st' (\<lambda>_ _. 0) (\<lambda>_ _. 0)"

lemma runtime_envs_ok: "runtime_inv st \<Longrightarrow> envs_ok (st_envelopes st)"
  by (simp add: runtime_inv_def mirror_inv_def)

lemma runtime_parts:
  assumes "runtime_inv st"
  shows "mirror_inv st" "keys_distinct (st_reservations st)" "keys_distinct (st_holds st)"
    "0 < dur_ns (st_horizon st)"
    "map fst (st_resources st) = map fst (st_envelopes st)"
    "resvs_ok (fst ` set (st_envelopes st)) (st_nextReservationId st) (st_reservations st)"
    "holds_ok (fst ` set (st_envelopes st)) (st_holds st)"
  using assms by (simp_all add: runtime_inv_def mirror_inv_def)

lemma quiet_query:
  assumes "runtime_inv st" "moves (st_envelopes st) es (\<lambda>_ _. 0) (\<lambda>_ _. 0) (\<lambda>_ _. 0)"
  shows "quiet st (st\<lparr>st_envelopes := es\<rparr>)"
  unfolding quiet_def
  by (rule effectI [OF assms(1), where s = "\<lambda>_ _. 0"])
     (use assms runtime_parts [OF assms(1)] in simp_all)

lemma quiet_put:
  assumes inv: "runtime_inv st" and r: "map_of (st_reservations st) i = Some r"
    and same: "same_load r r'"
  shows "quiet st (put_reservation i r' st)"
  unfolding quiet_def put_reservation_def
  by (rule effectI [OF inv, where s = "\<lambda>_ _. 0"])
     (use runtime_parts [OF inv] r same runtime_envs_ok [OF inv] in
       \<open>simp_all add: asum_update_present moves_refl resvs_ok_update resvs_okD\<close>)

lemma quiet_amap:
  assumes inv: "runtime_inv st" and same: "\<And>r. same_load r (f r)"
  shows "quiet st (st\<lparr>st_reservations := amap_values f (st_reservations st)\<rparr>)"
  unfolding quiet_def
  by (rule effectI [OF inv, where s = "\<lambda>_ _. 0"])
     (use runtime_parts [OF inv] runtime_envs_ok [OF inv] in
       \<open>simp_all add: moves_refl asum_amap_same [OF same] resvs_ok_amap [OF same]
          del: asum_amap_values\<close>)

text \<open>The invariant looks at nothing but the maps above.\<close>

lemma runtime_inv_cong:
  "runtime_inv st \<Longrightarrow> st_envelopes st' = st_envelopes st \<Longrightarrow>
   st_reservations st' = st_reservations st \<Longrightarrow> st_holds st' = st_holds st \<Longrightarrow>
   map fst (st_resources st') = map fst (st_resources st) \<Longrightarrow> st_horizon st' = st_horizon st \<Longrightarrow>
   st_nextReservationId st' = st_nextReservationId st \<Longrightarrow> runtime_inv st'"
  by (simp add: runtime_inv_def mirror_inv_def)

lemma quiet_cong:
  "runtime_inv st \<Longrightarrow> st_envelopes st' = st_envelopes st \<Longrightarrow>
   st_reservations st' = st_reservations st \<Longrightarrow> st_holds st' = st_holds st \<Longrightarrow>
   map fst (st_resources st') = map fst (st_resources st) \<Longrightarrow> st_horizon st' = st_horizon st \<Longrightarrow>
   st_nextReservationId st' = st_nextReservationId st \<Longrightarrow> quiet st st'"
  unfolding quiet_def effect_def
  by (auto intro: runtime_inv_cong moves_refl dest: runtime_envs_ok)

lemma quiet_refl: "runtime_inv st \<Longrightarrow> quiet st st"
  by (rule quiet_cong) simp_all

lemma effect_trans:
  "effect st st1 h l \<Longrightarrow> effect st1 st2 h' l' \<Longrightarrow>
   effect st st2 (\<lambda>i t. h i t + h' i t) (\<lambda>i t. l i t + l' i t)"
  unfolding effect_def by (blast intro: moves_trans)

lemma quiet_trans: "quiet st st1 \<Longrightarrow> quiet st1 st2 \<Longrightarrow> quiet st st2"
  unfolding quiet_def using effect_trans [of st st1 "\<lambda>_ _. 0" "\<lambda>_ _. 0" st2] by fastforce

lemma quiet_inv: "quiet st st' \<Longrightarrow> runtime_inv st'"
  by (simp add: quiet_def effect_def)

end
