(* ===== verification/RF_Preserve.thy ===== *)
theory RF_Preserve
  imports RF_Invariant
begin

text \<open>
  Each operation of the runtime against the invariant: queries and changes of evidence move no load,
  releases and expiries only take load off, a hold and a commitment add exactly their quantity
  to their window.
\<close>

section \<open>Operations that move no load\<close>

lemma assessOne_quiet:
  assumes "runtime_inv st" "assessOne req st = (rep, st')"
  shows "quiet st st'"
proof (rule assessOne_frame [OF assms(2)])
  fix es assume "st' = st\<lparr>st_envelopes := es\<rparr>"
    and "envs_ok (st_envelopes st) \<Longrightarrow> moves (st_envelopes st) es (\<lambda>_ _. 0) (\<lambda>_ _. 0) (\<lambda>_ _. 0)"
  then show ?thesis using quiet_query [OF assms(1)] runtime_envs_ok [OF assms(1)] by simp
qed

lemma assess_quiet: "runtime_inv st \<Longrightarrow> quiet st (snd (rf_assess req st))"
  using assessOne_quiet [of st req] by (cases "assessOne req st") (simp add: rf_assess_def)

lemma assess_bundle_quiet: "runtime_inv st \<Longrightarrow> assess_bundle reqs st = (reps, st') \<Longrightarrow> quiet st st'"
proof (induction reqs arbitrary: st reps st')
  case (Cons r rs)
  obtain rep st1 where 1: "assessOne r st = (rep, st1)" by fastforce
  obtain reps2 st2 where 2: "assess_bundle rs st1 = (reps2, st2)" by fastforce
  note q = assessOne_quiet [OF Cons.prems(1) 1]
  from quiet_trans [OF q Cons.IH [OF quiet_inv [OF q] 2]] show ?case
    using Cons.prems(2) 1 2 by simp
qed (simp add: quiet_refl)

text \<open>A query of one envelope puts back an envelope with the same line.\<close>

lemma update_same_line_moves:
  assumes "envs_ok es" "map_of es i = Some e" "env_inv e'" "env_bp e' = env_bp e"
    "env_profile e' = env_profile e"
  shows "moves es (AList.update i e' es) (\<lambda>_ _. 0) (\<lambda>_ _. 0) (\<lambda>_ _. 0)"
  using moves_update [OF assms(1,2,3,4), of "\<lambda>_. 0" "\<lambda>_. 0" "\<lambda>_. 0"] assms(5)
  by (simp add: option.map_id)

lemma headroom_on_eq:
  "headroom_on s i w es =
   headroomForLocked (ReservationRequest_default\<lparr>req_strength := s, req_window := w\<rparr>) i es"
  by (simp add: headroomForLocked_def headroom_on_def split: option.split)

lemma headroom_on_moves:
  "envs_ok es \<Longrightarrow> headroom_on s i w es = (h, es') \<Longrightarrow>
   moves es es' (\<lambda>_ _. 0) (\<lambda>_ _. 0) (\<lambda>_ _. 0)"
  unfolding headroom_on_eq by (rule headroomFor_moves)

lemma headroomOverWindow_quiet:
  "runtime_inv st \<Longrightarrow> quiet st (snd (headroomOverWindow i w hard st))"
proof (cases "map_of (st_envelopes st) i")
  case (Some e)
  assume inv: "runtime_inv st"
  then have e: "env_inv e" using Some runtime_envs_ok by (auto simp: envs_ok_def)
  show ?thesis
    using Some e inv
    by (auto simp: headroomOverWindow_def envelopeLocked_def case_prod_beta envelope.inv_laws
        envelope.bp_laws envelope.prof_laws runtime_envs_ok
        intro!: quiet_query update_same_line_moves)
qed (simp add: headroomOverWindow_def envelopeLocked_def quiet_refl)

lemma headroomAt_quiet: "runtime_inv st \<Longrightarrow> quiet st (snd (headroomAt i t hard st))"
proof (cases "map_of (st_envelopes st) i")
  case (Some e)
  assume inv: "runtime_inv st"
  then have e: "env_inv e" using Some runtime_envs_ok by (auto simp: envs_ok_def)
  show ?thesis
    using Some e inv
    by (auto simp: headroomAt_def envelopeLocked_def case_prod_beta envelope.inv_laws
        envelope.bp_laws envelope.prof_laws runtime_envs_ok quiet_refl split: sum.splits
        intro!: quiet_query update_same_line_moves)
qed (simp add: headroomAt_def envelopeLocked_def quiet_refl)

lemma accounting_quiet: "runtime_inv st \<Longrightarrow> quiet st (snd (rf_accounting i st))"
proof -
  assume inv: "runtime_inv st"
  have "quiet st (st\<lparr>st_envelopes := es\<rparr>)"
    if a: "account_envelope i (st_envelopes st) = Inr (h, p, es)" for h p es
  proof (cases "map_of (st_envelopes st) i")
    case None
    with a have "es = st_envelopes st" by (simp add: account_envelope_def envelopeLocked_def)
    then show ?thesis using quiet_query [OF inv moves_refl [OF runtime_envs_ok [OF inv]]] by simp
  next
    case (Some e)
    then have e: "env_inv e" using inv runtime_envs_ok by (auto simp: envs_ok_def)
    show ?thesis
      using a Some e inv
      by (auto simp: account_envelope_def envelopeLocked_def case_prod_beta bind_outcome_Inr_iff
          envelope.inv_laws envelope.bp_laws envelope.prof_laws runtime_envs_ok Let_def
          intro!: quiet_query update_same_line_moves)
  qed
  then show ?thesis
    using quiet_refl [OF inv] by (auto simp: rf_accounting_def split: option.splits sum.splits)
qed

lemma current_reservation_Some:
  "current_reservation i g st = Some r \<longleftrightarrow>
   map_of (st_reservations st) i = Some r \<and> rv_generation r = g"
  by (auto simp: current_reservation_def reservationLocked_def split: option.splits)

lemma activate_quiet: "runtime_inv st \<Longrightarrow> quiet st (snd (rf_activate i g ev st))"
  by (auto simp: rf_activate_def Let_def current_reservation_Some quiet_refl same_load_def
      split: option.splits intro!: quiet_put)

lemma consume_quiet: "runtime_inv st \<Longrightarrow> quiet st (snd (rf_consume i g amount ev st))"
  by (auto simp: rf_consume_def Let_def current_reservation_Some quiet_refl same_load_def
      split: option.splits intro!: quiet_put)

lemma epoch_quiet: "runtime_inv st \<Longrightarrow> quiet st (snd (setCoordinatorEpoch e st))"
  by (auto simp: setCoordinatorEpoch_def Let_def split: sum.splits intro!: quiet_refl quiet_cong)

lemma put_resource_quiet:
  "runtime_inv st \<Longrightarrow> map_of (st_resources st) i = Some res \<Longrightarrow> quiet st (put_resource i res' st)"
  by (rule quiet_cong) (simp_all add: put_resource_def map_fst_update_present)

lemma invalidate_quiet:
  assumes "runtime_inv st"
  shows "quiet st (snd (invalidateResource n st))"
proof (cases "map_of (st_resources st) (in_resource n)")
  case None
  with assms show ?thesis by (simp add: invalidateResource_def quiet_refl)
next
  case (Some res)
  note q = put_resource_quiet [OF assms Some, of "res\<lparr>res_available := False\<rparr>"]
  show ?thesis
    unfolding invalidateResource_def Let_def Some option.case snd_conv
    by (rule quiet_trans [OF q quiet_amap [OF quiet_inv [OF q]]]) (simp add: same_load_def)
qed

lemma advance_quiet:
  assumes "runtime_inv st"
  shows "quiet st (snd (advanceResourceGeneration i g c st))"
proof (cases "map_of (st_resources st) i")
  case None
  with assms show ?thesis by (simp add: advanceResourceGeneration_def quiet_refl)
next
  case (Some res)
  note q = put_resource_quiet [OF assms Some]
  show ?thesis
  proof (cases "g \<le> res_generation res")
    case True
    then show ?thesis using Some assms by (simp add: advanceResourceGeneration_def quiet_refl)
  next
    case False
    show ?thesis
      unfolding advanceResourceGeneration_def Let_def Some option.case if_not_P [OF False] snd_conv
      by (rule quiet_trans [OF q quiet_amap [OF quiet_inv [OF q]]])
         (simp add: same_load_def flag_revalidation_def)
  qed
qed

lemma revalidate_quiet:
  assumes "runtime_inv st"
  shows "quiet st (snd (revalidateResource i pub st))"
proof (cases "map_of (st_resources st) i")
  case None
  with assms show ?thesis by (simp add: revalidateResource_def quiet_refl)
next
  case (Some res)
  let ?st1 = "st\<lparr>st_workerBoots :=
    AList.update (pub_worker pub) (pub_workerBoot pub) (st_workerBoots st)\<rparr>"
  have 1: "quiet st ?st1" by (rule quiet_cong [OF assms]) simp_all
  have 2: "quiet ?st1 (put_resource i res' ?st1)" for res'
    by (rule put_resource_quiet [OF quiet_inv [OF 1], where res = res]) (simp add: Some)
  have 3: "quiet (put_resource i res' ?st1) ((put_resource i res' ?st1)\<lparr>st_reservations :=
      amap_values f (st_reservations (put_resource i res' ?st1))\<rparr>)"
    if "\<And>r. same_load r (f r)" for res' f
    by (rule quiet_amap [OF quiet_inv [OF 2] that])
  show ?thesis
    using Some quiet_refl [OF assms]
    by (simp add: revalidateResource_def Let_def)
       (auto intro!: quiet_trans [OF 1 quiet_trans [OF 2 3]] simp: same_load_def)
qed

lemma transfer_quiet:
  assumes "runtime_inv st"
  shows "quiet st (snd (rf_transfer i g own og ev st))"
proof (cases "current_reservation i g st")
  case None
  with assms show ?thesis by (simp add: rf_transfer_def quiet_refl)
next
  case (Some r)
  let ?st1 = "push_history i r st"
  have 1: "quiet st ?st1" by (rule quiet_cong [OF assms]) (simp_all add: push_history_def Let_def)
  have r: "map_of (st_reservations ?st1) i = Some r"
    using Some by (simp add: current_reservation_Some push_history_def Let_def)
  have 2: "quiet st (?st1\<lparr>st_currentGen := cg,
      st_reservations := AList.update i r' (st_reservations ?st1)\<rparr>)" if "same_load r r'" for cg r'
  proof -
    note q = quiet_put [OF quiet_inv [OF 1] r that]
    have "quiet (put_reservation i r' ?st1) ((put_reservation i r' ?st1)\<lparr>st_currentGen := cg\<rparr>)"
      by (rule quiet_cong [OF quiet_inv [OF q]]) simp_all
    from quiet_trans [OF 1 quiet_trans [OF q this]] show ?thesis
      by (cases ?st1) (simp add: put_reservation_def)
  qed
  show ?thesis
    using Some quiet_refl [OF assms] 1
    by (auto simp: rf_transfer_def Let_def same_load_def split: sum.splits intro!: 2)
qed

section \<open>Operations that take load off\<close>

definition sheds :: "Impl \<Rightarrow> Impl \<Rightarrow> bool" where
  "sheds st st' \<longleftrightarrow> (\<exists>h l. effect st st' h l \<and> (\<forall>i t. h i t \<le> 0 \<and> l i t \<le> 0))"

lemma quiet_sheds: "quiet st st' \<Longrightarrow> sheds st st'"
  by (force simp: quiet_def sheds_def)

lemma sheds_trans: "sheds st st1 \<Longrightarrow> sheds st1 st2 \<Longrightarrow> sheds st st2"
  unfolding sheds_def by (blast intro: effect_trans add_nonpos_nonpos)

lemma sheds_inv: "sheds st st' \<Longrightarrow> runtime_inv st'"
  by (auto simp: sheds_def effect_def)

lemma sheds_safe:
  assumes "sheds st st'" "hard_safe st"
  shows "hard_safe st'"
proof -
  obtain h l where "effect st st' h l" "\<And>i t. h i t \<le> 0 \<and> l i t \<le> 0"
    using assms(1) unfolding sheds_def by blast
  with effect_safe [OF _ assms(2), of st' h l] show ?thesis by (simp add: add_nonpos_nonpos)
qed

lemma sheds_refl: "runtime_inv st \<Longrightarrow> sheds st st"
  by (simp add: quiet_sheds quiet_refl)

lemma removeContribution_resv:
  assumes "removeContributionLocked r es = (r', es')" "resv_ok E n k r"
  shows "resv_ok E n k r'" "hard_of i t r' \<le> hard_of i t r" "soft_of i t r' \<le> soft_of i t r"
proof -
  have "fst (removeContributionLocked r es) \<in> {r, r\<lparr>rv_contributes := False\<rparr>}"
    by (simp add: removeContributionLocked_def split: option.split)
  then consider "r' = r" | "r' = r\<lparr>rv_contributes := False\<rparr>"
    unfolding assms(1) fst_conv by blast
  then show "resv_ok E n k r'" "hard_of i t r' \<le> hard_of i t r" "soft_of i t r' \<le> soft_of i t r"
    by (cases; use assms(2) in \<open>simp add: resv_ok_def hard_of_def soft_of_def\<close>)+
qed

text \<open>A final change \<open>f\<close> of the entry that the line does not depend on.\<close>

lemma withdraw_sheds:
  assumes inv: "runtime_inv st" and r: "map_of (st_reservations st) i = Some r"
    and f: "\<And>r. same_load r (f r)"
  shows "sheds st (withdraw i f r st)"
proof -
  obtain r' es where w: "removeContributionLocked r (st_envelopes st) = (r', es)" by fastforce
  note ok = resvs_okD [OF runtime_parts(6) [OF inv] r]
  have "effect st (withdraw i f r st) (\<lambda>j t. hard_of j t r' - hard_of j t r) (\<lambda>_ _. 0)"
    by (rule effectI [OF inv, where s = "\<lambda>j t. soft_of j t r' - soft_of j t r"])
       (use runtime_parts [OF inv] removeContribution_moves [OF runtime_envs_ok [OF inv] w] r
          same_load_of [OF f] removeContribution_resv(1) [OF w ok] in
         \<open>simp_all add: withdraw_def w put_reservation_def asum_update_present resvs_ok_update\<close>)
  then show ?thesis
    unfolding sheds_def using removeContribution_resv(2) [OF w ok]
    by (intro exI conjI) (assumption, simp)
qed

lemma release_sheds: "runtime_inv st \<Longrightarrow> sheds st (snd (rf_release i g ev st))"
  by (auto simp: rf_release_def Let_def current_reservation_Some same_load_def
      split: option.splits intro!: withdraw_sheds sheds_refl)

lemma cancel_sheds: "runtime_inv st \<Longrightarrow> sheds st (snd (rf_cancel i g st))"
  by (auto simp: rf_cancel_def Let_def current_reservation_Some same_load_def
      split: option.splits intro!: withdraw_sheds sheds_refl)

lemma expire_reservation_step:
  assumes "expire_reservation now r es = (r', es')"
  shows "envs_ok es \<Longrightarrow> moves es es' (\<lambda>i t. hard_of i t r' - hard_of i t r)
      (\<lambda>i t. soft_of i t r' - soft_of i t r) (\<lambda>_ _. 0)"
    and "resv_ok E n k r \<Longrightarrow> resv_ok E n k r' \<and> hard_of i t r' \<le> hard_of i t r"
proof -
  have "r' = r \<and> es' = es \<or> (\<exists>r1. removeContributionLocked r es = (r1, es') \<and> same_load r1 r')"
    using assms by (auto simp: expire_reservation_def same_load_def split: if_splits prod.splits)
  then show "envs_ok es \<Longrightarrow> moves es es' (\<lambda>i t. hard_of i t r' - hard_of i t r)
      (\<lambda>i t. soft_of i t r' - soft_of i t r) (\<lambda>_ _. 0)"
    and "resv_ok E n k r \<Longrightarrow> resv_ok E n k r' \<and> hard_of i t r' \<le> hard_of i t r"
    using removeContribution_moves removeContribution_resv by (fastforce simp: moves_refl)+
qed

text \<open>A loop keeps what its body keeps, entry by entry.\<close>

lemma for_each_entries:
  assumes "for_each f xs es = (xs', es')" "\<And>k v. (k, v) \<in> set xs \<Longrightarrow> P k v"
    and "\<And>k v es v' es'. P k v \<Longrightarrow> f v es = (v', es') \<Longrightarrow> Q k v'"
  shows "\<forall>(k, v)\<in>set xs'. Q k v"
  using assms
proof (induction xs arbitrary: es xs' es')
  case (Cons x xs)
  obtain k v where x: "x = (k, v)" by fastforce
  obtain v' es1 where v: "f v es = (v', es1)" by fastforce
  obtain ys es2 where ys: "for_each f xs es1 = (ys, es2)" by fastforce
  have "\<forall>(k, v)\<in>set ys. Q k v" by (rule Cons.IH [OF ys]) (use Cons.prems in auto)
  moreover have "P k v" using Cons.prems(2) by (simp add: x)
  then have "Q k v'" using v by (rule Cons.prems(3))
  ultimately show ?case using Cons.prems(1) v ys x by auto
qed simp

lemma for_each_asum_le:
  assumes "for_each f xs es = (xs', es')" "\<And>k v. (k, v) \<in> set xs \<Longrightarrow> P k v"
    and "\<And>k v es v' es'. P k v \<Longrightarrow> f v es = (v', es') \<Longrightarrow> g v' \<le> g v"
  shows "asum g xs' \<le> asum g xs"
  using assms
proof (induction xs arbitrary: es xs' es')
  case (Cons x xs)
  obtain k v where x: "x = (k, v)" by fastforce
  obtain v' es1 where v: "f v es = (v', es1)" by fastforce
  obtain ys es2 where ys: "for_each f xs es1 = (ys, es2)" by fastforce
  have "asum g ys \<le> asum g xs" by (rule Cons.IH [OF ys]) (use Cons.prems in auto)
  moreover have "P k v" using Cons.prems(2) by (simp add: x)
  then have "g v' \<le> g v" using v by (rule Cons.prems(3))
  ultimately show ?case using Cons.prems(1) v ys x by auto
qed simp

lemma expireDue_sheds:
  assumes inv: "runtime_inv st"
  shows "sheds st (snd (expireDue now st))"
proof -
  let ?E = "fst ` set (st_envelopes st)" and ?n = "st_nextReservationId st"
  obtain rs es where l: "for_each (expire_reservation now) (st_reservations st) (st_envelopes st)
      = (rs, es)" by fastforce
  have ok: "\<And>k r. (k, r) \<in> set (st_reservations st) \<Longrightarrow> resv_ok ?E ?n k r"
    using runtime_parts(6) [OF inv] by (auto simp: resvs_ok_def)
  have m: "moves (st_envelopes st) es
      (\<lambda>i t. asum (hard_of i t) rs - asum (hard_of i t) (st_reservations st))
      (\<lambda>i t. asum (soft_of i t) rs - asum (soft_of i t) (st_reservations st)) (\<lambda>_ _. 0)"
    using reservation_loop [OF _ runtime_envs_ok [OF inv] l] expire_reservation_step(1)
    by (fastforce intro: moves_cong)
  have rs: "resvs_ok ?E ?n rs"
    unfolding resvs_ok_def
    by (rule for_each_entries [OF l ok]) (use expire_reservation_step(2) in blast)+
  have le: "asum (hard_of i t) rs \<le> asum (hard_of i t) (st_reservations st)" for i t
    by (rule for_each_asum_le [OF l ok]) (use expire_reservation_step(2) in blast)+
  have "effect st (snd (expireDue now st))
      (\<lambda>i t. asum (hard_of i t) rs - asum (hard_of i t) (st_reservations st)) (\<lambda>_ _. 0)"
    by (rule effectI [OF inv, where s = "\<lambda>i t. asum (soft_of i t) rs -
            asum (soft_of i t) (st_reservations st)"])
       (use runtime_parts [OF inv] m rs for_each_keys [OF l] in \<open>simp_all add: expireDue_def l\<close>)
  then show ?thesis
    unfolding sheds_def using le by (intro exI conjI) (assumption, simp)
qed

subsection \<open>Holds\<close>

lemma drop_hold_ok:
  assumes "drop_hold s h es = (h', es')" "hold_ok E h" "s \<noteq> Hold_Acquired"
  shows "hold_ok E h'" "held_of i t h' \<le> held_of i t h"
proof -
  have h': "h' = h\<lparr>hold_applied := False, hold_state := s\<rparr>"
    using assms(1) by (cases "hold_applied h") (auto simp: drop_hold_def)
  show "hold_ok E h'" "held_of i t h' \<le> held_of i t h"
    using assms(2,3) by (simp_all add: h' hold_ok_def held_of_def)
qed

lemma put_hold_sheds:
  assumes inv: "runtime_inv st" and h: "map_of (st_holds st) i = Some h"
    and m: "moves (st_envelopes st) es (\<lambda>_ _. 0) (\<lambda>_ _. 0) (\<lambda>j t. held_of j t h' - held_of j t h)"
    and ok: "hold_ok (fst ` set (st_envelopes st)) h'" and le: "\<And>j t. held_of j t h' \<le> held_of j t h"
  shows "sheds st (put_hold i (h', es) st)"
proof -
  have "effect st (put_hold i (h', es) st) (\<lambda>_ _. 0) (\<lambda>j t. held_of j t h' - held_of j t h)"
    by (rule effectI [OF inv, where s = "\<lambda>_ _. 0"])
       (use runtime_parts [OF inv] m ok h in
         \<open>simp_all add: put_hold_def asum_update_present holds_ok_update\<close>)
  then show ?thesis unfolding sheds_def using le by (intro exI conjI) (assumption, simp)
qed

lemma drop_hold_sheds:
  assumes inv: "runtime_inv st" and h: "map_of (st_holds st) i = Some h" and s: "s \<noteq> Hold_Acquired"
  shows "sheds st (put_hold i (drop_hold s h (st_envelopes st)) st)"
proof -
  obtain h' es where d: "drop_hold s h (st_envelopes st) = (h', es)" by fastforce
  note ok = holds_okD [OF runtime_parts(7) [OF inv] h]
  show ?thesis unfolding d
    by (rule put_hold_sheds [OF inv h drop_hold_moves [OF runtime_envs_ok [OF inv] d]
          drop_hold_ok(1,2) [OF d ok s]])
qed

lemma releaseHold_sheds: "runtime_inv st \<Longrightarrow> sheds st (snd (releaseHold i g st))"
  by (auto simp: releaseHold_def split: option.splits
      intro!: sheds_refl drop_hold_sheds)

lemma releaseHoldLocked_sheds:
  assumes inv: "runtime_inv st"
  shows "sheds st (releaseHoldLocked i st)"
proof (cases "map_of (st_holds st) i")
  case None
  then show ?thesis using quiet_sheds [OF quiet_refl [OF inv]] by (simp add: releaseHoldLocked_def)
next
  case (Some h)
  note ok = holds_okD [OF runtime_parts(7) [OF inv] Some]
  let ?h = "h\<lparr>hold_state := Hold_Released, hold_applied := False\<rparr>"
  have "sheds st (put_hold i (?h, st_envelopes st) st)" if "hold_state h \<noteq> Hold_Acquired"
  proof -
    have na: "\<not> hold_applied h" using ok that by (simp add: hold_ok_def)
    show ?thesis
      using na ok runtime_envs_ok [OF inv]
      by (intro put_hold_sheds [OF inv Some]) (simp_all add: held_of_def hold_ok_def moves_refl)
  qed
  then show ?thesis using Some drop_hold_sheds [OF inv Some] by (auto simp: releaseHoldLocked_def)
qed

lemma release_holds_sheds: "runtime_inv st \<Longrightarrow> sheds st (release_holds is st)"
  unfolding release_holds_def
proof (induction "is" arbitrary: st)
  case (Cons i "is")
  note s = releaseHoldLocked_sheds [OF Cons.prems, of i]
  from sheds_trans [OF s Cons.IH [OF sheds_inv [OF s]]] show ?case by simp
qed (simp add: quiet_sheds quiet_refl)

lemma expireHolds_sheds:
  assumes inv: "runtime_inv st"
  shows "sheds st (expireHolds now st)"
proof -
  let ?E = "fst ` set (st_envelopes st)"
  obtain hs es where l: "for_each (expire_hold now) (st_holds st) (st_envelopes st) = (hs, es)"
    by fastforce
  have ok: "\<And>k h. (k, h) \<in> set (st_holds st) \<Longrightarrow> hold_ok ?E h"
    using runtime_parts(7) [OF inv] by (auto simp: holds_ok_def)
  have step: "hold_ok E h' \<and> held_of i t h' \<le> held_of i t h"
    if "expire_hold now h es = (h', es')" "hold_ok E h" for E h es h' es' i t
    using that drop_hold_ok by (fastforce simp: expire_hold_def split: if_splits)
  have m: "moves (st_envelopes st) es (\<lambda>_ _. 0) (\<lambda>_ _. 0)
      (\<lambda>i t. asum (held_of i t) hs - asum (held_of i t) (st_holds st))"
    using hold_loop [OF _ runtime_envs_ok [OF inv] l] expire_hold_moves
    by (fastforce intro: moves_cong)
  have hs: "holds_ok ?E hs"
    unfolding holds_ok_def by (rule for_each_entries [OF l ok]) (use step in blast)+
  have le: "asum (held_of i t) hs \<le> asum (held_of i t) (st_holds st)" for i t
    by (rule for_each_asum_le [OF l ok]) (use step in blast)+
  have "effect st (expireHolds now st) (\<lambda>_ _. 0)
      (\<lambda>i t. asum (held_of i t) hs - asum (held_of i t) (st_holds st))"
    by (rule effectI [OF inv, where s = "\<lambda>_ _. 0"])
       (use runtime_parts [OF inv] m hs for_each_keys [OF l] in \<open>simp_all add: expireHolds_def l\<close>)
  then show ?thesis unfolding sheds_def using le by (intro exI conjI) (assumption, simp)
qed

end
