(* ===== verification/RF_Growth.thy ===== *)
theory RF_Growth
  imports RF_Preserve
begin

text \<open>
  The operations that put load on the line: acquiring a hold, committing a request, publishing a new
  resource. Each adds exactly its quantity over its window, and an admitted hard quantity fits.
\<close>

section \<open>A step that fits\<close>

definition bump :: "ResourceId \<Rightarrow> Interval \<Rightarrow> int \<Rightarrow> ResourceId \<Rightarrow> int \<Rightarrow> int" where
  "bump b w q i t = (if i = b \<and> in_window w t then q else 0)"

lemma effect_fits:
  assumes "effect st st' h l"
    and "\<And>i t p. env_point (st_envelopes st) i t = Some p \<Longrightarrow>
      pt_hard p + h i t + (pt_held p + l i t) \<le> pt_cap p"
  shows "hard_safe st'"
proof -
  from assms(1) obtain s where m: "moves (st_envelopes st) (st_envelopes st') h s l"
    by (auto simp: effect_def)
  show ?thesis
    unfolding hard_safe_def
  proof (intro allI impI)
    fix i t p assume "env_point (st_envelopes st') i t = Some p"
    with m obtain q where q: "env_point (st_envelopes st) i t = Some q"
      "p = shift (h i t) (s i t) (l i t) q" by (auto simp: moves_def)
    with assms(2) [OF q(1)] show "pt_hard p + pt_held p \<le> pt_cap p" by simp
  qed
qed

lemma min_over_le: "finite P \<Longrightarrow> p \<in> P \<Longrightarrow> min_over f P \<le> f p"
  by (auto simp: min_over_def intro: Min_le)

lemma finite_env_points:
  assumes "envs_ok es"
  shows "finite (window_points (env_point es i) w)"
proof (cases "map_of es i")
  case None
  then have "window_points (env_point es i) w = {}" by (auto simp: window_points_def env_point_def)
  then show ?thesis by simp
next
  case (Some e)
  then have "env_inv e" using assms by (simp add: envs_ok_def)
  moreover have "env_point es i = env_profile e" using Some by (intro ext) (simp add: env_point_def)
  ultimately show ?thesis using envelope.finite_points by simp
qed

text \<open>The reported hard headroom bounds the slack at every instant of the window.\<close>

lemma line_headroom_le:
  assumes "envs_ok es" "isHard (req_strength req)" "env_point es i t = Some p"
    and "in_window (req_window req) t"
  shows "line_headroom req es i \<le> slackH p"
proof -
  obtain e where e: "map_of es i = Some e"
    using assms(3) by (auto simp: env_point_def split: option.splits)
  have "p \<in> window_points (env_point es i) (req_window req)"
    using assms(3,4) by (auto simp: window_points_def)
  from min_over_le [OF finite_env_points [OF assms(1)] this, of slackH] show ?thesis
    using assms(2) e by (simp add: line_headroom_def)
qed

lemma bump_fits:
  assumes "runtime_inv st" "hard_safe st" "isHard (req_strength req)"
    and "q \<le> line_headroom req (st_envelopes st) b"
    and "env_point (st_envelopes st) i t = Some p"
  shows "pt_hard p + pt_held p + bump b (req_window req) q i t \<le> pt_cap p"
proof (cases "i = b \<and> in_window (req_window req) t")
  case True
  with line_headroom_le [OF runtime_envs_ok [OF assms(1)] assms(3,5)] assms(4) show ?thesis
    by (simp add: bump_def slackH_def)
next
  case False
  then show ?thesis using assms(2,5) by (auto simp: bump_def hard_safe_def)
qed

section \<open>Acquiring a hold\<close>

lemma best_headroom:
  assumes "runtime_inv st" "id_valid b"
    and "choose_best req (matchingResourcesLocked req st) (StrongId 0) INT64_MIN (st_envelopes st)
      = (b, bh, es)"
  shows "bh = line_headroom req (st_envelopes st) b"
    and "b \<in> fst ` set (st_envelopes st)"
proof -
  have "best_of (candidates req st) (StrongId 0) INT64_MIN = (b, bh)"
    using choose_best_best_of [OF runtime_envs_ok [OF assms(1)] assms(3)]
    by (simp add: candidates_def)
  then have m: "(b, bh) \<in> set (candidates req st)"
    using best_of_mem [of "candidates req st"] assms(2) by fastforce
  then show "bh = line_headroom req (st_envelopes st) b" by (auto simp: candidates_def)
  from m have "b \<in> fst ` set (st_resources st)"
    by (force simp: candidates_def matchingResourcesLocked_def)
  then show "b \<in> fst ` set (st_envelopes st)"
    using runtime_parts(5) [OF assms(1)] by (metis set_map)
qed

lemma acquireHold_cases:
  assumes inv: "runtime_inv st" and fresh: "map_of (st_holds st) (hs_holdId spec) = None"
    and run: "acquireHoldLocked now spec st = (res, st')"
  obtains (refused) "quiet st st'" "\<And>hr. res = Inr hr \<Longrightarrow> \<not> hr_created hr"
      "map fst (st_holds st') = map fst (st_holds st)"
      "st_nextReservationId st' = st_nextReservationId st" "st_reservations st' = st_reservations st"
  | (acquired) b where
      "effect st st' (\<lambda>_ _. 0) (bump b (hs_window spec) (q_value (hs_quantity spec)))"
      "q_value (hs_quantity spec) \<le> line_headroom (hold_probe spec) (st_envelopes st) b"
      "\<exists>hr. res = Inr hr \<and> hr_created hr"
      "st_reservations st' = st_reservations st"
      "st_nextReservationId st' = st_nextReservationId st"
      "\<exists>h. map_of (st_holds st') (hs_holdId spec) = Some h \<and> hold_spec h = spec \<and>
         hold_resource h = b \<and> hold_state h = Hold_Acquired"
      "\<And>k. k \<noteq> hs_holdId spec \<Longrightarrow> map_of (st_holds st') k = map_of (st_holds st) k"
proof -
  let ?p = "hold_probe spec" and ?q = "q_value (hs_quantity spec)"
  obtain b bh es where ch: "choose_best ?p (matchingResourcesLocked ?p st) (StrongId 0) INT64_MIN
      (st_envelopes st) = (b, bh, es)" by (metis prod_cases3)
  note envs = runtime_envs_ok [OF inv]
  note q = choose_best_moves [OF envs ch]
  note quiet = quiet_query [OF inv q]
  show ?thesis
  proof (cases "0 < ?q \<and> id_valid b \<and> ?q \<le> bh \<and>
      (\<exists>hr. res = Inr hr \<and> hr_created hr)")
    case False
    have "st' = st \<or> st' = st\<lparr>st_envelopes := es\<rparr>"
      using run False
      by (auto simp: acquireHoldLocked_def Let_def ch split: if_splits sum.splits)
    moreover have "\<not> hr_created hr" if "res = Inr hr" for hr
      using run False that
      by (auto simp: acquireHoldLocked_def Let_def ch hold_error_def HoldResult_default_def
          split: if_splits sum.splits)
    ultimately show ?thesis using quiet quiet_refl [OF inv] by (intro refused) auto
  next
    case True
    then obtain x where st': "st' = st\<lparr>st_holds := AList.update (hs_holdId spec)
        \<lparr>hold_spec = spec, hold_state = Hold_Acquired, hold_resource = b, hold_applied = True,
         hold_activationMode = None, hold_expiry = x, hold_persisted = False\<rparr> (st_holds st),
        st_envelopes := addHeldLocked b (hs_window spec) ?q es\<rparr>"
      using run
      by (auto simp: acquireHoldLocked_def Let_def ch hold_error_def HoldResult_default_def
          split: if_splits sum.splits)
    have "env_point es i t = env_point (st_envelopes st) i t" for i t
      using q by (simp add: moves_def option.map_id)
    moreover have "envs_ok es" using q by (simp add: moves_def)
    ultimately have m: "moves (st_envelopes st) (addHeldLocked b (hs_window spec) ?q es)
        (\<lambda>_ _. 0) (\<lambda>_ _. 0) (bump b (hs_window spec) ?q)"
      using moves_trans [OF q addHeld_moves] by (fastforce simp: bump_def intro: moves_cong)
    have "effect st st' (\<lambda>_ _. 0) (bump b (hs_window spec) ?q)"
      by (rule effectI [OF inv, where s = "\<lambda>_ _. 0"])
         (use m runtime_parts [OF inv] fresh best_headroom(2) [OF inv _ ch] True in
           \<open>simp_all add: st' asum_update_fresh held_of_def bump_def holds_ok_update hold_ok_def\<close>)
    then show ?thesis
      using True best_headroom(1) [OF inv _ ch] by (intro acquired) (simp_all add: st')
  qed
qed

lemma acquireHold_safe:
  assumes inv: "runtime_inv st" and safe: "hard_safe st"
    and fresh: "map_of (st_holds st) (hs_holdId spec) = None"
  shows "runtime_inv (snd (acquireHoldLocked now spec st)) \<and>
    hard_safe (snd (acquireHoldLocked now spec st))"
proof -
  obtain res st' where run: "acquireHoldLocked now spec st = (res, st')" by fastforce
  from inv fresh run show ?thesis
  proof (cases rule: acquireHold_cases)
    case refused
    with safe run show ?thesis
      using sheds_safe [OF quiet_sheds] quiet_inv by auto
  next
    case (acquired b)
    have "hard_safe st'"
    proof (rule effect_fits [OF acquired(1)])
      fix i t p assume "env_point (st_envelopes st) i t = Some p"
      from bump_fits [OF inv safe _ acquired(2) this]
      show "pt_hard p + 0 + (pt_held p + bump b (hs_window spec) (q_value (hs_quantity spec)) i t)
          \<le> pt_cap p"
        by (simp add: hold_probe_def isHard_def)
    qed
    with acquired(1) run show ?thesis by (simp add: effect_def)
  qed
qed

section \<open>Committing one request\<close>

lemma fresh_reservation_id:
  assumes "resvs_ok E n rs" "n \<noteq> - 1"
  shows "map_of rs (StrongId (n + 1)) = None"
proof -
  have "n < n + 1" using assms(2) by (simp add: word_less_nat_alt unat_plus_one)
  with assms(1) show ?thesis
    by (fastforce simp: map_of_eq_None_iff resvs_ok_def resv_ok_def)
qed

lemma resvs_ok_mono: "resvs_ok E n rs \<Longrightarrow> n \<le> m \<Longrightarrow> resvs_ok E m rs"
  by (fastforce simp: resvs_ok_def resv_ok_def)

text \<open>What a committed request puts on the line: its quantity when it is hard, nothing otherwise.\<close>

definition hard_load :: "ReservationRequest \<Rightarrow> ResourceId \<Rightarrow> ResourceId \<Rightarrow> int \<Rightarrow> int" where
  "hard_load req b = (if isHard (req_strength req)
     then bump b (req_window req) (q_value (req_quantity req)) else (\<lambda>_ _. 0))"

definition committed_reservation ::
    "ReservationRequest \<Rightarrow> ResourceId \<Rightarrow> ReservationId \<Rightarrow> ReservationGeneration \<Rightarrow> Reservation \<Rightarrow>
     bool" where
  "committed_reservation req b rid gen r \<longleftrightarrow> rv_id r = rid \<and> rv_generation r = gen \<and>
     rv_resource r = b \<and> rv_window r = req_window req \<and> rv_strength r = req_strength req \<and>
     rv_quantity r = req_quantity req \<and> rv_lifecycle r = Lifecycle_Committed \<and> rv_contributes r"

lemma insert_effect:
  fixes st :: Impl
  defines "n \<equiv> st_nextReservationId st"
  assumes inv: "runtime_inv st" and n: "n \<noteq> - 1" and q: "0 \<le> q_value (req_quantity req)"
    and b: "b \<in> fst ` set (st_envelopes st)"
    and st': "st' = insert_reservation req b g (StrongId (n + 1)) gen
      (st\<lparr>st_nextReservationId := n + 1\<rparr>)"
  shows "effect st st' (hard_load req b) (\<lambda>_ _. 0)"
    and "\<exists>r. map_of (st_reservations st') (StrongId (n + 1)) = Some r \<and>
      committed_reservation req b (StrongId (n + 1)) gen r"
    and "k \<noteq> StrongId (n + 1) \<Longrightarrow>
      map_of (st_reservations st') k = map_of (st_reservations st) k"
    and "st_holds st' = st_holds st" "st_nextReservationId st' = n + 1"
proof -
  let ?r0 = "makeReservationFromRequest req b g (StrongId (n + 1)) gen"
  obtain r es where a: "addContributionLocked ?r0 (st_envelopes st) = (r, es)" by fastforce
  obtain e where e: "map_of (st_envelopes st) b = Some e"
    using b by (metis map_of_eq_None_iff not_Some_eq)
  have r: "r = ?r0\<lparr>rv_contributes := True\<rparr>"
    using a e
    by (simp add: addContributionLocked_def envelopeLocked_def makeReservationFromRequest_def)
  note fresh = fresh_reservation_id [OF runtime_parts(6) [OF inv], folded n_def, OF n]
  note m = addContribution_moves [OF runtime_envs_ok [OF inv] a]
  have nle: "n \<le> n + 1" using n by (simp add: word_le_nat_alt unat_plus_one)
  have zero: "hard_of i t ?r0 = 0" "soft_of i t ?r0 = 0" for i t
    by (simp_all add: hard_of_def soft_of_def makeReservationFromRequest_def)
  have load: "hard_of i t r = hard_load req b i t" for i t
    by (simp add: r hard_of_def hard_load_def bump_def makeReservationFromRequest_def)
  have ok: "resv_ok (fst ` set (st_envelopes st)) (n + 1) (StrongId (n + 1)) r"
    using q b by (simp add: r resv_ok_def makeReservationFromRequest_def)
  have parts: "st_envelopes st' = es" "st_holds st' = st_holds st"
    "st_reservations st' = AList.update (StrongId (n + 1)) r (st_reservations st)"
    "st_resources st' = st_resources st" "st_horizon st' = st_horizon st"
    "st_nextReservationId st' = n + 1"
    by (simp_all add: st' insert_reservation_def a)
  have moved: "moves (st_envelopes st) es (hard_load req b) (\<lambda>i t. soft_of i t r) (\<lambda>_ _. 0)"
    by (rule moves_cong [OF m]) (simp_all only: zero load diff_0_right)
  have all_ok: "resvs_ok (fst ` set (st_envelopes st)) (n + 1) (st_reservations st)"
    by (rule resvs_ok_mono [OF runtime_parts(6) [OF inv, folded n_def] nle])
  show "effect st st' (hard_load req b) (\<lambda>_ _. 0)"
    by (rule effectI [OF inv, where s = "\<lambda>i t. soft_of i t r"])
       (use moved runtime_parts [OF inv] all_ok ok in
         \<open>simp_all add: parts load asum_update_fresh fresh resvs_ok_update\<close>)
  show "\<exists>r. map_of (st_reservations st') (StrongId (n + 1)) = Some r \<and>
      committed_reservation req b (StrongId (n + 1)) gen r"
    by (simp add: parts r committed_reservation_def makeReservationFromRequest_def)
  show "k \<noteq> StrongId (n + 1) \<Longrightarrow>
      map_of (st_reservations st') k = map_of (st_reservations st) k"
    by (simp add: parts)
  show "st_holds st' = st_holds st" "st_nextReservationId st' = n + 1" by (simp_all add: parts)
qed

text \<open>The load a hold has on the line, to be taken off when it is committed.\<close>

definition hold_load :: "ReservationHoldId option \<Rightarrow> Impl \<Rightarrow> ResourceId \<Rightarrow> int \<Rightarrow> int" where
  "hold_load hold st i t =
     (case hold of
        None \<Rightarrow> 0
      | Some k \<Rightarrow> (case map_of (st_holds st) k of None \<Rightarrow> 0 | Some h \<Rightarrow> held_of i t h))"

lemma commit_hold_effect:
  assumes inv: "runtime_inv st" and h: "map_of (st_holds st) k = Some h"
    and acq: "hold_state h = Hold_Acquired"
  shows "effect st (commit_hold k st) (\<lambda>_ _. 0) (\<lambda>i t. - hold_load (Some k) st i t)"
proof -
  have ok: "hold_ok (fst ` set (st_envelopes st)) h"
    by (rule holds_okD [OF runtime_parts(7) [OF inv] h])
  then have ap: "hold_applied h" using acq by (simp add: hold_ok_def)
  let ?h = "h\<lparr>hold_applied := False, hold_state := Hold_Committed\<rparr>"
  let ?es = "addHeldLocked (hold_resource h) (hs_window (hold_spec h))
    (- q_value (hs_quantity (hold_spec h))) (st_envelopes st)"
  have c: "commit_hold k st = put_hold k (?h, ?es) st" by (simp add: commit_hold_def h)
  have m: "moves (st_envelopes st) ?es (\<lambda>_ _. 0) (\<lambda>_ _. 0) (\<lambda>i t. - hold_load (Some k) st i t)"
    by (rule moves_cong [OF addHeld_moves [OF runtime_envs_ok [OF inv]]])
       (auto simp: hold_load_def h held_of_def ap)
  show ?thesis unfolding c
    by (rule effectI [OF inv, where s = "\<lambda>_ _. 0"])
       (use runtime_parts [OF inv] m ok h ap in
         \<open>simp_all add: put_hold_def asum_update_present holds_ok_update hold_ok_def hold_load_def
            held_of_def\<close>)
qed

lemma report_admissible_assessable:
  assumes "assessOne req st = (rep, st1)" "report_admissible rep" "runtime_inv st"
  shows "assessable req st" "0 < q_value (req_quantity req)"
    and "fr_outcome rep \<in> {Admissible, AdmissibleWithModification}"
proof -
  show a: "assessable req st"
    using assessOne_unassessable [OF _ assms(1)] assms(2) by blast
  then show "0 < q_value (req_quantity req)"
    by (auto simp: assessable_def validate_request_def split: if_splits)
  obtain b h where bo: "best_of (candidates req st) (StrongId 0) INT64_MIN = (b, h)" by fastforce
  show "fr_outcome rep \<in> {Admissible, AdmissibleWithModification}"
    using assessOne_assessable(5) [OF a runtime_envs_ok [OF assms(3)] bo assms(1)] assms(2)
    by (auto simp: report_admissible_def)
qed

text \<open>An admissible outcome means that the headroom of the chosen resource reaches the quantity.\<close>

lemma admissible_headroom:
  assumes inv: "runtime_inv st" and run: "assessOne req st = (rep, st1)"
    and adm: "fr_outcome rep = Admissible"
  shows "q_value (req_quantity req) \<le> line_headroom req (st_envelopes st) (fr_resource rep)"
proof -
  have radm: "report_admissible rep" using adm by (simp add: report_admissible_def)
  note a = report_admissible_assessable [OF run radm inv]
  obtain b h where bo: "best_of (candidates req st) (StrongId 0) INT64_MIN = (b, h)" by fastforce
  note s = assessOne_assessable [OF a(1) runtime_envs_ok [OF inv] bo run]
  have "q_value (req_quantity req) \<le> h" using s(3) adm by simp
  moreover from this a(2) have "(b, h) \<noteq> (StrongId 0, INT64_MIN)" by (auto simp: INT64_MIN_def)
  then have "(b, h) \<in> set (candidates req st)" using best_of_mem [OF bo] by auto
  then have "h = line_headroom req (st_envelopes st) b" by (auto simp: candidates_def)
  ultimately show ?thesis using s(1) by simp
qed

lemma chosen_has_envelope:
  assumes "runtime_inv st" "findResourceLocked b st = Some res"
  shows "b \<in> fst ` set (st_envelopes st)"
proof -
  have "b \<in> fst ` set (st_resources st)"
    using assms(2) by (force simp: findResourceLocked_def dest: map_of_SomeD)
  then show ?thesis using runtime_parts(5) [OF assms(1)] by (metis set_map)
qed

lemma next_id_quiet:
  assumes "runtime_inv st" "st_nextReservationId st \<noteq> - 1"
  shows "quiet st (st\<lparr>st_nextReservationId := st_nextReservationId st + 1\<rparr>)"
proof -
  have "st_nextReservationId st \<le> st_nextReservationId st + 1"
    using assms(2) by (simp add: word_le_nat_alt unat_plus_one)
  from resvs_ok_mono [OF runtime_parts(6) [OF assms(1)] this] show ?thesis
    unfolding quiet_def
    by (intro effectI [OF assms(1), where s = "\<lambda>_ _. 0"])
       (use runtime_parts [OF assms(1)] runtime_envs_ok [OF assms(1)] in
         \<open>simp_all add: moves_refl\<close>)
qed

text \<open>The two ways a commitment ends.\<close>

lemma commitOne_run:
  assumes "commitOneLocked req hold st = (res, st')" "assessOne req st = (rep, st1)"
  shows "(\<exists>rr. res = Inr rr \<and> rr_committed rr) \<Longrightarrow>
      report_admissible rep \<and> hold_refusal hold (fr_resource rep) st1 = None \<and>
      (\<exists>resource gen. findResourceLocked (fr_resource rep) st1 = Some resource \<and>
        res = Inr (ReservationResult_default\<lparr>rr_feasibility := rep, rr_committed := True,
          rr_id := StrongId (st_nextReservationId st1 + 1), rr_generation := gen\<rparr>) \<and>
        st' = (let st3 = insert_reservation req (fr_resource rep) (res_generation resource)
                     (StrongId (st_nextReservationId st1 + 1)) gen
                     (st1\<lparr>st_nextReservationId := st_nextReservationId st1 + 1\<rparr>)
               in case hold of None \<Rightarrow> st3 | Some i \<Rightarrow> commit_hold i st3))"
    and "\<not> (\<exists>rr. res = Inr rr \<and> rr_committed rr) \<Longrightarrow>
      st' = st1 \<or> (\<exists>f. res = Inl f) \<and>
        st' = st1\<lparr>st_nextReservationId := st_nextReservationId st1 + 1\<rparr>"
proof -
  let ?b = "fr_resource rep" and ?rid = "StrongId (st_nextReservationId st1 + 1)"
  let ?st2 = "st1\<lparr>st_nextReservationId := st_nextReservationId st1 + 1\<rparr>"
  let ?out = "ReservationResult_default\<lparr>rr_feasibility := rep\<rparr>"
  have no: "\<not> rr_committed (?out\<lparr>rr_errorMessage := m\<rparr>)" for m
    by (simp add: ReservationResult_default_def)
  consider (early) m where "res = Inr (?out\<lparr>rr_errorMessage := m\<rparr>)" "st' = st1"
    | (threw) f where "res = Inl f" "st' = ?st2"
    | (finished) resource gen where "report_admissible rep"
      "findResourceLocked ?b st1 = Some resource" "hold_refusal hold ?b st1 = None"
      "res = Inr (?out\<lparr>rr_committed := True, rr_id := ?rid, rr_generation := gen\<rparr>)"
      "st' = (let st3 = insert_reservation req ?b (res_generation resource) ?rid gen ?st2
              in case hold of None \<Rightarrow> st3 | Some i \<Rightarrow> commit_hold i st3)"
  proof (cases "report_admissible rep \<and> findResourceLocked ?b st1 \<noteq> None \<and>
      hold_refusal hold ?b st1 = None")
    case False
    then have "\<exists>m. commitOneLocked req hold st = (Inr (?out\<lparr>rr_errorMessage := m\<rparr>), st1)"
      by (auto simp: commitOneLocked_def assms(2) Let_def split: option.split)
    then show ?thesis using assms(1) early by fastforce
  next
    case True
    then obtain resource where f: "findResourceLocked ?b st1 = Some resource" by auto
    show ?thesis
    proof (cases "next_generation ?rid ?st2")
      case (Inl g)
      then have "commitOneLocked req hold st = (Inl g, ?st2)"
        using True f by (simp add: commitOneLocked_def assms(2) Let_def)
      then show ?thesis using assms(1) threw by simp
    next
      case (Inr gen)
      then have "commitOneLocked req hold st =
        (Inr (?out\<lparr>rr_committed := True, rr_id := ?rid, rr_generation := gen\<rparr>),
         let st3 = insert_reservation req ?b (res_generation resource) ?rid gen ?st2
         in case hold of None \<Rightarrow> st3 | Some i \<Rightarrow> commit_hold i st3)"
        using True f by (simp add: commitOneLocked_def assms(2) Let_def)
      then show ?thesis using assms(1) True f finished by simp
    qed
  qed
  note ways = this
  show "(\<exists>rr. res = Inr rr \<and> rr_committed rr) \<Longrightarrow>
      report_admissible rep \<and> hold_refusal hold (fr_resource rep) st1 = None \<and>
      (\<exists>resource gen. findResourceLocked (fr_resource rep) st1 = Some resource \<and>
        res = Inr (ReservationResult_default\<lparr>rr_feasibility := rep, rr_committed := True,
          rr_id := StrongId (st_nextReservationId st1 + 1), rr_generation := gen\<rparr>) \<and>
        st' = (let st3 = insert_reservation req (fr_resource rep) (res_generation resource)
                     (StrongId (st_nextReservationId st1 + 1)) gen
                     (st1\<lparr>st_nextReservationId := st_nextReservationId st1 + 1\<rparr>)
               in case hold of None \<Rightarrow> st3 | Some i \<Rightarrow> commit_hold i st3))"
    using no by (cases rule: ways) auto
  show "\<not> (\<exists>rr. res = Inr rr \<and> rr_committed rr) \<Longrightarrow>
      st' = st1 \<or> (\<exists>f. res = Inl f) \<and>
        st' = st1\<lparr>st_nextReservationId := st_nextReservationId st1 + 1\<rparr>"
    by (cases rule: ways) auto
qed

lemma commitOne_failure:
  fixes st :: Impl
  assumes inv: "runtime_inv st" and n: "st_nextReservationId st \<noteq> - 1"
    and run: "commitOneLocked req hold st = (res, st')"
    and no: "\<not> (\<exists>rr. res = Inr rr \<and> rr_committed rr)"
  shows "quiet st st'" "st_reservations st' = st_reservations st" "st_holds st' = st_holds st"
    and "\<And>rr. res = Inr rr \<Longrightarrow> st_nextReservationId st' = st_nextReservationId st"
proof -
  obtain rep st1 where as: "assessOne req st = (rep, st1)" by fastforce
  note q1 = assessOne_quiet [OF inv as]
  obtain es where st1: "st1 = st\<lparr>st_envelopes := es\<rparr>" by (rule assessOne_frame [OF as])
  note cases = commitOne_run(2) [OF run as no]
  have "quiet st (st1\<lparr>st_nextReservationId := st_nextReservationId st1 + 1\<rparr>)"
    by (rule quiet_trans [OF q1 next_id_quiet [OF quiet_inv [OF q1]]]) (use n st1 in simp)
  with cases q1 show "quiet st st'" by auto
  from cases show "st_reservations st' = st_reservations st" "st_holds st' = st_holds st"
    "\<And>rr. res = Inr rr \<Longrightarrow> st_nextReservationId st' = st_nextReservationId st"
    by (auto simp: st1)
qed

lemma hold_refusal_None:
  "hold_refusal (Some i) b st = None \<longleftrightarrow>
   (\<exists>h. map_of (st_holds st) i = Some h \<and> hold_state h = Hold_Acquired \<and> hold_resource h = b)"
  by (auto simp: hold_refusal_def split: option.splits if_splits)

text \<open>A commitment that succeeds adds one fresh, contributing reservation and uses up its hold.\<close>

lemma commitOne_success:
  fixes st :: Impl
  assumes inv: "runtime_inv st" and n: "st_nextReservationId st \<noteq> - 1"
    and run: "commitOneLocked req hold st = (Inr rr, st')" and yes: "rr_committed rr"
  defines "rid \<equiv> StrongId (st_nextReservationId st + 1)"
  shows "effect st st' (hard_load req (fr_resource (rr_feasibility rr)))
      (\<lambda>i t. - hold_load hold st i t)"
    and "fst (assessOne req st) = rr_feasibility rr" "report_admissible (rr_feasibility rr)"
    and "rr_id rr = rid"
    and "\<exists>r. map_of (st_reservations st') rid = Some r \<and>
      committed_reservation req (fr_resource (rr_feasibility rr)) rid (rr_generation rr) r"
    and "\<And>k. k \<noteq> rid \<Longrightarrow> map_of (st_reservations st') k = map_of (st_reservations st) k"
    and "\<And>k. hold \<noteq> Some k \<Longrightarrow> map_of (st_holds st') k = map_of (st_holds st) k"
    and "st_nextReservationId st' = st_nextReservationId st + 1"
proof -
  obtain rep st1 where as: "assessOne req st = (rep, st1)" by fastforce
  note q1 = assessOne_quiet [OF inv as]
  obtain es where st1: "st1 = st\<lparr>st_envelopes := es\<rparr>" by (rule assessOne_frame [OF as])
  have inv1: "runtime_inv st1" by (rule quiet_inv [OF q1])
  have n1: "st_nextReservationId st1 = st_nextReservationId st" by (simp add: st1)
  from commitOne_run(1) [OF run as] yes obtain resource gen where
    adm: "report_admissible rep" and ok: "hold_refusal hold (fr_resource rep) st1 = None"
    and found: "findResourceLocked (fr_resource rep) st1 = Some resource"
    and rr: "rr = ReservationResult_default\<lparr>rr_feasibility := rep, rr_committed := True,
          rr_id := rid, rr_generation := gen\<rparr>"
    and st': "st' = (let st3 = insert_reservation req (fr_resource rep) (res_generation resource)
                     rid gen (st1\<lparr>st_nextReservationId := st_nextReservationId st1 + 1\<rparr>)
               in case hold of None \<Rightarrow> st3 | Some i \<Rightarrow> commit_hold i st3)"
    by (auto simp: n1 rid_def)
  define st3 where "st3 = insert_reservation req (fr_resource rep) (res_generation resource)
      rid gen (st1\<lparr>st_nextReservationId := st_nextReservationId st1 + 1\<rparr>)"
  have pos: "0 \<le> q_value (req_quantity req)"
    using report_admissible_assessable(2) [OF as adm inv] by simp
  have st3_eq: "st3 = insert_reservation req (fr_resource rep) (res_generation resource)
      (StrongId (st_nextReservationId st1 + 1)) gen
      (st1\<lparr>st_nextReservationId := st_nextReservationId st1 + 1\<rparr>)"
    by (simp add: st3_def rid_def n1)
  note ins = insert_effect [OF inv1 _ pos chosen_has_envelope [OF inv1 found] st3_eq]
  have ins': "effect st1 st3 (hard_load req (fr_resource rep)) (\<lambda>_ _. 0)"
    "\<exists>r. map_of (st_reservations st3) rid = Some r \<and>
      committed_reservation req (fr_resource rep) rid gen r"
    "\<And>k. k \<noteq> rid \<Longrightarrow> map_of (st_reservations st3) k = map_of (st_reservations st1) k"
    "st_holds st3 = st_holds st1" "st_nextReservationId st3 = st_nextReservationId st1 + 1"
    using ins n n1 by (simp_all add: rid_def)
  have total: "effect st st3 (hard_load req (fr_resource rep)) (\<lambda>_ _. 0)"
    using effect_trans [OF q1 [unfolded quiet_def] ins'(1)] by simp
  have inv3: "runtime_inv st3" using total by (simp add: effect_def)
  have rr_sel: "rr_feasibility rr = rep" "rr_id rr = rid" "rr_generation rr = gen"
    by (simp_all add: rr)
  have step: "effect st3 st' (\<lambda>_ _. 0) (\<lambda>i t. - hold_load hold st i t) \<and>
      st_reservations st' = st_reservations st3 \<and>
      (\<forall>k. hold \<noteq> Some k \<longrightarrow> map_of (st_holds st') k = map_of (st_holds st3) k) \<and>
      st_nextReservationId st' = st_nextReservationId st3"
  proof (cases hold)
    case None
    then show ?thesis
      using quiet_refl [OF inv3] st' by (simp add: hold_load_def quiet_def st3_def Let_def)
  next
    case (Some i)
    then obtain h where h: "map_of (st_holds st) i = Some h" "hold_state h = Hold_Acquired"
      using ok by (auto simp: hold_refusal_None st1)
    then have h3: "map_of (st_holds st3) i = Some h" by (simp add: ins'(4) st1)
    from commit_hold_effect [OF inv3 h3 h(2)] show ?thesis
      using Some st' h h3 by (simp add: hold_load_def st3_def Let_def commit_hold_def put_hold_def)
  qed
  show "effect st st' (hard_load req (fr_resource (rr_feasibility rr)))
      (\<lambda>i t. - hold_load hold st i t)"
    using effect_trans [OF total conjunct1 [OF step]] by (simp add: rr_sel)
  show "fst (assessOne req st) = rr_feasibility rr" "report_admissible (rr_feasibility rr)"
    "rr_id rr = rid"
    using as adm by (simp_all add: rr_sel)
  show "\<exists>r. map_of (st_reservations st') rid = Some r \<and>
      committed_reservation req (fr_resource (rr_feasibility rr)) rid (rr_generation rr) r"
    using ins'(2) step by (simp add: rr_sel)
  show "\<And>k. k \<noteq> rid \<Longrightarrow> map_of (st_reservations st') k = map_of (st_reservations st) k"
    using ins'(3) step by (simp add: st1)
  show "\<And>k. hold \<noteq> Some k \<Longrightarrow> map_of (st_holds st') k = map_of (st_holds st) k"
    using ins'(4) step by (simp add: st1)
  show "st_nextReservationId st' = st_nextReservationId st + 1"
    using ins'(5) step by (simp add: st1)
qed

lemma hold_load_nonneg: "runtime_inv st \<Longrightarrow> 0 \<le> hold_load hold st i t"
  using holds_okD [OF runtime_parts(7)]
  by (fastforce simp: hold_load_def held_of_def hold_ok_def split: option.splits)

lemma commitOne_safe:
  fixes st :: Impl
  assumes inv: "runtime_inv st" and safe: "hard_safe st"
    and n: "st_nextReservationId st \<noteq> - 1"
    and whole: "req_strength req = Hard \<Longrightarrow> \<not> req_partialAllowed req"
    and run: "commitOneLocked req hold st = (res, st')"
  shows "runtime_inv st' \<and> hard_safe st'"
proof (cases "\<exists>rr. res = Inr rr \<and> rr_committed rr")
  case False
  from commitOne_failure(1) [OF inv n run False] show ?thesis
    using safe sheds_safe [OF quiet_sheds] quiet_inv by blast
next
  case True
  then obtain rr where rr: "res = Inr rr" "rr_committed rr" by auto
  note ok = commitOne_success [OF inv n run [unfolded rr] rr(2)]
  let ?b = "fr_resource (rr_feasibility rr)"
  obtain st1 where as: "assessOne req st = (rr_feasibility rr, st1)"
    using ok(2) by (metis prod.collapse)
  have fits: "q_value (req_quantity req) \<le> line_headroom req (st_envelopes st) ?b"
    if "isHard (req_strength req)"
  proof (rule admissible_headroom [OF inv as])
    obtain b h where bo: "best_of (candidates req st) (StrongId 0) INT64_MIN = (b, h)" by fastforce
    note a = report_admissible_assessable [OF as ok(3) inv]
    show "fr_outcome (rr_feasibility rr) = Admissible"
      using assessOne_assessable(4) [OF a(1) runtime_envs_ok [OF inv] bo as] a(3) whole that
      by (auto simp: isHard_def)
  qed
  have "hard_safe st'"
  proof (rule effect_fits [OF ok(1)])
    fix i t p assume p: "env_point (st_envelopes st) i t = Some p"
    show "pt_hard p + hard_load req ?b i t + (pt_held p + - hold_load hold st i t) \<le> pt_cap p"
      using bump_fits [OF inv safe _ fits p] hold_load_nonneg [OF inv, of hold i t] safe p
      by (force simp: hard_load_def hard_safe_def)
  qed
  with ok(1) show ?thesis by (simp add: effect_def)
qed

lemma commit_safe:
  fixes st :: Impl
  assumes "runtime_inv st" "hard_safe st" "st_nextReservationId st \<noteq> - 1"
    and "req_strength req = Hard \<Longrightarrow> \<not> req_partialAllowed req"
  shows "runtime_inv (snd (rf_commit req hold st)) \<and> hard_safe (snd (rf_commit req hold st))"
  using assms commitOne_safe [OF assms(1-4) prod.collapse [symmetric]]
  by (simp add: rf_commit_def split: option.splits)

section \<open>Publishing a new resource\<close>

definition empty_line :: "CapacityEnvelope \<Rightarrow> bool" where
  "empty_line e \<longleftrightarrow> env_inv e \<and> (\<forall>t p. env_profile e t = Some p \<longrightarrow>
     pt_hard p = 0 \<and> pt_soft p = 0 \<and> pt_held p = 0 \<and> 0 \<le> pt_cap p)"

lemma apply_windows_empty:
  "empty_line e \<Longrightarrow> apply_windows from hor ws e = Inr e' \<Longrightarrow> empty_line e'"
proof (induction ws arbitrary: e)
  case (Cons w ws)
  have "empty_line (env_setUnavailable (uw_interval w) 0 e)"
    using Cons.prems(1)
    by (auto simp: empty_line_def envelope.inv_laws envelope.prof_laws update_window_def
        set_cap_def split: if_splits)
  then show ?case
    using Cons by (auto simp: bind_outcome_Inr_iff split: if_splits)
qed simp

lemma asum_zero_resource:
  assumes "resvs_ok E n rs" "holds_ok E hs" "i \<notin> E"
  shows "asum (hard_of i t) rs = 0" "asum (soft_of i t) rs = 0" "asum (held_of i t) hs = 0"
proof -
  have "asum (hard_of i t) rs = asum (\<lambda>_. 0) rs" "asum (soft_of i t) rs = asum (\<lambda>_. 0) rs"
    using assms by (intro asum_cong; fastforce simp: resvs_ok_def resv_ok_def hard_of_def soft_of_def)+
  moreover have "asum (held_of i t) hs = asum (\<lambda>_. 0) hs"
    using assms by (intro asum_cong) (fastforce simp: holds_ok_def hold_ok_def held_of_def)
  ultimately show "asum (hard_of i t) rs = 0" "asum (soft_of i t) rs = 0"
    "asum (held_of i t) hs = 0" by simp_all
qed

lemma update_new_keys:
  "map_of xs i = None \<Longrightarrow> map fst (AList.update i v xs) = map fst xs @ [i]"
  by (induction xs) (auto split: if_splits)

lemma new_envelope_inv:
  fixes resource :: Resource
  assumes inv: "runtime_inv st" and new: "map_of (st_resources st) i = None"
    and e: "empty_line e"
  defines "st' \<equiv> st\<lparr>st_resources := AList.update i resource (st_resources st),
      st_envelopes := AList.update i e (st_envelopes st)\<rparr>"
  shows "runtime_inv st'" "hard_safe st \<Longrightarrow> hard_safe st'"
proof -
  note parts = runtime_parts [OF inv]
  have i: "i \<notin> fst ` set (st_envelopes st)"
    using new parts(5) by (metis map_of_eq_None_iff set_map)
  then have none: "map_of (st_envelopes st) i = None" by (simp add: map_of_eq_None_iff)
  have pt: "env_point (st_envelopes st') j t =
      (if j = i then env_profile e t else env_point (st_envelopes st) j t)" for j t
    by (simp add: st'_def env_point_def)
  note zero = asum_zero_resource [OF parts(6,7) i]
  have "mirrors (st_envelopes st') (st_reservations st') (st_holds st')"
    using inv e unfolding mirrors_def pt
    by (auto simp: st'_def zero empty_line_def runtime_inv_def mirror_inv_def mirrors_def)
  moreover have "envs_ok (st_envelopes st')"
    using runtime_envs_ok [OF inv] e by (auto simp: st'_def envs_ok_def empty_line_def)
  ultimately have "mirror_inv st'"
    using parts(2,3) by (simp add: mirror_inv_def st'_def)
  moreover have "resvs_ok (fst ` set (st_envelopes st')) (st_nextReservationId st') (st_reservations st')"
    "holds_ok (fst ` set (st_envelopes st')) (st_holds st')"
  proof -
    have E: "fst ` set (st_envelopes st') = insert i (fst ` set (st_envelopes st))"
    proof -
      have "map fst (st_envelopes st') = map fst (st_envelopes st) @ [i]"
        by (simp add: st'_def update_new_keys none)
      from arg_cong [OF this, of set] show ?thesis by simp
    qed
    show "resvs_ok (fst ` set (st_envelopes st')) (st_nextReservationId st') (st_reservations st')"
      "holds_ok (fst ` set (st_envelopes st')) (st_holds st')"
      using parts(6,7) unfolding E
      by (fastforce simp: st'_def resvs_ok_def holds_ok_def resv_ok_def hold_ok_def)+
  qed
  ultimately show "runtime_inv st'"
    using parts(4,5) update_new_keys [OF none] update_new_keys [OF new]
    by (simp add: runtime_inv_def st'_def)
  show "hard_safe st \<Longrightarrow> hard_safe st'"
    using e unfolding hard_safe_def pt by (auto simp: empty_line_def)
qed

lemma publish_new_safe:
  assumes inv: "runtime_inv st" and new: "map_of (st_resources st) (pub_id pub) = None"
  shows "runtime_inv (snd (publishResource pub st)) \<and>
    (hard_safe st \<longrightarrow> hard_safe (snd (publishResource pub st)))"
proof -
  let ?st1 = "st\<lparr>st_workerBoots :=
    AList.update (pub_worker pub) (pub_workerBoot pub) (st_workerBoots st)\<rparr>"
  have q: "quiet st ?st1" by (rule quiet_cong [OF inv]) simp_all
  have inv1: "runtime_inv ?st1" and safe1: "hard_safe st \<Longrightarrow> hard_safe ?st1"
    using q quiet_inv sheds_safe [OF quiet_sheds [OF q]] by blast+
  let ?init = "env_init (pub_availableFrom pub) (st_horizon st) (pub_totalCapacity pub)
      (pub_overbookRatio pub) (mk_CapacityEnvelope (pub_unit pub) (pub_totalCapacity pub)
        (pub_overbookRatio pub))"
  have line: "empty_line e'"
    if "?init = Inr (True, e)" "0 < q_value (pub_totalCapacity pub)"
      "apply_windows (pub_availableFrom pub) (st_horizon st) (pub_unavailable pub) e = Inr e'"
    for e e'
  proof (rule apply_windows_empty [OF _ that(3)])
    show "empty_line e"
      using env_init_correct(1,6) [OF that(1) runtime_parts(4) [OF inv]] that(2)
      by (auto simp: empty_line_def split: if_splits)
  qed
  note new1 = new_envelope_inv [OF inv1, where i = "pub_id pub" and resource = "resource_of pub"]
  show ?thesis
    using inv inv1 safe1 new new1 line
    by (auto simp: publishResource_def Let_def split: sum.splits)
qed

end
