(* ===== verification/RF_Safety.thy ===== *)
theory RF_Safety
  imports RF_Growth
begin

text \<open>
  The runtime as a state machine over the operations that keep the mirror, and what holds in every
  reachable state. Left out of the step relation, because they break it (the theory
  \<open>RF_Divergence\<close> says how): a resize, a renewal, the replacement of a published resource, a
  partial hard request, and the reuse of a hold identity.
\<close>

inductive safe_step :: "Impl \<Rightarrow> Impl \<Rightarrow> bool" where
  step_publish:
    "map_of (st_resources st) (pub_id pub) = None \<Longrightarrow>
     safe_step st (snd (publishResource pub st))"
| step_epoch: "safe_step st (snd (setCoordinatorEpoch e st))"
| step_invalidate: "safe_step st (snd (invalidateResource n st))"
| step_advance: "safe_step st (snd (advanceResourceGeneration i g c st))"
| step_revalidate: "safe_step st (snd (revalidateResource i pub st))"
| step_assess: "safe_step st (snd (rf_assess req st))"
| step_headroom: "safe_step st (snd (headroomOverWindow i w hard st))"
| step_headroom_at: "safe_step st (snd (headroomAt i t hard st))"
| step_accounting: "safe_step st (snd (rf_accounting i st))"
| step_create_hold:
    "map_of (st_holds st) (hs_holdId spec) = None \<Longrightarrow>
     safe_step st (snd (createHold now spec st))"
| step_release_hold: "safe_step st (snd (releaseHold k hg st))"
| step_expire_holds: "safe_step st (expireHolds now st)"
| step_commit:
    "st_nextReservationId st \<noteq> - 1 \<Longrightarrow>
     (req_strength req = Hard \<Longrightarrow> \<not> req_partialAllowed req) \<Longrightarrow>
     safe_step st (snd (rf_commit req hold st))"
| step_activate: "safe_step st (snd (rf_activate r rg ev st))"
| step_consume: "safe_step st (snd (rf_consume r rg amount cev st))"
| step_release: "safe_step st (snd (rf_release r rg rev' st))"
| step_transfer: "safe_step st (snd (rf_transfer r rg own og ev st))"
| step_cancel: "safe_step st (snd (rf_cancel r rg st))"
| step_expire_due: "safe_step st (snd (expireDue now st))"

inductive reachable :: "RuntimeConfig \<Rightarrow> Impl \<Rightarrow> bool" where
  reach_init: "0 < dur_ns (st_horizon (mk_Impl config)) \<Longrightarrow> reachable config (mk_Impl config)"
| reach_step: "reachable config st \<Longrightarrow> safe_step st st' \<Longrightarrow> reachable config st'"

lemma mk_Impl_inv:
  "0 < dur_ns (st_horizon (mk_Impl config)) \<Longrightarrow>
   runtime_inv (mk_Impl config) \<and> hard_safe (mk_Impl config)"
  by (simp add: mk_Impl_def runtime_inv_def mirror_inv_def envs_ok_def mirrors_def env_point_def
      resvs_ok_def holds_ok_def hard_safe_def)

lemmas quiet_steps = epoch_quiet invalidate_quiet advance_quiet revalidate_quiet assess_quiet
  headroomOverWindow_quiet headroomAt_quiet accounting_quiet activate_quiet consume_quiet
  transfer_quiet

lemmas sheds_steps = quiet_steps [THEN quiet_sheds] releaseHold_sheds expireHolds_sheds
  release_sheds cancel_sheds expireDue_sheds

lemma safe_step_inv:
  assumes "safe_step st st'" "runtime_inv st" "hard_safe st"
  shows "runtime_inv st' \<and> hard_safe st'"
proof -
  have sheds: "runtime_inv st' \<and> hard_safe st'" if "sheds st st'"
    using that assms sheds_inv sheds_safe by blast
  from assms(1) show ?thesis
  proof cases
    case step_publish
    then show ?thesis using publish_new_safe assms by blast
  next
    case step_create_hold
    then show ?thesis using acquireHold_safe assms by (simp add: createHold_def)
  next
    case (step_commit req hold)
    then show ?thesis using commit_safe assms by blast
  qed (use sheds sheds_steps assms(2) in simp_all)
qed

lemma reachable_inv: "reachable config st \<Longrightarrow> runtime_inv st \<and> hard_safe st"
  by (induction rule: reachable.induct) (auto simp: mk_Impl_inv dest: safe_step_inv)

end
