(* ===== verification/RF_Example.thy ===== *)
theory RF_Example
  imports RF_Safety
begin

text \<open>
  A small concrete run that the witnesses share: one worker publishes an accelerator pool of 100
  units, one hold of 30 and one hard reservation of 60 are placed on it.
\<close>

definition demo_config :: RuntimeConfig where
  "demo_config = RuntimeConfig_default\<lparr>cfg_capacityHorizon := Duration 1000\<rparr>"

definition demo_pub :: ResourcePublication where
  "demo_pub =
     \<lparr>pub_worker = StrongId 3, pub_workerBoot = StrongGeneration 1, pub_id = StrongId 7,
      pub_generation = StrongGeneration 1, pub_class = AcceleratorCompute, pub_unit = Unit_Count,
      pub_totalCapacity = Quantity 100 Unit_Count, pub_pool = StrongId 1,
      pub_poolGeneration = StrongGeneration 1, pub_capabilities = StrongGeneration 1,
      pub_topology = StrongGeneration 1, pub_contract = StrongId 1,
      pub_contractGeneration = StrongGeneration 1, pub_availableFrom = Instant 0,
      pub_lifetime = Duration 1000, pub_unavailable = [], pub_overbookRatio = Ratio_one,
      pub_overbookableClasses = []\<rparr>"

definition demo_req :: "u64 \<Rightarrow> int \<Rightarrow> int \<Rightarrow> int \<Rightarrow> ReservationRequest" where
  "demo_req i q s e =
     ReservationRequest_default\<lparr>req_requestId := StrongId i,
       req_requestGeneration := StrongGeneration 1, req_class := AcceleratorCompute,
       req_quantity := Quantity q Unit_Count, req_window := Interval (Instant s) (Instant e),
       req_owner := StrongId 5, req_ownerGeneration := StrongGeneration 1,
       req_transfer := TransferAllowed\<rparr>"

definition demo_hold :: "u64 \<Rightarrow> int \<Rightarrow> int \<Rightarrow> int \<Rightarrow> HoldSpec" where
  "demo_hold i q s e =
     \<lparr>hs_holdId = StrongId i, hs_holdGeneration = StrongGeneration 1, hs_owner = StrongId 5,
      hs_ownerGeneration = StrongGeneration 1, hs_class = AcceleratorCompute,
      hs_unit = Unit_Count, hs_quantity = Quantity q Unit_Count,
      hs_window = Interval (Instant s) (Instant e), hs_policyGeneration = StrongGeneration 0,
      hs_commitAuthority = False, hs_provenance = []\<rparr>"

definition demo0 :: Impl where
  "demo0 = snd (publishResource demo_pub (mk_Impl demo_config))"

definition demo1 :: Impl where
  "demo1 = snd (createHold (Instant 0) (demo_hold 50 30 0 500) demo0)"

definition demo2 :: Impl where
  "demo2 = snd (rf_commit (demo_req 1 60 100 200) None demo1)"

lemma demo0_reachable: "reachable demo_config demo0"
  unfolding demo0_def
  by (rule reach_step [OF reach_init step_publish])
     (simp_all add: demo_config_def mk_Impl_def RuntimeConfig_default_def dur_isZero_def)

lemmas eval_domain = id_valid_def gen_valid_def gen_next_def Ratio_one_def Quantity_zero_def
  mk_Quantity_def check_quantity_rep_def bind_outcome_def ub_i64_def i64_defs
  throw_error_def dur_isZero_def inst_add_def mk_Interval_def mk_Interval_length_def
  iv_overlaps_def iv_contains_def less_eq_StrongId_def less_StrongId_def
  less_eq_StrongGeneration_def less_StrongGeneration_def less_eq_Instant_def less_Instant_def
  validate_request_def report_admissible_def report_rejected_def FeasibilityReport_default_def
  ReservationRequest_default_def ReservationResult_default_def HoldResult_default_def
  CapabilityConstraint_default_def LocalityConstraint_default_def
  TopologyConstraint_default_def CompatibilityConstraint_default_def Interval_default_def
  RuntimeConfig_default_def

lemmas eval_index = createCell_def pull.simps selfMinHard_def selfMinSoft_def effCapacity_def
  agg_initialize_def mk_IntervalAggregator_def ensureBoundary_def rangeAdd_def rangeSet_def
  minSlack_def maxContrib_def agg_addCommittedHard_def agg_addCommittedSoft_def agg_addHeld_def
  agg_setCapacity_def agg_minHard_def agg_minSoft_def agg_maxCombinedHard_def
  agg_maxCombinedSoft_def pushed_def cleared_def env_init_def mk_CapacityEnvelope_def env_op_defs
  env_removeCommittedHard_def env_removeCommittedSoft_def

lemmas eval_runtime = defaultHoldLease_def defaultHorizon_def isHard_def mk_Impl_def
  findResourceLocked_def envelopeLocked_def reservationLocked_def addContributionLocked_def
  removeContributionLocked_def addHeldLocked_def matches_request_def matchingResourcesLocked_def
  resourceGenerationSatisfiesLocked_def resourceConstraintsSatisfiedLocked_def
  hasAnyResourceOfClassLocked_def headroomForLocked_def rejected_for_def report_best_def
  is_duplicate_def assessOne_def rf_assess_def publishResource_def resource_of_def
  acquireHoldLocked_def createHold_def hold_probe_def hold_error_def drop_hold_def put_hold_def
  releaseHoldLocked_def release_holds_def makeReservationFromRequest_def hold_refusal_def
  commit_hold_def next_generation_def insert_reservation_def commitOneLocked_def rf_commit_def

lemma demo_priorities [simp]:
  "det_prio 0 = 2065550767" "det_prio 100 = 4047304005" "det_prio 200 = 3368391369" "det_prio 500 = 1630712889"
  by code_simp+

lemmas demo_defs = demo2_def demo1_def demo0_def demo_config_def demo_pub_def demo_req_def
  demo_hold_def

text \<open>The state after the run, written out; the witnesses compute from it.\<close>

definition demo_env :: CapacityEnvelope where
  "demo_env =
     \<lparr>env_unit = Unit_Count, env_capacity = Quantity 100 Unit_Count,
            env_ratio = Ratio 10000, env_origin = Instant 0,
            env_horizon = Duration 1000,
            env_agg =
              \<lparr>agg_pool = Suc (Suc (Suc (Suc (Suc (Suc (Suc 0)))))),
                 agg_root =
                   \<langle>\<langle>\<langle>\<rangle>,
                     \<lparr>cl_start = 0, cl_end = 100, committedHard = 0,
                        committedSoft = 0, held = 30, capacity = 100,
                        minHard = 70, minSoft = 70, maxCbH = 30,
                        maxCbS = 30, addH = 0, addS = 0, addHeld = 0,
                        hasSet = False, setCap = 0, prio = 2065550767\<rparr>,
                     \<langle>\<rangle>\<rangle>,
                    \<lparr>cl_start = 100, cl_end = 200, committedHard = 60,
                       committedSoft = 0, held = 30, capacity = 100,
                       minHard = 10, minSoft = 10, maxCbH = 90,
                       maxCbS = 90, addH = 0, addS = 0, addHeld = 0,
                       hasSet = False, setCap = 0, prio = 4047304005\<rparr>,
                    \<langle>\<langle>\<rangle>,
                     \<lparr>cl_start = 200, cl_end = 500, committedHard = 0,
                        committedSoft = 0, held = 30, capacity = 100,
                        minHard = 70, minSoft = 70, maxCbH = 30,
                        maxCbS = 30, addH = 0, addS = 0, addHeld = 0,
                        hasSet = False, setCap = 0, prio = 3368391369\<rparr>,
                     \<langle>\<langle>\<rangle>,
                      \<lparr>cl_start = 500, cl_end = 1000, committedHard = 0,
                         committedSoft = 0, held = 0, capacity = 100,
                         minHard = 100, minSoft = 100, maxCbH = 0,
                         maxCbS = 0, addH = 0, addS = 0, addHeld = 0,
                         hasSet = False, setCap = 0, prio = 1630712889\<rparr>,
                      \<langle>\<rangle>\<rangle>\<rangle>\<rangle>,
                 agg_ratio = 10000\<rparr>,
            env_valid = True\<rparr>"

definition demo_rv :: Reservation where
  "demo_rv =
     \<lparr>rv_id = StrongId 2, rv_generation = StrongGeneration 1,
            rv_setId = StrongId 0, rv_groupId = StrongId 0,
            rv_strength = Hard, rv_class = AcceleratorCompute,
            rv_unit = Unit_Count, rv_resource = StrongId 7,
            rv_boundResourceGeneration = Some (StrongGeneration 1),
            rv_quantity = Quantity 60 Unit_Count,
            rv_activated = Quantity 0 Unit_Count,
            rv_consumed = Quantity 0 Unit_Count,
            rv_window = Interval (Instant 100) (Instant 200),
            rv_activationMode = ActivateNotBefore,
            rv_lifecycle = Lifecycle_Committed, rv_owner = StrongId 5,
            rv_ownerGeneration = StrongGeneration 1, rv_workload = None,
            rv_workloadGeneration = None, rv_execution = None,
            rv_executionGeneration = None,
            rv_capability =
              \<lparr>cc_requiredCapabilityId = 0,
                 cc_capacityRequiresCapability = False\<rparr>,
            rv_locality =
              \<lparr>lc_preferredPool = StrongId 0, lc_placement = StrongId 0,
                 lc_preferredClass = ResourceClass_Unknown,
                 lc_localityWeight = 0\<rparr>,
            rv_topology =
              \<lparr>tc_topologyDomain = 0, tc_requireLocalPlacement = False\<rparr>,
            rv_compatibility = \<lparr>kc_requireSameDriverGeneration = False\<rparr>,
            rv_policyGeneration = StrongGeneration 0,
            rv_priorityGeneration = StrongGeneration 0,
            rv_priorityClass = 0, rv_preemptible = False,
            rv_exclusivity = Shared, rv_elasticity = Elasticity_None,
            rv_renewal = Renewal_None, rv_transfer = TransferAllowed,
            rv_fragmentationTolerance = 0, rv_allOrNothing = True,
            rv_provenance = [], rv_activationGeneration = None,
            rv_consumptionGeneration = None, rv_releaseGeneration = None,
            rv_transferGeneration = None, rv_recoveryGeneration = None,
            rv_contributes = True, rv_persisted = False,
            rv_activatedAt = None, rv_releasedAt = None\<rparr>"

lemma demo2_value: "demo2 =
  \<lparr>st_config =
     \<lparr>cfg_maxHistoryPerReservation = 64, cfg_maxHolds = 256,
        cfg_maxResources = 1024, cfg_maxReservations = 1000000,
        cfg_maxReservationSetMembers = 32,
        cfg_capacityHorizon = Duration 1000\<rparr>,
     st_epoch = StrongGeneration 1, st_authority = StrongGeneration 1,
     st_resources =
       [(StrongId 7,
         \<lparr>res_id = StrongId 7, res_generation = StrongGeneration 1,
            res_class = AcceleratorCompute, res_unit = Unit_Count,
            res_totalCapacity = Quantity 100 Unit_Count,
            res_pool = StrongId 1,
            res_poolGeneration = StrongGeneration 1,
            res_owner = StrongId 3, res_ownerBoot = StrongGeneration 1,
            res_capabilities = StrongGeneration 1,
            res_topology = StrongGeneration 1, res_contract = StrongId 1,
            res_contractGeneration = StrongGeneration 1,
            res_available = True\<rparr>)],
     st_envelopes =
       [(StrongId 7,
         demo_env)],
     st_workerBoots = [(StrongId 3, StrongGeneration 1)],
     st_requests = [(StrongId 1, StrongId 2)],
     st_reservations =
       [(StrongId 2,
         demo_rv)],
     st_currentGen = [(StrongId 2, StrongGeneration 1)], st_history = [],
     st_sets = [],
     st_holds =
       [(StrongId 50,
         \<lparr>hold_spec =
            \<lparr>hs_holdId = StrongId 50,
               hs_holdGeneration = StrongGeneration 1,
               hs_owner = StrongId 5,
               hs_ownerGeneration = StrongGeneration 1,
               hs_class = AcceleratorCompute, hs_unit = Unit_Count,
               hs_quantity = Quantity 30 Unit_Count,
               hs_window = Interval (Instant 0) (Instant 500),
               hs_policyGeneration = StrongGeneration 0,
               hs_commitAuthority = False, hs_provenance = []\<rparr>,
            hold_state = Hold_Acquired, hold_resource = StrongId 7,
            hold_applied = True, hold_activationMode = None,
            hold_expiry = Instant 900000000000, hold_persisted = False\<rparr>)],
     st_nextReservationId = 2, st_nextHoldId = 1, st_nextSetId = 1,
     st_horizon = Duration 1000\<rparr>"
  by (simp add: demo_env_def demo_rv_def demo_defs eval_domain eval_index eval_runtime Let_def
      cong: let_weak_cong)

lemma demo2_sel [simp]:
  "st_config demo2 = \<lparr>cfg_maxHistoryPerReservation = 64, cfg_maxHolds = 256,
        cfg_maxResources = 1024, cfg_maxReservations = 1000000,
        cfg_maxReservationSetMembers = 32,
        cfg_capacityHorizon = Duration 1000\<rparr>"
  "st_epoch demo2 = StrongGeneration 1"
  "st_authority demo2 = StrongGeneration 1"
  "st_resources demo2 = [(StrongId 7,
         \<lparr>res_id = StrongId 7, res_generation = StrongGeneration 1,
            res_class = AcceleratorCompute, res_unit = Unit_Count,
            res_totalCapacity = Quantity 100 Unit_Count,
            res_pool = StrongId 1,
            res_poolGeneration = StrongGeneration 1,
            res_owner = StrongId 3, res_ownerBoot = StrongGeneration 1,
            res_capabilities = StrongGeneration 1,
            res_topology = StrongGeneration 1, res_contract = StrongId 1,
            res_contractGeneration = StrongGeneration 1,
            res_available = True\<rparr>)]"
  "st_envelopes demo2 = [(StrongId 7,
         demo_env)]"
  "st_workerBoots demo2 = [(StrongId 3, StrongGeneration 1)]"
  "st_requests demo2 = [(StrongId 1, StrongId 2)]"
  "st_reservations demo2 = [(StrongId 2,
         demo_rv)]"
  "st_currentGen demo2 = [(StrongId 2, StrongGeneration 1)]"
  "st_history demo2 = []"
  "st_sets demo2 = []"
  "st_holds demo2 = [(StrongId 50,
         \<lparr>hold_spec =
            \<lparr>hs_holdId = StrongId 50,
               hs_holdGeneration = StrongGeneration 1,
               hs_owner = StrongId 5,
               hs_ownerGeneration = StrongGeneration 1,
               hs_class = AcceleratorCompute, hs_unit = Unit_Count,
               hs_quantity = Quantity 30 Unit_Count,
               hs_window = Interval (Instant 0) (Instant 500),
               hs_policyGeneration = StrongGeneration 0,
               hs_commitAuthority = False, hs_provenance = []\<rparr>,
            hold_state = Hold_Acquired, hold_resource = StrongId 7,
            hold_applied = True, hold_activationMode = None,
            hold_expiry = Instant 900000000000, hold_persisted = False\<rparr>)]"
  "st_nextReservationId demo2 = 2"
  "st_nextHoldId demo2 = 1"
  "st_nextSetId demo2 = 1"
  "st_horizon demo2 = Duration 1000"
  by (simp_all add: demo2_value)

text \<open>The selectors of the demonstration request.\<close>

lemma demo_req_sel [simp]:
  "req_requestId (demo_req i q s e) = StrongId i"
  "req_requestGeneration (demo_req i q s e) = StrongGeneration 1"
  "req_class (demo_req i q s e) = AcceleratorCompute"
  "req_unit (demo_req i q s e) = Unit_Count"
  "req_quantity (demo_req i q s e) = Quantity q Unit_Count"
  "req_partialAllowed (demo_req i q s e) = False"
  "req_minAcceptable (demo_req i q s e) = None"
  "req_window (demo_req i q s e) = Interval (Instant s) (Instant e)"
  "req_durationAfterActivation (demo_req i q s e) = None"
  "req_strength (demo_req i q s e) = Hard"
  "req_owner (demo_req i q s e) = StrongId 5"
  "req_ownerGeneration (demo_req i q s e) = StrongGeneration 1"
  "req_minResourceGeneration (demo_req i q s e) = None"
  "req_targetResource (demo_req i q s e) = None"
  "req_policyGeneration (demo_req i q s e) = StrongGeneration 0"
  by (simp_all add: demo_req_def ReservationRequest_default_def)

text \<open>The loads at instant 150, from the registry and from the line.\<close>

lemma demo_loads:
  "asum (hard_of (StrongId 7) 150) (st_reservations demo2) = 60"
  "asum (held_of (StrongId 7) 150) (st_holds demo2) = 30"
  by (simp_all add: demo_rv_def hard_of_def held_of_def isHard_def in_window_def)

lemma demo_line:
  "env_point (st_envelopes demo2) (StrongId 7) 150 =
     Some \<lparr>pt_hard = 60, pt_soft = 0, pt_held = 30, pt_cap = 100\<rparr>"
  by (simp add: demo_env_def env_point_def env_profile_def agg_profile_def profile_def covers_def
      cell_point_def)

lemma demo2_reachable: "reachable demo_config demo2"
proof -
  have 1: "reachable demo_config demo1"
    unfolding demo1_def
    by (rule reach_step [OF demo0_reachable step_create_hold])
       (simp add: demo_defs eval_domain eval_index eval_runtime Let_def cong: let_weak_cong)
  show ?thesis
    unfolding demo2_def
    by (rule reach_step [OF 1 step_commit])
       (simp_all add: demo_defs eval_domain eval_index eval_runtime Let_def cong: let_weak_cong)
qed

end
