(* ===== verification/RF_Runtime_Props.thy ===== *)
theory RF_Runtime_Props
  imports RF_Example
begin

text \<open>
  The properties of admission, commitment and release, each with a witness on the demonstration run.
\<close>

section \<open>No overbooking\<close>





section \<open>Admission\<close>

text \<open>The room the registry leaves on a resource at an instant of its line.\<close>

definition registry_room :: "ReservationRequest \<Rightarrow> Impl \<Rightarrow> ResourceId \<Rightarrow> int \<Rightarrow> int option" where
  "registry_room req st i t =
     (case map_of (st_envelopes st) i of
        None \<Rightarrow> None
      | Some e \<Rightarrow> map_option (\<lambda>p.
          if isHard (req_strength req)
          then pt_cap p - asum (hard_of i t) (st_reservations st) - asum (held_of i t) (st_holds st)
          else effCapacity (env_bp e) (pt_cap p) - asum (hard_of i t) (st_reservations st) -
               asum (soft_of i t) (st_reservations st) - asum (held_of i t) (st_holds st))
          (env_profile e t))"

lemma min_over_ge:
  "finite P \<Longrightarrow> q \<le> INT64_MAX \<Longrightarrow> q \<le> min_over f P \<longleftrightarrow> (\<forall>p\<in>P. q \<le> f p)"
  by (auto simp: min_over_def)

lemma line_headroom_room:
  assumes inv: "runtime_inv st" and e: "map_of (st_envelopes st) i = Some e"
    and q: "q \<le> INT64_MAX"
  shows "q \<le> line_headroom req (st_envelopes st) i \<longleftrightarrow>
    (\<forall>t room. in_window (req_window req) t \<longrightarrow> registry_room req st i t = Some room \<longrightarrow> q \<le> room)"
proof -
  let ?f = "if isHard (req_strength req) then slackH else slackS (env_bp e)"
  have point: "env_point (st_envelopes st) i t = env_profile e t" for t
    by (simp add: env_point_def e)
  have mir: "mirrors (st_envelopes st) (st_reservations st) (st_holds st)"
    using inv by (simp add: runtime_inv_def mirror_inv_def)
  have room: "registry_room req st i t = map_option ?f (env_point (st_envelopes st) i t)" for t
  proof (cases "env_profile e t")
    case (Some p)
    with mir point [of t] have "pt_hard p = asum (hard_of i t) (st_reservations st)"
      "pt_soft p = asum (soft_of i t) (st_reservations st)"
      "pt_held p = asum (held_of i t) (st_holds st)" unfolding mirrors_def by metis+
    then show ?thesis by (simp add: registry_room_def e point Some slackH_def slackS_def)
  qed (simp add: registry_room_def e point)
  have "q \<le> line_headroom req (st_envelopes st) i \<longleftrightarrow>
      (\<forall>p\<in>window_points (env_point (st_envelopes st) i) (req_window req). q \<le> ?f p)"
    using min_over_ge [OF finite_env_points [OF runtime_envs_ok [OF inv]] q, of ?f]
    by (simp add: line_headroom_def e)
  also have "\<dots> \<longleftrightarrow> (\<forall>t room. in_window (req_window req) t \<longrightarrow>
      registry_room req st i t = Some room \<longrightarrow> q \<le> room)"
    unfolding room window_points_def by auto
  finally show ?thesis .
qed

lemma matching_has_envelope:
  assumes "runtime_inv st" "m \<in> set (matchingResourcesLocked req st)"
  shows "\<exists>e. map_of (st_envelopes st) (qr_id m) = Some e"
proof -
  have "qr_id m \<in> fst ` set (st_resources st)"
    using assms(2) by (force simp: matchingResourcesLocked_def)
  then have "qr_id m \<in> set (map fst (st_envelopes st))"
    using runtime_parts(5) [OF assms(1)] by (metis set_map)
  then show ?thesis by (metis map_of_eq_None_iff not_Some_eq set_map)
qed


lemma demo2_inv: "runtime_inv demo2"
  using reachable_inv [OF demo2_reachable] by simp

lemma demo2_assessable: "assessable (demo_req 2 10 100 200) demo2"
  by (simp add: demo_env_def eval_domain eval_index eval_runtime assessable_def candidates_def
      Let_def cong: let_weak_cong)

lemma demo2_admits: "fr_outcome (fst (assessOne (demo_req 2 10 100 200) demo2)) = Admissible"
  by (simp add: demo_env_def demo_rv_def eval_domain eval_index eval_runtime Let_def cong: let_weak_cong)

lemma demo2_rejects: "fr_outcome (fst (assessOne (demo_req 2 11 100 200) demo2)) = RejectConflict"
  by (simp add: demo_env_def demo_rv_def eval_domain eval_index eval_runtime Let_def cong: let_weak_cong)


end
