(* ===== verification/RF_All_Steps.thy ===== *)
theory RF_All_Steps
  imports RF_Example
begin

text \<open>
  Every public operation of the runtime as a step, without any of the restrictions of
  \<open>safe_step\<close>, and the well-formedness of the registry that all of them keep.
\<close>

inductive runtime_step :: "Impl \<Rightarrow> Impl \<Rightarrow> bool" where
  any_publish: "runtime_step st (snd (publishResource pub st))"
| any_epoch: "runtime_step st (snd (setCoordinatorEpoch e st))"
| any_invalidate: "runtime_step st (snd (invalidateResource n st))"
| any_advance: "runtime_step st (snd (advanceResourceGeneration i g c st))"
| any_revalidate: "runtime_step st (snd (revalidateResource i pub st))"
| any_assess: "runtime_step st (snd (rf_assess req st))"
| any_assess_bundle: "runtime_step st (snd (assess_bundle reqs st))"
| any_headroom: "runtime_step st (snd (headroomOverWindow i w hard st))"
| any_headroom_at: "runtime_step st (snd (headroomAt i t hard st))"
| any_accounting: "runtime_step st (snd (rf_accounting i st))"
| any_create_hold: "runtime_step st (snd (createHold now spec st))"
| any_release_hold: "runtime_step st (snd (releaseHold k hg st))"
| any_expire_holds: "runtime_step st (expireHolds now st)"
| any_commit: "runtime_step st (snd (rf_commit req hold st))"
| any_bundle: "runtime_step st (snd (commitBundle clock reqs hold st))"
| any_activate: "runtime_step st (snd (rf_activate r rg aev st))"
| any_consume: "runtime_step st (snd (rf_consume r rg amount cev st))"
| any_release: "runtime_step st (snd (rf_release r rg lev st))"
| any_resize: "runtime_step st (snd (rf_resize r rg q p st))"
| any_renew: "runtime_step st (snd (rf_renew r rg w p st))"
| any_transfer: "runtime_step st (snd (rf_transfer r rg own og aev st))"
| any_cancel: "runtime_step st (snd (rf_cancel r rg st))"
| any_expire_due: "runtime_step st (snd (expireDue now st))"

inductive runtime_run :: "RuntimeConfig \<Rightarrow> Impl \<Rightarrow> bool" where
  run_start: "runtime_run config (mk_Impl config)"
| run_step: "runtime_run config st \<Longrightarrow> runtime_step st st' \<Longrightarrow> runtime_run config st'"

lemma safe_step_is_step: "safe_step st st' \<Longrightarrow> runtime_step st st'"
  by (cases rule: safe_step.cases) (auto intro: runtime_step.intros)

lemma reachable_runs: "reachable config st \<Longrightarrow> runtime_run config st"
  by (induction rule: reachable.induct) (auto intro: runtime_run.intros safe_step_is_step)

section \<open>Entries of the registry\<close>

text \<open>An entry is filed under its identity at the current generation, and consumes within its quantity.\<close>

definition entry_ok ::
    "(ReservationId \<times> ReservationGeneration) list \<Rightarrow> ReservationId \<Rightarrow> Reservation \<Rightarrow> bool" where
  "entry_ok gens k r \<longleftrightarrow> rv_id r = k \<and> map_of gens k = Some (rv_generation r) \<and>
     0 \<le> q_value (rv_consumed r) \<and> q_value (rv_consumed r) \<le> q_value (rv_quantity r)"

definition registry_ok :: "Impl \<Rightarrow> bool" where
  "registry_ok st \<longleftrightarrow> keys_distinct (st_reservations st) \<and>
     (\<forall>k r. map_of (st_reservations st) k = Some r \<longrightarrow> entry_ok (st_currentGen st) k r)"

text \<open>The part of an entry that \<open>entry_ok\<close> reads.\<close>

definition same_entry :: "Reservation \<Rightarrow> Reservation \<Rightarrow> bool" where
  "same_entry r r' \<longleftrightarrow> rv_id r' = rv_id r \<and> rv_generation r' = rv_generation r \<and>
     rv_consumed r' = rv_consumed r \<and> rv_quantity r' = rv_quantity r"

lemma same_entry_ok: "same_entry r r' \<Longrightarrow> entry_ok gens k r' = entry_ok gens k r"
  by (simp add: same_entry_def entry_ok_def)

lemma same_entry_refl [simp]: "same_entry r r"
  by (simp add: same_entry_def)

lemma same_entry_trans: "same_entry r s \<Longrightarrow> same_entry s t \<Longrightarrow> same_entry r t"
  by (simp add: same_entry_def)

text \<open>A step that touches neither map, one that rewrites entries in place, and one that puts an entry.\<close>

lemma registry_ok_cong:
  "registry_ok st \<Longrightarrow> st_reservations st' = st_reservations st \<Longrightarrow>
   st_currentGen st' = st_currentGen st \<Longrightarrow> registry_ok st'"
  by (simp add: registry_ok_def)

lemma registry_ok_put:
  "registry_ok st \<Longrightarrow> map_of (st_reservations st) k = Some r \<Longrightarrow> same_entry r r' \<Longrightarrow>
   st_reservations st' = AList.update k r' (st_reservations st) \<Longrightarrow>
   st_currentGen st' = st_currentGen st \<Longrightarrow> registry_ok st'"
  by (auto simp: registry_ok_def update_conv' same_entry_ok distinct_update)

lemma registry_ok_new:
  "registry_ok st \<Longrightarrow> entry_ok (AList.update k g (st_currentGen st)) k r \<Longrightarrow>
   st_reservations st' = AList.update k r (st_reservations st) \<Longrightarrow>
   st_currentGen st' = AList.update k g (st_currentGen st) \<Longrightarrow> registry_ok st'"
  by (auto simp: registry_ok_def update_conv' entry_ok_def distinct_update)

lemma registry_ok_amap:
  assumes ok: "registry_ok st" and f: "\<And>r. same_entry r (f r)"
    and st': "st_reservations st' = amap_values f (st_reservations st)"
      "st_currentGen st' = st_currentGen st"
  shows "registry_ok st'"
proof -
  have "entry_ok (st_currentGen st') k r" if r: "map_of (st_reservations st') k = Some r" for k r
  proof -
    obtain v where "map_of (st_reservations st) k = Some v" "r = f v"
      using r st' by auto
    with ok show ?thesis
      by (simp add: registry_ok_def st' same_entry_ok [OF f] del: map_of_eq_Some_iff)
  qed
  with ok show ?thesis by (simp add: registry_ok_def st')
qed

lemma map_of_for_each:
  assumes "for_each f xs es = (xs', es')" "map_of xs' k = Some v'"
    and "\<And>v es w es'. f v es = (w, es') \<Longrightarrow> same_entry v w"
  shows "\<exists>v. map_of xs k = Some v \<and> same_entry v v'"
  using assms
  by (induction f xs es arbitrary: xs' es' rule: for_each.induct)
     (fastforce simp: Let_def split: prod.splits if_splits)+

lemma registry_ok_for_each:
  assumes ok: "registry_ok st" and l: "for_each f (st_reservations st) es = (rs, es')"
    and f: "\<And>v es w es'. f v es = (w, es') \<Longrightarrow> same_entry v w"
    and st': "st_reservations st' = rs" "st_currentGen st' = st_currentGen st"
  shows "registry_ok st'"
proof -
  have "map fst rs = map fst (st_reservations st)" by (rule for_each_keys [OF l])
  moreover have "entry_ok (st_currentGen st) k r" if r: "map_of rs k = Some r" for k r
  proof -
    obtain v where "map_of (st_reservations st) k = Some v" "same_entry v r"
      using map_of_for_each [OF l r] f by metis
    with ok show ?thesis by (simp add: registry_ok_def same_entry_ok del: map_of_eq_Some_iff)
  qed
  ultimately show ?thesis using ok st' by (simp add: registry_ok_def)
qed

section \<open>Every operation keeps the registry\<close>

lemma contribution_same_entry:
  "addContributionLocked r es = (r', es') \<Longrightarrow> same_entry r r'"
  "removeContributionLocked r es = (r', es') \<Longrightarrow> same_entry r r'"
proof -
  have "fst (addContributionLocked r es) \<in> {r, r\<lparr>rv_contributes := True\<rparr>}"
    "fst (removeContributionLocked r es) \<in> {r, r\<lparr>rv_contributes := False\<rparr>}"
    by (simp_all add: addContributionLocked_def removeContributionLocked_def split: option.split)
  then have "same_entry r (fst (addContributionLocked r es))"
    "same_entry r (fst (removeContributionLocked r es))" by (auto simp: same_entry_def)
  then show "addContributionLocked r es = (r', es') \<Longrightarrow> same_entry r r'"
    "removeContributionLocked r es = (r', es') \<Longrightarrow> same_entry r r'" by simp_all
qed

lemma assessOne_keeps:
  "st_reservations (snd (assessOne req st)) = st_reservations st"
  "st_currentGen (snd (assessOne req st)) = st_currentGen st"
  by (simp_all add: assessOne_def Let_def split: prod.split)

lemma assess_bundle_keeps:
  "st_reservations (snd (assess_bundle reqs st)) = st_reservations st"
  "st_currentGen (snd (assess_bundle reqs st)) = st_currentGen st"
proof (induction reqs arbitrary: st)
  case (Cons r rs)
  { case 1 show ?case using Cons.IH assessOne_keeps by (simp add: Let_def case_prod_beta) }
  { case 2 show ?case using Cons.IH assessOne_keeps by (simp add: Let_def case_prod_beta) }
qed simp_all

lemma hold_operations_keep:
  "st_reservations (snd (acquireHoldLocked now spec st)) = st_reservations st"
  "st_currentGen (snd (acquireHoldLocked now spec st)) = st_currentGen st"
  "st_reservations (snd (releaseHold k hg st)) = st_reservations st"
  "st_currentGen (snd (releaseHold k hg st)) = st_currentGen st"
  "st_reservations (expireHolds t st) = st_reservations st"
  "st_currentGen (expireHolds t st) = st_currentGen st"
  "st_reservations (releaseHoldLocked k st) = st_reservations st"
  "st_currentGen (releaseHoldLocked k st) = st_currentGen st"
  "st_reservations (commit_hold k st) = st_reservations st"
  "st_currentGen (commit_hold k st) = st_currentGen st"
  by (simp_all add: acquireHoldLocked_def releaseHold_def expireHolds_def releaseHoldLocked_def
      commit_hold_def put_hold_def Let_def case_prod_beta split: option.split sum.split)

lemma release_holds_keeps:
  "st_reservations (release_holds is st) = st_reservations st"
  "st_currentGen (release_holds is st) = st_currentGen st"
  unfolding release_holds_def
  by (induction "is" arbitrary: st) (simp_all add: hold_operations_keep)

lemma queries_keep:
  "st_reservations (snd (headroomOverWindow i w hard st)) = st_reservations st"
  "st_currentGen (snd (headroomOverWindow i w hard st)) = st_currentGen st"
  "st_reservations (snd (headroomAt i t hard st)) = st_reservations st"
  "st_currentGen (snd (headroomAt i t hard st)) = st_currentGen st"
  "st_reservations (snd (rf_accounting i st)) = st_reservations st"
  "st_currentGen (snd (rf_accounting i st)) = st_currentGen st"
  "st_reservations (snd (setCoordinatorEpoch e st)) = st_reservations st"
  "st_currentGen (snd (setCoordinatorEpoch e st)) = st_currentGen st"
  by (simp_all add: headroomOverWindow_def headroomAt_def rf_accounting_def setCoordinatorEpoch_def
      Let_def case_prod_beta split: option.split sum.split)

lemma registry_ok_keeps:
  "registry_ok st \<Longrightarrow> st_reservations st' = st_reservations st \<Longrightarrow>
   st_currentGen st' = st_currentGen st \<Longrightarrow> registry_ok st'"
  by (rule registry_ok_cong)

lemma readvance_same_entry:
  "readvance i r es = (r', es') \<Longrightarrow> same_entry r r'"
proof -
  obtain a b where ab: "addContributionLocked r es = (a, b)" by fastforce
  have flag: "same_entry r (flag_revalidation r)" for r
    by (simp add: flag_revalidation_def same_entry_def)
  show "readvance i r es = (r', es') \<Longrightarrow> same_entry r r'"
    using same_entry_trans [OF contribution_same_entry(1) [OF ab] flag] flag [of r]
    by (auto simp: readvance_def ab split: if_splits)
qed

lemma publish_keeps:
  "st_currentGen (snd (publishResource pub st)) = st_currentGen st"
  "st_reservations (snd (publishResource pub st)) = st_reservations st \<or>
   (\<exists>es. st_reservations (snd (publishResource pub st)) =
      fst (for_each (readvance (pub_id pub)) (st_reservations st) es))"
  by (simp_all add: publishResource_def Let_def case_prod_beta split: sum.split option.split) blast+

lemma publish_registry:
  assumes "registry_ok st"
  shows "registry_ok (snd (publishResource pub st))"
  using publish_keeps(2) [of pub st]
proof
  assume "st_reservations (snd (publishResource pub st)) = st_reservations st"
  then show ?thesis by (rule registry_ok_cong [OF assms _ publish_keeps(1)])
next
  assume "\<exists>es. st_reservations (snd (publishResource pub st)) =
      fst (for_each (readvance (pub_id pub)) (st_reservations st) es)"
  then obtain es where l: "st_reservations (snd (publishResource pub st)) =
      fst (for_each (readvance (pub_id pub)) (st_reservations st) es)" ..
  show ?thesis
    by (rule registry_ok_for_each [OF assms prod.collapse [symmetric] _ l publish_keeps(1)])
       (rule readvance_same_entry)
qed

lemma invalidate_registry:
  assumes "registry_ok st"
  shows "registry_ok (snd (invalidateResource n st))"
proof (cases "map_of (st_resources st) (in_resource n)")
  case (Some res)
  show ?thesis
    by (rule registry_ok_amap [OF assms])
       (simp_all add: invalidateResource_def Some Let_def put_resource_def same_entry_def)
qed (simp add: invalidateResource_def assms)

lemma advance_registry:
  assumes "registry_ok st"
  shows "registry_ok (snd (advanceResourceGeneration i g c st))"
proof (cases "\<exists>res. map_of (st_resources st) i = Some res \<and> \<not> g \<le> res_generation res")
  case True
  then obtain res where "map_of (st_resources st) i = Some res" "\<not> g \<le> res_generation res" by blast
  then show ?thesis
    by (intro registry_ok_amap [OF assms])
       (simp_all add: advanceResourceGeneration_def Let_def put_resource_def flag_revalidation_def
          same_entry_def)
next
  case False
  then show ?thesis by (auto simp: advanceResourceGeneration_def assms split: option.split)
qed

lemma revalidate_registry:
  assumes "registry_ok st"
  shows "registry_ok (snd (revalidateResource i pub st))"
proof (cases "snd (revalidateResource i pub st) = st")
  case False
  then show ?thesis
    by (intro registry_ok_amap [OF assms])
       (simp_all add: revalidateResource_def Let_def put_resource_def same_entry_def
          split: option.split_asm if_split_asm)
qed (simp add: assms)

lemma current_reservation_map:
  "current_reservation i g st = Some r \<Longrightarrow> map_of (st_reservations st) i = Some r \<and> rv_generation r = g"
  using current_reservation_Some by blast

lemma put_registry:
  "registry_ok st \<Longrightarrow> current_reservation i g st = Some r \<Longrightarrow> same_entry r r' \<Longrightarrow>
   registry_ok (put_reservation i r' st)"
  by (rule registry_ok_put [where k = i and r = r and r' = r'])
     (auto simp: current_reservation_Some put_reservation_def simp del: map_of_eq_Some_iff)

lemma registry_ok_update:
  "registry_ok st \<Longrightarrow> entry_ok (st_currentGen st) k r \<Longrightarrow> registry_ok (put_reservation k r st)"
  by (auto simp: registry_ok_def put_reservation_def simp del: map_of_eq_Some_iff)

lemma activate_registry: "registry_ok st \<Longrightarrow> registry_ok (snd (rf_activate i g ev st))"
  by (auto simp: rf_activate_def Let_def same_entry_def split: option.split intro: put_registry)

lemma withdraw_registry:
  assumes "registry_ok st" "current_reservation i g st = Some r" "\<And>r. same_entry r (f r)"
  shows "registry_ok (withdraw i f r st)"
proof -
  obtain r' es where w: "removeContributionLocked r (st_envelopes st) = (r', es)" by fastforce
  have "same_entry r (f r')"
    using same_entry_trans [OF contribution_same_entry(2) [OF w] assms(3)] .
  then show ?thesis using assms(1,2)
    by (intro registry_ok_put [OF assms(1), where k = i and r = r and r' = "f r'"])
       (auto simp: withdraw_def w put_reservation_def current_reservation_Some
          simp del: map_of_eq_Some_iff)
qed

lemma release_registry: "registry_ok st \<Longrightarrow> registry_ok (snd (rf_release i g ev st))"
  by (auto simp: rf_release_def Let_def same_entry_def split: option.split intro!: withdraw_registry)

lemma cancel_registry: "registry_ok st \<Longrightarrow> registry_ok (snd (rf_cancel i g st))"
  by (auto simp: rf_cancel_def same_entry_def split: option.split intro!: withdraw_registry)

lemma expireDue_registry:
  assumes "registry_ok st"
  shows "registry_ok (snd (expireDue now st))"
proof -
  obtain rs es where l: "for_each (expire_reservation now) (st_reservations st) (st_envelopes st)
      = (rs, es)" by fastforce
  have "same_entry v w" if e: "expire_reservation now v es = (w, es')" for v w es es'
  proof -
    obtain r' es1 where r': "removeContributionLocked v es = (r', es1)" by fastforce
    have "same_entry r' (r'\<lparr>rv_lifecycle := Lifecycle_Expired, rv_releasedAt := Some now\<rparr>)"
      by (simp add: same_entry_def)
    with same_entry_trans [OF contribution_same_entry(2) [OF r']] e r' show ?thesis
      by (auto simp: expire_reservation_def split: if_splits)
  qed
  from registry_ok_for_each [OF assms l this] show ?thesis
    by (simp add: expireDue_def l)
qed

lemma consume_registry:
  assumes ok: "registry_ok st"
  shows "registry_ok (snd (rf_consume i g amount ev st))"
proof (cases "current_reservation i g st")
  case None
  with ok show ?thesis by (simp add: rf_consume_def)
next
  case (Some r)
  let ?c = "Quantity (q_value (rv_consumed r) + q_value amount) (rv_unit r)"
  let ?r = "r\<lparr>rv_consumed := ?c,
     rv_consumptionGeneration := Some (ce_consumptionGeneration ev),
     rv_lifecycle := (if ?c = rv_quantity r then Lifecycle_Consumed else Lifecycle_PartiallyConsumed)\<rparr>"
  have shape: "snd (rf_consume i g amount ev st) = st \<or>
      snd (rf_consume i g amount ev st) = put_reservation i ?r st \<and>
      0 < q_value amount \<and> q_value amount \<le> q_value (rv_quantity r) - q_value (rv_consumed r)"
    by (simp add: rf_consume_def Some Let_def linorder_not_le linorder_not_less)
  have put: "registry_ok (put_reservation i ?r st)"
    if "0 < q_value amount" "q_value amount \<le> q_value (rv_quantity r) - q_value (rv_consumed r)"
  proof (rule registry_ok_update [OF ok])
    have "entry_ok (st_currentGen st) i r"
      using ok Some by (simp add: registry_ok_def current_reservation_Some)
    with that show "entry_ok (st_currentGen st) i ?r" by (simp add: entry_ok_def)
  qed
  from shape show ?thesis
  proof (elim disjE conjE)
    assume "snd (rf_consume i g amount ev st) = st"
    with ok show ?thesis by simp
  next
    assume "snd (rf_consume i g amount ev st) = put_reservation i ?r st" "0 < q_value amount"
      "q_value amount \<le> q_value (rv_quantity r) - q_value (rv_consumed r)"
    with put show ?thesis by (simp only:)
  qed
qed

section \<open>New entries and new generations\<close>

lemma insert_registry:
  assumes "registry_ok st" "0 < q_value (req_quantity req)"
  shows "registry_ok (insert_reservation req i bg rid gen st)"
proof -
  let ?r = "makeReservationFromRequest req i bg rid gen"
  obtain r' es where a: "addContributionLocked ?r (st_envelopes st) = (r', es)" by fastforce
  note same = contribution_same_entry(1) [OF a]
  have "entry_ok (AList.update rid gen (st_currentGen st)) rid r'"
    using assms(2) by (simp add: same_entry_ok [OF same])
      (simp add: entry_ok_def makeReservationFromRequest_def Quantity_zero_def)
  then show ?thesis
    by (rule registry_ok_new [OF assms(1)]) (simp_all add: insert_reservation_def a)
qed

lemma validated_quantity: "validate_request req = None \<Longrightarrow> 0 < q_value (req_quantity req)"
  by (auto simp: validate_request_def split: if_splits)

lemma assessOne_invalid:
  "validate_request req \<noteq> None \<Longrightarrow> \<not> report_admissible (fst (assessOne req st))"
  by (simp add: assessOne_def rejected_for_def report_rejected_def report_admissible_def)

lemma commitOne_registry:
  assumes ok: "registry_ok st"
  shows "registry_ok (snd (commitOneLocked req hold st))"
proof -
  obtain rep st1 where as: "assessOne req st = (rep, st1)" by fastforce
  have ok1: "registry_ok st1"
    using registry_ok_cong [OF ok, of st1] assessOne_keeps [of req st] as by simp
  show ?thesis
  proof (cases "validate_request req")
    case None
    note q = validated_quantity [OF None]
    have "registry_ok (st1\<lparr>st_nextReservationId := n\<rparr>)" for n
      by (rule registry_ok_cong [OF ok1]) simp_all
    note ins = insert_registry [OF this q]
    have hold: "registry_ok (commit_hold k st3)" if "registry_ok st3" for k st3
      by (rule registry_ok_cong [OF that hold_operations_keep(9,10)])
    show ?thesis
      using ok1 ins hold
      by (auto simp: commitOneLocked_def as Let_def registry_ok_def split: option.split sum.split)
  next
    case (Some e)
    then have "\<not> report_admissible rep" using assessOne_invalid [of req st] as by simp
    then show ?thesis using ok1 by (simp add: commitOneLocked_def as)
  qed
qed

lemma commit_registry: "registry_ok st \<Longrightarrow> registry_ok (snd (rf_commit req hold st))"
  by (simp add: rf_commit_def commitOne_registry split: option.split)

lemma rollback_registry:
  assumes "registry_ok st"
  shows "registry_ok (rollback_member k st)"
proof (cases "map_of (st_reservations st) k")
  case None
  with assms show ?thesis by (simp add: rollback_member_def)
next
  case (Some r)
  obtain r' es where w: "removeContributionLocked r (st_envelopes st) = (r', es)" by fastforce
  have "same_entry r' (r'\<lparr>rv_lifecycle := Lifecycle_Cancelled\<rparr>)" by (simp add: same_entry_def)
  with same_entry_trans [OF contribution_same_entry(2) [OF w]] show ?thesis
    by (intro registry_ok_put [OF assms Some]) (simp_all add: rollback_member_def Some w)
qed

lemma rollback_all_registry: "registry_ok st \<Longrightarrow> registry_ok (fold rollback_member ks st)"
  by (induction ks arbitrary: st) (simp_all add: rollback_registry)

lemma acquire_all_keeps:
  "st_reservations (snd (acquire_all clock n ms ids st)) = st_reservations st"
  "st_currentGen (snd (acquire_all clock n ms ids st)) = st_currentGen st"
proof (induction clock n ms ids st rule: acquire_all.induct)
  case (2 clock n m ms holdIds st)
  let ?i = "StrongId (st_nextHoldId st + 1)"
  let ?st1 = "st\<lparr>st_nextHoldId := st_nextHoldId st + 1\<rparr>"
  obtain res st2 where a: "acquireHoldLocked (clock n) (bundle_hold_spec m ?i) ?st1 = (res, st2)"
    by fastforce
  note keep = hold_operations_keep(1,2) [of "clock n" "bundle_hold_spec m ?i" ?st1, unfolded a]
  { case 1 show ?case
      using 2 keep a
      by (auto simp: Let_def release_holds_keeps split: sum.split) }
  { case 2 show ?case
      using "2.IH" keep a
      by (auto simp: Let_def release_holds_keeps split: sum.split) }
qed simp_all

lemma commit_all_registry:
  "registry_ok st \<Longrightarrow> registry_ok (snd (commit_all ms is ids st))"
proof (induction ms "is" ids st rule: commit_all.induct)
  case (1 m ms i "is" ids st)
  obtain res st1 where c: "commitOneLocked m (Some i) st = (res, st1)" by fastforce
  have ok1: "registry_ok st1" using commitOne_registry [OF "1.prems", of m "Some i"] c by simp
  have undone: "registry_ok (release_holds (i # is) (fold rollback_member ids st1))"
    by (rule registry_ok_cong [OF rollback_all_registry [OF ok1] release_holds_keeps])
  show ?case using "1.IH" [OF c [symmetric]] ok1 undone c by (auto split: sum.split)
qed simp_all

lemma bundle_registry:
  assumes "registry_ok st"
  shows "registry_ok (snd (commitBundle clock ms hold st))"
proof -
  let ?st1 = "st\<lparr>st_nextSetId := st_nextSetId st + 1\<rparr>"
  obtain reps st2 where b: "assess_bundle ms ?st1 = (reps, st2)" by fastforce
  obtain res st3 where a: "acquire_all clock 0 ms [] st2 = (res, st3)" by fastforce
  have 2: "registry_ok st2"
    by (rule registry_ok_cong [OF assms]) (use assess_bundle_keeps [of ms ?st1] b in simp_all)
  have 3: "registry_ok st3"
    by (rule registry_ok_cong [OF 2]) (use acquire_all_keeps [of clock 0 ms "[]" st2] a in simp_all)
  have 4: "registry_ok (snd (commit_all ms ids [] st3))" for ids by (rule commit_all_registry [OF 3])
  have 5: "registry_ok (st4\<lparr>st_sets := x\<rparr>)" if "registry_ok st4" for st4 x
    by (rule registry_ok_cong [OF that]) simp_all
  show ?thesis
    using 2 3 4 5 by (auto simp: commitBundle_def Let_def b a split: sum.split option.split prod.split)
      (metis snd_conv)+
qed

lemma push_history_keeps:
  "st_reservations (push_history i r st) = st_reservations st"
  "st_currentGen (push_history i r st) = st_currentGen st"
  by (simp_all add: push_history_def Let_def)

text \<open>What \<open>entry_ok\<close> asks of the record a modification starts from.\<close>

definition bounded_entry :: "ReservationId \<Rightarrow> Reservation \<Rightarrow> bool" where
  "bounded_entry i r \<longleftrightarrow> rv_id r = i \<and> 0 \<le> q_value (rv_consumed r) \<and>
     q_value (rv_consumed r) \<le> q_value (rv_quantity r)"

lemma supersede_registry:
  assumes ok: "registry_ok st" and r: "bounded_entry i (change r)"
  shows "registry_ok (snd (supersede i r change st))"
proof -
  let ?st1 = "push_history i r st"
  have ok1: "registry_ok ?st1" by (rule registry_ok_cong [OF ok push_history_keeps])
  show ?thesis
  proof (cases "gen_next (current_gen i ?st1)")
    case (Inl f)
    with ok1 show ?thesis by (simp add: supersede_def)
  next
    case (Inr g)
    let ?nr = "(change r)\<lparr>rv_generation := g, rv_lifecycle := Lifecycle_Committed,
        rv_activationGeneration := None, rv_contributes := True\<rparr>"
    obtain nr' es where a: "addContributionLocked ?nr (st_envelopes ?st1) = (nr', es)" by fastforce
    have "entry_ok (AList.update i g (st_currentGen ?st1)) i nr'"
      using r by (simp add: same_entry_ok [OF contribution_same_entry(1) [OF a]])
        (simp add: entry_ok_def bounded_entry_def)
    then show ?thesis
      by (rule registry_ok_new [OF ok1]) (simp_all add: supersede_def Inr a Let_def)
  qed
qed

text \<open>The state in which resize and renew decide: the old contribution is off the line.\<close>

lemma taken_off:
  assumes ok: "registry_ok st" and r: "current_reservation i g st = Some r"
    and w: "removeContributionLocked r es = (r1, es1)"
  shows "registry_ok (put_reservation i r1 (st\<lparr>st_envelopes := es2\<rparr>))"
    "bounded_entry i r1" "same_entry r r1"
proof -
  note same = contribution_same_entry(2) [OF w]
  have e: "entry_ok (st_currentGen st) i r"
    using ok r by (simp add: registry_ok_def current_reservation_Some)
  with same show "bounded_entry i r1" "same_entry r r1"
    by (auto simp: entry_ok_def bounded_entry_def same_entry_def)
  have "registry_ok (st\<lparr>st_envelopes := es2\<rparr>)" by (rule registry_ok_cong [OF ok]) simp_all
  then show "registry_ok (put_reservation i r1 (st\<lparr>st_envelopes := es2\<rparr>))"
    by (rule registry_ok_update) (use e same_entry_ok [OF same] in simp)
qed

lemma put_back:
  assumes ok: "registry_ok st" and r: "current_reservation i g st = Some r"
    and w: "removeContributionLocked r es = (r1, es1)" "addContributionLocked r1 es2 = (r2, es3)"
  shows "registry_ok (put_reservation i r2 (st\<lparr>st_envelopes := es4\<rparr>))"
proof -
  have same: "same_entry r r2"
    by (rule same_entry_trans [OF contribution_same_entry(2) [OF w(1)] contribution_same_entry(1) [OF w(2)]])
  have "registry_ok (st\<lparr>st_envelopes := es4\<rparr>)" by (rule registry_ok_cong [OF ok]) simp_all
  then show ?thesis
    by (rule registry_ok_update)
       (use ok r in \<open>simp add: same_entry_ok [OF same] registry_ok_def current_reservation_Some\<close>)
qed

lemma resize_registry:
  assumes ok: "registry_ok st"
  shows "registry_ok (snd (rf_resize i g q p st))"
proof (cases "current_reservation i g st")
  case None
  with ok show ?thesis by (simp add: rf_resize_def)
next
  case (Some r)
  obtain r1 es1 where w: "removeContributionLocked r (st_envelopes st) = (r1, es1)" by fastforce
  obtain h es2 where h: "headroom_on (rv_strength r1) (rv_resource r1) (rv_window r1) es1 = (h, es2)"
    by fastforce
  obtain r2 es3 where a: "addContributionLocked r1 es2 = (r2, es3)" by fastforce
  note off = taken_off [OF ok Some w]
  let ?change = "\<lambda>r. r\<lparr>rv_quantity := q, rv_policyGeneration := p,
      rv_consumed := Quantity_zero (rv_unit r), rv_activated := Quantity_zero (rv_unit r)\<rparr>"
  have "registry_ok (snd (supersede i r1 ?change (put_reservation i r1 (st\<lparr>st_envelopes := es2\<rparr>))))"
    if "0 < q_value q"
    using off that by (intro supersede_registry) (auto simp: bounded_entry_def Quantity_zero_def)
  then show ?thesis
    using ok put_back [OF ok Some w a]
    by (auto simp: rf_resize_def Some Let_def w h a split: prod.split sum.split)
qed

lemma renew_registry:
  assumes ok: "registry_ok st"
  shows "registry_ok (snd (rf_renew i g w' p st))"
proof (cases "current_reservation i g st")
  case None
  with ok show ?thesis by (simp add: rf_renew_def)
next
  case (Some r)
  obtain r1 es1 where w: "removeContributionLocked r (st_envelopes st) = (r1, es1)" by fastforce
  obtain h es2 where h: "headroom_on (rv_strength r1) (rv_resource r1) w' es1 = (h, es2)"
    by fastforce
  obtain r2 es3 where a: "addContributionLocked r1 es2 = (r2, es3)" by fastforce
  note off = taken_off [OF ok Some w]
  let ?change = "\<lambda>r. r\<lparr>rv_window := w', rv_policyGeneration := p\<rparr>"
  have "registry_ok (snd (supersede i r1 ?change (put_reservation i r1 (st\<lparr>st_envelopes := es2\<rparr>))))"
    using off by (intro supersede_registry) (auto simp: bounded_entry_def)
  then show ?thesis
    using ok put_back [OF ok Some w a]
    by (auto simp: rf_renew_def Some Let_def w h a split: prod.split sum.split)
qed

lemma transfer_registry:
  assumes ok: "registry_ok st"
  shows "registry_ok (snd (rf_transfer i g own og ev st))"
proof (cases "current_reservation i g st")
  case None
  with ok show ?thesis by (simp add: rf_transfer_def)
next
  case (Some r)
  let ?st1 = "push_history i r st"
  have ok1: "registry_ok ?st1" by (rule registry_ok_cong [OF ok push_history_keeps])
  have e: "entry_ok (st_currentGen st) i r"
    using ok Some by (simp add: registry_ok_def current_reservation_Some)
  have new: "registry_ok (?st1\<lparr>st_currentGen := AList.update i g' (st_currentGen ?st1),
      st_reservations := AList.update i (r\<lparr>rv_generation := g', rv_owner := own,
        rv_ownerGeneration := og, rv_transferGeneration := Some (StrongGeneration 1),
        rv_lifecycle := Lifecycle_Committed, rv_activationGeneration := None\<rparr>)
      (st_reservations ?st1)\<rparr>)" for g'
    by (rule registry_ok_new [OF ok1]) (use e in \<open>simp_all add: entry_ok_def\<close>)
  show ?thesis
    using ok ok1 new by (simp add: rf_transfer_def Some Let_def split: sum.split)
qed

lemma mk_Impl_registry: "registry_ok (mk_Impl config)"
  by (simp add: registry_ok_def mk_Impl_def)

lemma runtime_step_registry: "runtime_step st st' \<Longrightarrow> registry_ok st \<Longrightarrow> registry_ok st'"
proof (induction rule: runtime_step.induct)
  case any_epoch then show ?case by (rule registry_ok_cong) (simp_all add: queries_keep)
next
  case any_headroom then show ?case by (rule registry_ok_cong) (simp_all add: queries_keep)
next
  case any_headroom_at then show ?case by (rule registry_ok_cong) (simp_all add: queries_keep)
next
  case any_accounting then show ?case by (rule registry_ok_cong) (simp_all add: queries_keep)
next
  case any_assess then show ?case
    by (rule registry_ok_cong) (simp_all add: rf_assess_def assessOne_keeps)
next
  case any_assess_bundle then show ?case by (rule registry_ok_cong) (simp_all add: assess_bundle_keeps)
next
  case any_create_hold then show ?case
    by (rule registry_ok_cong) (simp_all add: createHold_def hold_operations_keep)
next
  case any_release_hold then show ?case by (rule registry_ok_cong) (simp_all add: hold_operations_keep)
next
  case any_expire_holds then show ?case by (rule registry_ok_cong) (simp_all add: hold_operations_keep)
qed (simp_all add: publish_registry invalidate_registry advance_registry revalidate_registry
    commit_registry bundle_registry activate_registry consume_registry release_registry
    resize_registry renew_registry transfer_registry cancel_registry expireDue_registry)

lemma runtime_run_registry: "runtime_run config st \<Longrightarrow> registry_ok st"
  by (induction rule: runtime_run.induct) (auto simp: mk_Impl_registry dest: runtime_step_registry)

text \<open>Claim C25: Whatever public operations run, in whatever order and with whatever arguments (bundles,
  resizes, renewals, replaced publications and reused hold identities included), every
  reservation on record is filed under its own identity at the generation the runtime calls
  current, and has consumed no less than nothing and no more than its quantity.\<close>

theorem registry_entries_well_formed:
  assumes "runtime_run config st" "map_of (st_reservations st) i = Some r"
  shows "rv_id r = i \<and> map_of (st_currentGen st) i = Some (rv_generation r) \<and>
    0 \<le> q_value (rv_consumed r) \<and> q_value (rv_consumed r) \<le> q_value (rv_quantity r)"
  using runtime_run_registry [OF assms(1)] assms(2) by (simp add: registry_ok_def entry_ok_def)

theorem registry_entries_well_formed_witness:
  "runtime_run demo_config demo2 \<and> map_of (st_reservations demo2) (StrongId 2) = Some demo_rv \<and>
   map_of (st_currentGen demo2) (StrongId 2) = Some (rv_generation demo_rv) \<and>
   q_value (rv_consumed demo_rv) \<le> q_value (rv_quantity demo_rv)"
proof -
  have r: "map_of (st_reservations demo2) (StrongId 2) = Some demo_rv" by simp
  from registry_entries_well_formed [OF reachable_runs [OF demo2_reachable] r]
    reachable_runs [OF demo2_reachable] r show ?thesis by blast
qed

end
