(* ===== verification/RF_Roundtrip_Props.thy ===== *)
theory RF_Roundtrip_Props
  imports RF_Example
begin

text \<open>
  Operations that undo one another: committing and cancelling, holding and releasing. Each pair
  leaves the line of every resource as it was.
\<close>

section \<open>Sums over maps that differ in one entry\<close>

lemma asum_map_of:
  "keys_distinct xs \<Longrightarrow> asum f xs = (\<Sum>k\<in>fst ` set xs. f (the (map_of xs k)))"
proof (induction xs)
  case (Cons x xs)
  have "(\<Sum>k\<in>fst ` set xs. f (the (map_of (x # xs) k))) = (\<Sum>k\<in>fst ` set xs. f (the (map_of xs k)))"
    using Cons.prems by (cases x) (intro sum.cong refl; clarsimp; metis fst_conv image_eqI)
  with Cons show ?case by (cases x) simp
qed simp

lemma in_keys: "j \<in> fst ` set xs \<longleftrightarrow> map_of xs j \<noteq> None"
  by (simp add: map_of_eq_None_iff)

lemma asum_extend:
  assumes "keys_distinct xs" "keys_distinct ys" "map_of xs k = None" "map_of ys k = Some v"
    and "\<And>j. j \<noteq> k \<Longrightarrow> map_of ys j = map_of xs j"
  shows "asum f ys = asum f xs + f v"
proof -
  have new: "k \<notin> fst ` set xs" using assms(3) by (simp add: map_of_eq_None_iff)
  have "j \<in> fst ` set ys \<longleftrightarrow> j = k \<or> j \<in> fst ` set xs" for j
    using assms(3-5) by (cases "j = k") (simp_all add: in_keys)
  then have dom: "fst ` set ys = insert k (fst ` set xs)" by blast
  have "(\<Sum>j\<in>fst ` set xs. f (the (map_of ys j))) = (\<Sum>j\<in>fst ` set xs. f (the (map_of xs j)))"
  proof (rule sum.cong [OF refl])
    fix j assume "j \<in> fst ` set xs"
    with new have "j \<noteq> k" by blast
    with assms(5) show "f (the (map_of ys j)) = f (the (map_of xs j))" by simp
  qed
  with dom new assms show ?thesis by (simp add: asum_map_of)
qed

lemma asum_same_map:
  assumes "keys_distinct xs" "keys_distinct ys" "\<And>k. map_of ys k = map_of xs k"
  shows "asum f ys = asum f xs"
proof -
  have "fst ` set ys = fst ` set xs"
    using assms(3) by (auto simp only: in_keys set_eq_iff)
  with assms show ?thesis by (simp add: asum_map_of)
qed

text \<open>Two states of one line that record equal loads are the same line.\<close>

lemma line_determined:
  assumes inv: "runtime_inv st" "runtime_inv st'"
    and m: "moves (st_envelopes st) (st_envelopes st') h s l"
    and sums: "\<And>i t. asum (hard_of i t) (st_reservations st') = asum (hard_of i t) (st_reservations st)"
      "\<And>i t. asum (soft_of i t) (st_reservations st') = asum (soft_of i t) (st_reservations st)"
      "\<And>i t. asum (held_of i t) (st_holds st') = asum (held_of i t) (st_holds st)"
  shows "env_point (st_envelopes st') i t = env_point (st_envelopes st) i t"
proof (cases "env_point (st_envelopes st) i t")
  case None
  with m show ?thesis by (simp add: moves_def)
next
  case (Some p)
  with m have p': "env_point (st_envelopes st') i t = Some (shift (h i t) (s i t) (l i t) p)"
    by (simp add: moves_def)
  have "mirrors (st_envelopes st) (st_reservations st) (st_holds st)"
    "mirrors (st_envelopes st') (st_reservations st') (st_holds st')"
    using inv by (simp_all add: runtime_inv_def mirror_inv_def)
  from this(1)[unfolded mirrors_def, rule_format, OF Some]
    this(2)[unfolded mirrors_def, rule_format, OF p'] sums
  have "h i t = 0" "s i t = 0" "l i t = 0" by simp_all
  with Some p' show ?thesis by simp
qed

section \<open>Commit and cancel\<close>

lemma hard_of_withdrawn [simp]: "\<not> rv_contributes r \<Longrightarrow> hard_of i t r = 0"
  and soft_of_withdrawn [simp]: "\<not> rv_contributes r \<Longrightarrow> soft_of i t r = 0"
  by (simp_all add: hard_of_def soft_of_def)

text \<open>Taking a contributing reservation off the line, seen from the maps.\<close>

lemma withdraw_result:
  assumes inv: "runtime_inv st" and r: "map_of (st_reservations st) i = Some r"
    and f: "\<And>r. same_load r (f r)"
  shows "\<exists>r'. map_of (st_reservations (withdraw i f r st)) i = Some (f r') \<and>
      r' = r\<lparr>rv_contributes := False\<rparr> \<and>
      (\<forall>k. k \<noteq> i \<longrightarrow>
        map_of (st_reservations (withdraw i f r st)) k = map_of (st_reservations st) k) \<and>
      st_holds (withdraw i f r st) = st_holds st"
proof -
  obtain r' es where w: "removeContributionLocked r (st_envelopes st) = (r', es)" by fastforce
  have "r' = r\<lparr>rv_contributes := False\<rparr>"
  proof (cases "rv_contributes r")
    case True
    with resvs_okD [OF runtime_parts(6) [OF inv] r]
    obtain e where "map_of (st_envelopes st) (rv_resource r) = Some e"
      by (auto simp: resv_ok_def in_keys)
    with True w show ?thesis by (simp add: removeContributionLocked_def envelopeLocked_def)
  next
    case False
    with w show ?thesis by (simp add: removeContributionLocked_def split: option.splits)
  qed
  with w show ?thesis
    by (simp add: withdraw_def put_reservation_def update_conv')
qed

text \<open>A fresh entry that does not contribute adds nothing to the loads.\<close>

lemma withdrawn_entry_loads:
  assumes inv: "runtime_inv st" "runtime_inv st'"
    and new: "map_of (st_reservations st) k = None" "map_of (st_reservations st') k = Some r"
      "\<not> rv_contributes r"
    and same: "\<And>j. j \<noteq> k \<Longrightarrow> map_of (st_reservations st') j = map_of (st_reservations st) j"
  shows "asum (hard_of i t) (st_reservations st') = asum (hard_of i t) (st_reservations st)"
    and "asum (soft_of i t) (st_reservations st') = asum (soft_of i t) (st_reservations st)"
  using asum_extend [OF runtime_parts(2) [OF inv(1)] runtime_parts(2) [OF inv(2)] new(1,2) same]
    new(3) by simp_all

lemma effect_moves: "effect st st' h l \<Longrightarrow> \<exists>s. moves (st_envelopes st) (st_envelopes st') h s l"
  by (auto simp: effect_def)

lemma sheds_moves: "sheds st st' \<Longrightarrow> \<exists>h s l. moves (st_envelopes st) (st_envelopes st') h s l"
  unfolding sheds_def by (blast dest: effect_moves)

text \<open>Claim C21: Committing a request and cancelling the reservation it returned leaves no trace on
  capacity: the cancellation succeeds, the capacity line of every resource is at every instant
  what it was before the commitment, every other reservation and every hold is untouched, and the
  reservation itself stays on record as cancelled.\<close>

theorem commit_then_cancel_restores:
  fixes st :: Impl
  assumes inv: "runtime_inv st" and n: "st_nextReservationId st \<noteq> - 1"
    and run: "rf_commit req None st = (Inr rr, st1)" and ok: "rr_committed rr"
    and undo: "rf_cancel (rr_id rr) (rr_generation rr) st1 = (x, st2)"
  shows "x = Inr () \<and> runtime_inv st2 \<and>
    (\<forall>i t. env_point (st_envelopes st2) i t = env_point (st_envelopes st) i t) \<and>
    (\<forall>k. k \<noteq> rr_id rr \<longrightarrow> map_of (st_reservations st2) k = map_of (st_reservations st) k) \<and>
    (\<forall>k. map_of (st_holds st2) k = map_of (st_holds st) k) \<and>
    (\<exists>r. map_of (st_reservations st2) (rr_id rr) = Some r \<and>
       rv_lifecycle r = Lifecycle_Cancelled \<and> \<not> rv_contributes r)"
proof -
  let ?f = "\<lambda>r::Reservation. r\<lparr>rv_lifecycle := Lifecycle_Cancelled\<rparr>"
  have one: "commitOneLocked req None st = (Inr rr, st1)" using run by (simp add: rf_commit_def)
  note c = commitOne_success [OF inv n one ok]
  have inv1: "runtime_inv st1" using c(1) by (simp add: effect_def)
  obtain r where r: "map_of (st_reservations st1) (rr_id rr) = Some r"
    "rv_generation r = rr_generation rr" "rv_lifecycle r = Lifecycle_Committed"
    using c(4,5) by (auto simp: committed_reservation_def)
  have st2: "st2 = withdraw (rr_id rr) ?f r st1" and x: "x = Inr ()"
    using undo r by (simp_all add: rf_cancel_def current_reservation_def reservationLocked_def)
  have same: "\<And>r. same_load r (?f r)" by (simp add: same_load_def)
  note w = withdraw_sheds [where f = ?f, OF inv1 r(1) same]
  from withdraw_result [where f = ?f, OF inv1 r(1) same] obtain r' where
    r': "map_of (st_reservations st2) (rr_id rr) = Some (?f r')" "r' = r\<lparr>rv_contributes := False\<rparr>"
    and others: "\<And>k. k \<noteq> rr_id rr \<Longrightarrow> map_of (st_reservations st2) k = map_of (st_reservations st1) k"
    and holds: "st_holds st2 = st_holds st1" by (auto simp: st2)
  have inv2: "runtime_inv st2" using sheds_inv [OF w] by (simp add: st2)
  have rest: "\<And>k. k \<noteq> rr_id rr \<Longrightarrow> map_of (st_reservations st2) k = map_of (st_reservations st) k"
    using others c(4,6) by simp
  have holds': "\<And>k. map_of (st_holds st2) k = map_of (st_holds st) k"
    using holds c(7) by simp
  have fresh: "map_of (st_reservations st) (rr_id rr) = None"
    using fresh_reservation_id [OF runtime_parts(6) [OF inv] n] c(4) by simp
  have gone: "\<not> rv_contributes (?f r')" by (simp add: r'(2))
  note loads = withdrawn_entry_loads [OF inv inv2 fresh r'(1) gone rest]
  have held: "asum (held_of i t) (st_holds st2) = asum (held_of i t) (st_holds st)" for i t
    by (rule asum_same_map [OF runtime_parts(3) [OF inv] runtime_parts(3) [OF inv2] holds'])
  obtain h s l where m: "moves (st_envelopes st) (st_envelopes st2) h s l"
    using effect_moves [OF c(1)] sheds_moves [OF w] unfolding st2 by (blast dest: moves_trans)
  have "env_point (st_envelopes st2) i t = env_point (st_envelopes st) i t" for i t
    by (rule line_determined [OF inv inv2 m loads held])
  with x inv2 rest holds' r' show ?thesis by simp
qed

lemma demo1_reachable: "reachable demo_config demo1"
  unfolding demo1_def
  by (rule reach_step [OF demo0_reachable step_create_hold])
     (simp add: demo_defs eval_domain eval_index eval_runtime Let_def cong: let_weak_cong)

lemma demo_committed:
  "(case fst (rf_commit (demo_req 1 60 100 200) None demo1) of Inl _ \<Rightarrow> False | Inr rr \<Rightarrow>
      rr_committed rr) \<and> st_nextReservationId demo1 = 1"
  by (simp add: demo_defs eval_domain eval_index eval_runtime Let_def cong: let_weak_cong)

theorem commit_then_cancel_restores_witness:
  "\<exists>rr. rf_commit (demo_req 1 60 100 200) None demo1 = (Inr rr, demo2) \<and> rr_committed rr \<and>
    (\<forall>i t. env_point (st_envelopes (snd (rf_cancel (rr_id rr) (rr_generation rr) demo2))) i t =
       env_point (st_envelopes demo1) i t)"
proof -
  obtain rr where run: "rf_commit (demo_req 1 60 100 200) None demo1 = (Inr rr, demo2)"
    and ok: "rr_committed rr"
    using demo_committed by (metis (no_types, lifting) demo2_def prod.collapse sum.case_eq_if sum.collapse(2))
  have inv: "runtime_inv demo1" using reachable_inv [OF demo1_reachable] by simp
  have n: "st_nextReservationId demo1 \<noteq> - 1" using demo_committed by simp
  from run ok commit_then_cancel_restores [OF inv n run ok prod.collapse [symmetric]]
  show ?thesis by blast
qed

text \<open>A hold that is created and released gives its capacity back exactly: the line of every
  resource is what it was, no reservation changes, and the hold is on record as released.\<close>

theorem hold_then_release_restores:
  fixes st :: Impl
  assumes inv: "runtime_inv st" and fresh: "map_of (st_holds st) (hs_holdId spec) = None"
    and run: "createHold now spec st = (Inr hr, st1)" and ok: "hr_created hr"
    and undo: "releaseHold (hs_holdId spec) (hs_holdGeneration spec) st1 = (x, st2)"
  shows "x = Inr () \<and> runtime_inv st2 \<and>
    (\<forall>i t. env_point (st_envelopes st2) i t = env_point (st_envelopes st) i t) \<and>
    st_reservations st2 = st_reservations st \<and>
    holdState (hs_holdId spec) st2 = Hold_Released"
  using inv fresh run [unfolded createHold_def]
proof (cases rule: acquireHold_cases)
  case refused
  with ok show ?thesis by simp
next
  case (acquired b)
  let ?k = "hs_holdId spec"
  obtain h where h: "map_of (st_holds st1) ?k = Some h" "hold_spec h = spec"
    "hold_state h = Hold_Acquired" using acquired(6) by blast
  have inv1: "runtime_inv st1" using acquired(1) by (simp add: effect_def)
  obtain h' es where d: "drop_hold Hold_Released h (st_envelopes st1) = (h', es)" by fastforce
  have x: "x = Inr ()" and st2: "st2 = put_hold ?k (h', es) st1"
    using undo h d by (simp_all add: releaseHold_def)
  have h': "hold_state h' = Hold_Released" "\<not> hold_applied h'"
    using d by (auto simp: drop_hold_def split: if_splits)
  note w = drop_hold_sheds [where s = Hold_Released, OF inv1 h(1), unfolded d, folded st2, simplified]
  have inv2: "runtime_inv st2" by (rule sheds_inv [OF w])
  have at_k: "map_of (st_holds st2) ?k = Some h'" by (simp add: st2 put_hold_def update_conv')
  have others: "\<And>k. k \<noteq> ?k \<Longrightarrow> map_of (st_holds st2) k = map_of (st_holds st) k"
    using acquired(7) by (simp add: st2 put_hold_def update_conv')
  have resv: "st_reservations st2 = st_reservations st"
    using acquired(4) by (simp add: st2 put_hold_def)
  have held: "asum (held_of i t) (st_holds st2) = asum (held_of i t) (st_holds st)" for i t
    using asum_extend [OF runtime_parts(3) [OF inv] runtime_parts(3) [OF inv2] fresh at_k others]
      h'(2) by (simp add: held_of_def)
  obtain hh s l where m: "moves (st_envelopes st) (st_envelopes st2) hh s l"
    using effect_moves [OF acquired(1)] sheds_moves [OF w] by (blast dest: moves_trans)
  have "env_point (st_envelopes st2) i t = env_point (st_envelopes st) i t" for i t
    by (rule line_determined [OF inv inv2 m]) (simp_all add: resv held)
  with x inv2 resv at_k h' show ?thesis by (simp add: holdState_def)
qed

lemma demo_held:
  "(case fst (createHold (Instant 0) (demo_hold 50 30 0 500) demo0) of Inl _ \<Rightarrow> False | Inr hr \<Rightarrow>
      hr_created hr) \<and> st_holds demo0 = []"
  by (simp add: demo_defs eval_domain eval_index eval_runtime Let_def cong: let_weak_cong)

theorem hold_then_release_restores_witness:
  "\<forall>i t. env_point (st_envelopes (snd (releaseHold (StrongId 50) (StrongGeneration 1) demo1))) i t =
   env_point (st_envelopes demo0) i t"
proof -
  let ?spec = "demo_hold 50 30 0 500"
  obtain hr where run: "createHold (Instant 0) ?spec demo0 = (Inr hr, demo1)"
    and ok: "hr_created hr"
    using demo_held by (metis (no_types, lifting) demo1_def prod.collapse sum.case_eq_if sum.collapse(2))
  have inv: "runtime_inv demo0" using reachable_inv [OF demo0_reachable] by simp
  have fresh: "map_of (st_holds demo0) (hs_holdId ?spec) = None" using demo_held by simp
  from hold_then_release_restores [OF inv fresh run ok prod.collapse [symmetric]]
  show ?thesis by (simp add: demo_hold_def)
qed

end
