(* ===== verification/RF_Operation_Props.thy ===== *)
theory RF_Operation_Props
  imports RF_All_Steps RF_Roundtrip_Props
begin

text \<open>
  What the operations on one reservation promise across calls: consumption is counted exactly once,
  release is idempotent, a superseded generation is fenced off, stale evidence blocks activation
  until the resource is revalidated, and expiry leaves nothing overdue.
\<close>

section \<open>Consumption\<close>

lemma consume_success:
  assumes ok: "registry_ok st" and run: "rf_consume i g amount ev st = (out, st')"
    and yes: "cs_consumed out"
  obtains r where "current_reservation i g st = Some r"
    "needs_revalidation (rv_lifecycle r)"
    "0 < q_value amount" "q_unit amount = rv_unit r"
    "workerEvidenceFreshLocked r (ce_worker ev) (ce_workerBoot ev) st"
    "q_value amount \<le> q_value (rv_quantity r) - q_value (rv_consumed r)"
    "\<exists>r'. st' = put_reservation i r' st \<and> same_load r r' \<and> rv_generation r' = rv_generation r \<and>
       rv_unit r' = rv_unit r \<and> rv_quantity r' = rv_quantity r \<and>
       rv_resource r' = rv_resource r \<and>
       rv_consumed r' = Quantity (q_value (rv_consumed r) + q_value amount) (rv_unit r) \<and>
       rv_consumptionGeneration r' = Some (ce_consumptionGeneration ev) \<and>
       needs_revalidation (rv_lifecycle r') \<and>
       cs_consumedQuantity out = rv_consumed r' \<and> cs_remaining out = remaining_quantity r'"
proof (cases "current_reservation i g st")
  case None
  with run yes show ?thesis by (auto simp: rf_consume_def mk_ConsumeResult_def)
next
  case (Some r)
  define c where "c = Quantity (q_value (rv_consumed r) + q_value amount) (rv_unit r)"
  define l where "l = (if c = rv_quantity r then Lifecycle_Consumed else Lifecycle_PartiallyConsumed)"
  have l: "needs_revalidation l" by (simp add: l_def needs_revalidation_def)
  let ?r = "r\<lparr>rv_consumed := c, rv_consumptionGeneration := Some (ce_consumptionGeneration ev),
     rv_lifecycle := l\<rparr>"
  have shape: "needs_revalidation (rv_lifecycle r) \<and> 0 < q_value amount \<and>
      q_unit amount = rv_unit r \<and>
      workerEvidenceFreshLocked r (ce_worker ev) (ce_workerBoot ev) st \<and>
      q_value amount \<le> q_value (rv_quantity r) - q_value (rv_consumed r) \<and>
      st' = put_reservation i ?r st \<and> cs_consumedQuantity out = c \<and>
      cs_remaining out = remaining_quantity ?r"
    using run yes unfolding rf_consume_def Some Let_def option.case c_def [symmetric] l_def [symmetric]
    by (simp add: mk_ConsumeResult_def needs_revalidation_def linorder_not_le linorder_not_less
        split: if_split_asm) (auto simp: mk_ConsumeResult_def)
  have r': "\<exists>r'. st' = put_reservation i r' st \<and> same_load r r' \<and> rv_generation r' = rv_generation r \<and>
       rv_unit r' = rv_unit r \<and> rv_quantity r' = rv_quantity r \<and>
       rv_resource r' = rv_resource r \<and>
       rv_consumed r' = Quantity (q_value (rv_consumed r) + q_value amount) (rv_unit r) \<and>
       rv_consumptionGeneration r' = Some (ce_consumptionGeneration ev) \<and>
       needs_revalidation (rv_lifecycle r') \<and>
       cs_consumedQuantity out = rv_consumed r' \<and> cs_remaining out = remaining_quantity r'"
    by (rule exI [of _ ?r]) (use shape l in \<open>simp add: same_load_def c_def\<close>)
  show ?thesis by (rule that [OF Some _ _ _ _ _ r']) (use shape in blast)+
qed


text \<open>The demonstration run goes on: the reservation of 60 is activated at instant 150.\<close>

definition demo_activation :: ActivationEvidence where
  "demo_activation = \<lparr>ae_worker = StrongId 3, ae_workerBoot = StrongGeneration 1,
     ae_activationGeneration = StrongGeneration 1, ae_at = Instant 150, ae_token = 0\<rparr>"

definition demo_use :: ConsumeEvidence where
  "demo_use = \<lparr>ce_worker = StrongId 3, ce_workerBoot = StrongGeneration 1,
     ce_consumptionGeneration = StrongGeneration 1, ce_at = Instant 160\<rparr>"

definition demo3 :: Impl where
  "demo3 = snd (rf_activate (StrongId 2) (StrongGeneration 1) demo_activation demo2)"

definition demo_active :: Reservation where
  "demo_active = demo_rv\<lparr>rv_lifecycle := Lifecycle_Active, rv_activatedAt := Some (Instant 150),
     rv_activationGeneration := Some (StrongGeneration 1), rv_activated := Quantity 60 Unit_Count\<rparr>"

lemma demo3_eq: "demo3 = demo2\<lparr>st_reservations := [(StrongId 2, demo_active)]\<rparr>"
  by (simp add: demo3_def demo_activation_def rf_activate_def current_reservation_def
      reservationLocked_def findResourceLocked_def demo_rv_def demo_active_def put_reservation_def
      worker_fresh_def eval_domain)

lemma demo3_reachable: "reachable demo_config demo3"
  unfolding demo3_def by (rule reach_step [OF demo2_reachable step_activate])

lemma demo_consumes:
  "cs_consumed (fst (rf_consume (StrongId 2) (StrongGeneration 1) (Quantity 25 Unit_Count) demo_use
     demo3))"
  by (simp add: demo3_eq demo_use_def rf_consume_def current_reservation_def reservationLocked_def
      findResourceLocked_def demo_rv_def demo_active_def workerEvidenceFreshLocked_def
      worker_fresh_def mk_ConsumeResult_def Let_def)


section \<open>Release\<close>

lemma release_success:
  assumes "rf_release i g ev st = (out, st')" "rl_released out"
  obtains r where "current_reservation i g st = Some r" "rl_idempotent out" "st' = st"
      "rv_lifecycle r \<in> {Lifecycle_Released, Lifecycle_Expired, Lifecycle_Cancelled}"
  | r where "current_reservation i g st = Some r" "\<not> rl_idempotent out"
      "st' = withdraw i (\<lambda>r'. r'\<lparr>rv_lifecycle := Lifecycle_Released,
           rv_releasedAt := Some (le_at ev),
           rv_releaseGeneration := Some (le_releaseGeneration ev)\<rparr>) r st"
proof (cases "current_reservation i g st")
  case None
  with assms show ?thesis by (auto simp: rf_release_def mk_ReleaseResult_def)
next
  case (Some r)
  with assms that show ?thesis
    by (auto simp: rf_release_def mk_ReleaseResult_def Let_def split: if_splits)
qed

text \<open>Release is idempotent. Once a release has been accepted, the reservation no longer
  contributes to the line, and every further release of that generation, with whatever evidence,
  is accepted as idempotent and changes nothing.\<close>

theorem release_is_idempotent:
  assumes inv: "runtime_inv st" and run: "rf_release i g ev st = (out, st')" and yes: "rl_released out"
    and fresh: "\<not> rl_idempotent out"
  shows "(\<exists>r. map_of (st_reservations st') i = Some r \<and> rv_lifecycle r = Lifecycle_Released \<and>
       \<not> rv_contributes r \<and> rv_releasedAt r = Some (le_at ev)) \<and>
     (\<exists>out'. rf_release i g again st' = (out', st') \<and> rl_released out' \<and> rl_idempotent out')"
  using run yes
proof (cases rule: release_success)
  case (1 r)
  with fresh show ?thesis by simp
next
  case (2 r)
  let ?f = "\<lambda>r'::Reservation. r'\<lparr>rv_lifecycle := Lifecycle_Released,
     rv_releasedAt := Some (le_at ev), rv_releaseGeneration := Some (le_releaseGeneration ev)\<rparr>"
  have "\<And>r. same_load r (?f r)" by (simp add: same_load_def)
  from withdraw_result [where f = ?f, OF inv conjunct1 [OF current_reservation_map [OF 2(1)]] this]
  have r': "map_of (st_reservations st') i = Some (?f (r\<lparr>rv_contributes := False\<rparr>))"
    by (auto simp: 2(3))
  moreover have "rv_generation r = g" using 2(1) by (simp add: current_reservation_Some)
  ultimately have "current_reservation i g st' = Some (?f (r\<lparr>rv_contributes := False\<rparr>))"
    by (simp add: current_reservation_Some)
  with r' show ?thesis by (simp add: rf_release_def mk_ReleaseResult_def)
qed

definition demo_release :: ReleaseEvidence where
  "demo_release = \<lparr>le_worker = StrongId 3, le_workerBoot = StrongGeneration 1,
     le_releaseGeneration = StrongGeneration 1, le_at = Instant 170\<rparr>"

lemma demo_releases:
  "rl_released (fst (rf_release (StrongId 2) (StrongGeneration 1) demo_release demo3)) \<and>
   \<not> rl_idempotent (fst (rf_release (StrongId 2) (StrongGeneration 1) demo_release demo3))"
  by (simp add: demo3_eq demo_release_def rf_release_def current_reservation_def
      reservationLocked_def findResourceLocked_def demo_rv_def demo_active_def
      workerEvidenceFreshLocked_def worker_fresh_def mk_ReleaseResult_def Let_def)

theorem release_is_idempotent_witness:
  "\<exists>out st'. rf_release (StrongId 2) (StrongGeneration 1) demo_release demo3 = (out, st') \<and>
     (\<exists>out'. rf_release (StrongId 2) (StrongGeneration 1) demo_release st' = (out', st') \<and>
        rl_idempotent out')"
proof -
  have inv: "runtime_inv demo3" using reachable_inv [OF demo3_reachable] by simp
  from release_is_idempotent [OF inv prod.collapse [symmetric], of "StrongId 2" "StrongGeneration 1"
      demo_release demo_release] demo_releases
  show ?thesis by (metis prod.collapse)
qed

section \<open>Stale evidence\<close>

text \<open>The three calls, one at a time.\<close>

lemma advance_keeps_unflagged:
  assumes "map_of (st_resources st) j = Some res" "res_generation res < gnew"
    and "advanceResourceGeneration j gnew Cond_Available st = (x, st1)"
    and "map_of (st_reservations st) i = Some r" "\<not> needs_revalidation (rv_lifecycle r)"
  shows "map_of (st_reservations st1) i = Some r" "st_workerBoots st1 = st_workerBoots st"
    "\<exists>res1. map_of (st_resources st1) j = Some res1 \<and> res_generation res1 = gnew"
proof -
  have "\<not> gnew \<le> res_generation res" using assms(2) by simp
  with assms(1,3) have st1: "st1 = (put_resource j (res\<lparr>res_generation := gnew, res_available := True\<rparr>) st)
      \<lparr>st_reservations := amap_values (\<lambda>r. if rv_resource r = j \<and> lifecycle_holds_capacity (rv_lifecycle r)
          then flag_revalidation r else r) (st_reservations st)\<rparr>"
    by (simp add: advanceResourceGeneration_def Let_def put_resource_def)
  show "map_of (st_reservations st1) i = Some r"
    using assms(4,5) by (simp add: st1 flag_revalidation_def del: map_of_eq_Some_iff)
  show "st_workerBoots st1 = st_workerBoots st"
    "\<exists>res1. map_of (st_resources st1) j = Some res1 \<and> res_generation res1 = gnew"
    by (simp_all add: st1 put_resource_def)
qed

lemma stale_binding_is_flagged:
  assumes "map_of (st_reservations st) i = Some r" "rv_lifecycle r \<noteq> Lifecycle_Active"
    and "map_of (st_resources st) (rv_resource r) = Some res"
    and "rv_boundResourceGeneration r = Some g" "g < res_generation res"
  shows "rf_activate i (rv_generation r) ev st =
    ((mk_ActivationResult i (rv_generation r))\<lparr>ar_revalidationRequired := True\<rparr>,
     put_reservation i (r\<lparr>rv_lifecycle := Lifecycle_RevalidationRequired\<rparr>) st)"
proof -
  have "current_reservation i (rv_generation r) st = Some r"
    using assms(1) by (simp add: current_reservation_Some)
  then show ?thesis using assms(2-5) by (simp add: rf_activate_def findResourceLocked_def Let_def)
qed

lemma revalidation_rebinds:
  assumes "revalidateResource j fresh st = (y, st')" "map_of (st_resources st) j = Some res"
    and "map_of (st_reservations st) i = Some r" "rv_resource r = j"
      "rv_lifecycle r = Lifecycle_RevalidationRequired"
    and boot: "\<forall>b. map_of (st_workerBoots st) (pub_worker fresh) = Some b \<longrightarrow> b \<le> pub_workerBoot fresh"
  shows "map_of (st_reservations st') i = Some (r\<lparr>rv_lifecycle := Lifecycle_PendingActivation,
      rv_boundResourceGeneration := Some (pub_generation fresh)\<rparr>)"
    "\<exists>res'. map_of (st_resources st') j = Some res' \<and> res_available res' \<and>
       res_generation res' = pub_generation fresh \<and> res_owner res' = pub_worker fresh \<and>
       res_ownerBoot res' = pub_workerBoot fresh"
proof -
  have "\<not> (case map_of (st_workerBoots st) (pub_worker fresh) of
       None \<Rightarrow> False | Some b \<Rightarrow> b > pub_workerBoot fresh)"
    using boot by (auto split: option.split simp: not_less)
  then show "map_of (st_reservations st') i = Some (r\<lparr>rv_lifecycle := Lifecycle_PendingActivation,
      rv_boundResourceGeneration := Some (pub_generation fresh)\<rparr>)"
    "\<exists>res'. map_of (st_resources st') j = Some res' \<and> res_available res' \<and>
       res_generation res' = pub_generation fresh \<and> res_owner res' = pub_worker fresh \<and>
       res_ownerBoot res' = pub_workerBoot fresh"
    using assms(1-5)
    by (auto simp: revalidateResource_def Let_def put_resource_def simp del: map_of_eq_Some_iff)
qed

lemma fresh_evidence_activates:
  assumes "map_of (st_reservations st) i = Some r" "rv_lifecycle r = Lifecycle_PendingActivation"
    and "map_of (st_resources st) (rv_resource r) = Some res" "res_available res"
    and "rv_boundResourceGeneration r = Some (res_generation res)"
    and "res_owner res = ae_worker ev" "res_ownerBoot res = ae_workerBoot ev"
    and "iv_contains (rv_window r) (ae_at ev)" "rv_activationGeneration r = None"
  shows "rf_activate i (rv_generation r) ev st =
    ((mk_ActivationResult i (rv_generation r))\<lparr>ar_activated := True\<rparr>,
     put_reservation i (r\<lparr>rv_lifecycle := Lifecycle_Active, rv_activatedAt := Some (ae_at ev),
       rv_activationGeneration := Some (ae_activationGeneration ev), rv_activated := rv_quantity r\<rparr>) st)"
proof -
  have "current_reservation i (rv_generation r) st = Some r"
    using assms(1) by (simp add: current_reservation_Some)
  then show ?thesis
    using assms(2-9) by (simp add: rf_activate_def findResourceLocked_def worker_fresh_def Let_def)
qed


definition demo_fresh :: ResourcePublication where
  "demo_fresh = demo_pub\<lparr>pub_generation := StrongGeneration 2\<rparr>"


section \<open>Superseded generations\<close>

lemma push_history_last:
  assumes "0 < cfg_maxHistoryPerReservation (st_config st)"
  shows "last (history_of i (push_history i r st)) = r\<lparr>rv_contributes := False\<rparr>"
    and "length (history_of i (push_history i r st)) \<le>
      max (length (history_of i st)) (cfg_maxHistoryPerReservation (st_config st))"
proof -
  let ?h = "history_of i st @ [r\<lparr>rv_contributes := False\<rparr>]"
  have h: "history_of i (push_history i r st) =
      (if length ?h > cfg_maxHistoryPerReservation (st_config st) then tl ?h else ?h)"
    by (simp add: push_history_def Let_def history_of_def)
  show "last (history_of i (push_history i r st)) = r\<lparr>rv_contributes := False\<rparr>"
    using assms unfolding h by (cases "history_of i st") (auto simp: last_tl)
  show "length (history_of i (push_history i r st)) \<le>
      max (length (history_of i st)) (cfg_maxHistoryPerReservation (st_config st))"
    unfolding h by auto
qed

text \<open>The common outcome of the three modifications.\<close>

definition fenced ::
    "ReservationId \<Rightarrow> ReservationGeneration \<Rightarrow> Reservation \<Rightarrow> Impl \<Rightarrow> ReservationGeneration \<Rightarrow> Impl \<Rightarrow>
     bool" where
  "fenced i g r st g' st' \<longleftrightarrow> g < g' \<and>
     (\<exists>nr. map_of (st_reservations st') i = Some nr \<and> rv_generation nr = g' \<and>
        rv_lifecycle nr = Lifecycle_Committed) \<and>
     map_of (st_currentGen st') i = Some g' \<and>
     last (history_of i st') = r\<lparr>rv_contributes := False\<rparr> \<and>
     length (history_of i st') \<le>
       max (length (history_of i st)) (cfg_maxHistoryPerReservation (st_config st))"

lemma supersede_fenced:
  assumes run: "supersede i r change st = (Inr g', st')" and g: "map_of (st_currentGen st) i = Some g"
    and max: "0 < cfg_maxHistoryPerReservation (st_config st)"
  shows "fenced i g r st g' st'"
proof -
  let ?st1 = "push_history i r st"
  have cur: "current_gen i ?st1 = g" using g by (simp add: current_gen_def push_history_def Let_def)
  obtain es nr where st': "st' = ?st1\<lparr>st_envelopes := es,
       st_currentGen := AList.update i g' (st_currentGen ?st1),
       st_reservations := AList.update i nr (st_reservations ?st1)\<rparr>"
    and step: "gen_next g = Inr g'"
    and nr: "nr = fst (addContributionLocked ((change r)\<lparr>rv_generation := g',
       rv_lifecycle := Lifecycle_Committed, rv_activationGeneration := None,
       rv_contributes := True\<rparr>) (st_envelopes ?st1))"
    using run cur by (auto simp: supersede_def Let_def split: sum.splits prod.splits)
  have "nr = (change r)\<lparr>rv_generation := g', rv_lifecycle := Lifecycle_Committed,
       rv_activationGeneration := None, rv_contributes := True\<rparr>"
    by (simp add: nr addContributionLocked_def split: option.split)
  then show ?thesis
    using gen_next_less [OF step] push_history_last [OF max, of i r]
    by (simp add: fenced_def st' history_of_def)
qed

lemma removed_entry:
  "removeContributionLocked r es = (r1, es1) \<Longrightarrow> r1\<lparr>rv_contributes := False\<rparr> = r\<lparr>rv_contributes := False\<rparr>"
proof -
  have "fst (removeContributionLocked r es) \<in> {r, r\<lparr>rv_contributes := False\<rparr>}"
    by (simp add: removeContributionLocked_def split: option.split)
  then show "removeContributionLocked r es = (r1, es1) \<Longrightarrow>
      r1\<lparr>rv_contributes := False\<rparr> = r\<lparr>rv_contributes := False\<rparr>" by auto
qed

lemma fenced_taken_off:
  assumes "fenced i g r1 (put_reservation i r1 (st\<lparr>st_envelopes := es\<rparr>)) g' st'"
    and "r1\<lparr>rv_contributes := False\<rparr> = r\<lparr>rv_contributes := False\<rparr>"
  shows "fenced i g r st g' st'"
  using assms by (simp add: fenced_def put_reservation_def history_of_def)

lemma resize_fenced:
  assumes run: "rf_resize i g q p st = (Inr out, st')" and yes: "mr_applied out"
    and r: "current_reservation i g st = Some r" and g: "map_of (st_currentGen st) i = Some g"
    and max: "0 < cfg_maxHistoryPerReservation (st_config st)"
  shows "fenced i g r st (mr_newGeneration out) st'"
proof -
  obtain r1 es1 where w: "removeContributionLocked r (st_envelopes st) = (r1, es1)" by fastforce
  obtain h es2 where h: "headroom_on (rv_strength r1) (rv_resource r1) (rv_window r1) es1 = (h, es2)"
    by fastforce
  obtain r2 es3 where a: "addContributionLocked r1 es2 = (r2, es3)" by fastforce
  let ?st1 = "put_reservation i r1 (st\<lparr>st_envelopes := es2\<rparr>)"
  let ?change = "\<lambda>r. r\<lparr>rv_quantity := q, rv_policyGeneration := p,
      rv_consumed := Quantity_zero (rv_unit r), rv_activated := Quantity_zero (rv_unit r)\<rparr>"
  from run yes have "supersede i r1 ?change ?st1 = (Inr (mr_newGeneration out), st')"
    by (auto simp: rf_resize_def r Let_def w h a mk_ModifyResult_def split: if_splits sum.splits prod.splits)
  then have "fenced i g r1 ?st1 (mr_newGeneration out) st'"
    by (rule supersede_fenced) (simp_all add: put_reservation_def g max)
  then show ?thesis by (rule fenced_taken_off [OF _ removed_entry [OF w]])
qed

lemma renew_fenced:
  assumes run: "rf_renew i g w' p st = (Inr out, st')" and yes: "mr_applied out"
    and r: "current_reservation i g st = Some r" and g: "map_of (st_currentGen st) i = Some g"
    and max: "0 < cfg_maxHistoryPerReservation (st_config st)"
  shows "fenced i g r st (mr_newGeneration out) st'"
proof -
  obtain r1 es1 where w: "removeContributionLocked r (st_envelopes st) = (r1, es1)" by fastforce
  obtain h es2 where h: "headroom_on (rv_strength r1) (rv_resource r1) w' es1 = (h, es2)"
    by fastforce
  obtain r2 es3 where a: "addContributionLocked r1 es2 = (r2, es3)" by fastforce
  let ?st1 = "put_reservation i r1 (st\<lparr>st_envelopes := es2\<rparr>)"
  let ?change = "\<lambda>r. r\<lparr>rv_window := w', rv_policyGeneration := p\<rparr>"
  from run yes have "supersede i r1 ?change ?st1 = (Inr (mr_newGeneration out), st')"
    by (auto simp: rf_renew_def r Let_def w h a mk_ModifyResult_def split: if_splits sum.splits prod.splits)
  then have "fenced i g r1 ?st1 (mr_newGeneration out) st'"
    by (rule supersede_fenced) (simp_all add: put_reservation_def g max)
  then show ?thesis by (rule fenced_taken_off [OF _ removed_entry [OF w]])
qed

lemma transfer_fenced:
  assumes run: "rf_transfer i g own og ev st = (Inr out, st')" and yes: "mr_applied out"
    and r: "current_reservation i g st = Some r" and g: "map_of (st_currentGen st) i = Some g"
    and max: "0 < cfg_maxHistoryPerReservation (st_config st)"
  shows "fenced i g r st (mr_newGeneration out) st'"
proof -
  let ?st1 = "push_history i r st"
  have cur: "current_gen i ?st1 = g" using g by (simp add: current_gen_def push_history_def Let_def)
  from run yes obtain g' where step: "gen_next g = Inr g'" and out: "mr_newGeneration out = g'"
    and st': "st' = ?st1\<lparr>st_currentGen := AList.update i g' (st_currentGen ?st1),
       st_reservations := AList.update i (r\<lparr>rv_generation := g', rv_owner := own,
         rv_ownerGeneration := og, rv_transferGeneration := Some (StrongGeneration 1),
         rv_lifecycle := Lifecycle_Committed, rv_activationGeneration := None\<rparr>)
       (st_reservations ?st1)\<rparr>"
    by (auto simp: rf_transfer_def r Let_def cur mk_ModifyResult_def split: if_splits sum.splits)
  show ?thesis
    using gen_next_less [OF step] push_history_last [OF max, of i r]
    by (simp add: fenced_def st' out history_of_def)
qed

text \<open>A modification fences off the generation it supersedes. In any run, when a resize, a
  renewal or a transfer is applied, the reservation is on record at a strictly newer generation
  in state Committed; the superseded version is kept as the last entry of the bounded history,
  marked as not contributing; and activation, consumption, release, cancellation and a further
  modification that present the old generation are all refused without any effect.\<close>

theorem modification_fences_old_generation:
  assumes run: "runtime_run config st" and max: "0 < cfg_maxHistoryPerReservation (st_config st)"
    and kind: "modify \<in> {rf_resize i g q p, rf_renew i g w p, rf_transfer i g own og ev}"
    and applied: "modify st = (Inr out, st')" "mr_applied out"
  shows "g < mr_newGeneration out \<and>
    (\<exists>old new. map_of (st_reservations st) i = Some old \<and> map_of (st_reservations st') i = Some new \<and>
       rv_generation new = mr_newGeneration out \<and> rv_lifecycle new = Lifecycle_Committed \<and>
       last (history_of i st') = old\<lparr>rv_contributes := False\<rparr>) \<and>
    length (history_of i st') \<le>
      max (length (history_of i st)) (cfg_maxHistoryPerReservation (st_config st)) \<and>
    snd (rf_activate i g aev st') = st' \<and> \<not> ar_activated (fst (rf_activate i g aev st')) \<and>
    snd (rf_consume i g amount cev st') = st' \<and> \<not> cs_consumed (fst (rf_consume i g amount cev st')) \<and>
    snd (rf_release i g lev st') = st' \<and> \<not> rl_released (fst (rf_release i g lev st')) \<and>
    rf_cancel i g st' = (throw_error StaleGeneration ''stale reservation generation'', st') \<and>
    snd (rf_resize i g q2 p2 st') = st' \<and> snd (rf_renew i g w2 p2 st') = st' \<and>
    snd (rf_transfer i g own2 og2 ev2 st') = st'"
proof -
  obtain r where r: "current_reservation i g st = Some r"
    using kind applied
    by (cases "current_reservation i g st")
       (auto simp: rf_resize_def rf_renew_def rf_transfer_def mk_ModifyResult_def)
  have old: "map_of (st_reservations st) i = Some r" "rv_generation r = g"
    using r by (simp_all add: current_reservation_Some)
  have gen: "map_of (st_currentGen st) i = Some g"
    using runtime_run_registry [OF run] old by (simp add: registry_ok_def entry_ok_def)
  have f: "fenced i g r st (mr_newGeneration out) st'"
    using kind applied resize_fenced [OF _ _ r gen max] renew_fenced [OF _ _ r gen max]
      transfer_fenced [OF _ _ r gen max] by auto
  then obtain nr where nr: "map_of (st_reservations st') i = Some nr"
    "rv_generation nr = mr_newGeneration out" "rv_lifecycle nr = Lifecycle_Committed"
    by (auto simp: fenced_def)
  have none: "current_reservation i g st' = None"
    using nr f by (auto simp: current_reservation_def reservationLocked_def fenced_def)
  have refused: "snd (rf_activate i g aev st') = st'" "\<not> ar_activated (fst (rf_activate i g aev st'))"
    "snd (rf_consume i g amount cev st') = st'" "\<not> cs_consumed (fst (rf_consume i g amount cev st'))"
    "snd (rf_release i g lev st') = st'" "\<not> rl_released (fst (rf_release i g lev st'))"
    "rf_cancel i g st' = (throw_error StaleGeneration ''stale reservation generation'', st')"
    "snd (rf_resize i g q2 p2 st') = st'" "snd (rf_renew i g w2 p2 st') = st'"
    "snd (rf_transfer i g own2 og2 ev2 st') = st'"
    by (simp_all add: rf_activate_def rf_consume_def rf_release_def rf_cancel_def rf_resize_def
        rf_renew_def rf_transfer_def none mk_ActivationResult_def mk_ConsumeResult_def
        mk_ReleaseResult_def)
  from f old(1) nr refused show ?thesis by (auto simp: fenced_def)
qed

lemma demo_transfers:
  "\<exists>out st'. rf_transfer (StrongId 2) (StrongGeneration 1) (StrongId 6) (StrongGeneration 1)
     demo_activation demo2 = (Inr out, st') \<and> mr_applied out"
  by (simp add: demo_activation_def rf_transfer_def current_reservation_def reservationLocked_def
      findResourceLocked_def demo_rv_def workerEvidenceFreshLocked_def worker_fresh_def
      push_history_def history_of_def current_gen_def eval_domain Let_def)

theorem modification_fences_old_generation_witness:
  "\<exists>out st'. rf_transfer (StrongId 2) (StrongGeneration 1) (StrongId 6) (StrongGeneration 1)
     demo_activation demo2 = (Inr out, st') \<and> StrongGeneration 1 < mr_newGeneration out \<and>
     snd (rf_activate (StrongId 2) (StrongGeneration 1) demo_activation st') = st'"
proof -
  obtain out st' where t: "rf_transfer (StrongId 2) (StrongGeneration 1) (StrongId 6)
      (StrongGeneration 1) demo_activation demo2 = (Inr out, st')" "mr_applied out"
    using demo_transfers by blast
  let ?t = "rf_transfer (StrongId 2) (StrongGeneration 1) (StrongId 6) (StrongGeneration 1)
      demo_activation"
  have max: "0 < cfg_maxHistoryPerReservation (st_config demo2)" by simp
  have "?t \<in> {rf_resize (StrongId 2) (StrongGeneration 1) (Quantity 1 Unit_Count) (StrongGeneration 1),
      rf_renew (StrongId 2) (StrongGeneration 1) Interval_default (StrongGeneration 1), ?t}" by simp
  from modification_fences_old_generation [where modify = ?t,
      OF reachable_runs [OF demo2_reachable] max this t] t
  show ?thesis by blast
qed

end
