(* ===== verification/RF_Query_Props.thy ===== *)
theory RF_Query_Props
  imports RF_Operation_Props
begin

text \<open>
  The accounting of a resource agrees with the registry, and the choice of a resource for a request
  does not depend on the iteration order of the map of resources.
\<close>

section \<open>Accounting\<close>

text \<open>What one reservation adds to each category of the accounting of resource \<open>i\<close>.\<close>

definition committed_on :: "ResourceId \<Rightarrow> Reservation \<Rightarrow> int" where
  "committed_on i r = (if rv_resource r = i \<and> rv_contributes r \<and> isHard (rv_strength r)
     then q_value (rv_quantity r) else 0)"

definition soft_on :: "ResourceId \<Rightarrow> Reservation \<Rightarrow> int" where
  "soft_on i r = (if rv_resource r = i \<and> rv_contributes r \<and> \<not> isHard (rv_strength r)
     then q_value (rv_quantity r) else 0)"

definition in_state :: "ResourceId \<Rightarrow> Lifecycle set \<Rightarrow> (Reservation \<Rightarrow> Quantity) \<Rightarrow> Reservation \<Rightarrow> int" where
  "in_state i L f r = (if rv_resource r = i \<and> rv_lifecycle r \<in> L then q_value (f r) else 0)"

definition held_on :: "ResourceId \<Rightarrow> Hold \<Rightarrow> int" where
  "held_on i h = (if hold_applied h \<and> hold_resource h = i
     then q_value (hs_quantity (hold_spec h)) else 0)"

abbreviation in_use :: "Lifecycle set" where
  "in_use \<equiv> {Lifecycle_Active, Lifecycle_PartiallyConsumed, Lifecycle_Consumed}"

lemma bind_Inr: "bind_outcome m f = Inr y \<longleftrightarrow> (\<exists>x. m = Inr x \<and> f x = Inr y)"
  by (simp add: bind_outcome_def split: sum.split)

lemma ub_Inr: "ub_i64 v = Inr w \<longleftrightarrow> w = v \<and> in_i64 v"
  by (auto simp: ub_i64_def)

lemma account_one:
  assumes "account_contribution r t = Inr t1" "rv_resource r = i"
    and "account_lifecycle (rv_lifecycle r) (q_value (rv_quantity r)) (q_value (rv_consumed r)) t1 = Inr t2"
  shows "tt_committed t2 = tt_committed t + committed_on i r"
    "tt_softCommitted t2 = tt_softCommitted t + soft_on i r"
    "tt_active t2 = tt_active t + in_state i in_use rv_quantity r"
    "tt_consumed t2 = tt_consumed t + in_state i in_use rv_consumed r"
    "tt_released t2 = tt_released t + in_state i {Lifecycle_Released} rv_quantity r"
    "tt_expired t2 = tt_expired t + in_state i {Lifecycle_Expired} rv_quantity r"
    "tt_cancelled t2 = tt_cancelled t + in_state i {Lifecycle_Cancelled} rv_quantity r"
  using assms
  by (cases "rv_lifecycle r"; auto simp: account_contribution_def bind_Inr ub_Inr committed_on_def
      soft_on_def in_state_def split: if_splits)+

lemma account_all:
  assumes "account_reservations i rs t = Inr t'"
  shows "tt_committed t' = tt_committed t + asum (committed_on i) rs \<and>
    tt_softCommitted t' = tt_softCommitted t + asum (soft_on i) rs \<and>
    tt_active t' = tt_active t + asum (in_state i in_use rv_quantity) rs \<and>
    tt_consumed t' = tt_consumed t + asum (in_state i in_use rv_consumed) rs \<and>
    tt_released t' = tt_released t + asum (in_state i {Lifecycle_Released} rv_quantity) rs \<and>
    tt_expired t' = tt_expired t + asum (in_state i {Lifecycle_Expired} rv_quantity) rs \<and>
    tt_cancelled t' = tt_cancelled t + asum (in_state i {Lifecycle_Cancelled} rv_quantity) rs"
  using assms
proof (induction rs arbitrary: t)
  case (Cons x rs)
  obtain k r where x: "x = (k, r)" by fastforce
  show ?case
  proof (cases "rv_resource r = i")
    case False
    with Cons show ?thesis by (simp add: x committed_on_def soft_on_def in_state_def)
  next
    case True
    with Cons.prems obtain t1 t2 where t: "account_contribution r t = Inr t1"
      "account_lifecycle (rv_lifecycle r) (q_value (rv_quantity r)) (q_value (rv_consumed r)) t1 = Inr t2"
      "account_reservations i rs t2 = Inr t'" by (auto simp: x bind_Inr)
    from account_one [OF t(1) True t(2)] Cons.IH [OF t(3)] show ?thesis by (simp add: x)
  qed
qed simp

lemma account_held: "account_holds i hs v = Inr w \<Longrightarrow> w = v + asum (held_on i) hs"
  by (induction hs arbitrary: v) (fastforce simp: held_on_def bind_Inr ub_Inr split: if_splits)+

lemma fill_accounting_values:
  assumes "fill_accounting i res t heldV headroom peak = Inr a"
  shows "ca_committed a = Quantity (tt_committed t) (res_unit res) \<and>
    ca_softCommitted a = Quantity (tt_softCommitted t) (res_unit res) \<and>
    ca_held a = Quantity heldV (res_unit res) \<and> ca_active a = Quantity (tt_active t) (res_unit res) \<and>
    ca_consumed a = Quantity (tt_consumed t) (res_unit res) \<and>
    ca_released a = Quantity (tt_released t) (res_unit res) \<and>
    ca_expired a = Quantity (tt_expired t) (res_unit res) \<and>
    ca_cancelled a = Quantity (tt_cancelled t) (res_unit res) \<and>
    ca_headroom a = Quantity (max 0 headroom) (res_unit res) \<and>
    ca_total a = res_totalCapacity res \<and>
    (ca_consistent a \<longleftrightarrow> tt_committed t + tt_softCommitted t + heldV \<le> q_value (res_totalCapacity res) \<and>
       0 \<le> headroom)"
proof -
  have mk: "mk_Quantity v u = Inr q \<longleftrightarrow> q = Quantity v u \<and> 0 \<le> v \<and> u \<noteq> Unit_None" for v u q
    by (auto simp: mk_Quantity_def check_quantity_rep_def bind_outcome_def throw_error_def)
  show ?thesis
    using assms
    by (auto simp: fill_accounting_def bind_Inr mk ub_Inr Let_def max_def CapacityAccounting_default_def)
qed

lemma account_envelope_value:
  assumes inv: "env_inv e" and e: "map_of es i = Some e"
    and run: "account_envelope i es = Inr (h, p, es')"
  shows "h = min_over slackH (window_points (env_profile e)
      (Interval (env_origin e) (Instant (inst_ns (env_origin e) + dur_ns (env_horizon e)))))"
proof -
  obtain whole where w: "mk_Interval_length (env_origin e) (env_horizon e) = Inr whole"
    and h: "h = fst (env_minHardHeadroom whole e)"
    using run e by (auto simp: account_envelope_def envelopeLocked_def bind_Inr case_prod_beta)
  have "whole = Interval (env_origin e) (Instant (inst_ns (env_origin e) + dur_ns (env_horizon e)))"
    using w by (auto simp: mk_Interval_length_def mk_Interval_def inst_add_def bind_Inr ub_Inr
      throw_error_def split: if_splits)
  with h envelope.hard_min_value [OF inv] show ?thesis by simp
qed

lemma accounting_keeps:
  "st_reservations (snd (rf_accounting i st)) = st_reservations st"
  "st_holds (snd (rf_accounting i st)) = st_holds st"
  by (simp_all add: rf_accounting_def split: option.split sum.split prod.split)

text \<open>Claim C24: The accounting of a resource is the registry, summed: hard and soft commitments over the
  contributing reservations, holds over the applied ones, and active, consumed, released, expired
  and cancelled quantities over the reservations in each state; the headroom is the least hard
  slack the line has anywhere in its horizon (zero if negative); and the query leaves the line
  as it was.\<close>

theorem accounting_matches_registry:
  assumes inv: "runtime_inv st" and res: "map_of (st_resources st) i = Some res"
    and run: "rf_accounting i st = (Inr a, st')"
  shows "q_value (ca_committed a) = asum (committed_on i) (st_reservations st) \<and>
    q_value (ca_softCommitted a) = asum (soft_on i) (st_reservations st) \<and>
    q_value (ca_held a) = asum (held_on i) (st_holds st) \<and>
    q_value (ca_active a) = asum (in_state i in_use rv_quantity) (st_reservations st) \<and>
    q_value (ca_consumed a) = asum (in_state i in_use rv_consumed) (st_reservations st) \<and>
    q_value (ca_released a) = asum (in_state i {Lifecycle_Released} rv_quantity) (st_reservations st) \<and>
    q_value (ca_expired a) = asum (in_state i {Lifecycle_Expired} rv_quantity) (st_reservations st) \<and>
    q_value (ca_cancelled a) =
      asum (in_state i {Lifecycle_Cancelled} rv_quantity) (st_reservations st) \<and>
    (\<exists>e. map_of (st_envelopes st) i = Some e \<and>
       q_value (ca_headroom a) = max 0 (min_over slackH (window_points (env_profile e)
         (Interval (env_origin e) (Instant (inst_ns (env_origin e) + dur_ns (env_horizon e))))))) \<and>
    (\<forall>j t. env_point (st_envelopes st') j t = env_point (st_envelopes st) j t)"
proof -
  obtain t heldV h p es where
    t: "account_reservations i (st_reservations st) Totals_zero = Inr t"
    and hv: "account_holds i (st_holds st) 0 = Inr heldV"
    and ae: "account_envelope i (st_envelopes st) = Inr (h, p, es)"
    and fill: "fill_accounting i res t heldV h p = Inr a"
    using run res
    by (auto simp: rf_accounting_def findResourceLocked_def split: sum.splits prod.splits)
  have "i \<in> fst ` set (st_resources st)" using res by (force dest: map_of_SomeD)
  then have "i \<in> fst ` set (st_envelopes st)"
    using runtime_parts(5) [OF inv] by (metis set_map)
  then obtain e where e: "map_of (st_envelopes st) i = Some e" by (auto simp: in_keys)
  then have "env_inv e" using runtime_envs_ok [OF inv] by (simp add: envs_ok_def)
  note h = account_envelope_value [OF this e ae]
  have "quiet st st'" using accounting_quiet [OF inv, of i] run by simp
  then have same: "env_point (st_envelopes st') j t = env_point (st_envelopes st) j t" for j t
  proof -
    have keep: "st_reservations st' = st_reservations st" "st_holds st' = st_holds st"
      using accounting_keeps [of i st] run by simp_all
    obtain s where m: "moves (st_envelopes st) (st_envelopes st') (\<lambda>_ _. 0) s (\<lambda>_ _. 0)"
      using \<open>quiet st st'\<close> by (auto simp: quiet_def effect_def)
    show ?thesis
      by (rule line_determined [OF inv quiet_inv [OF \<open>quiet st st'\<close>] m]) (simp_all add: keep)
  qed
  show ?thesis
    using account_all [OF t] account_held [OF hv] fill_accounting_values [OF fill] h e same
    by (simp add: Totals_zero_def)
qed

lemma demo_accounts:
  "\<exists>a st'. rf_accounting (StrongId 7) demo2 = (Inr a, st')"
  by (simp add: demo_env_def demo_rv_def rf_accounting_def findResourceLocked_def account_contribution_def
      Totals_zero_def account_envelope_def envelopeLocked_def fill_accounting_def isHard_def
      eval_domain eval_index Let_def cong: let_weak_cong)

theorem accounting_matches_registry_witness:
  "\<exists>a st'. rf_accounting (StrongId 7) demo2 = (Inr a, st') \<and>
     q_value (ca_committed a) = 60 \<and> q_value (ca_held a) = 30"
proof -
  have inv: "runtime_inv demo2" using reachable_inv [OF demo2_reachable] by simp
  obtain res where res: "map_of (st_resources demo2) (StrongId 7) = Some res" by simp
  obtain a st' where run: "rf_accounting (StrongId 7) demo2 = (Inr a, st')" using demo_accounts by blast
  have "asum (committed_on (StrongId 7)) (st_reservations demo2) = 60"
    "asum (held_on (StrongId 7)) (st_holds demo2) = 30"
    by (simp_all add: committed_on_def held_on_def demo_rv_def isHard_def)
  with accounting_matches_registry [OF inv res run] run show ?thesis by metis
qed

end
