(* ===== verification/RF_Authority_Props.thy ===== *)
theory RF_Authority_Props
  imports RF_Operation_Props
begin

text \<open>
  No authority moves backwards: neither the coordinator epoch, nor the boot identity of a worker,
  nor the current generation of a reservation, in any step of the runtime. And what a refused
  publication leaves alone.
\<close>

section \<open>Forward steps\<close>

text \<open>The authority of a state that no reservation operation touches.\<close>

definition authority_of :: "Impl \<Rightarrow> CoordinatorEpoch \<times> AuthorityGeneration \<times>
    (WorkerId \<times> WorkerBootId) list \<times> RuntimeConfig" where
  "authority_of st = (st_epoch st, st_authority st, st_workerBoots st, st_config st)"

definition newer_map :: "('k \<times> 'v::order) list \<Rightarrow> ('k \<times> 'v) list \<Rightarrow> bool" where
  "newer_map xs ys \<longleftrightarrow> (\<forall>k v. map_of xs k = Some v \<longrightarrow> (\<exists>v'. map_of ys k = Some v' \<and> v \<le> v'))"

definition forward :: "Impl \<Rightarrow> Impl \<Rightarrow> bool" where
  "forward st st' \<longleftrightarrow> st_epoch st \<le> st_epoch st' \<and> st_authority st \<le> st_authority st' \<and>
     newer_map (st_workerBoots st) (st_workerBoots st') \<and>
     newer_map (st_currentGen st) (st_currentGen st') \<and> st_config st' = st_config st"

lemma newer_map_refl [simp]: "newer_map xs xs"
  by (simp add: newer_map_def)

lemma newer_map_trans: "newer_map xs ys \<Longrightarrow> newer_map ys zs \<Longrightarrow> newer_map xs zs"
  unfolding newer_map_def by (meson order_trans)

lemma newer_map_update:
  "(\<And>u. map_of xs k = Some u \<Longrightarrow> u \<le> v) \<Longrightarrow> newer_map xs (AList.update k v xs)"
  by (auto simp: newer_map_def)

lemma forward_refl [simp]: "forward st st"
  by (simp add: forward_def)

lemma forward_trans: "forward st st1 \<Longrightarrow> forward st1 st2 \<Longrightarrow> forward st st2"
  unfolding forward_def by (auto intro: newer_map_trans)

lemma forward_same:
  "authority_of st' = authority_of st \<Longrightarrow> st_currentGen st' = st_currentGen st \<Longrightarrow> forward st st'"
  by (simp add: forward_def authority_of_def)

lemma forward_gens:
  "authority_of st' = authority_of st \<Longrightarrow> newer_map (st_currentGen st) (st_currentGen st') \<Longrightarrow>
   forward st st'"
  by (simp add: forward_def authority_of_def)

lemma authority_kept:
  "authority_of (snd (assessOne req st)) = authority_of st"
  "authority_of (snd (headroomOverWindow i w hard st)) = authority_of st"
  "authority_of (snd (headroomAt i t hard st)) = authority_of st"
  "authority_of (snd (rf_accounting i st)) = authority_of st"
  "authority_of (snd (invalidateResource n st)) = authority_of st"
  "authority_of (snd (advanceResourceGeneration i g c st)) = authority_of st"
  "authority_of (snd (acquireHoldLocked now spec st)) = authority_of st"
  "authority_of (snd (releaseHold k hg st)) = authority_of st"
  "authority_of (expireHolds t' st) = authority_of st"
  "authority_of (releaseHoldLocked k st) = authority_of st"
  "authority_of (commit_hold k st) = authority_of st"
  "authority_of (insert_reservation req i bg rid gen st) = authority_of st"
  "authority_of (rollback_member rid st) = authority_of st"
  "authority_of (put_reservation rid r st) = authority_of st"
  "authority_of (withdraw rid f r st) = authority_of st"
  "authority_of (push_history rid r st) = authority_of st"
  "authority_of (snd (expireDue now st)) = authority_of st"
  by (simp_all add: authority_of_def assessOne_def headroomOverWindow_def headroomAt_def
      rf_accounting_def invalidateResource_def advanceResourceGeneration_def acquireHoldLocked_def
      releaseHold_def expireHolds_def releaseHoldLocked_def commit_hold_def insert_reservation_def
      rollback_member_def put_reservation_def withdraw_def push_history_def expireDue_def
      put_hold_def put_resource_def Let_def case_prod_beta split: option.split sum.split)

lemma gens_kept:
  "st_currentGen (put_reservation rid r st) = st_currentGen st"
  "st_currentGen (withdraw rid f r st) = st_currentGen st"
  "st_currentGen (rollback_member rid st) = st_currentGen st"
  "st_currentGen (snd (expireDue now st)) = st_currentGen st"
  "st_currentGen (snd (invalidateResource n st)) = st_currentGen st"
  "st_currentGen (snd (advanceResourceGeneration i g c st)) = st_currentGen st"
  "st_currentGen (snd (revalidateResource i pub st)) = st_currentGen st"
  by (simp_all add: put_reservation_def withdraw_def rollback_member_def expireDue_def
      invalidateResource_def advanceResourceGeneration_def revalidateResource_def put_resource_def
      Let_def case_prod_beta split: option.split)

text \<open>The boot identity of a worker is replaced only by one that is not older.\<close>

lemma boots_step:
  "newer_map (st_workerBoots st) (st_workerBoots (snd (publishResource pub st)))"
  "newer_map (st_workerBoots st) (st_workerBoots (snd (revalidateResource i pub st)))"
proof -
  have new: "newer_map (st_workerBoots st)
      (AList.update (pub_worker pub) (pub_workerBoot pub) (st_workerBoots st))"
    if "\<not> (case map_of (st_workerBoots st) (pub_worker pub) of
       None \<Rightarrow> False | Some b \<Rightarrow> b > pub_workerBoot pub)"
    using that by (intro newer_map_update) (auto simp: not_less)
  show "newer_map (st_workerBoots st) (st_workerBoots (snd (publishResource pub st)))"
    using new by (simp add: publishResource_def Let_def case_prod_beta split: sum.split option.split)
  show "newer_map (st_workerBoots st) (st_workerBoots (snd (revalidateResource i pub st)))"
    using new by (simp add: revalidateResource_def put_resource_def Let_def split: option.split)
qed

lemma publication_forward:
  "forward st (snd (publishResource pub st))" "forward st (snd (revalidateResource i pub st))"
proof -
  have "st_epoch (snd (publishResource pub st)) = st_epoch st \<and>
      st_authority (snd (publishResource pub st)) = st_authority st \<and>
      st_config (snd (publishResource pub st)) = st_config st"
    by (simp add: publishResource_def Let_def case_prod_beta split: sum.split option.split)
  then show "forward st (snd (publishResource pub st))"
    by (simp add: forward_def boots_step publish_keeps(1))
  have "st_epoch (snd (revalidateResource i pub st)) = st_epoch st \<and>
      st_authority (snd (revalidateResource i pub st)) = st_authority st \<and>
      st_config (snd (revalidateResource i pub st)) = st_config st"
    by (simp add: revalidateResource_def put_resource_def Let_def split: option.split)
  then show "forward st (snd (revalidateResource i pub st))"
    by (simp add: forward_def boots_step gens_kept)
qed

lemma epoch_forward: "forward st (snd (setCoordinatorEpoch e st))"
  by (auto simp: forward_def setCoordinatorEpoch_def Let_def dest: gen_next_less split: sum.split)

lemma next_generation_newer:
  "next_generation rid st = Inr g \<Longrightarrow>
   newer_map (st_currentGen st) (AList.update rid g (st_currentGen st))"
  by (rule newer_map_update)
     (auto simp: next_generation_def dest: gen_next_less split: option.splits)

lemma insert_gens:
  "st_currentGen (insert_reservation req i bg rid gen st) = AList.update rid gen (st_currentGen st)"
  by (simp add: insert_reservation_def case_prod_beta)

lemma commitOne_forward: "forward st (snd (commitOneLocked req hold st))"
proof -
  obtain rep st1 where as: "assessOne req st = (rep, st1)" by fastforce
  have 1: "authority_of st1 = authority_of st" "st_currentGen st1 = st_currentGen st"
    using authority_kept(1) [of req st] assessOne_keeps(2) [of req st] by (simp_all add: as)
  let ?st2 = "st1\<lparr>st_nextReservationId := st_nextReservationId st1 + 1\<rparr>"
  have a2: "authority_of ?st2 = authority_of st" using 1 by (simp add: authority_of_def)
  have "forward st (insert_reservation req b bg rid gen ?st2)"
    "forward st (commit_hold k (insert_reservation req b bg rid gen ?st2))"
    if "next_generation rid ?st2 = Inr gen" for b bg rid gen k
    using next_generation_newer [OF that] a2 1(2)
    by (auto intro!: forward_gens simp: authority_kept insert_gens hold_operations_keep)
  then show ?thesis
    using forward_same [OF 1] forward_same [OF a2] 1(2)
    by (auto simp: commitOneLocked_def as Let_def split: option.split sum.split)
qed

lemma release_holds_forward: "forward st (release_holds is st)"
  unfolding release_holds_def
proof (induction "is" arbitrary: st)
  case (Cons i "is")
  have "forward st (releaseHoldLocked i st)"
    by (rule forward_same) (simp_all add: authority_kept hold_operations_keep)
  from forward_trans [OF this Cons.IH] show ?case by simp
qed simp

lemma rollback_forward: "forward st (fold rollback_member ids st)"
proof (induction ids arbitrary: st)
  case (Cons i ids)
  have "forward st (rollback_member i st)"
    by (rule forward_same) (simp_all add: authority_kept gens_kept)
  from forward_trans [OF this Cons.IH] show ?case by simp
qed simp

lemma commit_all_forward: "forward st (snd (commit_all ms is ids st))"
proof (induction ms "is" ids st rule: commit_all.induct)
  case (1 m ms i "is" ids st)
  obtain res st1 where c: "commitOneLocked m (Some i) st = (res, st1)" by fastforce
  note f = commitOne_forward [of st m "Some i", unfolded c snd_conv]
  note undo = forward_trans [OF f forward_trans [OF rollback_forward release_holds_forward]]
  show ?case
    using f undo "1.IH" [OF c [symmetric]] forward_trans [OF f]
    by (auto simp: c split: sum.split)
qed simp_all

lemma acquire_all_forward: "forward st (snd (acquire_all clock n ms ids st))"
proof (induction clock n ms ids st rule: acquire_all.induct)
  case (2 clock n m ms ids st)
  let ?i = "StrongId (st_nextHoldId st + 1)"
  let ?st1 = "st\<lparr>st_nextHoldId := st_nextHoldId st + 1\<rparr>"
  obtain res st2 where a: "acquireHoldLocked (clock n) (bundle_hold_spec m ?i) ?st1 = (res, st2)"
    by fastforce
  have "forward ?st1 st2"
    using authority_kept(7) [of "clock n" "bundle_hold_spec m ?i" ?st1]
      hold_operations_keep(2) [of "clock n" "bundle_hold_spec m ?i" ?st1]
    by (intro forward_same) (simp_all add: a)
  moreover have "forward st ?st1" by (rule forward_same) (simp_all add: authority_of_def)
  ultimately have f: "forward st st2" by (rule forward_trans [rotated])
  show ?case
    using f forward_trans [OF f release_holds_forward] forward_trans [OF f] "2.IH" [OF refl refl a [symmetric]]
    by (auto simp: a Let_def split: sum.split)
qed simp

lemma assess_bundle_forward: "forward st (snd (assess_bundle reqs st))"
proof (induction reqs arbitrary: st)
  case (Cons r rs)
  have "forward st (snd (assessOne r st))"
    by (rule forward_same) (simp_all add: authority_kept assessOne_keeps)
  from forward_trans [OF this Cons.IH] show ?case by (simp add: Let_def case_prod_beta)
qed simp

lemma bundle_forward: "forward st (snd (commitBundle clock ms hold st))"
proof -
  let ?st1 = "st\<lparr>st_nextSetId := st_nextSetId st + 1\<rparr>"
  obtain reps st2 where b: "assess_bundle ms ?st1 = (reps, st2)" by fastforce
  obtain res st3 where a: "acquire_all clock 0 ms [] st2 = (res, st3)" by fastforce
  have "forward st ?st1" by (rule forward_same) (simp_all add: authority_of_def)
  then have 2: "forward st st2"
    using forward_trans assess_bundle_forward [of ?st1 ms] by (simp add: b)
  then have 3: "forward st st3"
    using forward_trans acquire_all_forward [of st2 clock 0 ms "[]"] by (simp add: a)
  have 4: "forward st st4" if "commit_all ms ids [] st3 = (x, st4)" for ids x st4
    using forward_trans [OF 3 commit_all_forward [of st3 ms ids "[]"]] that by simp
  have 5: "forward st (st4\<lparr>st_sets := s\<rparr>)" if "forward st st4" for st4 s
    using that by (simp add: forward_def)
  show ?thesis
    using 2 3 by (auto simp: commitBundle_def Let_def b a split: sum.split option.split prod.split
      intro: 4 5)
qed

lemma supersede_forward: "forward st (snd (supersede i r change st))"
proof -
  let ?st1 = "push_history i r st"
  have 1: "authority_of ?st1 = authority_of st" "st_currentGen ?st1 = st_currentGen st"
    by (simp_all add: authority_kept push_history_keeps)
  have "newer_map (st_currentGen st) (AList.update i g (st_currentGen st))"
    if "gen_next (current_gen i ?st1) = Inr g" for g
    using gen_next_less [OF that]
    by (intro newer_map_update) (auto simp: current_gen_def 1(2))
  then show ?thesis
    using forward_same [OF 1] 1
    by (auto simp: supersede_def Let_def authority_of_def intro!: forward_gens split: sum.split prod.split)
qed

lemma put_forward: "forward st (put_reservation i r (st\<lparr>st_envelopes := es\<rparr>))"
  by (rule forward_same) (simp_all add: put_reservation_def authority_of_def)

lemma modification_forward:
  "forward st (snd (rf_resize i g q p st))" "forward st (snd (rf_renew i g w p st))"
  "forward st (snd (rf_transfer i g own og ev st))"
proof -
  have s: "forward st (snd (supersede i r change (put_reservation i r' (st\<lparr>st_envelopes := es\<rparr>))))"
    for r r' change es by (rule forward_trans [OF put_forward supersede_forward])
  then have s': "forward st st'"
    if "supersede i r change (put_reservation i r' (st\<lparr>st_envelopes := es\<rparr>)) = (x, st')"
    for r r' change es x st' using that by (metis snd_conv)
  show "forward st (snd (rf_resize i g q p st))" "forward st (snd (rf_renew i g w p st))"
    by (auto simp: rf_resize_def rf_renew_def Let_def put_forward
        split: option.split prod.split sum.split intro: s')
  show "forward st (snd (rf_transfer i g own og ev st))"
  proof (cases "current_reservation i g st")
    case (Some r)
    let ?st1 = "push_history i r st"
    have 1: "authority_of ?st1 = authority_of st" "st_currentGen ?st1 = st_currentGen st"
      by (simp_all add: authority_kept push_history_keeps)
    have "newer_map (st_currentGen st) (AList.update i g' (st_currentGen st))"
      if "gen_next (current_gen i ?st1) = Inr g'" for g'
      using gen_next_less [OF that] by (intro newer_map_update) (auto simp: current_gen_def 1(2))
    then show ?thesis
      using forward_same [OF 1] 1
      by (auto simp: rf_transfer_def Some Let_def authority_of_def intro!: forward_gens split: sum.split)
  qed (simp add: rf_transfer_def)
qed

lemma entry_operations_forward:
  "forward st (snd (rf_activate i g aev st))" "forward st (snd (rf_consume i g q cev st))"
  "forward st (snd (rf_release i g lev st))" "forward st (snd (rf_cancel i g st))"
proof -
  have put: "forward st (put_reservation i r st)" for r
    by (rule forward_same) (simp_all add: authority_kept gens_kept)
  have out: "forward st (withdraw i f r st)" for f r
    by (rule forward_same) (simp_all add: authority_kept gens_kept)
  show "forward st (snd (rf_activate i g aev st))" "forward st (snd (rf_consume i g q cev st))"
    "forward st (snd (rf_release i g lev st))" "forward st (snd (rf_cancel i g st))"
    by (simp_all add: rf_activate_def rf_consume_def rf_release_def rf_cancel_def Let_def put out
        split: option.split)
qed

lemma runtime_step_forward: "runtime_step st st' \<Longrightarrow> forward st st'"
proof (induction rule: runtime_step.induct)
  case (any_commit st req hold)
  then show ?case by (simp add: rf_commit_def commitOne_forward split: option.split)
qed (simp_all add: publication_forward epoch_forward bundle_forward modification_forward
    entry_operations_forward assess_bundle_forward,
  (rule forward_same; simp add: rf_assess_def createHold_def authority_kept gens_kept queries_keep
     hold_operations_keep assessOne_keeps)+)

text \<open>Claim C8: No authority moves backwards. Across any public operation, accepted, refused or throwing,
  the coordinator epoch and the authority generation do not decrease, a worker's recorded boot
  identity is never replaced by an older one, and the current generation of a reservation is
  never lowered or forgotten.\<close>

theorem authority_never_regresses:
  assumes "runtime_step st st'"
  shows "st_epoch st \<le> st_epoch st' \<and> st_authority st \<le> st_authority st' \<and>
    (\<forall>w b. map_of (st_workerBoots st) w = Some b \<longrightarrow>
       (\<exists>b'. map_of (st_workerBoots st') w = Some b' \<and> b \<le> b')) \<and>
    (\<forall>i g. map_of (st_currentGen st) i = Some g \<longrightarrow>
       (\<exists>g'. map_of (st_currentGen st') i = Some g' \<and> g \<le> g'))"
  using runtime_step_forward [OF assms] by (simp add: forward_def newer_map_def)

theorem authority_never_regresses_witness:
  "runtime_step demo2 demo3 \<and>
   (\<exists>g. map_of (st_currentGen demo3) (StrongId 2) = Some g \<and> StrongGeneration 1 \<le> g)"
proof -
  have s: "runtime_step demo2 demo3" unfolding demo3_def by (rule any_activate)
  have "map_of (st_currentGen demo2) (StrongId 2) = Some (StrongGeneration 1)" by simp
  with authority_never_regresses [OF s] s show ?thesis by blast
qed

end
