(* ===== verification/RF_Crc.thy ===== *)
theory RF_Crc
  imports RF_Prelude
begin

text \<open>
  The checksum of \<^verbatim>\<open>include/reservation_fabric/detail/serialization.hpp\<close>, which guards every
  persisted file and every frame. The step of the bit loop is linear and injective, so four
  consecutive bytes act on the register as one 32-bit word: a change confined to
  four consecutive bytes is always noticed.
\<close>

section \<open>The routine\<close>

text \<open>The body of the loop over \<^verbatim>\<open>k\<close>.\<close>

definition crc_bit :: "u32 \<Rightarrow> u32" where
  "crc_bit crc =
     (let mask = if crc AND 1 \<noteq> 0 then 0xFFFFFFFF else 0
      in drop_bit 1 crc XOR (0xEDB88320 AND mask))"

definition crc_byte :: "u8 \<Rightarrow> u32 \<Rightarrow> u32" where
  "crc_byte d crc = (crc_bit ^^ 8) (crc XOR ucast d)"

definition crc32 :: "u8 list \<Rightarrow> u32 \<Rightarrow> u32" where
  "crc32 data seed = fold crc_byte data seed"

text \<open>The seed that every caller passes.\<close>

abbreviation crc_seed :: u32 where
  "crc_seed \<equiv> 0xFFFFFFFF"

lemma crc32_simps [simp]:
  "crc32 [] s = s"
  "crc32 (d # ds) s = crc32 ds (crc_byte d s)"
  "crc32 (xs @ ys) s = crc32 ys (crc32 xs s)"
  by (simp_all add: crc32_def)

section \<open>The bit step is linear and injective\<close>

lemma and_one_word: "(x::u32) AND 1 \<noteq> 0 \<longleftrightarrow> bit x 0"
  by (simp add: and_one_eq bit_0 odd_iff_mod_2_eq_one mod2_eq_if)

lemma crc_bit_eq:
  "crc_bit x = drop_bit 1 x XOR (if bit x 0 then 0xEDB88320 else 0)"
proof -
  have "(0xEDB88320::u32) AND 0xFFFFFFFF = 0xEDB88320" by simp
  then show ?thesis by (simp add: crc_bit_def and_one_word Let_def)
qed

lemma drop_bit_xor_word: "drop_bit n ((x::u32) XOR y) = drop_bit n x XOR drop_bit n y"
  by (simp add: drop_bit_xor)

lemma crc_bit_xor: "crc_bit (x XOR y) = crc_bit x XOR crc_bit y"
  by (cases "bit x 0"; cases "bit y 0")
     (simp_all add: crc_bit_eq drop_bit_xor bit_xor_iff ac_simps)

lemma crc_bit_top: "bit (crc_bit x) 31 \<longleftrightarrow> bit x 0"
proof -
  have "\<not> bit (drop_bit 1 x) 31" using bit_imp_le_length [of x 32] by (auto simp: bit_drop_bit_eq)
  moreover have "bit (0xEDB88320::u32) 31" by simp
  ultimately show ?thesis by (simp add: crc_bit_eq bit_xor_iff)
qed

lemma crc_bit_zero: "crc_bit x = 0 \<longleftrightarrow> x = 0"
proof
  assume 0: "crc_bit x = 0"
  with crc_bit_top [of x] have low: "\<not> bit x 0" by simp
  with 0 have "drop_bit 1 x = 0" by (simp add: crc_bit_eq)
  then have "\<not> bit x n" for n
    using low bit_drop_bit_eq [of 1 x] by (cases n) (auto simp: fun_eq_iff)
  then show "x = 0" by (simp add: bit_eq_iff)
qed (simp add: crc_bit_eq)

lemma xor_eq_zero: "(x::u32) XOR y = 0 \<longleftrightarrow> x = y"
  by (auto simp: bit_eq_iff bit_xor_iff)

lemma xor_cancel: "(z::u32) XOR x = z XOR y \<longleftrightarrow> x = y"
  by (auto simp: bit_eq_iff bit_xor_iff)

lemma xor_cancel_right: "(x::u32) XOR z = y XOR z \<longleftrightarrow> x = y"
  by (auto simp: bit_eq_iff bit_xor_iff)

lemma crc_bits_xor: "(crc_bit ^^ n) (x XOR y) = (crc_bit ^^ n) x XOR (crc_bit ^^ n) y"
  by (induction n) (simp_all add: crc_bit_xor)

lemma crc_bits_zero: "(crc_bit ^^ n) x = 0 \<longleftrightarrow> x = 0"
  by (induction n) (simp_all add: crc_bit_zero)

lemma crc_bits_inj: "(crc_bit ^^ n) x = (crc_bit ^^ n) y \<longleftrightarrow> x = y"
  using crc_bits_zero [of n "x XOR y"] by (simp add: crc_bits_xor xor_eq_zero)

text \<open>A word with zeros in its low bits is only shifted.\<close>

lemma crc_bits_shift:
  "(\<forall>k<n. \<not> bit x k) \<Longrightarrow> (crc_bit ^^ n) x = drop_bit n x"
proof (induction n arbitrary: x)
  case (Suc n)
  have "crc_bit x = drop_bit 1 x" using Suc.prems by (simp add: crc_bit_eq)
  moreover have "\<forall>k<n. \<not> bit (drop_bit 1 x) k" using Suc.prems by (auto simp: bit_drop_bit_eq)
  ultimately show ?case using Suc.IH [of "drop_bit 1 x"]
    by (simp add: funpow_swap1 add.commute)
qed simp

section \<open>Bytes act as one word\<close>

text \<open>The word of at most four bytes, the first one lowest.\<close>

fun word_of_bytes :: "u8 list \<Rightarrow> u32" where
  "word_of_bytes [] = 0"
| "word_of_bytes (d # ds) = ucast d XOR push_bit 8 (word_of_bytes ds)"

lemma word_of_bytes_high: "8 * length ds \<le> n \<Longrightarrow> \<not> bit (word_of_bytes ds) n"
proof (induction ds arbitrary: n)
  case (Cons d ds)
  then have "\<not> bit (word_of_bytes ds) (n - 8)" "8 \<le> n" by auto
  moreover have "\<not> bit (ucast d :: u32) n"
    using \<open>8 \<le> n\<close> bit_imp_le_length [of d n] by (auto simp: bit_ucast_iff)
  ultimately show ?case by (simp add: bit_xor_iff bit_push_bit_iff)
qed simp

lemma drop_push_word:
  assumes "length ds \<le> 3"
  shows "drop_bit 8 (push_bit 8 (word_of_bytes ds)) = word_of_bytes ds"
proof (rule bit_eqI)
  fix n
  show "bit (drop_bit 8 (push_bit 8 (word_of_bytes ds))) n \<longleftrightarrow> bit (word_of_bytes ds) n"
  proof (cases "n < 24")
    case True
    then show ?thesis by (simp add: bit_drop_bit_eq bit_push_bit_iff)
  next
    case False
    with assms word_of_bytes_high [of ds n] have "\<not> bit (word_of_bytes ds) n" by auto
    then show ?thesis by (simp add: bit_drop_bit_eq bit_push_bit_iff)
  qed
qed

lemma crc32_word:
  "length ds \<le> 4 \<Longrightarrow> crc32 ds s = (crc_bit ^^ (8 * length ds)) (s XOR word_of_bytes ds)"
proof (induction ds arbitrary: s)
  case (Cons d ds)
  let ?w = "word_of_bytes ds"
  have "(crc_bit ^^ 8) (push_bit 8 ?w) = drop_bit 8 (push_bit 8 ?w)"
    by (rule crc_bits_shift) (simp add: bit_push_bit_iff)
  also have "\<dots> = ?w" using Cons.prems by (intro drop_push_word) simp
  finally have shift: "(crc_bit ^^ 8) (push_bit 8 ?w) = ?w" .
  have len: "8 * length (d # ds) = 8 * length ds + 8" by simp
  have "crc32 (d # ds) s = (crc_bit ^^ (8 * length ds)) (crc_byte d s XOR ?w)"
    using Cons.IH [of "crc_byte d s"] Cons.prems by simp
  also have "crc_byte d s XOR ?w = (crc_bit ^^ 8) (s XOR ucast d XOR push_bit 8 ?w)"
    by (simp add: crc_byte_def crc_bits_xor shift xor.assoc)
  also have "(crc_bit ^^ (8 * length ds)) \<dots> =
      (crc_bit ^^ (8 * length (d # ds))) (s XOR word_of_bytes (d # ds))"
    by (simp only: len word_of_bytes.simps funpow_add comp_apply xor.assoc)
  finally show ?case .
qed simp

lemma ucast_bit_low: "n < 8 \<Longrightarrow> bit (ucast (d::u8) :: u32) n = bit d n"
  by (simp add: bit_ucast_iff)

lemma word_of_bytes_inj:
  "length xs = length ys \<Longrightarrow> length xs \<le> 4 \<Longrightarrow> word_of_bytes xs = word_of_bytes ys \<Longrightarrow> xs = ys"
proof (induction xs ys rule: list_induct2)
  case (Cons x xs y ys)
  from Cons.prems have eq: "word_of_bytes (x # xs) = word_of_bytes (y # ys)" by simp
  have "bit x n = bit y n" if "n < 8" for n
  proof -
    from eq have "bit (word_of_bytes (x # xs)) n = bit (word_of_bytes (y # ys)) n" by simp
    with that show ?thesis by (simp add: bit_xor_iff bit_push_bit_iff ucast_bit_low)
  qed
  then have xy: "x = y" by (intro bit_word_eqI) simp
  with eq have "push_bit 8 (word_of_bytes xs) = push_bit 8 (word_of_bytes ys)"
    by (simp add: xor_cancel)
  then have "drop_bit 8 (push_bit 8 (word_of_bytes xs)) =
      drop_bit 8 (push_bit 8 (word_of_bytes ys))" by (rule arg_cong)
  moreover have "length xs \<le> 3" "length ys \<le> 3" using Cons.hyps Cons.prems(1) by simp_all
  ultimately have "word_of_bytes xs = word_of_bytes ys" by (simp only: drop_push_word)
  with Cons xy show ?case by simp
qed simp

lemma crc32_state_inj: "crc32 ds s = crc32 ds t \<longleftrightarrow> s = t"
  by (induction ds arbitrary: s t) (simp_all add: crc_byte_def crc_bits_inj xor_cancel_right)

text \<open>
  Any change confined to four consecutive bytes changes the checksum.
\<close>

lemma crc32_burst:
  assumes "length xs = length ys" "length xs \<le> 4" "xs \<noteq> ys"
  shows "crc32 (us @ xs @ vs) s \<noteq> crc32 (us @ ys @ vs) s"
proof
  assume "crc32 (us @ xs @ vs) s = crc32 (us @ ys @ vs) s"
  then have "crc32 xs (crc32 us s) = crc32 ys (crc32 us s)" by (simp add: crc32_state_inj)
  with assms(1,2) have "word_of_bytes xs = word_of_bytes ys"
    by (simp add: crc32_word crc_bits_inj xor_cancel)
  with assms word_of_bytes_inj show False by metis
qed

section \<open>Evaluation\<close>

lemma crc_bit_cond: "crc_bit x = (if bit x 0 then drop_bit 1 x XOR 0xEDB88320 else drop_bit 1 x)"
  by (simp add: crc_bit_eq)

lemma funpow_8: "(f ^^ 8) x = f (f (f (f (f (f (f (f x)))))))"
  by (simp add: eval_nat_numeral)

lemmas eval_crc = crc32_def crc_byte_def funpow_8 crc_bit_cond

text \<open>The standard check value of the polynomial, without the final complement.\<close>

lemma crc32_check_value:
  "crc32 [0x31, 0x32, 0x33, 0x34, 0x35, 0x36, 0x37, 0x38, 0x39] crc_seed = 0x340BC6D9"
  by (simp add: eval_crc)

end
