(* ===== verification/RF_Serialization.thy ===== *)
theory RF_Serialization
  imports RF_Crc RF_Domain
begin

text \<open>
  The byte writer and the byte reader of
  \<^verbatim>\<open>include/reservation_fabric/detail/serialization.hpp\<close>. A \<^verbatim>\<open>ByteWriter\<close> is the list of the
  bytes pushed so far: a write operation is the list it appends, and a sequence of writes is the
  concatenation. A \<^verbatim>\<open>ByteReader\<close> is the list of the bytes from \<^verbatim>\<open>pos_\<close> on: a read
  operation takes it, and returns the value with what is left or throws. The locale \<open>codec\<close> is the
  contract of a writer and a reader that belong together.
\<close>

named_theorems codec_simps \<open>a reader applied to the bytes of its own writer\<close>
named_theorems reader_intros \<open>readers that consume a prefix and depend on nothing else\<close>

type_synonym 'a reader = "u8 list \<Rightarrow> ('a \<times> u8 list) outcome"

section \<open>Sequencing\<close>

definition rd_return :: "'a \<Rightarrow> 'a reader" where
  "rd_return a bs = Inr (a, bs)"

definition rd_bind :: "'a reader \<Rightarrow> ('a \<Rightarrow> 'b reader) \<Rightarrow> 'b reader" where
  "rd_bind m f bs = bind_outcome (m bs) (\<lambda>(a, bs'). f a bs')"

definition rd_outcome :: "'a outcome \<Rightarrow> 'a reader" where
  "rd_outcome r bs = bind_outcome r (\<lambda>a. Inr (a, bs))"

definition rd_map :: "('a \<Rightarrow> 'b) \<Rightarrow> 'a reader \<Rightarrow> 'b reader" where
  "rd_map f m = rd_bind m (\<lambda>a. rd_return (f a))"

lemma rd_run [simp, codec_simps]:
  "rd_return a bs = Inr (a, bs)"
  "rd_outcome (Inr a) bs = Inr (a, bs)"
  "rd_outcome (Inl e) bs = Inl e"
  "m bs = Inr (a, bs') \<Longrightarrow> rd_bind m f bs = f a bs'"
  "m bs = Inl e \<Longrightarrow> rd_bind m f bs = Inl e"
  by (simp_all add: rd_return_def rd_outcome_def rd_bind_def)

text \<open>
  \<open>sound_reader m\<close>: on success \<open>m\<close> has consumed a prefix of its input, and it reads the same
  value from that prefix whatever follows; it fails only by throwing.
\<close>

definition sound_reader :: "'a reader \<Rightarrow> bool" where
  "sound_reader m \<longleftrightarrow>
     (\<forall>bs a rest. m bs = Inr (a, rest) \<longrightarrow>
        (\<exists>used. bs = used @ rest \<and> (\<forall>more. m (used @ more) = Inr (a, more)))) \<and>
     (\<forall>bs e. m bs = Inl e \<longrightarrow> (\<exists>code what. e = FabricError code what))"

lemma sound_readerI:
  assumes "\<And>bs a rest. m bs = Inr (a, rest) \<Longrightarrow>
    \<exists>used. bs = used @ rest \<and> (\<forall>more. m (used @ more) = Inr (a, more))"
    and "\<And>bs e. m bs = Inl e \<Longrightarrow> \<exists>code what. e = FabricError code what"
  shows "sound_reader m"
  using assms by (simp add: sound_reader_def)

lemma sound_readerE:
  assumes "sound_reader m" "m bs = Inr (a, rest)"
  obtains used where "bs = used @ rest" "\<And>more. m (used @ more) = Inr (a, more)"
  using assms unfolding sound_reader_def by blast

lemma sound_reader_throws:
  "sound_reader m \<Longrightarrow> m bs = Inl e \<Longrightarrow> \<exists>code what. e = FabricError code what"
  unfolding sound_reader_def by blast

lemma sound_reader_return [reader_intros]: "sound_reader (rd_return a)"
  by (rule sound_readerI) simp_all

lemma sound_reader_outcome:
  "(\<And>e. r = Inl e \<Longrightarrow> \<exists>code what. e = FabricError code what) \<Longrightarrow> sound_reader (rd_outcome r)"
  by (rule sound_readerI) (cases r, auto)+

lemma sound_reader_throw [reader_intros]: "sound_reader (rd_outcome (throw_error code what))"
  by (rule sound_reader_outcome) (auto simp: throw_error_def)

lemma sound_reader_success [reader_intros]: "sound_reader (rd_outcome (Inr a))"
  by (rule sound_reader_outcome) simp

lemma sound_reader_bind [reader_intros]:
  assumes "sound_reader m" "\<And>a. sound_reader (f a)"
  shows "sound_reader (rd_bind m f)"
proof (rule sound_readerI)
  fix bs c rest assume run: "rd_bind m f bs = Inr (c, rest)"
  then obtain a bs1 where m: "m bs = Inr (a, bs1)" and f: "f a bs1 = Inr (c, rest)"
    by (auto simp: rd_bind_def bind_outcome_Inr_iff)
  from assms(1) m obtain u1 where u1: "bs = u1 @ bs1" "\<And>more. m (u1 @ more) = Inr (a, more)"
    by (rule sound_readerE) blast
  from assms(2) [of a] f obtain u2 where u2: "bs1 = u2 @ rest"
    "\<And>more. f a (u2 @ more) = Inr (c, more)" by (rule sound_readerE) blast
  have "bs = (u1 @ u2) @ rest \<and> (\<forall>more. rd_bind m f ((u1 @ u2) @ more) = Inr (c, more))"
    using u1 u2 by (simp add: rd_bind_def)
  then show "\<exists>used. bs = used @ rest \<and> (\<forall>more. rd_bind m f (used @ more) = Inr (c, more))" ..
next
  fix bs e assume run: "rd_bind m f bs = Inl e"
  show "\<exists>code what. e = FabricError code what"
  proof (cases "m bs")
    case (Inl e')
    with run sound_reader_throws [OF assms(1) Inl] show ?thesis by (simp add: rd_bind_def)
  next
    case (Inr ar)
    with run have "f (fst ar) (snd ar) = Inl e" by (simp add: rd_bind_def case_prod_beta)
    with assms(2) show ?thesis by (rule sound_reader_throws)
  qed
qed

lemma sound_reader_map [reader_intros]: "sound_reader m \<Longrightarrow> sound_reader (rd_map f m)"
  by (simp add: rd_map_def sound_reader_bind sound_reader_return)

lemma sound_reader_if [reader_intros]:
  "sound_reader m \<Longrightarrow> sound_reader m' \<Longrightarrow> sound_reader (if b then m else m')"
  by simp

section \<open>The contract of a codec\<close>

locale codec =
  fixes enc :: "'a \<Rightarrow> u8 list"
    and dec :: "'a reader"
    and ok :: "'a \<Rightarrow> bool"
  assumes round: "ok x \<Longrightarrow> dec (enc x @ rest) = Inr (x, rest)"
    and prefix: "sound_reader dec"
begin

lemma round_end: "ok x \<Longrightarrow> dec (enc x) = Inr (x, [])"
  using round [of x "[]"] by simp

text \<open>No encoding is a prefix of another one.\<close>

lemma prefix_free:
  "ok x \<Longrightarrow> ok y \<Longrightarrow> enc x @ r = enc y @ s \<Longrightarrow> x = y \<and> r = s"
  by (metis round Inr_inject prod.inject)

lemma enc_inj: "ok x \<Longrightarrow> ok y \<Longrightarrow> enc x = enc y \<Longrightarrow> x = y"
  using prefix_free [of x y "[]" "[]"] by simp

text \<open>A cut encoding is rejected.\<close>

lemma truncated:
  assumes "ok x" "n < length (enc x)"
  shows "\<exists>e. dec (take n (enc x)) = Inl e"
proof (rule ccontr)
  assume "\<nexists>e. dec (take n (enc x)) = Inl e"
  then obtain y r where y: "dec (take n (enc x)) = Inr (y, r)"
    by (cases "dec (take n (enc x))") auto
  with prefix obtain u where u: "take n (enc x) = u @ r" "\<And>more. dec (u @ more) = Inr (y, more)"
    by (rule sound_readerE) blast
  have "enc x = u @ r @ drop n (enc x)"
    using append_take_drop_id [of n "enc x"] u(1) by simp
  with u(2) have "dec (enc x) = Inr (y, r @ drop n (enc x))" by metis
  with round_end [OF assms(1)] have "drop n (enc x) = []" by simp
  with assms(2) show False by simp
qed

end

section \<open>Fixed-width integers\<close>

definition rd_require :: "nat \<Rightarrow> unit reader" where
  "rd_require n bs =
     (if n > length bs then throw_error CorruptData ''truncated binary payload''
      else Inr ((), bs))"

text \<open>The next \<open>n\<close> bytes, after the check that they are there.\<close>

definition rd_take :: "nat \<Rightarrow> u8 list reader" where
  "rd_take n = rd_bind (rd_require n) (\<lambda>_ bs. Inr (take n bs, drop n bs))"

definition w_u8 :: "u8 \<Rightarrow> u8 list" where
  "w_u8 v = [v]"

definition w_u16 :: "u16 \<Rightarrow> u8 list" where
  "w_u16 v = [ucast v, ucast (drop_bit 8 v)]"

definition w_u32 :: "u32 \<Rightarrow> u8 list" where
  "w_u32 v = map (\<lambda>i. ucast (drop_bit (8 * i) v)) [0..<4]"

definition w_u64 :: "u64 \<Rightarrow> u8 list" where
  "w_u64 v = map (\<lambda>i. ucast (drop_bit (8 * i) v)) [0..<8]"

definition rd_u8 :: "u8 reader" where
  "rd_u8 = rd_map (\<lambda>bs. bs ! 0) (rd_take 1)"

definition rd_u16 :: "u16 reader" where
  "rd_u16 = rd_map (\<lambda>bs. fold (\<lambda>i v. v OR push_bit (8 * i) (ucast (bs ! i))) [0..<2] 0) (rd_take 2)"

definition rd_u32 :: "u32 reader" where
  "rd_u32 = rd_map (\<lambda>bs. fold (\<lambda>i v. v OR push_bit (8 * i) (ucast (bs ! i))) [0..<4] 0) (rd_take 4)"

definition rd_u64 :: "u64 reader" where
  "rd_u64 = rd_map (\<lambda>bs. fold (\<lambda>i v. v OR push_bit (8 * i) (ucast (bs ! i))) [0..<8] 0) (rd_take 8)"

lemma rd_take_append [simp, codec_simps]: "length xs = n \<Longrightarrow> rd_take n (xs @ rest) = Inr (xs, rest)"
  by (simp add: rd_take_def rd_bind_def rd_require_def)

lemma rd_take_short: "length bs < n \<Longrightarrow>
    rd_take n bs = throw_error CorruptData ''truncated binary payload''"
  by (simp add: rd_take_def rd_bind_def rd_require_def)

lemma sound_reader_take [reader_intros]: "sound_reader (rd_take n)"
proof (rule sound_readerI)
  fix bs e assume "rd_take n bs = Inl e"
  then show "\<exists>code what. e = FabricError code what"
    by (auto simp: rd_take_def rd_bind_def rd_require_def throw_error_def split: if_splits)
next
  fix bs a rest assume "rd_take n bs = Inr (a, rest)"
  then have "n \<le> length bs" "a = take n bs" "rest = drop n bs"
    by (auto simp: rd_take_def rd_bind_def rd_require_def split: if_splits)
  then show "\<exists>used. bs = used @ rest \<and> (\<forall>more. rd_take n (used @ more) = Inr (a, more))"
    by (intro exI [of _ "take n bs"]) simp
qed

lemma sound_reader_words [reader_intros]:
  "sound_reader rd_u8" "sound_reader rd_u16" "sound_reader rd_u32" "sound_reader rd_u64"
  by (simp_all add: rd_u8_def rd_u16_def rd_u32_def rd_u64_def reader_intros)

lemma rd_map_run [simp, codec_simps]: "m bs = Inr (a, rest) \<Longrightarrow> rd_map f m bs = Inr (f a, rest)"
  by (simp add: rd_map_def)

lemma rd_map_take: "length xs = n \<Longrightarrow> rd_map f (rd_take n) (xs @ rest) = Inr (f xs, rest)"
  by simp

text \<open>The bits of a word assembled from bytes.\<close>

lemma bit_assembled:
  "bit (fold (\<lambda>i v. v OR push_bit (8 * i) (ucast (f i :: u8))) [0..<k] (0::'a::len word)) n \<longleftrightarrow>
   n < LENGTH('a) \<and> n < 8 * k \<and> bit (f (n div 8)) (n mod 8)"
proof (induction k)
  case (Suc k)
  have "bit (push_bit (8 * k) (ucast (f k) :: 'a word)) n \<longleftrightarrow>
      n < LENGTH('a) \<and> 8 * k \<le> n \<and> n < 8 * Suc k \<and> bit (f (n div 8)) (n mod 8)"
  proof (cases "8 * k \<le> n \<and> n < 8 * Suc k")
    case True
    then have "n div 8 = k" "n mod 8 = n - 8 * k" by (auto simp: div_nat_eqI modulo_nat_def)
    with True show ?thesis by (auto simp: bit_push_bit_iff bit_ucast_iff)
  next
    case False
    then have "\<not> bit (push_bit (8 * k) (ucast (f k) :: 'a word)) n"
      using bit_imp_le_length [of "f k" "n - 8 * k"] by (auto simp: bit_push_bit_iff bit_ucast_iff)
    with False show ?thesis by auto
  qed
  with Suc.IH show ?case by (auto simp: bit_or_iff)
qed simp

lemma assembled_word:
  assumes "LENGTH('a) = 8 * k"
  shows "fold (\<lambda>i w. w OR push_bit (8 * i) (ucast (ucast (drop_bit (8 * i) v) :: u8))) [0..<k] 0 =
    (v :: 'a::len word)"
proof (rule bit_word_eqI)
  fix n assume "n < LENGTH('a)"
  with assms show "bit (fold (\<lambda>i w. w OR push_bit (8 * i) (ucast (ucast (drop_bit (8 * i) v) :: u8)))
      [0..<k] (0 :: 'a word)) n = bit v n"
    by (simp add: bit_assembled bit_ucast_iff bit_drop_bit_eq)
qed

lemma fold_nth_cong:
  "fold (\<lambda>i v. v OR push_bit (8 * i) (ucast (map f [0..<k] ! i))) [0..<k] v0 =
   fold (\<lambda>i v. v OR push_bit (8 * i) (ucast (f i :: u8))) [0..<k] (v0 :: 'a::len word)"
  by (rule fold_cong) auto

lemma word_rounds [simp, codec_simps]:
  "rd_u8 (w_u8 b @ rest) = Inr (b, rest)"
  "rd_u16 (w_u16 h @ rest) = Inr (h, rest)"
  "rd_u32 (w_u32 w @ rest) = Inr (w, rest)"
  "rd_u64 (w_u64 v @ rest) = Inr (v, rest)"
proof -
  show "rd_u8 (w_u8 b @ rest) = Inr (b, rest)"
    using rd_map_take [of "[b]" 1 "\<lambda>bs. bs ! 0" rest]
    by (simp add: rd_u8_def w_u8_def)
  have w16: "w_u16 h = map (\<lambda>i. ucast (drop_bit (8 * i) h)) [0..<2]"
    by (simp add: w_u16_def upt_rec)
  show "rd_u16 (w_u16 h @ rest) = Inr (h, rest)"
    unfolding rd_u16_def w16
    by (subst rd_map_take, simp) (simp only: fold_nth_cong, subst assembled_word, simp_all)
  show "rd_u32 (w_u32 w @ rest) = Inr (w, rest)"
    unfolding rd_u32_def w_u32_def
    by (subst rd_map_take, simp) (simp only: fold_nth_cong, subst assembled_word, simp_all)
  show "rd_u64 (w_u64 v @ rest) = Inr (v, rest)"
    unfolding rd_u64_def w_u64_def
    by (subst rd_map_take, simp) (simp only: fold_nth_cong, subst assembled_word, simp_all)
qed

section \<open>The other primitive types\<close>

definition kMaxString :: u32 where
  "kMaxString = 0x100000"

definition w_i64 :: "int \<Rightarrow> u8 list" where
  "w_i64 v = w_u64 (word_of_int v)"

definition rd_i64 :: "int reader" where
  "rd_i64 = rd_map sint rd_u64"

definition w_boolean :: "bool \<Rightarrow> u8 list" where
  "w_boolean v = w_u8 (if v then 1 else 0)"

definition rd_boolean :: "bool reader" where
  "rd_boolean = rd_map (\<lambda>b. b \<noteq> 0) rd_u8"

text \<open>A character of a \<^verbatim>\<open>std::string\<close> and its byte.\<close>

definition byte_of_char :: "char \<Rightarrow> u8" where
  "byte_of_char c = word_of_nat (of_char c)"

definition char_of_byte :: "u8 \<Rightarrow> char" where
  "char_of_byte b = char_of (unat b)"

definition w_bytes :: "u8 list \<Rightarrow> u8 list" where
  "w_bytes v = w_u32 (word_of_nat (length v)) @ v"

definition w_str :: "string \<Rightarrow> u8 list" where
  "w_str s = w_u32 (word_of_nat (length s)) @ map byte_of_char s"

definition rd_bytes :: "u8 list reader" where
  "rd_bytes =
     rd_bind rd_u32 (\<lambda>n.
       if n > kMaxString then rd_outcome (throw_error CorruptData ''byte length exceeds bound'')
       else rd_take (unat n))"

definition rd_str :: "string reader" where
  "rd_str =
     rd_bind rd_u32 (\<lambda>n.
       if n > kMaxString then rd_outcome (throw_error CorruptData ''string length exceeds bound'')
       else rd_map (map char_of_byte) (rd_take (unat n)))"

definition w_id :: "'tag StrongId \<Rightarrow> u8 list" where
  "w_id i = w_u64 (id_value i)"

definition rd_id :: "'tag StrongId reader" where
  "rd_id = rd_map StrongId rd_u64"

definition w_gen :: "'tag StrongGeneration \<Rightarrow> u8 list" where
  "w_gen g = w_u64 (gen_value g)"

definition rd_gen :: "'tag StrongGeneration reader" where
  "rd_gen = rd_map StrongGeneration rd_u64"

definition w_instant :: "Instant \<Rightarrow> u8 list" where
  "w_instant t = w_i64 (inst_ns t)"

definition rd_instant :: "Instant reader" where
  "rd_instant = rd_map Instant rd_i64"

definition w_duration :: "Duration \<Rightarrow> u8 list" where
  "w_duration d = w_i64 (dur_ns d)"

definition rd_duration :: "Duration reader" where
  "rd_duration = rd_map Duration rd_i64"

text \<open>An enumeration is written as its byte, \<open>byte_of\<close>, and read back by a cast, \<open>of_byte\<close>.\<close>

definition w_enu :: "('e \<Rightarrow> u8) \<Rightarrow> 'e \<Rightarrow> u8 list" where
  "w_enu byte_of e = w_u8 (byte_of e)"

definition rd_enu :: "(u8 \<Rightarrow> 'e) \<Rightarrow> 'e reader" where
  "rd_enu of_byte = rd_map of_byte rd_u8"

definition w_optVal :: "('a \<Rightarrow> u8 list) \<Rightarrow> 'a option \<Rightarrow> u8 list" where
  "w_optVal writeFn v = (case v of Some a \<Rightarrow> w_u8 1 @ writeFn a | None \<Rightarrow> w_u8 0)"

definition rd_optVal :: "'a reader \<Rightarrow> 'a option reader" where
  "rd_optVal readFn = rd_bind rd_u8 (\<lambda>b. if b \<noteq> 0 then rd_map Some readFn else rd_return None)"

definition w_optId :: "'tag StrongId option \<Rightarrow> u8 list" where
  "w_optId v = (case v of Some i \<Rightarrow> w_u8 1 @ w_id i | None \<Rightarrow> w_u8 0)"

definition rd_optId :: "'tag StrongId option reader" where
  "rd_optId = rd_bind rd_u8 (\<lambda>b. if b \<noteq> 0 then rd_map (Some \<circ> StrongId) rd_u64 else rd_return None)"

definition crcOf :: "u8 list \<Rightarrow> u32" where
  "crcOf w = crc32 w crc_seed"

text \<open>The loop \<^verbatim>\<open>for (i = 0; i < n; ++i) v.push_back(read())\<close> and the loop that writes a vector.\<close>

fun rd_times :: "nat \<Rightarrow> 'a reader \<Rightarrow> 'a list reader" where
  "rd_times 0 m = rd_return []"
| "rd_times (Suc n) m = rd_bind m (\<lambda>a. rd_map (Cons a) (rd_times n m))"

definition w_each :: "('a \<Rightarrow> u8 list) \<Rightarrow> 'a list \<Rightarrow> u8 list" where
  "w_each w xs = concat (map w xs)"

section \<open>They satisfy the contract\<close>

lemma sint_word_of_i64 [simp]: "in_i64 v \<Longrightarrow> sint (word_of_int v :: u64) = v"
  by (simp add: sint_word_ariths in_i64_def INT64_MAX_def INT64_MIN_def sint_uint
      signed_take_bit_int_eq_self uint_word_of_int_eq signed_take_bit_take_bit)

lemma char_of_byte_of_char [simp]: "char_of_byte (byte_of_char c) = c"
proof -
  have "unat (word_of_nat (of_char c) :: u8) = (of_char c :: nat)"
    by (simp add: unat_of_nat take_bit_nat_eq_self)
  then show ?thesis by (simp add: char_of_byte_def byte_of_char_def)
qed

lemma map_char_of_byte [simp]: "map (char_of_byte \<circ> byte_of_char) s = s"
  by (induction s) simp_all

text \<open>A length field holds the length of every list that fits the bound.\<close>

lemma unat_length [simp]: "n < 2 ^ 32 \<Longrightarrow> unat (word_of_nat n :: u32) = n"
  by (simp add: unat_of_nat)

lemma length_le_kMaxString: "n \<le> 2 ^ 20 \<Longrightarrow> \<not> word_of_nat n > kMaxString"
  by (simp add: kMaxString_def not_less word_le_nat_alt unat_of_nat)

lemma str_round: "length s \<le> 2 ^ 20 \<Longrightarrow> rd_str (w_str s @ rest) = Inr (s, rest)"
  using length_le_kMaxString [of "length s"] by (simp add: rd_str_def w_str_def)

lemma bytes_round: "length s \<le> 2 ^ 20 \<Longrightarrow> rd_bytes (w_bytes s @ rest) = Inr (s, rest)"
  using length_le_kMaxString [of "length s"] by (simp add: rd_bytes_def w_bytes_def)

lemma sound_reader_times [reader_intros]: "sound_reader m \<Longrightarrow> sound_reader (rd_times n m)"
  by (induction n) (simp_all add: reader_intros)

lemmas reader_defs = rd_i64_def rd_boolean_def rd_bytes_def rd_str_def rd_id_def rd_gen_def
  rd_instant_def rd_duration_def rd_enu_def rd_optVal_def rd_optId_def

lemma sound_reader_primitives [reader_intros]:
  "sound_reader rd_i64" "sound_reader rd_boolean" "sound_reader rd_bytes" "sound_reader rd_str"
  "sound_reader rd_id" "sound_reader rd_gen" "sound_reader rd_instant" "sound_reader rd_duration"
  "sound_reader (rd_enu of_byte)" "sound_reader rd_optId"
  by (auto simp: reader_defs intro!: reader_intros)

lemma sound_reader_optVal [reader_intros]: "sound_reader m \<Longrightarrow> sound_reader (rd_optVal m)"
  by (auto simp: rd_optVal_def intro!: reader_intros)

end
