(* ===== verification/RF_Codec.thy ===== *)
theory RF_Codec
  imports RF_Serialization
begin

text \<open>
  The bytes of the enumerations, and the primitive writers and readers as instances of the codec
  contract. A cast from a byte to an enumeration never fails in C++: a byte without a
  name becomes the constructor for unnamed values, which is canonical only for such a byte.
\<close>

section \<open>Enumerations\<close>

locale enumeration =
  fixes byte_of :: "'e \<Rightarrow> u8"
    and of_byte :: "u8 \<Rightarrow> 'e"
  assumes cast_back: "byte_of (of_byte b) = b"
begin

abbreviation canonical :: "'e \<Rightarrow> bool" where
  "canonical e \<equiv> of_byte (byte_of e) = e"

lemma canonical_of_byte: "canonical (of_byte b)"
  by (simp add: cast_back)

end

sublocale enumeration \<subseteq> codec "w_enu byte_of" "rd_enu of_byte" "\<lambda>e. of_byte (byte_of e) = e"
  by unfold_locales (simp_all add: w_enu_def rd_enu_def reader_intros)

fun Unit_byte :: "Unit \<Rightarrow> u8" where
  "Unit_byte Unit_None = 0"
| "Unit_byte Unit_Count = 1"
| "Unit_byte Unit_Bytes = 2"
| "Unit_byte Unit_BytesPerSecond = 3"
| "Unit_byte Unit_BitsPerSecond = 4"
| "Unit_byte Unit_Nodes = 5"
| "Unit_byte Unit_Percent = 6"
| "Unit_byte Unit_Hertz = 7"
| "Unit_byte (Unit_raw b) = b"

definition Unit_of_byte :: "u8 \<Rightarrow> Unit" where
  "Unit_of_byte b =
     (if b = 0 then Unit_None
      else if b = 1 then Unit_Count
      else if b = 2 then Unit_Bytes
      else if b = 3 then Unit_BytesPerSecond
      else if b = 4 then Unit_BitsPerSecond
      else if b = 5 then Unit_Nodes
      else if b = 6 then Unit_Percent
      else if b = 7 then Unit_Hertz
      else Unit_raw b)"

interpretation unit: enumeration Unit_byte Unit_of_byte
  by unfold_locales (simp add: Unit_of_byte_def)

fun ResourceClass_byte :: "ResourceClass \<Rightarrow> u8" where
  "ResourceClass_byte AcceleratorCompute = 1"
| "ResourceClass_byte AcceleratorMemory = 2"
| "ResourceClass_byte PinnedHostMemory = 3"
| "ResourceClass_byte PageableHostMemory = 4"
| "ResourceClass_byte DeviceLocalMemoryPool = 5"
| "ResourceClass_byte ModelResidency = 6"
| "ResourceClass_byte AdapterResidency = 7"
| "ResourceClass_byte KVTensorStateResidency = 8"
| "ResourceClass_byte TransferBandwidth = 9"
| "ResourceClass_byte PcieBandwidth = 10"
| "ResourceClass_byte InterconnectBandwidth = 11"
| "ResourceClass_byte NetworkBandwidth = 12"
| "ResourceClass_byte StorageBandwidth = 13"
| "ResourceClass_byte StorageCapacity = 14"
| "ResourceClass_byte QueueServiceSlot = 15"
| "ResourceClass_byte ConcurrentExecution = 16"
| "ResourceClass_byte CommunicationPath = 17"
| "ResourceClass_byte PlacementConstrainedCapacity = 18"
| "ResourceClass_byte TopologyConstrainedCapacity = 19"
| "ResourceClass_byte CompositeMultiResourceBundle = 20"
| "ResourceClass_byte ResourceClass_Unknown = 21"
| "ResourceClass_byte (ResourceClass_raw b) = b"

definition ResourceClass_of_byte :: "u8 \<Rightarrow> ResourceClass" where
  "ResourceClass_of_byte b =
     (if b = 1 then AcceleratorCompute
      else if b = 2 then AcceleratorMemory
      else if b = 3 then PinnedHostMemory
      else if b = 4 then PageableHostMemory
      else if b = 5 then DeviceLocalMemoryPool
      else if b = 6 then ModelResidency
      else if b = 7 then AdapterResidency
      else if b = 8 then KVTensorStateResidency
      else if b = 9 then TransferBandwidth
      else if b = 10 then PcieBandwidth
      else if b = 11 then InterconnectBandwidth
      else if b = 12 then NetworkBandwidth
      else if b = 13 then StorageBandwidth
      else if b = 14 then StorageCapacity
      else if b = 15 then QueueServiceSlot
      else if b = 16 then ConcurrentExecution
      else if b = 17 then CommunicationPath
      else if b = 18 then PlacementConstrainedCapacity
      else if b = 19 then TopologyConstrainedCapacity
      else if b = 20 then CompositeMultiResourceBundle
      else if b = 21 then ResourceClass_Unknown
      else ResourceClass_raw b)"

interpretation resource_class: enumeration ResourceClass_byte ResourceClass_of_byte
  by unfold_locales (simp add: ResourceClass_of_byte_def)

fun ReservationStrength_byte :: "ReservationStrength \<Rightarrow> u8" where
  "ReservationStrength_byte Hard = 1"
| "ReservationStrength_byte Soft = 2"
| "ReservationStrength_byte Opportunistic = 3"
| "ReservationStrength_byte BestEffort = 4"
| "ReservationStrength_byte Strength_Unknown = 5"
| "ReservationStrength_byte (Strength_raw b) = b"

definition ReservationStrength_of_byte :: "u8 \<Rightarrow> ReservationStrength" where
  "ReservationStrength_of_byte b =
     (if b = 1 then Hard
      else if b = 2 then Soft
      else if b = 3 then Opportunistic
      else if b = 4 then BestEffort
      else if b = 5 then Strength_Unknown
      else Strength_raw b)"

interpretation strength: enumeration ReservationStrength_byte ReservationStrength_of_byte
  by unfold_locales (simp add: ReservationStrength_of_byte_def)

fun ActivationMode_byte :: "ActivationMode \<Rightarrow> u8" where
  "ActivationMode_byte ActivateNotBefore = 1"
| "ActivationMode_byte ImmediateAfterCommit = 2"
| "ActivationMode_byte FixedInterval = 3"
| "ActivationMode_byte LatestStart = 4"
| "ActivationMode_byte DurationAfterActivation = 5"
| "ActivationMode_byte ExternalAuthority = 6"
| "ActivationMode_byte (ActivationMode_raw b) = b"

definition ActivationMode_of_byte :: "u8 \<Rightarrow> ActivationMode" where
  "ActivationMode_of_byte b =
     (if b = 1 then ActivateNotBefore
      else if b = 2 then ImmediateAfterCommit
      else if b = 3 then FixedInterval
      else if b = 4 then LatestStart
      else if b = 5 then DurationAfterActivation
      else if b = 6 then ExternalAuthority
      else ActivationMode_raw b)"

interpretation activation_mode: enumeration ActivationMode_byte ActivationMode_of_byte
  by unfold_locales (simp add: ActivationMode_of_byte_def)

fun ExclusivityMode_byte :: "ExclusivityMode \<Rightarrow> u8" where
  "ExclusivityMode_byte Shared = 1"
| "ExclusivityMode_byte Exclusive = 2"
| "ExclusivityMode_byte (Exclusivity_raw b) = b"

definition ExclusivityMode_of_byte :: "u8 \<Rightarrow> ExclusivityMode" where
  "ExclusivityMode_of_byte b =
     (if b = 1 then Shared
      else if b = 2 then Exclusive
      else Exclusivity_raw b)"

interpretation exclusivity: enumeration ExclusivityMode_byte ExclusivityMode_of_byte
  by unfold_locales (simp add: ExclusivityMode_of_byte_def)

fun Elasticity_byte :: "Elasticity \<Rightarrow> u8" where
  "Elasticity_byte Elasticity_None = 1"
| "Elasticity_byte ShrinkOnly = 2"
| "Elasticity_byte GrowShrink = 3"
| "Elasticity_byte (Elasticity_raw b) = b"

definition Elasticity_of_byte :: "u8 \<Rightarrow> Elasticity" where
  "Elasticity_of_byte b =
     (if b = 1 then Elasticity_None
      else if b = 2 then ShrinkOnly
      else if b = 3 then GrowShrink
      else Elasticity_raw b)"

interpretation elasticity: enumeration Elasticity_byte Elasticity_of_byte
  by unfold_locales (simp add: Elasticity_of_byte_def)

fun RenewalPermission_byte :: "RenewalPermission \<Rightarrow> u8" where
  "RenewalPermission_byte Renewal_None = 1"
| "RenewalPermission_byte RenewAllowed = 2"
| "RenewalPermission_byte (Renewal_raw b) = b"

definition RenewalPermission_of_byte :: "u8 \<Rightarrow> RenewalPermission" where
  "RenewalPermission_of_byte b =
     (if b = 1 then Renewal_None
      else if b = 2 then RenewAllowed
      else Renewal_raw b)"

interpretation renewal: enumeration RenewalPermission_byte RenewalPermission_of_byte
  by unfold_locales (simp add: RenewalPermission_of_byte_def)

fun TransferPermission_byte :: "TransferPermission \<Rightarrow> u8" where
  "TransferPermission_byte Transfer_None = 1"
| "TransferPermission_byte TransferAllowed = 2"
| "TransferPermission_byte (Transfer_raw b) = b"

definition TransferPermission_of_byte :: "u8 \<Rightarrow> TransferPermission" where
  "TransferPermission_of_byte b =
     (if b = 1 then Transfer_None
      else if b = 2 then TransferAllowed
      else Transfer_raw b)"

interpretation transfer: enumeration TransferPermission_byte TransferPermission_of_byte
  by unfold_locales (simp add: TransferPermission_of_byte_def)

fun HoldState_byte :: "HoldState \<Rightarrow> u8" where
  "HoldState_byte Hold_Acquired = 1"
| "HoldState_byte Hold_Releasing = 2"
| "HoldState_byte Hold_Released = 3"
| "HoldState_byte Hold_Expired = 4"
| "HoldState_byte Hold_Committed = 5"
| "HoldState_byte (HoldState_raw b) = b"

definition HoldState_of_byte :: "u8 \<Rightarrow> HoldState" where
  "HoldState_of_byte b =
     (if b = 1 then Hold_Acquired
      else if b = 2 then Hold_Releasing
      else if b = 3 then Hold_Released
      else if b = 4 then Hold_Expired
      else if b = 5 then Hold_Committed
      else HoldState_raw b)"

interpretation hold_state_enum: enumeration HoldState_byte HoldState_of_byte
  by unfold_locales (simp add: HoldState_of_byte_def)

fun SetTransactionState_byte :: "SetTransactionState \<Rightarrow> u8" where
  "SetTransactionState_byte Tx_None = 1"
| "SetTransactionState_byte Tx_Validating = 2"
| "SetTransactionState_byte Tx_HoldsAcquired = 3"
| "SetTransactionState_byte Tx_Committing = 4"
| "SetTransactionState_byte Tx_Committed = 5"
| "SetTransactionState_byte Tx_RolledBack = 6"
| "SetTransactionState_byte Tx_Failed = 7"
| "SetTransactionState_byte Tx_Persisted = 8"
| "SetTransactionState_byte (Tx_raw b) = b"

definition SetTransactionState_of_byte :: "u8 \<Rightarrow> SetTransactionState" where
  "SetTransactionState_of_byte b =
     (if b = 1 then Tx_None
      else if b = 2 then Tx_Validating
      else if b = 3 then Tx_HoldsAcquired
      else if b = 4 then Tx_Committing
      else if b = 5 then Tx_Committed
      else if b = 6 then Tx_RolledBack
      else if b = 7 then Tx_Failed
      else if b = 8 then Tx_Persisted
      else Tx_raw b)"

interpretation transaction: enumeration SetTransactionState_byte SetTransactionState_of_byte
  by unfold_locales (simp add: SetTransactionState_of_byte_def)

fun Feasibility_byte :: "Feasibility \<Rightarrow> u8" where
  "Feasibility_byte Admissible = 1"
| "Feasibility_byte AdmissibleWithModification = 2"
| "Feasibility_byte PartiallyAdmissible = 3"
| "Feasibility_byte RejectCapacity = 4"
| "Feasibility_byte RejectConflict = 5"
| "Feasibility_byte RejectStaleResource = 6"
| "Feasibility_byte RejectStalePolicy = 7"
| "Feasibility_byte RejectTopology = 8"
| "Feasibility_byte RejectCapability = 9"
| "Feasibility_byte RejectLocality = 10"
| "Feasibility_byte RejectInvalidInterval = 11"
| "Feasibility_byte RejectInvalidQuantity = 12"
| "Feasibility_byte RejectDuplicate = 13"
| "Feasibility_byte RejectStaleAuthority = 14"
| "Feasibility_byte Feasibility_RevalidationRequired = 15"
| "Feasibility_byte Feasibility_Unknown = 16"
| "Feasibility_byte (Feasibility_raw b) = b"

definition Feasibility_of_byte :: "u8 \<Rightarrow> Feasibility" where
  "Feasibility_of_byte b =
     (if b = 1 then Admissible
      else if b = 2 then AdmissibleWithModification
      else if b = 3 then PartiallyAdmissible
      else if b = 4 then RejectCapacity
      else if b = 5 then RejectConflict
      else if b = 6 then RejectStaleResource
      else if b = 7 then RejectStalePolicy
      else if b = 8 then RejectTopology
      else if b = 9 then RejectCapability
      else if b = 10 then RejectLocality
      else if b = 11 then RejectInvalidInterval
      else if b = 12 then RejectInvalidQuantity
      else if b = 13 then RejectDuplicate
      else if b = 14 then RejectStaleAuthority
      else if b = 15 then Feasibility_RevalidationRequired
      else if b = 16 then Feasibility_Unknown
      else Feasibility_raw b)"

interpretation feasibility: enumeration Feasibility_byte Feasibility_of_byte
  by unfold_locales (simp add: Feasibility_of_byte_def)

fun Lifecycle_byte :: "Lifecycle \<Rightarrow> u8" where
  "Lifecycle_byte Lifecycle_Requested = 1"
| "Lifecycle_byte Lifecycle_Planned = 2"
| "Lifecycle_byte Lifecycle_Holding = 3"
| "Lifecycle_byte Lifecycle_Held = 4"
| "Lifecycle_byte Lifecycle_Committing = 5"
| "Lifecycle_byte Lifecycle_Committed = 6"
| "Lifecycle_byte Lifecycle_PendingActivation = 7"
| "Lifecycle_byte Lifecycle_Activating = 8"
| "Lifecycle_byte Lifecycle_Active = 9"
| "Lifecycle_byte Lifecycle_PartiallyConsumed = 10"
| "Lifecycle_byte Lifecycle_Consumed = 11"
| "Lifecycle_byte Lifecycle_Modifying = 12"
| "Lifecycle_byte Lifecycle_Renewing = 13"
| "Lifecycle_byte Lifecycle_Releasing = 14"
| "Lifecycle_byte Lifecycle_Released = 15"
| "Lifecycle_byte Lifecycle_Expired = 16"
| "Lifecycle_byte Lifecycle_Cancelled = 17"
| "Lifecycle_byte Lifecycle_Superseded = 18"
| "Lifecycle_byte Lifecycle_Failed = 19"
| "Lifecycle_byte Lifecycle_Recovering = 20"
| "Lifecycle_byte Lifecycle_RevalidationRequired = 21"
| "Lifecycle_byte Lifecycle_Retired = 22"
| "Lifecycle_byte (Lifecycle_raw b) = b"

definition Lifecycle_of_byte :: "u8 \<Rightarrow> Lifecycle" where
  "Lifecycle_of_byte b =
     (if b = 1 then Lifecycle_Requested
      else if b = 2 then Lifecycle_Planned
      else if b = 3 then Lifecycle_Holding
      else if b = 4 then Lifecycle_Held
      else if b = 5 then Lifecycle_Committing
      else if b = 6 then Lifecycle_Committed
      else if b = 7 then Lifecycle_PendingActivation
      else if b = 8 then Lifecycle_Activating
      else if b = 9 then Lifecycle_Active
      else if b = 10 then Lifecycle_PartiallyConsumed
      else if b = 11 then Lifecycle_Consumed
      else if b = 12 then Lifecycle_Modifying
      else if b = 13 then Lifecycle_Renewing
      else if b = 14 then Lifecycle_Releasing
      else if b = 15 then Lifecycle_Released
      else if b = 16 then Lifecycle_Expired
      else if b = 17 then Lifecycle_Cancelled
      else if b = 18 then Lifecycle_Superseded
      else if b = 19 then Lifecycle_Failed
      else if b = 20 then Lifecycle_Recovering
      else if b = 21 then Lifecycle_RevalidationRequired
      else if b = 22 then Lifecycle_Retired
      else Lifecycle_raw b)"

interpretation lifecycle: enumeration Lifecycle_byte Lifecycle_of_byte
  by unfold_locales (simp add: Lifecycle_of_byte_def)

lemmas of_byte_defs = Unit_of_byte_def ResourceClass_of_byte_def ReservationStrength_of_byte_def ActivationMode_of_byte_def ExclusivityMode_of_byte_def Elasticity_of_byte_def RenewalPermission_of_byte_def TransferPermission_of_byte_def HoldState_of_byte_def SetTransactionState_of_byte_def Feasibility_of_byte_def Lifecycle_of_byte_def

lemmas enum_rounds [codec_simps] = unit.round resource_class.round strength.round activation_mode.round exclusivity.round elasticity.round renewal.round transfer.round hold_state_enum.round transaction.round feasibility.round lifecycle.round

section \<open>Primitive codecs\<close>

definition w_quant :: "Quantity \<Rightarrow> u8 list" where
  "w_quant q = w_i64 (q_value q) @ w_u8 (Unit_byte (q_unit q))"

definition rd_quant :: "Quantity reader" where
  "rd_quant =
     rd_bind rd_i64 (\<lambda>v.
     rd_bind (rd_map Unit_of_byte rd_u8) (\<lambda>u.
       rd_outcome (mk_Quantity v u)))"

text \<open>The values that the writer and the reader are made for.\<close>

definition quantity_ok :: "Quantity \<Rightarrow> bool" where
  "quantity_ok q \<longleftrightarrow> quantity_wf q \<and> unit.canonical (q_unit q)"

definition instant_ok :: "Instant \<Rightarrow> bool" where
  "instant_ok t \<longleftrightarrow> in_i64 (inst_ns t)"

definition duration_ok :: "Duration \<Rightarrow> bool" where
  "duration_ok d \<longleftrightarrow> in_i64 (dur_ns d)"

definition string_ok :: "string \<Rightarrow> bool" where
  "string_ok s \<longleftrightarrow> length s \<le> 2 ^ 20"

interpretation u8_codec: codec w_u8 rd_u8 "\<lambda>_. True"
  by unfold_locales (simp_all add: reader_intros)

interpretation u32_codec: codec w_u32 rd_u32 "\<lambda>_. True"
  by unfold_locales (simp_all add: reader_intros)

interpretation u64_codec: codec w_u64 rd_u64 "\<lambda>_. True"
  by unfold_locales (simp_all add: reader_intros)

interpretation i64_codec: codec w_i64 rd_i64 in_i64
  by unfold_locales (simp_all add: w_i64_def rd_i64_def reader_intros)

interpretation boolean_codec: codec w_boolean rd_boolean "\<lambda>_. True"
  by unfold_locales (simp_all add: w_boolean_def rd_boolean_def reader_intros)

interpretation id_codec: codec w_id rd_id "\<lambda>_. True"
  by unfold_locales (simp_all add: w_id_def rd_id_def reader_intros)

interpretation gen_codec: codec w_gen rd_gen "\<lambda>_. True"
  by unfold_locales (simp_all add: w_gen_def rd_gen_def reader_intros)

interpretation instant_codec: codec w_instant rd_instant instant_ok
  by unfold_locales
    (simp_all add: w_instant_def rd_instant_def instant_ok_def i64_codec.round reader_intros)

interpretation duration_codec: codec w_duration rd_duration duration_ok
  by unfold_locales
    (simp_all add: w_duration_def rd_duration_def duration_ok_def i64_codec.round reader_intros)

interpretation str_codec: codec w_str rd_str string_ok
  by unfold_locales (simp_all add: string_ok_def str_round reader_intros)

interpretation bytes_codec: codec w_bytes rd_bytes "\<lambda>v. length v \<le> 2 ^ 20"
  by unfold_locales (simp_all add: bytes_round reader_intros)

lemma sound_reader_mk_Quantity [reader_intros]: "sound_reader (rd_outcome (mk_Quantity v u))"
  by (rule sound_reader_outcome)
     (auto simp: mk_Quantity_def check_quantity_rep_def throw_error_def split: if_splits)

lemma sound_reader_mk_Interval [reader_intros]: "sound_reader (rd_outcome (mk_Interval s e))"
  by (rule sound_reader_outcome) (auto simp: mk_Interval_def throw_error_def split: if_splits)

lemma quantity_ok_in_i64: "quantity_ok q \<Longrightarrow> in_i64 (q_value q)"
  by (auto simp: quantity_ok_def quantity_wf_def i64_defs)

lemma quantity_ok_mk: "quantity_ok q \<Longrightarrow> mk_Quantity (q_value q) (q_unit q) = Inr q"
  by (auto simp: quantity_ok_def quantity_wf_def)

interpretation quant_codec: codec w_quant rd_quant quantity_ok
proof
  fix q rest assume ok: "quantity_ok q"
  then have "unit.canonical (q_unit q)" by (simp add: quantity_ok_def)
  with ok show "rd_quant (w_quant q @ rest) = Inr (q, rest)"
    by (simp add: rd_quant_def w_quant_def i64_codec.round quantity_ok_in_i64 quantity_ok_mk)
next
  show "sound_reader rd_quant" by (auto simp: rd_quant_def intro!: reader_intros)
qed

lemmas primitive_rounds [codec_simps] = boolean_codec.round id_codec.round gen_codec.round
  i64_codec.round instant_codec.round duration_codec.round str_codec.round bytes_codec.round
  quant_codec.round

lemma sound_reader_quant [reader_intros]: "sound_reader rd_quant"
  by (rule quant_codec.prefix)

section \<open>Optional values and vectors\<close>

context codec
begin

lemma opt_round: "pred_option ok v \<Longrightarrow> rd_optVal dec (w_optVal enc v @ rest) = Inr (v, rest)"
  by (cases v) (simp_all add: w_optVal_def rd_optVal_def round)

lemma optional: "codec (w_optVal enc) (rd_optVal dec) (pred_option ok)"
  by unfold_locales (simp_all add: opt_round reader_intros prefix)

lemma times_round:
  "list_all ok xs \<Longrightarrow> rd_times (length xs) dec (w_each enc xs @ rest) = Inr (xs, rest)"
  by (induction xs) (simp_all add: w_each_def round)

end

section \<open>Words and their bytes\<close>

lemma w_u32_surj:
  assumes "length bs = 4"
  obtains w where "bs = w_u32 w"
proof -
  define w :: u32 where "w = fold (\<lambda>i v. v OR push_bit (8 * i) (ucast (bs ! i))) [0..<4] 0"
  have byte: "ucast (drop_bit (8 * i) w) = bs ! i" if "i < 4" for i
  proof (rule bit_word_eqI)
    fix j assume "j < LENGTH(8)"
    with that have "8 * i + j < 32" "(8 * i + j) div 8 = i" "(8 * i + j) mod 8 = j" by auto
    with \<open>j < LENGTH(8)\<close> show "bit (ucast (drop_bit (8 * i) w) :: u8) j = bit (bs ! i) j"
      by (simp add: w_def bit_ucast_iff bit_drop_bit_eq bit_assembled)
  qed
  have "w_u32 w = map (\<lambda>i. bs ! i) [0..<4]"
    unfolding w_u32_def by (rule map_cong) (use byte in auto)
  also have "\<dots> = bs" using map_nth [of bs] assms by simp
  finally have "bs = w_u32 w" by (rule sym)
  then show ?thesis by (rule that)
qed

lemma w_u32_inj: "w_u32 v = w_u32 w \<longleftrightarrow> v = w"
  using u32_codec.enc_inj [of v w] by auto

lemma length_w_u32 [simp]: "length (w_u32 w) = 4"
  by (simp add: w_u32_def)

lemma length_w_u8 [simp]: "length (w_u8 b) = 1"
  by (simp add: w_u8_def)

lemma length_w_u64 [simp]: "length (w_u64 w) = 8"
  by (simp add: w_u64_def)

text \<open>A changed byte of a word is another word.\<close>

lemma update_u32:
  assumes "n < 4" "b \<noteq> w_u32 w ! n"
  obtains w' where "(w_u32 w)[n := b] = w_u32 w'" "w' \<noteq> w"
proof -
  obtain w' where w': "(w_u32 w)[n := b] = w_u32 w'" using w_u32_surj [of "(w_u32 w)[n := b]"] by auto
  have "(w_u32 w)[n := b] ! n = b" using assms(1) by simp
  with w' assms(2) have "w' \<noteq> w" by metis
  with w' show ?thesis by (rule that)
qed

end
