(* ===== verification/RF_Persist.thy ===== *)
theory RF_Persist
  imports RF_Codec RF_Registry RF_Publish
begin

text \<open>
  \<^verbatim>\<open>src/runtime_persist.cpp\<close>: the persisted form of the runtime and its recovery. The
  file system is outside the model: \<open>rf_save\<close> is told whether the file could be opened and
  written, and \<open>rf_load\<close> is given the bytes of the file, if it could be opened.
\<close>

definition kMagic :: u32 where
  "kMagic = 0x52464142"

definition kVersion :: u8 where
  "kVersion = 1"

definition kMaxCollection :: u32 where
  "kMaxCollection = 0x1000000"

section \<open>Optional members\<close>

text \<open>
  \<open>serOptId\<close> and \<open>desOptId\<close> are the templates \<^verbatim>\<open>serOptGen\<close> and \<^verbatim>\<open>desOptGen\<close> at an identity. The
  readers take only the byte 1 for a present value.
\<close>

definition serOptInstant :: "Instant option \<Rightarrow> u8 list" where
  "serOptInstant v = (case v of Some t \<Rightarrow> w_u8 1 @ w_instant t | None \<Rightarrow> w_u8 0)"

definition desOptInstant :: "Instant option reader" where
  "desOptInstant =
     rd_bind rd_u8 (\<lambda>b. if b = 1 then rd_map Some rd_instant else rd_return None)"

definition serOptGen :: "'tag StrongGeneration option \<Rightarrow> u8 list" where
  "serOptGen v = (case v of Some g \<Rightarrow> w_u8 1 @ w_gen g | None \<Rightarrow> w_u8 0)"

definition desOptGen :: "'tag StrongGeneration option reader" where
  "desOptGen = rd_bind rd_u8 (\<lambda>b. if b = 1 then rd_map Some rd_gen else rd_return None)"

definition serOptId :: "'tag StrongId option \<Rightarrow> u8 list" where
  "serOptId v = (case v of Some i \<Rightarrow> w_u8 1 @ w_id i | None \<Rightarrow> w_u8 0)"

definition desOptId :: "'tag StrongId option reader" where
  "desOptId = rd_bind rd_u8 (\<lambda>b. if b = 1 then rd_map Some rd_id else rd_return None)"

text \<open>Declared in the file and never called.\<close>

definition validLifecycle :: "u8 \<Rightarrow> bool" where
  "validLifecycle v \<longleftrightarrow> v \<ge> 1 \<and> v \<le> Lifecycle_byte Lifecycle_Retired"

definition validStrength :: "u8 \<Rightarrow> bool" where
  "validStrength v \<longleftrightarrow> v \<ge> 1 \<and> v \<le> ReservationStrength_byte Strength_Unknown"

definition validHoldState :: "u8 \<Rightarrow> bool" where
  "validHoldState v \<longleftrightarrow> v \<ge> 1 \<and> v \<le> HoldState_byte Hold_Committed"

definition validSetTx :: "u8 \<Rightarrow> bool" where
  "validSetTx v \<longleftrightarrow> v \<ge> 1 \<and> v \<le> SetTransactionState_byte Tx_Persisted"

definition validResourceClass :: "u8 \<Rightarrow> bool" where
  "validResourceClass v \<longleftrightarrow> v \<ge> 1 \<and> v \<le> ResourceClass_byte ResourceClass_Unknown"

definition validUnit :: "u8 \<Rightarrow> bool" where
  "validUnit v \<longleftrightarrow> v \<ge> 1 \<and> v \<le> Unit_byte Unit_Hertz"

section \<open>Members that are written in a group\<close>

definition ser_window :: "Interval \<Rightarrow> u8 list" where
  "ser_window w = w_instant (iv_start w) @ w_instant (iv_end w)"

definition des_window :: "Interval reader" where
  "des_window =
     rd_bind rd_instant (\<lambda>s. rd_bind rd_instant (\<lambda>e. rd_outcome (mk_Interval s e)))"

definition w_i32 :: "i32 \<Rightarrow> u8 list" where
  "w_i32 v = w_i64 (sint v)"

definition rd_i32 :: "i32 reader" where
  "rd_i32 = rd_map word_of_int rd_i64"

definition ser_capability :: "CapabilityConstraint \<Rightarrow> u8 list" where
  "ser_capability c =
     w_u32 (cc_requiredCapabilityId c) @ w_boolean (cc_capacityRequiresCapability c)"

definition des_capability :: "CapabilityConstraint reader" where
  "des_capability =
     rd_bind rd_u32 (\<lambda>i. rd_bind rd_boolean (\<lambda>b.
       rd_return \<lparr>cc_requiredCapabilityId = i, cc_capacityRequiresCapability = b\<rparr>))"

definition ser_locality :: "LocalityConstraint \<Rightarrow> u8 list" where
  "ser_locality l =
     w_id (lc_preferredPool l) @ w_id (lc_placement l) @
     w_enu ResourceClass_byte (lc_preferredClass l) @ w_i32 (lc_localityWeight l)"

definition des_locality :: "LocalityConstraint reader" where
  "des_locality =
     rd_bind rd_id (\<lambda>p. rd_bind rd_id (\<lambda>pl. rd_bind (rd_enu ResourceClass_of_byte) (\<lambda>c.
     rd_bind rd_i32 (\<lambda>w.
       rd_return \<lparr>lc_preferredPool = p, lc_placement = pl, lc_preferredClass = c,
                  lc_localityWeight = w\<rparr>))))"

definition ser_topology :: "TopologyConstraint \<Rightarrow> u8 list" where
  "ser_topology t = w_u8 (tc_topologyDomain t) @ w_boolean (tc_requireLocalPlacement t)"

definition des_topology :: "TopologyConstraint reader" where
  "des_topology =
     rd_bind rd_u8 (\<lambda>d. rd_bind rd_boolean (\<lambda>b.
       rd_return \<lparr>tc_topologyDomain = d, tc_requireLocalPlacement = b\<rparr>))"

definition ser_compatibility :: "CompatibilityConstraint \<Rightarrow> u8 list" where
  "ser_compatibility c = w_boolean (kc_requireSameDriverGeneration c)"

definition des_compatibility :: "CompatibilityConstraint reader" where
  "des_compatibility = rd_map (\<lambda>b. \<lparr>kc_requireSameDriverGeneration = b\<rparr>) rd_boolean"

text \<open>\<^verbatim>\<open>n = r.u32(); if (n > kMaxCollection) throw_error(...)\<close>\<close>

definition rd_count :: "string \<Rightarrow> nat reader" where
  "rd_count what =
     rd_bind rd_u32 (\<lambda>n.
       if n > kMaxCollection then rd_outcome (throw_error CorruptData what)
       else rd_return (unat n))"

definition w_count :: "'a list \<Rightarrow> u8 list" where
  "w_count xs = w_u32 (word_of_nat (length xs))"

definition ser_members :: "ReservationId list \<Rightarrow> u8 list" where
  "ser_members ms = w_count ms @ w_each w_id ms"

definition des_members :: "ReservationId list reader" where
  "des_members = rd_bind (rd_count ''set member count exceeds bound'') (\<lambda>n. rd_times n rd_id)"

section \<open>Resources\<close>

definition serResource :: "Resource \<Rightarrow> CapacityEnvelope \<Rightarrow> u8 list" where
  "serResource res env =
     w_id (res_id res) @ w_gen (res_generation res) @
     w_enu ResourceClass_byte (res_class res) @ w_enu Unit_byte (res_unit res) @
     w_quant (res_totalCapacity res) @ w_id (res_pool res) @ w_gen (res_poolGeneration res) @
     w_id (res_owner res) @ w_gen (res_ownerBoot res) @ w_gen (res_capabilities res) @
     w_gen (res_topology res) @ w_id (res_contract res) @ w_gen (res_contractGeneration res) @
     w_boolean (res_available res) @
     w_instant (env_origin env) @ w_duration (env_horizon env) @
     w_u64 (word_of_int (basisPoints (env_ratio env)))"

definition desResource :: "(Resource \<times> Instant \<times> Duration \<times> int) reader" where
  "desResource =
     rd_bind rd_id (\<lambda>i. rd_bind rd_gen (\<lambda>g.
     rd_bind (rd_enu ResourceClass_of_byte) (\<lambda>c. rd_bind (rd_enu Unit_of_byte) (\<lambda>u.
     rd_bind rd_quant (\<lambda>q. rd_bind rd_id (\<lambda>p. rd_bind rd_gen (\<lambda>pg.
     rd_bind rd_id (\<lambda>ow. rd_bind rd_gen (\<lambda>ob. rd_bind rd_gen (\<lambda>cg.
     rd_bind rd_gen (\<lambda>tg. rd_bind rd_id (\<lambda>ct. rd_bind rd_gen (\<lambda>ctg.
     rd_bind rd_boolean (\<lambda>av.
     rd_bind rd_instant (\<lambda>origin. rd_bind rd_duration (\<lambda>horizon.
     rd_bind (rd_map sint rd_u64) (\<lambda>ratioBp.
       rd_return
         (\<lparr>res_id = i, res_generation = g, res_class = c, res_unit = u, res_totalCapacity = q,
           res_pool = p, res_poolGeneration = pg, res_owner = ow, res_ownerBoot = ob,
           res_capabilities = cg, res_topology = tg, res_contract = ct,
           res_contractGeneration = ctg, res_available = av\<rparr>,
          origin, horizon, ratioBp))))))))))))))))))"

section \<open>Reservations, holds and sets\<close>

definition serReservation :: "Reservation \<Rightarrow> u8 list" where
  "serReservation r =
     w_id (rv_id r) @
     w_gen (rv_generation r) @
     w_id (rv_setId r) @
     w_id (rv_groupId r) @
     w_enu ReservationStrength_byte (rv_strength r) @
     w_enu ResourceClass_byte (rv_class r) @
     w_enu Unit_byte (rv_unit r) @
     w_id (rv_resource r) @
     serOptGen (rv_boundResourceGeneration r) @
     w_quant (rv_quantity r) @
     w_quant (rv_activated r) @
     w_quant (rv_consumed r) @
     ser_window (rv_window r) @
     w_enu ActivationMode_byte (rv_activationMode r) @
     w_enu Lifecycle_byte (rv_lifecycle r) @
     w_id (rv_owner r) @
     w_gen (rv_ownerGeneration r) @
     serOptId (rv_workload r) @
     serOptGen (rv_workloadGeneration r) @
     serOptId (rv_execution r) @
     serOptGen (rv_executionGeneration r) @
     ser_capability (rv_capability r) @
     ser_locality (rv_locality r) @
     ser_topology (rv_topology r) @
     ser_compatibility (rv_compatibility r) @
     w_gen (rv_policyGeneration r) @
     w_gen (rv_priorityGeneration r) @
     w_i32 (rv_priorityClass r) @
     w_boolean (rv_preemptible r) @
     w_enu ExclusivityMode_byte (rv_exclusivity r) @
     w_enu Elasticity_byte (rv_elasticity r) @
     w_enu RenewalPermission_byte (rv_renewal r) @
     w_enu TransferPermission_byte (rv_transfer r) @
     w_i32 (rv_fragmentationTolerance r) @
     w_boolean (rv_allOrNothing r) @
     w_str (rv_provenance r) @
     serOptGen (rv_activationGeneration r) @
     serOptGen (rv_consumptionGeneration r) @
     serOptGen (rv_releaseGeneration r) @
     serOptGen (rv_transferGeneration r) @
     serOptGen (rv_recoveryGeneration r) @
     w_boolean (rv_contributes r) @
     w_boolean (rv_persisted r) @
     serOptInstant (rv_activatedAt r) @
     serOptInstant (rv_releasedAt r)"

definition desReservation :: "Reservation reader" where
  "desReservation =
     rd_bind rd_id (\<lambda>i.
     rd_bind rd_gen (\<lambda>g.
     rd_bind rd_id (\<lambda>si.
     rd_bind rd_id (\<lambda>gi.
     rd_bind (rd_enu ReservationStrength_of_byte) (\<lambda>str.
     rd_bind (rd_enu ResourceClass_of_byte) (\<lambda>cls.
     rd_bind (rd_enu Unit_of_byte) (\<lambda>un.
     rd_bind rd_id (\<lambda>res.
     rd_bind desOptGen (\<lambda>brg.
     rd_bind rd_quant (\<lambda>q.
     rd_bind rd_quant (\<lambda>act.
     rd_bind rd_quant (\<lambda>con.
     rd_bind des_window (\<lambda>w.
     rd_bind (rd_enu ActivationMode_of_byte) (\<lambda>am.
     rd_bind (rd_enu Lifecycle_of_byte) (\<lambda>lc.
     rd_bind rd_id (\<lambda>ow.
     rd_bind rd_gen (\<lambda>og.
     rd_bind desOptId (\<lambda>wl.
     rd_bind desOptGen (\<lambda>wlg.
     rd_bind desOptId (\<lambda>ex.
     rd_bind desOptGen (\<lambda>exg.
     rd_bind des_capability (\<lambda>cap.
     rd_bind des_locality (\<lambda>loc.
     rd_bind des_topology (\<lambda>top.
     rd_bind des_compatibility (\<lambda>comp.
     rd_bind rd_gen (\<lambda>pg.
     rd_bind rd_gen (\<lambda>prg.
     rd_bind rd_i32 (\<lambda>pc.
     rd_bind rd_boolean (\<lambda>pre.
     rd_bind (rd_enu ExclusivityMode_of_byte) (\<lambda>exc.
     rd_bind (rd_enu Elasticity_of_byte) (\<lambda>ela.
     rd_bind (rd_enu RenewalPermission_of_byte) (\<lambda>ren.
     rd_bind (rd_enu TransferPermission_of_byte) (\<lambda>tra.
     rd_bind rd_i32 (\<lambda>fra.
     rd_bind rd_boolean (\<lambda>aon.
     rd_bind rd_str (\<lambda>prov.
     rd_bind desOptGen (\<lambda>acg.
     rd_bind desOptGen (\<lambda>cog.
     rd_bind desOptGen (\<lambda>reg.
     rd_bind desOptGen (\<lambda>trg.
     rd_bind desOptGen (\<lambda>rcg.
     rd_bind rd_boolean (\<lambda>ctr.
     rd_bind rd_boolean (\<lambda>per.
     rd_bind desOptInstant (\<lambda>aat.
     rd_bind desOptInstant (\<lambda>rat.
       rd_return
         \<lparr>rv_id = i, rv_generation = g, rv_setId = si, rv_groupId = gi,
          rv_strength = str, rv_class = cls, rv_unit = un, rv_resource = res,
          rv_boundResourceGeneration = brg, rv_quantity = q, rv_activated = act,
          rv_consumed = con, rv_window = w, rv_activationMode = am, rv_lifecycle = lc,
          rv_owner = ow, rv_ownerGeneration = og, rv_workload = wl,
          rv_workloadGeneration = wlg, rv_execution = ex, rv_executionGeneration = exg,
          rv_capability = cap, rv_locality = loc, rv_topology = top,
          rv_compatibility = comp, rv_policyGeneration = pg, rv_priorityGeneration = prg,
          rv_priorityClass = pc, rv_preemptible = pre, rv_exclusivity = exc,
          rv_elasticity = ela, rv_renewal = ren, rv_transfer = tra,
          rv_fragmentationTolerance = fra, rv_allOrNothing = aon, rv_provenance = prov,
          rv_activationGeneration = acg, rv_consumptionGeneration = cog,
          rv_releaseGeneration = reg, rv_transferGeneration = trg,
          rv_recoveryGeneration = rcg, rv_contributes = ctr, rv_persisted = per,
          rv_activatedAt = aat, rv_releasedAt = rat\<rparr>)))))))))))))))))))))))))))))))))))))))))))))"

definition ser_spec :: "HoldSpec \<Rightarrow> u8 list" where
  "ser_spec s =
     w_id (hs_holdId s) @
     w_gen (hs_holdGeneration s) @
     w_id (hs_owner s) @
     w_gen (hs_ownerGeneration s) @
     w_enu ResourceClass_byte (hs_class s) @
     w_enu Unit_byte (hs_unit s) @
     w_quant (hs_quantity s) @
     ser_window (hs_window s) @
     w_gen (hs_policyGeneration s) @
     w_boolean (hs_commitAuthority s) @
     w_str (hs_provenance s)"

definition des_spec :: "HoldSpec reader" where
  "des_spec =
     rd_bind rd_id (\<lambda>i.
     rd_bind rd_gen (\<lambda>g.
     rd_bind rd_id (\<lambda>ow.
     rd_bind rd_gen (\<lambda>og.
     rd_bind (rd_enu ResourceClass_of_byte) (\<lambda>cls.
     rd_bind (rd_enu Unit_of_byte) (\<lambda>un.
     rd_bind rd_quant (\<lambda>q.
     rd_bind des_window (\<lambda>w.
     rd_bind rd_gen (\<lambda>pg.
     rd_bind rd_boolean (\<lambda>ca.
     rd_bind rd_str (\<lambda>prov.
       rd_return
         \<lparr>hs_holdId = i, hs_holdGeneration = g, hs_owner = ow, hs_ownerGeneration = og,
          hs_class = cls, hs_unit = un, hs_quantity = q, hs_window = w,
          hs_policyGeneration = pg, hs_commitAuthority = ca, hs_provenance = prov\<rparr>)))))))))))"

definition serHold :: "Hold \<Rightarrow> u8 list" where
  "serHold h =
     ser_spec (hold_spec h) @
     w_enu HoldState_byte (hold_state h) @ w_id (hold_resource h) @ w_boolean (hold_applied h) @
     w_instant (hold_expiry h) @ w_boolean (hold_persisted h)"

text \<open>The activation mode of a hold is not in the file; a read hold has none.\<close>

definition desHold :: "Hold reader" where
  "desHold =
     rd_bind des_spec (\<lambda>spec.
     rd_bind (rd_enu HoldState_of_byte) (\<lambda>s. rd_bind rd_id (\<lambda>res. rd_bind rd_boolean (\<lambda>a.
     rd_bind rd_instant (\<lambda>ex. rd_bind rd_boolean (\<lambda>per.
       rd_return \<lparr>hold_spec = spec, hold_state = s, hold_resource = res, hold_applied = a,
                  hold_activationMode = None, hold_expiry = ex, hold_persisted = per\<rparr>))))))"

definition serSet :: "ReservationSet \<Rightarrow> u8 list" where
  "serSet s =
     w_id (set_id s) @
     w_gen (set_generation s) @
     w_id (set_groupId s) @
     w_id (set_owner s) @
     w_gen (set_ownerGeneration s) @
     w_boolean (set_allOrNothing s) @
     w_enu SetTransactionState_byte (set_tx s) @
     w_boolean (set_committed s) @
     w_boolean (set_rolledBack s) @
     w_boolean (set_persisted s) @
     ser_members (set_members s)"

definition desSet :: "ReservationSet reader" where
  "desSet =
     rd_bind rd_id (\<lambda>i.
     rd_bind rd_gen (\<lambda>g.
     rd_bind rd_id (\<lambda>gi.
     rd_bind rd_id (\<lambda>ow.
     rd_bind rd_gen (\<lambda>og.
     rd_bind rd_boolean (\<lambda>aon.
     rd_bind (rd_enu SetTransactionState_of_byte) (\<lambda>tx.
     rd_bind rd_boolean (\<lambda>com.
     rd_bind rd_boolean (\<lambda>rb.
     rd_bind rd_boolean (\<lambda>per.
     rd_bind des_members (\<lambda>ms.
       rd_return
         \<lparr>set_id = i, set_generation = g, set_groupId = gi, set_owner = ow,
          set_ownerGeneration = og, set_allOrNothing = aon, set_tx = tx,
          set_committed = com, set_rolledBack = rb, set_persisted = per, set_members = ms\<rparr>)))))))))))"

section \<open>Recovery\<close>

text \<open>The bodies of the two loops of \<^verbatim>\<open>reapplyAfterLoad\<close>.\<close>

definition reapply_reservation :: "Reservation \<Rightarrow> envelopes \<Rightarrow> Reservation \<times> envelopes" where
  "reapply_reservation r es =
     (case map_of es (rv_resource r) of
        None \<Rightarrow> (r, es)
      | Some e \<Rightarrow>
          let (r1, es1) =
                (if lifecycle_holds_capacity (rv_lifecycle r)
                 then (r\<lparr>rv_contributes := True\<rparr>,
                       AList.update (rv_resource r)
                         (if isHard (rv_strength r)
                          then env_addCommittedHard (rv_window r) (q_value (rv_quantity r)) e
                          else env_addCommittedSoft (rv_window r) (q_value (rv_quantity r)) e) es)
                 else (r\<lparr>rv_contributes := False\<rparr>, es))
          in (if rv_lifecycle r1 = Lifecycle_Active \<or> rv_lifecycle r1 = Lifecycle_PartiallyConsumed \<or>
                 rv_lifecycle r1 = Lifecycle_Consumed
              then r1\<lparr>rv_lifecycle := Lifecycle_RevalidationRequired\<rparr> else r1,
              es1))"

definition reapply_hold :: "Hold \<Rightarrow> envelopes \<Rightarrow> Hold \<times> envelopes" where
  "reapply_hold h es =
     (case map_of es (hold_resource h) of
        Some e \<Rightarrow>
          if hold_applied h \<and> hold_state h = Hold_Acquired
          then (h, AList.update (hold_resource h)
                     (env_addHeld (hs_window (hold_spec h)) (q_value (hs_quantity (hold_spec h))) e) es)
          else (h, es)
      | None \<Rightarrow> (h, es))"

definition reapplyAfterLoad :: "Impl \<Rightarrow> Impl" where
  "reapplyAfterLoad d =
     (let (rs, es1) = for_each reapply_reservation (st_reservations d) (st_envelopes d);
          (hs, es2) = for_each reapply_hold (st_holds d) es1
      in d\<lparr>st_reservations := rs, st_holds := hs, st_envelopes := es2\<rparr>)"

section \<open>Saving\<close>

definition save_resource :: "Impl \<Rightarrow> ResourceId \<times> Resource \<Rightarrow> u8 list" where
  "save_resource st = (\<lambda>(i, res).
     serResource res
       (case envelopeLocked i (st_envelopes st) of
          Some e \<Rightarrow> e
        | None \<Rightarrow> mk_CapacityEnvelope (res_unit res) (res_totalCapacity res) Ratio_one))"

definition save_history :: "ReservationId \<times> Reservation list \<Rightarrow> u8 list" where
  "save_history = (\<lambda>(i, hist). w_id i @ w_count hist @ w_each serReservation hist)"

definition save_payload :: "Impl \<Rightarrow> u8 list" where
  "save_payload st =
     w_u64 (gen_value (st_epoch st)) @ w_u64 (gen_value (st_authority st)) @
     w_u64 (st_nextReservationId st) @ w_u64 (st_nextHoldId st) @ w_u64 (st_nextSetId st) @
     w_count (st_resources st) @ w_each (save_resource st) (st_resources st) @
     w_count (st_workerBoots st) @ w_each (\<lambda>(i, b). w_id i @ w_gen b) (st_workerBoots st) @
     w_count (st_requests st) @ w_each (\<lambda>(i, r). w_id i @ w_id r) (st_requests st) @
     w_count (st_reservations st) @ w_each (\<lambda>(i, r). serReservation r) (st_reservations st) @
     w_count (st_currentGen st) @ w_each (\<lambda>(i, g). w_id i @ w_gen g) (st_currentGen st) @
     w_count (st_history st) @ w_each save_history (st_history st) @
     w_count (st_holds st) @ w_each (\<lambda>(i, h). serHold h) (st_holds st) @
     w_count (st_sets st) @ w_each (\<lambda>(i, s). serSet s) (st_sets st)"

definition save_file :: "Impl \<Rightarrow> u8 list" where
  "save_file st =
     (let b = save_payload st; crc = crc32 b crc_seed
      in w_u32 kMagic @ w_u8 kVersion @ w_u32 (word_of_nat (length b)) @ w_u32 crc @ b)"

definition rf_save :: "bool \<Rightarrow> bool \<Rightarrow> Impl \<Rightarrow> u8 list outcome" where
  "rf_save opened written st =
     (if \<not> opened then throw_error PersistenceFailed ''cannot open file for write''
      else if \<not> written then throw_error PersistenceFailed ''write failed''
      else Inr (save_file st))"

section \<open>Loading\<close>

text \<open>One turn of the loop over the resources: the entry and its fresh envelope.\<close>

definition load_resource :: "(Resource \<times> CapacityEnvelope) reader" where
  "load_resource =
     rd_bind desResource (\<lambda>(res, origin, horizon, ratioBp).
       rd_outcome
         (bind_outcome
            (env_init origin horizon (res_totalCapacity res) (Ratio ratioBp)
               (mk_CapacityEnvelope (res_unit res) (res_totalCapacity res) (Ratio ratioBp)))
            (\<lambda>(ok, env).
               if \<not> ok then throw_error CorruptData ''envelope init failed''
               else Inr (res, env))))"

definition rd_pair :: "'a reader \<Rightarrow> 'b reader \<Rightarrow> ('a \<times> 'b) reader" where
  "rd_pair m m' = rd_bind m (\<lambda>a. rd_map (Pair a) m')"

definition load_history :: "(ReservationId \<times> Reservation list) reader" where
  "load_history =
     rd_pair rd_id
       (rd_bind (rd_count ''history size exceeds bound'') (\<lambda>cnt. rd_times cnt desReservation))"

text \<open>\<^verbatim>\<open>history[id].push_back(...)\<close> for every version that follows the identity.\<close>

definition push_versions ::
    "ReservationId \<times> Reservation list \<Rightarrow> (ReservationId \<times> Reservation list) list \<Rightarrow>
     (ReservationId \<times> Reservation list) list" where
  "push_versions = (\<lambda>(i, vs) m.
     fold (\<lambda>v m. AList.update i ((case map_of m i of None \<Rightarrow> [] | Some h \<Rightarrow> h) @ [v]) m) vs m)"

definition rd_section :: "string \<Rightarrow> 'a reader \<Rightarrow> 'a list reader" where
  "rd_section what m = rd_bind (rd_count what) (\<lambda>n. rd_times n m)"

text \<open>The maps are filled by \<^verbatim>\<open>m[key] = value\<close>.\<close>

definition fill :: "('a \<Rightarrow> 'k) \<Rightarrow> ('a \<Rightarrow> 'v) \<Rightarrow> 'a list \<Rightarrow> ('k \<times> 'v) list" where
  "fill key val xs = fold (\<lambda>x. AList.update (key x) (val x)) xs []"

definition load_payload :: "Impl reader" where
  "load_payload =
     rd_bind (rd_map StrongGeneration rd_u64) (\<lambda>ep.
     rd_bind (rd_map StrongGeneration rd_u64) (\<lambda>au.
     rd_bind rd_u64 (\<lambda>nr. rd_bind rd_u64 (\<lambda>nh. rd_bind rd_u64 (\<lambda>ns.
     rd_bind (rd_section ''resource count exceeds bound'' load_resource) (\<lambda>ress.
     rd_bind (rd_section ''boot count exceeds bound'' (rd_pair rd_id rd_gen)) (\<lambda>boots.
     rd_bind (rd_section ''request map exceeds bound'' (rd_pair rd_id rd_id)) (\<lambda>reqs.
     rd_bind (rd_section ''reservation count exceeds bound'' desReservation) (\<lambda>rvs.
     rd_bind (rd_section ''currentGen count exceeds bound'' (rd_pair rd_id rd_gen)) (\<lambda>cur.
     rd_bind (rd_section ''history count exceeds bound'' load_history) (\<lambda>hist.
     rd_bind (rd_section ''hold count exceeds bound'' desHold) (\<lambda>holds.
     rd_bind (rd_section ''set count exceeds bound'' desSet) (\<lambda>sets.
       rd_return ((mk_Impl RuntimeConfig_default)
         \<lparr>st_epoch := ep, st_authority := au, st_nextReservationId := nr, st_nextHoldId := nh,
          st_nextSetId := ns,
          st_resources := fill (res_id \<circ> fst) fst ress,
          st_envelopes := fill (res_id \<circ> fst) snd ress,
          st_workerBoots := fill fst snd boots, st_requests := fill fst snd reqs,
          st_reservations := fill rv_id id rvs, st_currentGen := fill fst snd cur,
          st_history := fold push_versions hist [],
          st_holds := fill (hs_holdId \<circ> hold_spec) id holds,
          st_sets := fill set_id id sets\<rparr>))))))))))))))"

definition rf_load :: "u8 list option \<Rightarrow> Impl outcome" where
  "rf_load file =
     (case file of
        None \<Rightarrow> throw_error PersistenceFailed ''cannot open file for read''
      | Some bytes \<Rightarrow>
          if length bytes < 13 then throw_error CorruptData ''persisted file too small''
          else
            map_sum id fst
              ((rd_bind rd_u32 (\<lambda>magic.
                if magic \<noteq> kMagic then rd_outcome (throw_error CorruptData ''bad magic'')
                else rd_bind rd_u8 (\<lambda>version.
                if version \<noteq> kVersion
                then rd_outcome (throw_error CorruptData ''unsupported version'')
                else rd_bind rd_u32 (\<lambda>len. rd_bind rd_u32 (\<lambda>crc. \<lambda>payload.
                if unat len \<noteq> length payload \<or> length payload < 3
                then (if unat len > length payload
                      then throw_error CorruptData ''truncated payload''
                      else throw_error CorruptData ''trailing garbage'')
                else if crc32 payload crc_seed \<noteq> crc
                then throw_error CorruptData ''checksum mismatch''
                else bind_outcome (load_payload payload) (\<lambda>(d, rest).
                  if rest \<noteq> [] then throw_error CorruptData ''unparsed trailing data''
                  else Inr (reapplyAfterLoad d, [])))))))
               bytes))"

end
