(* ===== verification/RF_Persist_Codec.thy ===== *)
theory RF_Persist_Codec
  imports RF_Persist
begin

text \<open>
  The persisted records satisfy the codec contract: what is written for a resource, a reservation, a
  hold or a set is read back as it was, as long as its members are in the range of their
  fields. \<open>storable\<close> predicates say so member by member.
\<close>

section \<open>Ranges\<close>

definition window_ok :: "Interval \<Rightarrow> bool" where
  "window_ok w \<longleftrightarrow> instant_ok (iv_start w) \<and> instant_ok (iv_end w) \<and> iv_start w < iv_end w"

definition locality_ok :: "LocalityConstraint \<Rightarrow> bool" where
  "locality_ok l \<longleftrightarrow> resource_class.canonical (lc_preferredClass l)"

definition members_ok :: "'a list \<Rightarrow> bool" where
  "members_ok ms \<longleftrightarrow> length ms \<le> 2 ^ 24"

definition reservation_storable :: "Reservation \<Rightarrow> bool" where
  "reservation_storable r \<longleftrightarrow>
     strength.canonical (rv_strength r) \<and>
     resource_class.canonical (rv_class r) \<and>
     unit.canonical (rv_unit r) \<and>
     quantity_ok (rv_quantity r) \<and>
     quantity_ok (rv_activated r) \<and>
     quantity_ok (rv_consumed r) \<and>
     window_ok (rv_window r) \<and>
     activation_mode.canonical (rv_activationMode r) \<and>
     lifecycle.canonical (rv_lifecycle r) \<and>
     locality_ok (rv_locality r) \<and>
     exclusivity.canonical (rv_exclusivity r) \<and>
     elasticity.canonical (rv_elasticity r) \<and>
     renewal.canonical (rv_renewal r) \<and>
     transfer.canonical (rv_transfer r) \<and>
     string_ok (rv_provenance r) \<and>
     pred_option instant_ok (rv_activatedAt r) \<and>
     pred_option instant_ok (rv_releasedAt r)"

definition spec_storable :: "HoldSpec \<Rightarrow> bool" where
  "spec_storable s \<longleftrightarrow>
     resource_class.canonical (hs_class s) \<and>
     unit.canonical (hs_unit s) \<and>
     quantity_ok (hs_quantity s) \<and>
     window_ok (hs_window s) \<and>
     string_ok (hs_provenance s)"

definition set_storable :: "ReservationSet \<Rightarrow> bool" where
  "set_storable s \<longleftrightarrow>
     transaction.canonical (set_tx s) \<and>
     members_ok (set_members s)"

definition resource_storable :: "Resource \<Rightarrow> bool" where
  "resource_storable r \<longleftrightarrow> resource_class.canonical (res_class r) \<and>
     unit.canonical (res_unit r) \<and> quantity_ok (res_totalCapacity r)"

definition hold_storable :: "Hold \<Rightarrow> bool" where
  "hold_storable h \<longleftrightarrow> spec_storable (hold_spec h) \<and> hold_state_enum.canonical (hold_state h) \<and>
     instant_ok (hold_expiry h) \<and> hold_activationMode h = None"

section \<open>Groups of members\<close>

lemma serOpt_rounds [codec_simps]:
  "desOptGen (serOptGen g @ rest) = Inr (g, rest)"
  "desOptId (serOptId i @ rest) = Inr (i, rest)"
  "pred_option instant_ok t \<Longrightarrow> desOptInstant (serOptInstant t @ rest) = Inr (t, rest)"
proof -
  show "desOptGen (serOptGen g @ rest) = Inr (g, rest)"
    by (cases g) (simp_all add: desOptGen_def serOptGen_def codec_simps)
  show "desOptId (serOptId i @ rest) = Inr (i, rest)"
    by (cases i) (simp_all add: desOptId_def serOptId_def codec_simps)
  show "pred_option instant_ok t \<Longrightarrow> desOptInstant (serOptInstant t @ rest) = Inr (t, rest)"
    by (cases t) (simp_all add: desOptInstant_def serOptInstant_def codec_simps)
qed

lemma w_i32_round [codec_simps]: "rd_i32 (w_i32 v @ rest) = Inr (v, rest)"
proof -
  have "in_i64 (sint v)"
    using sint_ge [of v] sint_lt [of v] by (simp add: i64_defs)
  then show ?thesis by (simp add: rd_i32_def w_i32_def codec_simps)
qed

lemma sound_reader_groups [reader_intros]:
  "sound_reader desOptGen" "sound_reader desOptId" "sound_reader desOptInstant"
  "sound_reader rd_i32" "sound_reader (rd_count what)"
  by (auto simp: desOptGen_def desOptId_def desOptInstant_def rd_i32_def rd_count_def
      intro!: reader_intros)

interpretation window_codec: codec ser_window des_window window_ok
  by unfold_locales
     (auto simp: ser_window_def des_window_def window_ok_def codec_simps mk_Interval_def
        intro!: reader_intros)

interpretation capability_codec: codec ser_capability des_capability "\<lambda>_. True"
  by unfold_locales
     (auto simp: ser_capability_def des_capability_def codec_simps intro!: reader_intros)

interpretation locality_codec: codec ser_locality des_locality locality_ok
  by unfold_locales
     (auto simp: ser_locality_def des_locality_def locality_ok_def codec_simps
        intro!: reader_intros)

interpretation topology_codec: codec ser_topology des_topology "\<lambda>_. True"
  by unfold_locales
     (auto simp: ser_topology_def des_topology_def codec_simps intro!: reader_intros)

interpretation compatibility_codec: codec ser_compatibility des_compatibility "\<lambda>_. True"
  by unfold_locales
     (auto simp: ser_compatibility_def des_compatibility_def codec_simps intro!: reader_intros)

lemma count_round [codec_simps]:
  assumes "length xs \<le> 2 ^ 24"
  shows "rd_count what (w_count xs @ rest) = Inr (length xs, rest)"
proof -
  have "\<not> (word_of_nat (length xs) :: u32) > kMaxCollection"
    using assms by (simp add: kMaxCollection_def not_less word_le_nat_alt unat_of_nat)
  with assms show ?thesis by (simp add: rd_count_def w_count_def codec_simps)
qed

interpretation members_codec: codec ser_members des_members members_ok
  by unfold_locales
     (auto simp: ser_members_def des_members_def members_ok_def codec_simps id_codec.times_round
        list_all_iff intro!: reader_intros)

lemmas group_rounds [codec_simps] = window_codec.round capability_codec.round
  locality_codec.round topology_codec.round compatibility_codec.round members_codec.round

lemmas group_prefixes [reader_intros] = window_codec.prefix capability_codec.prefix
  locality_codec.prefix topology_codec.prefix compatibility_codec.prefix members_codec.prefix

section \<open>Records\<close>

interpretation reservation_codec: codec serReservation desReservation reservation_storable
proof
  fix r rest assume "reservation_storable r"
  then show "desReservation (serReservation r @ rest) = Inr (r, rest)"
    by (simp add: serReservation_def desReservation_def reservation_storable_def codec_simps)
next
  show "sound_reader desReservation" unfolding desReservation_def by (intro reader_intros)
qed

interpretation spec_codec: codec ser_spec des_spec spec_storable
proof
  fix s rest assume "spec_storable s"
  then show "des_spec (ser_spec s @ rest) = Inr (s, rest)"
    by (simp add: ser_spec_def des_spec_def spec_storable_def codec_simps)
next
  show "sound_reader des_spec" unfolding des_spec_def by (intro reader_intros)
qed

interpretation hold_codec: codec serHold desHold hold_storable
proof
  fix h rest assume "hold_storable h"
  then show "desHold (serHold h @ rest) = Inr (h, rest)"
    by (simp add: serHold_def desHold_def hold_storable_def codec_simps spec_codec.round)
next
  show "sound_reader desHold" unfolding desHold_def by (intro reader_intros spec_codec.prefix)
qed

interpretation set_codec: codec serSet desSet set_storable
proof
  fix s rest assume "set_storable s"
  then show "desSet (serSet s @ rest) = Inr (s, rest)"
    by (simp add: serSet_def desSet_def set_storable_def codec_simps)
next
  show "sound_reader desSet" unfolding desSet_def by (intro reader_intros)
qed

end
