(* ===== verification/RF_Recovery.thy ===== *)
theory RF_Recovery
  imports RF_Persist_Codec RF_Invariant
begin

text \<open>
  Loading a saved file. \<open>restored\<close> is the state the file stands for, with a fresh line for every
  resource; \<^verbatim>\<open>reapplyAfterLoad\<close> then puts the loads back. The first part proves that loading
  computes exactly this, the second that the rebuilt lines mirror the registry again.
\<close>

section \<open>Filling the maps\<close>

lemma update_fresh: "k \<notin> fst ` set xs \<Longrightarrow> AList.update k v xs = xs @ [(k, v)]"
  by (induction xs) auto

lemma fold_update_fresh:
  "distinct (map key xs) \<Longrightarrow> (\<forall>x\<in>set xs. key x \<notin> fst ` set m) \<Longrightarrow>
   fold (\<lambda>x. AList.update (key x) (val x)) xs m = m @ map (\<lambda>x. (key x, val x)) xs"
proof (induction xs arbitrary: m)
  case (Cons x xs)
  have "key y \<notin> fst ` set (m @ [(key x, val x)])" if "y \<in> set xs" for y
  proof -
    have "key x \<notin> key ` set xs" using Cons.prems(1) by simp
    with that have "key y \<noteq> key x" by (metis imageI)
    with that Cons.prems(2) show ?thesis by simp
  qed
  then have "fold (\<lambda>x. AList.update (key x) (val x)) xs (m @ [(key x, val x)]) =
      (m @ [(key x, val x)]) @ map (\<lambda>x. (key x, val x)) xs"
    using Cons.prems(1) by (intro Cons.IH) simp_all
  with Cons.prems show ?case by (simp add: update_fresh)
qed simp

lemma fill_distinct: "distinct (map key xs) \<Longrightarrow> fill key val xs = map (\<lambda>x. (key x, val x)) xs"
  by (simp add: fill_def fold_update_fresh)

lemma fill_pairs: "keys_distinct xs \<Longrightarrow> fill fst snd xs = xs"
  using fill_distinct [of fst xs snd] by simp

lemma fill_keyed:
  assumes "keys_distinct xs" "\<forall>(k, v)\<in>set xs. key v = k"
  shows "fill key id (map snd xs) = xs"
proof -
  have "map key (map snd xs) = map fst xs" using assms(2) by (auto intro: map_cong)
  with assms(1) have "fill key id (map snd xs) = map (\<lambda>v. (key v, id v)) (map snd xs)"
    by (intro fill_distinct) (simp only:)
  also have "\<dots> = xs"
    using assms(2) by (auto simp: o_def case_prod_beta intro!: map_idI)
  finally show ?thesis .
qed

lemma push_versions_fresh:
  "i \<notin> fst ` set m \<Longrightarrow> vs \<noteq> [] \<Longrightarrow> push_versions (i, vs) m = m @ [(i, vs)]"
proof -
  let ?push = "\<lambda>v m. AList.update i ((case map_of m i of None \<Rightarrow> [] | Some h \<Rightarrow> h) @ [v]) m"
  assume i: "i \<notin> fst ` set m" and "vs \<noteq> []"
  have grow: "fold ?push ws (m @ [(i, h)]) = m @ [(i, h @ ws)]" for ws h
  proof (induction ws arbitrary: h)
    case (Cons w ws)
    have "map_of (m @ [(i, h)]) i = Some h"
      using i by (simp add: map_add_def map_of_eq_None_iff [THEN iffD2])
    moreover have "AList.update i (h @ [w]) (m @ [(i, h)]) = m @ [(i, h @ [w])]"
      using i by (induction m) auto
    ultimately show ?case using Cons.IH [of "h @ [w]"] by simp
  qed simp
  obtain v ws where vs: "vs = v # ws" using \<open>vs \<noteq> []\<close> by (cases vs) auto
  have "?push v m = m @ [(i, [v])]"
    using i by (simp add: update_fresh map_of_eq_None_iff [THEN iffD2])
  then show ?thesis using grow [of ws "[v]"] by (simp add: push_versions_def vs)
qed

lemma fold_push_versions:
  "keys_distinct xs \<Longrightarrow> (\<forall>(i, vs)\<in>set xs. vs \<noteq> []) \<Longrightarrow> (\<forall>x\<in>set xs. fst x \<notin> fst ` set m) \<Longrightarrow>
   fold push_versions xs m = m @ xs"
proof (induction xs arbitrary: m)
  case (Cons x xs)
  obtain i vs where x: "x = (i, vs)" by fastforce
  have "fst y \<notin> fst ` set (m @ [x])" if "y \<in> set xs" for y
  proof -
    have "fst x \<notin> fst ` set xs" using Cons.prems(1) by simp
    with that have "fst y \<noteq> fst x" by (metis imageI)
    with that Cons.prems(3) show ?thesis by simp
  qed
  then have "fold push_versions xs (m @ [x]) = (m @ [x]) @ xs"
    using Cons.prems(1,2) by (intro Cons.IH) simp_all
  with Cons.prems show ?case by (simp add: x push_versions_fresh)
qed simp

section \<open>Sections of the file\<close>

text \<open>Entry by entry, a section reads what was written; \<open>val\<close> is the part of an entry that is in the file.\<close>

lemma section_round:
  assumes "\<And>x rest. x \<in> set xs \<Longrightarrow> dec (enc x @ rest) = Inr (val x, rest)" "length xs \<le> 2 ^ 24"
  shows "rd_section what dec (w_count xs @ w_each enc xs @ rest) = Inr (map val xs, rest)"
proof -
  have "rd_times (length xs) dec (w_each enc xs @ rest) = Inr (map val xs, rest)"
    using assms(1) by (induction xs) (simp_all add: w_each_def)
  with assms(2) show ?thesis by (simp add: rd_section_def count_round)
qed

lemma pair_round:
  "codec e d ok \<Longrightarrow> codec e' d' ok' \<Longrightarrow> ok (fst x) \<Longrightarrow> ok' (snd x) \<Longrightarrow>
   rd_pair d d' ((case x of (a, b) \<Rightarrow> e a @ e' b) @ rest) = Inr (x, rest)"
  by (simp add: rd_pair_def codec.round case_prod_beta)

text \<open>A line that can be rebuilt from its origin, horizon and ratio.\<close>

definition line_storable :: "Resource \<Rightarrow> CapacityEnvelope \<Rightarrow> bool" where
  "line_storable res e \<longleftrightarrow>
     instant_ok (env_origin e) \<and> duration_ok (env_horizon e) \<and> 0 < dur_ns (env_horizon e) \<and>
     in_i64 (inst_ns (env_origin e) + dur_ns (env_horizon e)) \<and>
     in_i64 (basisPoints (env_ratio e)) \<and> q_unit (res_totalCapacity res) = res_unit res"

definition fresh_line :: "Resource \<Rightarrow> CapacityEnvelope \<Rightarrow> CapacityEnvelope" where
  "fresh_line res e =
     (case env_init (env_origin e) (env_horizon e) (res_totalCapacity res) (env_ratio e)
             (mk_CapacityEnvelope (res_unit res) (res_totalCapacity res) (env_ratio e)) of
        Inr (_, line) \<Rightarrow> line | Inl _ \<Rightarrow> e)"

lemma fresh_line_init:
  assumes "line_storable res e"
  shows "env_init (env_origin e) (env_horizon e) (res_totalCapacity res) (env_ratio e)
      (mk_CapacityEnvelope (res_unit res) (res_totalCapacity res) (env_ratio e)) =
    Inr (True, fresh_line res e)"
  using assms
  by (simp add: fresh_line_def env_init_def mk_CapacityEnvelope_def agg_initialize_def Let_def
      line_storable_def dur_isZero_def)

lemma load_resource_round:
  assumes "resource_storable res" "line_storable res e"
  shows "load_resource (serResource res e @ rest) = Inr ((res, fresh_line res e), rest)"
proof -
  have "desResource (serResource res e @ rest) =
      Inr ((res, env_origin e, env_horizon e, basisPoints (env_ratio e)), rest)"
    using assms
    by (simp add: desResource_def serResource_def resource_storable_def line_storable_def
        codec_simps)
  then show ?thesis using fresh_line_init [OF assms(2)] by (simp add: load_resource_def)
qed

section \<open>The state a file stands for\<close>

definition keyed :: "('v \<Rightarrow> 'k) \<Rightarrow> ('k \<times> 'v) list \<Rightarrow> bool" where
  "keyed key xs \<longleftrightarrow> keys_distinct xs \<and> (\<forall>(k, v)\<in>set xs. key v = k)"

definition fits_section :: "'a list \<Rightarrow> bool" where
  "fits_section xs \<longleftrightarrow> length xs \<le> 2 ^ 24"

definition storable :: "Impl \<Rightarrow> bool" where
  "storable st \<longleftrightarrow>
     keyed res_id (st_resources st) \<and> fits_section (st_resources st) \<and>
     (\<forall>(i, res)\<in>set (st_resources st). resource_storable res \<and>
        (case map_of (st_envelopes st) i of None \<Rightarrow> False | Some e \<Rightarrow> line_storable res e)) \<and>
     keys_distinct (st_workerBoots st) \<and> fits_section (st_workerBoots st) \<and>
     keys_distinct (st_requests st) \<and> fits_section (st_requests st) \<and>
     keyed rv_id (st_reservations st) \<and> fits_section (st_reservations st) \<and>
     (\<forall>(i, r)\<in>set (st_reservations st). reservation_storable r) \<and>
     keys_distinct (st_currentGen st) \<and> fits_section (st_currentGen st) \<and>
     keys_distinct (st_history st) \<and> fits_section (st_history st) \<and>
     (\<forall>(i, vs)\<in>set (st_history st). vs \<noteq> [] \<and> fits_section vs \<and> list_all reservation_storable vs) \<and>
     keyed (hs_holdId \<circ> hold_spec) (st_holds st) \<and> fits_section (st_holds st) \<and>
     (\<forall>(i, h)\<in>set (st_holds st). hold_storable h) \<and>
     keyed set_id (st_sets st) \<and> fits_section (st_sets st) \<and>
     (\<forall>(i, s)\<in>set (st_sets st). set_storable s)"

definition restored :: "Impl \<Rightarrow> Impl" where
  "restored st = (mk_Impl RuntimeConfig_default)
     \<lparr>st_epoch := st_epoch st, st_authority := st_authority st,
      st_nextReservationId := st_nextReservationId st, st_nextHoldId := st_nextHoldId st,
      st_nextSetId := st_nextSetId st, st_resources := st_resources st,
      st_envelopes := map (\<lambda>(i, res). (i, fresh_line res (the (map_of (st_envelopes st) i))))
        (st_resources st),
      st_workerBoots := st_workerBoots st, st_requests := st_requests st,
      st_reservations := st_reservations st, st_currentGen := st_currentGen st,
      st_history := st_history st, st_holds := st_holds st, st_sets := st_sets st\<rparr>"

lemma sections_round:
  assumes st: "storable st"
  shows "rd_section what load_resource
      (w_count (st_resources st) @ w_each (save_resource st) (st_resources st) @ rest) =
      Inr (map (\<lambda>(i, res). (res, fresh_line res (the (map_of (st_envelopes st) i)))) (st_resources st),
        rest)"
    and "rd_section what (rd_pair rd_id rd_gen)
      (w_count (st_workerBoots st) @ w_each (\<lambda>(i, b). w_id i @ w_gen b) (st_workerBoots st) @ rest) =
      Inr (st_workerBoots st, rest)"
    and "rd_section what (rd_pair rd_id rd_id)
      (w_count (st_requests st) @ w_each (\<lambda>(i, r). w_id i @ w_id r) (st_requests st) @ rest) =
      Inr (st_requests st, rest)"
    and "rd_section what desReservation
      (w_count (st_reservations st) @ w_each (\<lambda>(i, r). serReservation r) (st_reservations st) @ rest) =
      Inr (map snd (st_reservations st), rest)"
    and "rd_section what (rd_pair rd_id rd_gen)
      (w_count (st_currentGen st) @ w_each (\<lambda>(i, g). w_id i @ w_gen g) (st_currentGen st) @ rest) =
      Inr (st_currentGen st, rest)"
    and "rd_section what load_history
      (w_count (st_history st) @ w_each save_history (st_history st) @ rest) =
      Inr (st_history st, rest)"
    and "rd_section what desHold
      (w_count (st_holds st) @ w_each (\<lambda>(i, h). serHold h) (st_holds st) @ rest) =
      Inr (map snd (st_holds st), rest)"
    and "rd_section what desSet
      (w_count (st_sets st) @ w_each (\<lambda>(i, s). serSet s) (st_sets st) @ rest) =
      Inr (map snd (st_sets st), rest)"
proof -
  note fits = st [unfolded storable_def fits_section_def]
  show "rd_section what load_resource
      (w_count (st_resources st) @ w_each (save_resource st) (st_resources st) @ rest) =
      Inr (map (\<lambda>(i, res). (res, fresh_line res (the (map_of (st_envelopes st) i)))) (st_resources st),
        rest)"
    by (rule section_round)
       (use fits in \<open>fastforce simp: save_resource_def envelopeLocked_def load_resource_round
          split: option.splits\<close>, use fits in simp)
  show "rd_section what (rd_pair rd_id rd_gen)
      (w_count (st_workerBoots st) @ w_each (\<lambda>(i, b). w_id i @ w_gen b) (st_workerBoots st) @ rest) =
      Inr (st_workerBoots st, rest)"
    by (subst section_round [where val = id])
       (use fits in \<open>simp_all add: pair_round [OF id_codec.codec_axioms gen_codec.codec_axioms]\<close>)
  show "rd_section what (rd_pair rd_id rd_id)
      (w_count (st_requests st) @ w_each (\<lambda>(i, r). w_id i @ w_id r) (st_requests st) @ rest) =
      Inr (st_requests st, rest)"
    by (subst section_round [where val = id])
       (use fits in \<open>simp_all add: pair_round [OF id_codec.codec_axioms id_codec.codec_axioms]\<close>)
  show "rd_section what (rd_pair rd_id rd_gen)
      (w_count (st_currentGen st) @ w_each (\<lambda>(i, g). w_id i @ w_gen g) (st_currentGen st) @ rest) =
      Inr (st_currentGen st, rest)"
    by (subst section_round [where val = id])
       (use fits in \<open>simp_all add: pair_round [OF id_codec.codec_axioms gen_codec.codec_axioms]\<close>)
  show "rd_section what desReservation
      (w_count (st_reservations st) @ w_each (\<lambda>(i, r). serReservation r) (st_reservations st) @ rest) =
      Inr (map snd (st_reservations st), rest)"
    by (rule section_round) (use fits in \<open>auto simp: reservation_codec.round\<close>)
  show "rd_section what desHold
      (w_count (st_holds st) @ w_each (\<lambda>(i, h). serHold h) (st_holds st) @ rest) =
      Inr (map snd (st_holds st), rest)"
    by (rule section_round) (use fits in \<open>auto simp: hold_codec.round\<close>)
  show "rd_section what desSet
      (w_count (st_sets st) @ w_each (\<lambda>(i, s). serSet s) (st_sets st) @ rest) =
      Inr (map snd (st_sets st), rest)"
    by (rule section_round) (use fits in \<open>auto simp: set_codec.round\<close>)
  have "load_history (save_history x @ rest) = Inr (x, rest)" if x: "x \<in> set (st_history st)" for x rest
  proof -
    obtain i vs where ivs: "x = (i, vs)" by fastforce
    with x fits have vs: "length vs \<le> 2 ^ 24" "list_all reservation_storable vs" by auto
    have "rd_section ''history size exceeds bound'' desReservation
        (w_count vs @ w_each serReservation vs @ rest) = Inr (map id vs, rest)"
      by (rule section_round) (use vs in \<open>auto simp: reservation_codec.round list_all_iff\<close>)
    then show ?thesis
      by (simp add: load_history_def save_history_def ivs rd_pair_def rd_section_def id_codec.round)
  qed
  then show "rd_section what load_history
      (w_count (st_history st) @ w_each save_history (st_history st) @ rest) =
      Inr (st_history st, rest)"
    by (subst section_round [where val = id]) (use fits in simp_all)
qed

lemma load_payload_round:
  assumes st: "storable st"
  shows "load_payload (save_payload st @ rest) = Inr (restored st, rest)"
proof -
  let ?line = "\<lambda>i res. fresh_line res (the (map_of (st_envelopes st) i))"
  note keyed = st [unfolded storable_def keyed_def]
  have keys: "distinct (map (res_id \<circ> fst) (map (\<lambda>(i, res). (res, ?line i res)) (st_resources st)))"
  proof -
    have "map (res_id \<circ> fst) (map (\<lambda>(i, res). (res, ?line i res)) (st_resources st)) =
        map fst (st_resources st)" using keyed by (auto intro!: map_cong)
    then show ?thesis using keyed by (simp only:)
  qed
  have res: "fill (res_id \<circ> fst) fst (map (\<lambda>(i, res). (res, ?line i res)) (st_resources st)) =
      st_resources st"
    using keyed by (subst fill_distinct [OF keys]) (auto simp: o_def case_prod_beta intro!: map_idI)
  have lines: "fill (res_id \<circ> fst) snd (map (\<lambda>(i, res). (res, ?line i res)) (st_resources st)) =
      map (\<lambda>(i, res). (i, ?line i res)) (st_resources st)"
    using keyed by (subst fill_distinct [OF keys]) (auto simp: o_def case_prod_beta)
  have hist: "fold push_versions (st_history st) [] = st_history st"
    using keyed by (subst fold_push_versions) auto
  show ?thesis
    using keyed
    by (simp add: load_payload_def save_payload_def sections_round [OF st] fill_pairs fill_keyed
        res lines hist restored_def)
qed

end
