(* ===== verification/RF_Reapply.thy ===== *)
theory RF_Reapply
  imports RF_Recovery
begin

text \<open>
  \<^verbatim>\<open>reapplyAfterLoad\<close>: starting from empty lines, the two loops put back exactly the load
  of the reservations that hold capacity and of the acquired holds, so the recovered state satisfies
  the invariant of the runtime again.
\<close>

section \<open>Loops that add the load of every entry\<close>

lemma for_each_adds:
  assumes "\<And>v es v' es'. v \<in> snd ` set xs \<Longrightarrow> envs_ok es \<Longrightarrow> f v es = (v', es') \<Longrightarrow>
    moves es es' (\<lambda>i t. H i t v') (\<lambda>i t. S i t v') (\<lambda>i t. L i t v')"
  shows "envs_ok es \<Longrightarrow> for_each f xs es = (xs', es') \<Longrightarrow>
    moves es es' (\<lambda>i t. asum (H i t) xs') (\<lambda>i t. asum (S i t) xs') (\<lambda>i t. asum (L i t) xs')"
  using assms
proof (induction xs arbitrary: es xs' es')
  case Nil
  then show ?case by (simp add: moves_refl)
next
  case (Cons kv xs)
  obtain k v where kv: "kv = (k, v)" by fastforce
  obtain v' es1 where v: "f v es = (v', es1)" by fastforce
  obtain ys es2 where ys: "for_each f xs es1 = (ys, es2)" by fastforce
  have first: "moves es es1 (\<lambda>i t. H i t v') (\<lambda>i t. S i t v') (\<lambda>i t. L i t v')"
    using Cons.prems(3) [of v es v' es1] Cons.prems(1) v kv by simp
  then have "envs_ok es1" by (simp add: moves_def)
  then have "moves es1 es2 (\<lambda>i t. asum (H i t) ys) (\<lambda>i t. asum (S i t) ys) (\<lambda>i t. asum (L i t) ys)"
    by (rule Cons.IH [OF _ ys]) (rule Cons.prems(3), simp_all)
  from moves_trans [OF first this]
  show ?case using Cons.prems(2) v ys kv by (auto elim!: moves_cong)
qed

section \<open>One reservation\<close>

text \<open>What recovery makes of a reservation whose resource is in the file.\<close>

definition recovered :: "Reservation \<Rightarrow> Reservation" where
  "recovered r = r
     \<lparr>rv_contributes := lifecycle_holds_capacity (rv_lifecycle r),
      rv_lifecycle := (if rv_lifecycle r = Lifecycle_Active \<or>
          rv_lifecycle r = Lifecycle_PartiallyConsumed \<or> rv_lifecycle r = Lifecycle_Consumed
        then Lifecycle_RevalidationRequired else rv_lifecycle r)\<rparr>"

lemma fst_reapply_reservation:
  "fst (reapply_reservation r es) =
     (if map_of es (rv_resource r) = None then r else recovered r)"
  by (simp add: reapply_reservation_def recovered_def Let_def split: option.split)

lemma keys_update_known:
  "map_of es i = Some e \<Longrightarrow> map_of (AList.update i e' es) j \<noteq> None \<longleftrightarrow> map_of es j \<noteq> None"
  by auto

lemma snd_reapply_reservation_keys:
  "map_of (snd (reapply_reservation r es)) j = None \<longleftrightarrow> map_of es j = None"
  by (auto simp: reapply_reservation_def Let_def split: option.split)

lemma env_point_unknown: "map_of es i = None \<Longrightarrow> env_point es i t = None"
  by (simp add: env_point_def)

lemma moves_at_lines:
  assumes "moves es es' h s l"
    and "\<And>i t. map_of es i \<noteq> None \<Longrightarrow> h i t = h' i t \<and> s i t = s' i t \<and> l i t = l' i t"
  shows "moves es es' h' s' l'"
  using assms
  by (fastforce simp: moves_def env_point_def split: option.splits)

lemma reapply_reservation_adds:
  assumes ok: "envs_ok es" and run: "reapply_reservation r es = (r', es')"
  shows "moves es es' (\<lambda>i t. hard_of i t r') (\<lambda>i t. soft_of i t r') (\<lambda>_ _. 0)"
proof (cases "map_of es (rv_resource r)")
  case None
  with run have same: "r' = r" "es' = es" by (simp_all add: reapply_reservation_def)
  show ?thesis unfolding same
    by (rule moves_at_lines [OF moves_refl [OF ok]]) (use None in \<open>auto simp: hard_of_def soft_of_def\<close>)
next
  case (Some e)
  have r': "r' = recovered r" using fst_reapply_reservation [of r es] run Some by simp
  show ?thesis
  proof (cases "lifecycle_holds_capacity (rv_lifecycle r)")
    case False
    with run Some have same: "es' = es" by (simp add: reapply_reservation_def)
    show ?thesis unfolding same
      by (rule moves_at_lines [OF moves_refl [OF ok]])
         (use False in \<open>auto simp: hard_of_def soft_of_def r' recovered_def\<close>)
  next
    case True
    let ?blank = "r\<lparr>rv_contributes := False\<rparr>"
    obtain r1 where add: "addContributionLocked ?blank es = (r1, es')"
      and r1: "r1 = r\<lparr>rv_contributes := True\<rparr>"
      using run Some True
      by (cases "isHard (rv_strength r)")
         (auto simp: reapply_reservation_def addContributionLocked_def envelopeLocked_def)
    show ?thesis
      by (rule moves_cong [OF addContribution_moves [OF ok add]])
         (auto simp: hard_of_def soft_of_def r' r1 recovered_def True)
  qed
qed

section \<open>One hold\<close>

lemma reapply_hold_adds:
  assumes ok: "envs_ok es" and run: "reapply_hold h es = (h', es')"
    and h: "hold_applied h \<longleftrightarrow> hold_state h = Hold_Acquired"
  shows "moves es es' (\<lambda>_ _. 0) (\<lambda>_ _. 0) (\<lambda>i t. held_of i t h')"
proof -
  have h': "h' = h" using run by (auto simp: reapply_hold_def split: option.splits if_splits)
  show ?thesis
  proof (cases "hold_applied h \<and> map_of es (hold_resource h) \<noteq> None")
    case True
    then have "es' = addHeldLocked (hold_resource h) (hs_window (hold_spec h))
        (q_value (hs_quantity (hold_spec h))) es"
      using run h
      by (auto simp: reapply_hold_def addHeldLocked_def envelopeLocked_def split: option.splits)
    with addHeld_moves [OF ok] have "moves es es' (\<lambda>_ _. 0) (\<lambda>_ _. 0)
        (\<lambda>j t. if j = hold_resource h \<and> in_window (hs_window (hold_spec h)) t
          then q_value (hs_quantity (hold_spec h)) else 0)" by simp
    then show ?thesis by (rule moves_cong) (use True in \<open>auto simp: held_of_def h'\<close>)
  next
    case False
    then have same: "es' = es"
      using run by (auto simp: reapply_hold_def split: option.splits if_splits)
    show ?thesis unfolding same
      by (rule moves_at_lines [OF moves_refl [OF ok]]) (use False in \<open>auto simp: held_of_def h'\<close>)
  qed
qed

lemma reapply_hold_same: "fst (reapply_hold h es) = h"
  by (simp add: reapply_hold_def split: option.split)

lemma for_each_reapply_hold: "fst (for_each reapply_hold xs es) = xs"
  by (induction xs arbitrary: es) (auto simp: Let_def case_prod_beta reapply_hold_same)

section \<open>The recovered state\<close>

lemma map_of_map_keyed: "map_of (map (\<lambda>(k, v). (k, f k v)) xs) k = map_option (f k) (map_of xs k)"
  by (induction xs) auto

text \<open>The fresh lines are empty and carry the whole capacity.\<close>

lemma restored_lines:
  assumes st: "storable st"
  shows "envs_ok (st_envelopes (restored st))"
    and "map fst (st_envelopes (restored st)) = map fst (st_resources st)"
    and "env_point (st_envelopes (restored st)) i t = Some p \<Longrightarrow>
      \<exists>res e. map_of (st_resources st) i = Some res \<and> map_of (st_envelopes st) i = Some e \<and>
        inst_ns (env_origin e) \<le> t \<and> t < inst_ns (env_origin e) + dur_ns (env_horizon e) \<and>
        p = \<lparr>pt_hard = 0, pt_soft = 0, pt_held = 0, pt_cap = q_value (res_totalCapacity res)\<rparr>"
proof -
  note parts = st [unfolded storable_def keyed_def]
  let ?es = "st_envelopes (restored st)"
  have es: "?es = map (\<lambda>(i, res). (i, fresh_line res (the (map_of (st_envelopes st) i))))
      (st_resources st)" by (simp add: restored_def)
  show keys: "map fst ?es = map fst (st_resources st)" by (auto simp: es)
  have line: "\<exists>res e. map_of (st_resources st) i = Some res \<and> map_of (st_envelopes st) i = Some e \<and>
      line_storable res e \<and> le = fresh_line res e" if "map_of ?es i = Some le" for i le
  proof -
    from that obtain res where res: "map_of (st_resources st) i = Some res"
      and le: "le = fresh_line res (the (map_of (st_envelopes st) i))"
      by (auto simp: es map_of_map_keyed)
    from res have "(i, res) \<in> set (st_resources st)" by (rule map_of_SomeD)
    with parts obtain e where "map_of (st_envelopes st) i = Some e" "line_storable res e"
      by (fastforce split: option.splits)
    with res le show ?thesis by simp
  qed
  have ok: "env_inv (fresh_line res e)" and prof: "env_profile (fresh_line res e) t =
      (if inst_ns (env_origin e) \<le> t \<and> t < inst_ns (env_origin e) + dur_ns (env_horizon e)
       then Some \<lparr>pt_hard = 0, pt_soft = 0, pt_held = 0, pt_cap = q_value (res_totalCapacity res)\<rparr>
       else None)" if "line_storable res e" for res e t
  proof -
    have "0 < dur_ns (env_horizon e)" using that by (simp add: line_storable_def)
    from env_init_correct [OF fresh_line_init [OF that] this]
    show "env_inv (fresh_line res e)" "env_profile (fresh_line res e) t =
      (if inst_ns (env_origin e) \<le> t \<and> t < inst_ns (env_origin e) + dur_ns (env_horizon e)
       then Some \<lparr>pt_hard = 0, pt_soft = 0, pt_held = 0, pt_cap = q_value (res_totalCapacity res)\<rparr>
       else None)" by blast+
  qed
  have "env_inv le" if "map_of ?es i = Some le" for i le
    using line [OF that] ok by blast
  moreover have "keys_distinct ?es" unfolding keys using parts by blast
  ultimately show "envs_ok ?es" unfolding envs_ok_def by blast
  assume p: "env_point ?es i t = Some p"
  then obtain le where "map_of ?es i = Some le" by (cases "map_of ?es i") (auto simp: env_point_def)
  with line obtain res e where re: "map_of (st_resources st) i = Some res"
    "map_of (st_envelopes st) i = Some e" "line_storable res e" "le = fresh_line res e" by blast
  with p \<open>map_of ?es i = Some le\<close> have "env_profile (fresh_line res e) t = Some p"
    by (simp add: env_point_def)
  with prof [OF re(3), of t] re(1,2)
  show "\<exists>res e. map_of (st_resources st) i = Some res \<and> map_of (st_envelopes st) i = Some e \<and>
        inst_ns (env_origin e) \<le> t \<and> t < inst_ns (env_origin e) + dur_ns (env_horizon e) \<and>
        p = \<lparr>pt_hard = 0, pt_soft = 0, pt_held = 0, pt_cap = q_value (res_totalCapacity res)\<rparr>"
    by (auto split: if_splits)
qed

text \<open>What recovery does to the reservations, and that it only touches them and the lines.\<close>

lemma for_each_reapply:
  "\<forall>j. map_of es j = None \<longleftrightarrow> map_of es' j = None \<Longrightarrow>
   fst (for_each reapply_reservation rs es) =
     amap_values (\<lambda>r. if map_of es' (rv_resource r) = None then r else recovered r) rs"
proof (induction rs arbitrary: es)
  case (Cons kr rs)
  obtain k r where kr: "kr = (k, r)" by fastforce
  have "\<forall>j. map_of (snd (reapply_reservation r es)) j = None \<longleftrightarrow> map_of es' j = None"
    using Cons.prems by (simp add: snd_reapply_reservation_keys)
  then show ?case
    using Cons.IH [of "snd (reapply_reservation r es)"] fst_reapply_reservation [of r es] Cons.prems
    by (auto simp: kr amap_values_def Let_def case_prod_beta)
qed (simp add: amap_values_def)

lemma reapply_parts:
  shows "st_reservations (reapplyAfterLoad d) =
      amap_values (\<lambda>r. if map_of (st_envelopes d) (rv_resource r) = None then r else recovered r)
        (st_reservations d)"
    and "st_holds (reapplyAfterLoad d) = st_holds d"
    and "reapplyAfterLoad d = d\<lparr>st_reservations := st_reservations (reapplyAfterLoad d),
      st_holds := st_holds d, st_envelopes := st_envelopes (reapplyAfterLoad d)\<rparr>"
  using for_each_reapply [of "st_envelopes d" "st_envelopes d" "st_reservations d"]
  by (simp_all add: reapplyAfterLoad_def Let_def case_prod_beta for_each_reapply_hold)

lemma reapply_moves:
  assumes ok: "envs_ok (st_envelopes d)"
    and holds: "\<forall>h\<in>snd ` set (st_holds d). hold_applied h \<longleftrightarrow> hold_state h = Hold_Acquired"
  shows "moves (st_envelopes d) (st_envelopes (reapplyAfterLoad d))
      (\<lambda>i t. asum (hard_of i t) (st_reservations (reapplyAfterLoad d)))
      (\<lambda>i t. asum (soft_of i t) (st_reservations (reapplyAfterLoad d)))
      (\<lambda>i t. asum (held_of i t) (st_holds (reapplyAfterLoad d)))"
proof -
  obtain rs es1 where rs: "for_each reapply_reservation (st_reservations d) (st_envelopes d) = (rs, es1)"
    by fastforce
  obtain hs es2 where hs: "for_each reapply_hold (st_holds d) es1 = (hs, es2)" by fastforce
  have m1: "moves (st_envelopes d) es1 (\<lambda>i t. asum (hard_of i t) rs) (\<lambda>i t. asum (soft_of i t) rs)
      (\<lambda>i t. asum (\<lambda>_. 0) rs)"
    by (rule for_each_adds [where H = hard_of and S = soft_of and L = "\<lambda>_ _ _. 0", OF _ ok rs])
       (rule reapply_reservation_adds)
  then have "envs_ok es1" by (simp add: moves_def)
  have m2: "moves es1 es2 (\<lambda>i t. asum (\<lambda>_. 0) hs) (\<lambda>i t. asum (\<lambda>_. 0) hs)
      (\<lambda>i t. asum (held_of i t) hs)"
    by (rule for_each_adds [where H = "\<lambda>_ _ _. 0" and S = "\<lambda>_ _ _. 0" and L = held_of,
          OF _ \<open>envs_ok es1\<close> hs]) (rule reapply_hold_adds, use holds in auto)
  from moves_trans [OF m1 m2] show ?thesis
    by (simp add: reapplyAfterLoad_def rs hs)
qed

lemma recovered_frame [simp]:
  "rv_quantity (recovered r) = rv_quantity r" "rv_resource (recovered r) = rv_resource r"
  "rv_window (recovered r) = rv_window r" "rv_strength (recovered r) = rv_strength r"
  "rv_contributes (recovered r) = lifecycle_holds_capacity (rv_lifecycle r)"
  by (simp_all add: recovered_def)

text \<open>The state that a saved file comes back as.\<close>

definition reloaded :: "Impl \<Rightarrow> Impl" where
  "reloaded st = reapplyAfterLoad (restored st)"

lemma reloaded_parts [simp]:
  "st_epoch (reloaded st) = st_epoch st" "st_authority (reloaded st) = st_authority st"
  "st_nextReservationId (reloaded st) = st_nextReservationId st"
  "st_nextHoldId (reloaded st) = st_nextHoldId st" "st_nextSetId (reloaded st) = st_nextSetId st"
  "st_resources (reloaded st) = st_resources st" "st_workerBoots (reloaded st) = st_workerBoots st"
  "st_requests (reloaded st) = st_requests st" "st_currentGen (reloaded st) = st_currentGen st"
  "st_history (reloaded st) = st_history st" "st_holds (reloaded st) = st_holds st"
  "st_sets (reloaded st) = st_sets st" "st_config (reloaded st) = RuntimeConfig_default"
  "st_horizon (reloaded st) = defaultHorizon"
  by (subst reloaded_def, subst reapply_parts(3),
      simp add: restored_def mk_Impl_def RuntimeConfig_default_def dur_isZero_def reapply_parts(2))+

lemma reloaded_reservations:
  assumes "storable st"
  shows "st_reservations (reloaded st) =
    amap_values (\<lambda>r. if map_of (st_resources st) (rv_resource r) = None then r else recovered r)
      (st_reservations st)"
proof -
  have "map_of (st_envelopes (restored st)) j = None \<longleftrightarrow> map_of (st_resources st) j = None" for j
    using restored_lines(2) [OF assms] by (metis map_of_eq_None_iff set_map)
  moreover have "st_reservations (restored st) = st_reservations st" by (simp add: restored_def)
  ultimately show ?thesis by (simp add: reloaded_def reapply_parts(1))
qed

lemma reloaded_inv:
  assumes st: "storable st" and inv: "runtime_inv st"
  shows "runtime_inv (reloaded st)"
    and "env_point (st_envelopes (reloaded st)) i t = Some p \<Longrightarrow>
      \<exists>res e. map_of (st_resources st) i = Some res \<and> map_of (st_envelopes st) i = Some e \<and>
        inst_ns (env_origin e) \<le> t \<and> t < inst_ns (env_origin e) + dur_ns (env_horizon e) \<and>
        pt_cap p = q_value (res_totalCapacity res) \<and>
        pt_hard p = asum (hard_of i t) (st_reservations (reloaded st)) \<and>
        pt_soft p = asum (soft_of i t) (st_reservations (reloaded st)) \<and>
        pt_held p = asum (held_of i t) (st_holds st)"
proof -
  note parts = runtime_parts [OF inv]
  let ?d = "restored st"
  have frame: "st_reservations ?d = st_reservations st" "st_holds ?d = st_holds st"
    by (simp_all add: restored_def)
  have holds: "\<forall>h\<in>snd ` set (st_holds ?d). hold_applied h \<longleftrightarrow> hold_state h = Hold_Acquired"
    using parts(7) by (fastforce simp: frame holds_ok_def hold_ok_def)
  note moves = reapply_moves [OF restored_lines(1) [OF st] holds, folded reloaded_def]
  show point: "env_point (st_envelopes (reloaded st)) i t = Some p \<Longrightarrow>
      \<exists>res e. map_of (st_resources st) i = Some res \<and> map_of (st_envelopes st) i = Some e \<and>
        inst_ns (env_origin e) \<le> t \<and> t < inst_ns (env_origin e) + dur_ns (env_horizon e) \<and>
        pt_cap p = q_value (res_totalCapacity res) \<and>
        pt_hard p = asum (hard_of i t) (st_reservations (reloaded st)) \<and>
        pt_soft p = asum (soft_of i t) (st_reservations (reloaded st)) \<and>
        pt_held p = asum (held_of i t) (st_holds st)" for i t p
  proof -
    assume "env_point (st_envelopes (reloaded st)) i t = Some p"
    with moves obtain q where q: "env_point (st_envelopes ?d) i t = Some q"
      "p = shift (asum (hard_of i t) (st_reservations (reloaded st)))
        (asum (soft_of i t) (st_reservations (reloaded st)))
        (asum (held_of i t) (st_holds (reloaded st))) q" by (auto simp: moves_def)
    from restored_lines(3) [OF st q(1)] q(2) show ?thesis by auto
  qed
  have keys: "map fst (st_envelopes (reloaded st)) = map fst (st_resources st)"
    using moves restored_lines(2) [OF st] by (simp add: moves_def)
  have E: "fst ` set (st_envelopes (reloaded st)) = fst ` set (st_envelopes st)"
    using arg_cong [OF keys, of set] arg_cong [OF parts(5), of set] by simp
  have known: "map_of (st_resources st) j = None \<longleftrightarrow> j \<notin> fst ` set (st_envelopes st)" for j
    using arg_cong [OF parts(5), of set] by (simp add: map_of_eq_None_iff)
  have "resvs_ok (fst ` set (st_envelopes st)) (st_nextReservationId st)
      (st_reservations (reloaded st))"
    using parts(6) unfolding reloaded_reservations [OF st] known
    by (auto simp: resvs_ok_def resv_ok_def amap_values_def split: if_splits)
  moreover have "mirrors (st_envelopes (reloaded st)) (st_reservations (reloaded st)) (st_holds st)"
    unfolding mirrors_def using point by blast
  moreover have "envs_ok (st_envelopes (reloaded st))" using moves by (simp add: moves_def)
  moreover have "keys_distinct (st_reservations (reloaded st))"
    using parts(2) by (simp add: reloaded_reservations [OF st])
  ultimately show "runtime_inv (reloaded st)"
    using parts keys by (simp add: runtime_inv_def mirror_inv_def E defaultHorizon_def)
qed

text \<open>Every instant of a saved line's horizon is on the rebuilt line.\<close>

lemma reloaded_line:
  assumes st: "storable st" and inv: "runtime_inv st"
    and res: "map_of (st_resources st) i = Some res" and e: "map_of (st_envelopes st) i = Some e"
    and t: "inst_ns (env_origin e) \<le> t" "t < inst_ns (env_origin e) + dur_ns (env_horizon e)"
  shows "\<exists>p. env_point (st_envelopes (reloaded st)) i t = Some p"
proof -
  have line: "line_storable res e"
    using st res e by (auto simp: storable_def dest!: map_of_SomeD [of "st_resources st"])
  then have "0 < dur_ns (env_horizon e)" by (simp add: line_storable_def)
  from env_init_correct(6) [OF fresh_line_init [OF line] this, of t] t
  have "env_profile (fresh_line res e) t \<noteq> None" by simp
  then have "env_point (st_envelopes (restored st)) i t \<noteq> None"
    by (simp add: env_point_def restored_def map_of_map_keyed res e)
  moreover have "\<forall>h\<in>snd ` set (st_holds (restored st)). hold_applied h \<longleftrightarrow> hold_state h = Hold_Acquired"
    using runtime_parts(7) [OF inv] by (fastforce simp: restored_def holds_ok_def hold_ok_def)
  ultimately show ?thesis
    using reapply_moves [OF restored_lines(1) [OF st], folded reloaded_def] by (auto simp: moves_def)
qed

end
