(* ===== verification/RF_Persist_Props.thy ===== *)
theory RF_Persist_Props
  imports RF_Reapply RF_Operation_Props
begin

text \<open>
  What the persisted form guarantees: recovery of the saved state, rejection of damaged
  files, and a recovered runtime that neither overbooks nor restores an active reservation.
\<close>

section \<open>The checksum\<close>

text \<open>The checksum notices every change that is confined to four consecutive bytes, wherever
  it stands in the data and whatever the seed.\<close>

theorem checksum_detects_bursts:
  assumes "length xs = length ys" "length xs \<le> 4" "xs \<noteq> ys"
  shows "crc32 (us @ xs @ vs) seed \<noteq> crc32 (us @ ys @ vs) seed"
  using assms by (rule crc32_burst)

theorem checksum_detects_bursts_witness:
  "crc32 ([1, 2] @ [3, 4, 5] @ [6]) crc_seed \<noteq> crc32 ([1, 2] @ [3, 0, 9] @ [6]) crc_seed"
  by (rule checksum_detects_bursts) simp_all

section \<open>The frame of the file\<close>

text \<open>The bytes of a file with the four fields of the header and a payload.\<close>

definition file_bytes :: "u32 \<Rightarrow> u8 \<Rightarrow> u32 \<Rightarrow> u32 \<Rightarrow> u8 list \<Rightarrow> u8 list" where
  "file_bytes magic version len crc payload =
     w_u32 magic @ w_u8 version @ w_u32 len @ w_u32 crc @ payload"

lemma save_file_bytes:
  "save_file st = file_bytes kMagic kVersion (word_of_nat (length (save_payload st)))
     (crc32 (save_payload st) crc_seed) (save_payload st)"
  by (simp add: save_file_def file_bytes_def Let_def)

lemma length_file_bytes [simp]: "length (file_bytes m v l c p) = 13 + length p"
  by (simp add: file_bytes_def)

lemma load_file_bytes:
  "rf_load (Some (file_bytes magic version len crc payload)) =
     (if magic \<noteq> kMagic then throw_error CorruptData ''bad magic''
      else if version \<noteq> kVersion then throw_error CorruptData ''unsupported version''
      else if unat len \<noteq> length payload \<or> length payload < 3
      then (if unat len > length payload then throw_error CorruptData ''truncated payload''
            else throw_error CorruptData ''trailing garbage'')
      else if crc32 payload crc_seed \<noteq> crc then throw_error CorruptData ''checksum mismatch''
      else bind_outcome (load_payload payload) (\<lambda>(d, rest).
             if rest \<noteq> [] then throw_error CorruptData ''unparsed trailing data''
             else Inr (reapplyAfterLoad d)))"
proof -
  have outcome: "map_sum id fst (bind_outcome x (\<lambda>(d, rest).
        if rest \<noteq> [] then throw_error CorruptData ''unparsed trailing data''
        else Inr (reapplyAfterLoad d, []))) =
      bind_outcome x (\<lambda>(d, rest). if rest \<noteq> [] then throw_error CorruptData ''unparsed trailing data''
        else Inr (reapplyAfterLoad d))" for x :: "(Impl \<times> u8 list) outcome"
    by (cases x) (auto simp: throw_error_def)
  show ?thesis
    by (simp add: rf_load_def file_bytes_def codec_simps outcome) (simp add: throw_error_def)
qed

section \<open>Recovery of the saved state\<close>

definition fits_file :: "Impl \<Rightarrow> bool" where
  "fits_file st \<longleftrightarrow> length (save_payload st) < 2 ^ 32"

lemma save_payload_long: "3 \<le> length (save_payload st)"
  by (simp add: save_payload_def)

lemma load_save:
  assumes "storable st" "fits_file st"
  shows "rf_load (Some (save_file st)) = Inr (reloaded st)"
proof -
  have "unat (word_of_nat (length (save_payload st)) :: u32) = length (save_payload st)"
    using assms(2) by (intro unat_length) (simp add: fits_file_def)
  then show ?thesis
    using load_payload_round [OF assms(1), of "[]"] save_payload_long [of st]
    by (simp add: save_file_bytes load_file_bytes reloaded_def)
qed

text \<open>Claim C10: What was saved is recovered. Loading the file of a state whose members are in range succeeds,
  and the recovered state has the same resources, request map, generations, history, holds, bundles,
  boot identities, counters, epoch and authority; every reservation of a known resource comes back
  with its contribution derived from its lifecycle and, if it was active or consuming, as
  requiring revalidation, and all its other members as they were.\<close>

theorem saved_state_is_recovered:
  assumes "storable st" "fits_file st" "rf_save True True st = Inr file"
  shows "\<exists>st'. rf_load (Some file) = Inr st' \<and>
    st_resources st' = st_resources st \<and> st_requests st' = st_requests st \<and>
    st_currentGen st' = st_currentGen st \<and> st_history st' = st_history st \<and>
    st_holds st' = st_holds st \<and> st_sets st' = st_sets st \<and>
    st_workerBoots st' = st_workerBoots st \<and>
    st_nextReservationId st' = st_nextReservationId st \<and> st_nextHoldId st' = st_nextHoldId st \<and>
    st_nextSetId st' = st_nextSetId st \<and>
    st_epoch st' = st_epoch st \<and> st_authority st' = st_authority st \<and>
    st_reservations st' = amap_values (\<lambda>r.
        if map_of (st_resources st) (rv_resource r) = None then r
        else r\<lparr>rv_contributes := lifecycle_holds_capacity (rv_lifecycle r),
               rv_lifecycle := (if needs_revalidation (rv_lifecycle r)
                                then Lifecycle_RevalidationRequired else rv_lifecycle r)\<rparr>)
      (st_reservations st)"
proof -
  have alt: "recovered r = r\<lparr>rv_contributes := lifecycle_holds_capacity (rv_lifecycle r),
      rv_lifecycle := (if needs_revalidation (rv_lifecycle r)
        then Lifecycle_RevalidationRequired else rv_lifecycle r)\<rparr>" for r
    by (simp add: recovered_def needs_revalidation_def)
  show ?thesis
    using assms load_save [OF assms(1,2)] reloaded_reservations [OF assms(1)]
    by (simp add: rf_save_def alt cong: if_cong)
qed

text \<open>Claim C15: No reservation of a resource in the file is active, partially consumed or consumed after a
  restart, whatever file was loaded: activation has to be earned again with fresh evidence.\<close>

theorem restart_revokes_activation:
  assumes "rf_load (Some file) = Inr st'" "(k, r) \<in> set (st_reservations st')"
    and "map_of (st_resources st') (rv_resource r) \<noteq> None"
  shows "\<not> needs_revalidation (rv_lifecycle r)"
proof -
  from assms(1) obtain d where st': "st' = reapplyAfterLoad d"
    and keys: "map fst (st_resources d) = map fst (st_envelopes d)"
  proof -
    have "\<exists>payload d rest. load_payload payload = Inr (d, rest) \<and> st' = reapplyAfterLoad d"
      using assms(1)
      by (auto simp: rf_load_def rd_bind_def bind_outcome_Inr_iff map_sum_def rd_outcome_def
          split: if_splits sum.splits) blast
    moreover have "map fst (fill (res_id \<circ> fst) fst xs) = map fst (fill (res_id \<circ> fst) snd xs)"
      for xs :: "(Resource \<times> CapacityEnvelope) list"
    proof -
      have "map fst (fold (\<lambda>x. AList.update (res_id (fst x)) (fst x)) xs m) =
          map fst (fold (\<lambda>x. AList.update (res_id (fst x)) (snd x)) xs m')"
        if "map fst m = map fst m'" for m m'
        using that
      proof (induction xs arbitrary: m m')
        case (Cons x xs)
        have "map fst (AList.update k v m) = map fst (AList.update k w m')"
          for k and v :: Resource and w :: CapacityEnvelope
          using Cons.prems by (simp add: update_keys)
        then show ?case using Cons.IH by simp
      qed simp
      then show ?thesis by (simp add: fill_def)
    qed
    ultimately show thesis using that
      by (auto simp: load_payload_def rd_bind_def bind_outcome_Inr_iff rd_return_def)
  qed
  have known: "map_of (st_envelopes d) i = None \<longleftrightarrow> map_of (st_resources d) i = None" for i
    using keys by (metis map_of_eq_None_iff set_map)
  have res: "st_resources st' = st_resources d"
    unfolding st' by (subst reapply_parts(3)) simp
  from assms(2) obtain r0 where
    r: "r = (if map_of (st_envelopes d) (rv_resource r0) = None then r0 else recovered r0)"
    by (auto simp: st' reapply_parts(1) amap_values_def)
  with assms(3) known res have "r = recovered r0" by (cases "map_of (st_envelopes d) (rv_resource r0)") auto
  then show ?thesis by (simp add: recovered_def needs_revalidation_def)
qed

section \<open>Damaged files\<close>

text \<open>A changed byte is in the magic number, the version, the length, the checksum or the payload.\<close>

lemma changed_file_byte:
  assumes n: "n < length (file_bytes m v l c p)" and b: "b \<noteq> file_bytes m v l c p ! n"
  shows "\<exists>m' v' l' c' p'. (file_bytes m v l c p)[n := b] = file_bytes m' v' l' c' p' \<and>
    length p' = length p \<and>
    (m' \<noteq> m \<or> v' \<noteq> v \<or> l' \<noteq> l \<or>
     m' = m \<and> v' = v \<and> l' = l \<and>
       (c' \<noteq> c \<and> p' = p \<or> c' = c \<and> (\<exists>k<length p. p' = p[k := b] \<and> b \<noteq> p ! k)))"
proof -
  consider "n < 4" | "n = 4" | "5 \<le> n" "n < 9" | "9 \<le> n" "n < 13" | "13 \<le> n" by linarith
  then show ?thesis
  proof cases
    case 1
    with b have "b \<noteq> w_u32 m ! n" by (simp add: file_bytes_def nth_append)
    with 1 obtain m' where "(w_u32 m)[n := b] = w_u32 m'" "m' \<noteq> m" by (rule update_u32)
    with 1 show ?thesis by (intro exI [of _ m'] exI [of _ v] exI [of _ l] exI [of _ c] exI [of _ p])
        (simp add: file_bytes_def list_update_append1)
  next
    case 2
    with b show ?thesis
      by (intro exI [of _ m] exI [of _ b] exI [of _ l] exI [of _ c] exI [of _ p])
         (simp add: file_bytes_def list_update_append nth_append w_u8_def)
  next
    case 3
    then obtain k where k: "n = 5 + k" "k < 4" using le_Suc_ex [of 5 n] by auto
    with b have "b \<noteq> w_u32 l ! k" by (simp add: file_bytes_def nth_append w_u8_def)
    with k(2) obtain l' where "(w_u32 l)[k := b] = w_u32 l'" "l' \<noteq> l" by (rule update_u32)
    with k show ?thesis by (intro exI [of _ m] exI [of _ v] exI [of _ l'] exI [of _ c] exI [of _ p])
        (simp add: file_bytes_def list_update_append w_u8_def)
  next
    case 4
    then obtain k where k: "n = 9 + k" "k < 4" using le_Suc_ex [of 9 n] by auto
    with b have "b \<noteq> w_u32 c ! k" by (simp add: file_bytes_def nth_append w_u8_def)
    with k(2) obtain c' where "(w_u32 c)[k := b] = w_u32 c'" "c' \<noteq> c" by (rule update_u32)
    with k show ?thesis by (intro exI [of _ m] exI [of _ v] exI [of _ l] exI [of _ c'] exI [of _ p])
        (simp add: file_bytes_def list_update_append w_u8_def)
  next
    case 5
    then obtain k where k: "n = 13 + k" using le_Suc_ex [of 13 n] by auto
    with b have "b \<noteq> p ! k" by (simp add: file_bytes_def nth_append w_u8_def)
    moreover have "k < length p" using n k by simp
    ultimately show ?thesis using k
      by (intro exI [of _ m] exI [of _ v] exI [of _ l] exI [of _ c] exI [of _ "p[k := b]"])
         (auto simp: file_bytes_def list_update_append w_u8_def)
  qed
qed

text \<open>Claim C13: A saved file in which any one byte was changed, in the header or in the payload, is rejected as
  corrupt: no damaged byte is ever loaded as state.\<close>

theorem damaged_file_is_rejected:
  assumes "fits_file st" "n < length (save_file st)" "b \<noteq> save_file st ! n"
  shows "\<exists>why. rf_load (Some ((save_file st)[n := b])) = Inl (FabricError CorruptData why)"
proof -
  let ?p = "save_payload st"
  have len: "unat (word_of_nat (length ?p) :: u32) = length ?p"
    using assms(1) by (intro unat_length) (simp add: fits_file_def)
  from changed_file_byte [OF assms(2,3) [unfolded save_file_bytes]]
  obtain m v l c p where bytes: "(save_file st)[n := b] = file_bytes m v l c p"
    and p: "length p = length ?p"
    and change: "m \<noteq> kMagic \<or> v \<noteq> kVersion \<or> l \<noteq> word_of_nat (length ?p) \<or>
      m = kMagic \<and> v = kVersion \<and> l = word_of_nat (length ?p) \<and>
       (c \<noteq> crc32 ?p crc_seed \<and> p = ?p \<or>
        c = crc32 ?p crc_seed \<and> (\<exists>k<length ?p. p = ?p[k := b] \<and> b \<noteq> ?p ! k))"
    unfolding save_file_bytes by blast
  have wrong_length: "unat l \<noteq> length p" if "l \<noteq> word_of_nat (length ?p)"
    using that len p by (metis word_unat_eq_iff)
  have wrong_crc: "crc32 p crc_seed \<noteq> crc32 ?p crc_seed"
    if "k < length ?p" "p = ?p[k := b]" "b \<noteq> ?p ! k" for k
  proof -
    have "?p = take k ?p @ [?p ! k] @ drop (Suc k) ?p" using that(1) by (simp add: id_take_nth_drop)
    moreover have "p = take k ?p @ [b] @ drop (Suc k) ?p"
      using that(1,2) by (simp add: upd_conv_take_nth_drop)
    ultimately show ?thesis using crc32_burst [of "[b]" "[?p ! k]"] that(3) by (metis
        length_Cons list.inject list.size(3) numeral_One one_le_numeral One_nat_def)
  qed
  show ?thesis
    using change wrong_length wrong_crc
    by (auto simp: bytes load_file_bytes throw_error_def)
qed

text \<open>A saved file that was cut short anywhere is rejected as corrupt.\<close>

theorem truncated_file_is_rejected:
  assumes "fits_file st" "n < length (save_file st)"
  shows "\<exists>why. rf_load (Some (take n (save_file st))) = Inl (FabricError CorruptData why)"
proof (cases "n < 13")
  case True
  then have "length (take n (save_file st)) < 13" by simp
  then show ?thesis unfolding rf_load_def throw_error_def by simp
next
  case False
  let ?p = "save_payload st"
  have len: "unat (word_of_nat (length ?p) :: u32) = length ?p"
    using assms(1) by (intro unat_length) (simp add: fits_file_def)
  obtain m where n: "n = 13 + m" using False by (metis le_add_diff_inverse not_less)
  then have "take n (save_file st) = file_bytes kMagic kVersion (word_of_nat (length ?p))
      (crc32 ?p crc_seed) (take m ?p)"
    by (simp add: save_file_bytes file_bytes_def)
  moreover have "m < length ?p" using assms(2) n by (simp add: save_file_bytes)
  ultimately show ?thesis by (simp add: load_file_bytes len throw_error_def)
qed

section \<open>The recovered lines\<close>

text \<open>Claim C14: The rebuilt index agrees with the recovered registry: after a restart every line has the
  resource's whole capacity, carries at each instant exactly the hard, soft and held loads of the
  contributing reservations and applied holds, and the invariant of the runtime holds again.\<close>

theorem recovery_rebuilds_the_index:
  assumes "storable st" "fits_file st" "runtime_inv st"
  shows "\<exists>st'. rf_load (Some (save_file st)) = Inr st' \<and> runtime_inv st' \<and>
    (\<forall>i t p. env_point (st_envelopes st') i t = Some p \<longrightarrow>
       map_option (q_value \<circ> res_totalCapacity) (map_of (st_resources st') i) = Some (pt_cap p) \<and>
       pt_hard p = asum (hard_of i t) (st_reservations st') \<and>
       pt_soft p = asum (soft_of i t) (st_reservations st') \<and>
       pt_held p = asum (held_of i t) (st_holds st'))"
  using load_save [OF assms(1,2)] reloaded_inv [OF assms(1,3)] by fastforce

lemma asum_mono:
  "(\<And>k v. (k, v) \<in> set xs \<Longrightarrow> f v \<le> (g v :: int)) \<Longrightarrow> asum f xs \<le> asum g xs"
  by (induction xs) (auto simp: asum_def intro: add_mono)

text \<open>
  Two conditions keep recovery safe: every reservation in a state that holds capacity had
  its contribution on the line, and every line has at each instant of its horizon at most the
  capacity of its resource.
\<close>

definition contributions_match :: "Impl \<Rightarrow> bool" where
  "contributions_match st \<longleftrightarrow> (\<forall>(k, r)\<in>set (st_reservations st).
     lifecycle_holds_capacity (rv_lifecycle r) \<longrightarrow> rv_contributes r)"

definition lines_within_capacity :: "Impl \<Rightarrow> bool" where
  "lines_within_capacity st \<longleftrightarrow> (\<forall>i res e t.
     map_of (st_resources st) i = Some res \<longrightarrow> map_of (st_envelopes st) i = Some e \<longrightarrow>
     inst_ns (env_origin e) \<le> t \<longrightarrow> t < inst_ns (env_origin e) + dur_ns (env_horizon e) \<longrightarrow>
     (\<exists>p. env_profile e t = Some p \<and> pt_cap p \<le> q_value (res_totalCapacity res)))"

lemma reloaded_hard_le:
  assumes st: "storable st" and inv: "runtime_inv st" and match: "contributions_match st"
  shows "asum (hard_of i t) (st_reservations (reloaded st)) \<le> asum (hard_of i t) (st_reservations st)"
proof -
  have "(hard_of i t \<circ> (\<lambda>r. if map_of (st_resources st) (rv_resource r) = None then r
      else recovered r)) r \<le> hard_of i t r" if "(k, r) \<in> set (st_reservations st)" for k r
  proof -
    have "0 \<le> q_value (rv_quantity r)" "lifecycle_holds_capacity (rv_lifecycle r) \<longrightarrow> rv_contributes r"
      using runtime_parts(6) [OF inv] match that
      by (auto simp: resvs_ok_def resv_ok_def contributions_match_def)
    then show ?thesis by (auto simp: hard_of_def)
  qed
  then show ?thesis by (simp only: reloaded_reservations [OF st] asum_amap_values asum_mono)
qed

text \<open>Claim C11: A restart does not overbook: if the saved state was safe, its reservations that hold
  capacity contributed, and its lines were within the capacity of their resources, then the
  hard commitments and holds of the recovered state fit the capacity at every instant of every line.\<close>

theorem recovery_never_overbooks:
  assumes "storable st" "fits_file st" "runtime_inv st" "hard_safe st"
    and "contributions_match st" "lines_within_capacity st"
    and "rf_load (Some (save_file st)) = Inr st'"
    and "env_point (st_envelopes st') i t = Some p"
  shows "asum (hard_of i t) (st_reservations st') + asum (held_of i t) (st_holds st') \<le> pt_cap p"
proof -
  have st': "st' = reloaded st" using load_save [OF assms(1,2)] assms(7) by simp
  from reloaded_inv(2) [OF assms(1,3) assms(8) [unfolded st']]
  obtain res e where res: "map_of (st_resources st) i = Some res" "map_of (st_envelopes st) i = Some e"
    "inst_ns (env_origin e) \<le> t" "t < inst_ns (env_origin e) + dur_ns (env_horizon e)"
    and cap: "pt_cap p = q_value (res_totalCapacity res)" by blast
  with assms(6) obtain q where q: "env_profile e t = Some q" "pt_cap q \<le> pt_cap p"
    unfolding lines_within_capacity_def by metis
  then have pt: "env_point (st_envelopes st) i t = Some q" by (simp add: env_point_def res)
  have "pt_hard q = asum (hard_of i t) (st_reservations st)" "pt_held q = asum (held_of i t) (st_holds st)"
    using runtime_parts(1) [OF assms(3)] pt by (auto simp: mirror_inv_def mirrors_def)
  moreover have "pt_hard q + pt_held q \<le> pt_cap q" using assms(4) pt by (simp add: hard_safe_def)
  ultimately show ?thesis
    using reloaded_hard_le [OF assms(1,3,5), of i t] q(2) by (simp add: st')
qed

section \<open>Witnesses\<close>

text \<open>The demonstration state with its reservation activated.\<close>

lemma demo3_storable: "storable demo3"
  by (simp add: demo3_eq storable_def keyed_def fits_section_def resource_storable_def
      line_storable_def reservation_storable_def hold_storable_def spec_storable_def window_ok_def
      locality_ok_def instant_ok_def duration_ok_def quantity_ok_def quantity_wf_def string_ok_def
      demo_rv_def demo_active_def demo_env_def of_byte_defs i64_defs less_Instant_def)

lemma demo3_fits: "fits_file demo3"
  by (simp add: demo3_eq fits_file_def save_payload_def demo_rv_def demo_active_def demo_env_def
      w_each_def w_count_def save_resource_def serResource_def envelopeLocked_def
      serReservation_def serHold_def ser_spec_def ser_window_def w_id_def w_gen_def w_enu_def
      w_quant_def w_i64_def w_i32_def w_boolean_def w_instant_def w_duration_def w_str_def
      serOptGen_def serOptId_def serOptInstant_def ser_capability_def ser_locality_def
      ser_topology_def ser_compatibility_def)

lemma demo3_safe: "runtime_inv demo3" "hard_safe demo3"
  using reachable_inv [OF demo3_reachable] by simp_all

theorem saved_state_is_recovered_witness:
  "\<exists>st'. rf_load (Some (save_file demo3)) = Inr st' \<and>
     st_reservations st' = [(StrongId 2, demo_active\<lparr>rv_lifecycle := Lifecycle_RevalidationRequired\<rparr>)]"
proof -
  have "rf_save True True demo3 = Inr (save_file demo3)" by (simp add: rf_save_def)
  from saved_state_is_recovered [OF demo3_storable demo3_fits this]
  obtain st' where "rf_load (Some (save_file demo3)) = Inr st'" and
    "st_reservations st' = amap_values (\<lambda>r.
        if map_of (st_resources demo3) (rv_resource r) = None then r
        else r\<lparr>rv_contributes := lifecycle_holds_capacity (rv_lifecycle r),
               rv_lifecycle := (if needs_revalidation (rv_lifecycle r)
                                then Lifecycle_RevalidationRequired else rv_lifecycle r)\<rparr>)
      (st_reservations demo3)" by blast
  then show ?thesis
    by (simp add: demo3_eq demo_active_def demo_rv_def amap_values_def needs_revalidation_def)
qed

theorem restart_revokes_activation_witness:
  "\<exists>st'. rf_load (Some (save_file demo3)) = Inr st' \<and>
     needs_revalidation (rv_lifecycle (the (map_of (st_reservations demo3) (StrongId 2)))) \<and>
     \<not> needs_revalidation (rv_lifecycle (the (map_of (st_reservations st') (StrongId 2))))"
proof -
  note load = load_save [OF demo3_storable demo3_fits]
  have rs: "st_reservations (reloaded demo3) = [(StrongId 2, recovered demo_active)]"
    using reloaded_reservations [OF demo3_storable]
    by (simp add: demo3_eq demo_active_def demo_rv_def amap_values_def)
  have "\<not> needs_revalidation (rv_lifecycle (recovered demo_active))"
    by (rule restart_revokes_activation [OF load, where k = "StrongId 2"])
       (simp_all add: rs, simp add: demo3_eq demo_active_def demo_rv_def)
  moreover have "needs_revalidation (rv_lifecycle demo_active)"
    by (simp add: demo_active_def needs_revalidation_def)
  moreover have "map_of (st_reservations demo3) (StrongId 2) = Some demo_active"
    by (simp add: demo3_eq)
  ultimately show ?thesis by (simp add: load rs)
qed

theorem damaged_file_is_rejected_witness:
  "\<exists>why. rf_load (Some ((save_file demo3)[0 := 0])) = Inl (FabricError CorruptData why)"
proof -
  have "(0::u8) \<noteq> save_file demo3 ! 0"
    by (simp add: save_file_def Let_def w_u32_def kMagic_def upt_rec)
  then show ?thesis
    by (intro damaged_file_is_rejected [OF demo3_fits]) (simp_all add: save_file_bytes)
qed

theorem truncated_file_is_rejected_witness:
  "\<exists>why. rf_load (Some (take 20 (save_file demo3))) = Inl (FabricError CorruptData why)"
proof -
  have "8 \<le> length (save_payload demo3)" by (simp add: save_payload_def)
  then show ?thesis
    by (intro truncated_file_is_rejected [OF demo3_fits]) (simp add: save_file_bytes)
qed

theorem recovery_rebuilds_the_index_witness:
  "\<exists>st'. rf_load (Some (save_file demo3)) = Inr st' \<and> runtime_inv st'"
  using recovery_rebuilds_the_index [OF demo3_storable demo3_fits demo3_safe(1)] by blast

lemma demo3_lines: "lines_within_capacity demo3"
proof -
  have "\<exists>p. env_profile demo_env t = Some p \<and> pt_cap p \<le> 100" if "0 \<le> t" "t < 1000" for t
  proof -
    consider "t < 100" | "100 \<le> t" "t < 200" | "200 \<le> t" "t < 500" | "500 \<le> t" by linarith
    then show ?thesis
      using that by cases
        (simp_all add: demo_env_def env_profile_def agg_profile_def profile_def covers_def
           pend_def cell_point_def)
  qed
  then show ?thesis by (simp add: lines_within_capacity_def demo3_eq demo_env_def)
qed

theorem recovery_never_overbooks_witness:
  "\<exists>st' p. rf_load (Some (save_file demo3)) = Inr st' \<and>
     env_point (st_envelopes st') (StrongId 7) 150 = Some p \<and>
     asum (hard_of (StrongId 7) 150) (st_reservations st') +
     asum (held_of (StrongId 7) 150) (st_holds st') \<le> pt_cap p"
proof -
  note load = load_save [OF demo3_storable demo3_fits]
  have match: "contributions_match demo3"
    by (simp add: contributions_match_def demo3_eq demo_active_def demo_rv_def)
  have line: "\<exists>p. env_point (st_envelopes (reloaded demo3)) (StrongId 7) 150 = Some p"
    by (rule reloaded_line [OF demo3_storable demo3_safe(1), where e = demo_env])
       (simp add: demo3_eq, simp_all add: demo3_eq demo_env_def)
  then show ?thesis
    using recovery_never_overbooks [OF demo3_storable demo3_fits demo3_safe match demo3_lines load]
      load by blast
qed

end
