(* ===== verification/RF_Bundle.thy ===== *)
theory RF_Bundle
  imports RF_Roundtrip_Props RF_All_Steps
begin

text \<open>
  \<^verbatim>\<open>commitBundle\<close> is all or nothing: the provisional holds and the members that it places are
  tracked through its three phases and its rollbacks.
\<close>

section \<open>The trace of a bundle\<close>

text \<open>
  \<open>trace st0 H M st\<close>: since \<open>st0\<close> the holds \<open>H\<close> and the reservations \<open>M\<close> were added, everything
  else on record is as it was, and the lines moved with the registry.
\<close>

definition trace :: "Impl \<Rightarrow> ReservationHoldId set \<Rightarrow> ReservationId set \<Rightarrow> Impl \<Rightarrow> bool" where
  "trace st0 H M st \<longleftrightarrow> runtime_inv st \<and>
     (\<exists>h s l. moves (st_envelopes st0) (st_envelopes st) h s l) \<and>
     (\<forall>k. k \<notin> H \<longrightarrow> map_of (st_holds st) k = map_of (st_holds st0) k) \<and>
     (\<forall>k\<in>H. map_of (st_holds st0) k = None \<and> map_of (st_holds st) k \<noteq> None) \<and>
     (\<forall>k. k \<notin> M \<longrightarrow> map_of (st_reservations st) k = map_of (st_reservations st0) k) \<and>
     (\<forall>k\<in>M. map_of (st_reservations st0) k = None \<and> map_of (st_reservations st) k \<noteq> None)"

definition in_hold_state :: "HoldState \<Rightarrow> ReservationHoldId \<Rightarrow> Impl \<Rightarrow> bool" where
  "in_hold_state s k st \<longleftrightarrow> (\<exists>h. map_of (st_holds st) k = Some h \<and> hold_state h = s)"

definition off_line :: "ReservationHoldId \<Rightarrow> Impl \<Rightarrow> bool" where
  "off_line k st \<longleftrightarrow> (\<forall>h. map_of (st_holds st) k = Some h \<longrightarrow> \<not> hold_applied h)"

definition cancelled :: "ReservationId \<Rightarrow> Impl \<Rightarrow> bool" where
  "cancelled k st \<longleftrightarrow> (\<forall>r. map_of (st_reservations st) k = Some r \<longrightarrow>
     rv_lifecycle r = Lifecycle_Cancelled \<and> \<not> rv_contributes r)"

lemma trace_refl: "runtime_inv st \<Longrightarrow> trace st {} {} st"
  using moves_refl [OF runtime_envs_ok] by (fastforce simp: trace_def)

lemma trace_inv: "trace st0 H M st \<Longrightarrow> runtime_inv st"
  by (simp add: trace_def)

lemma trace_moves:
  assumes "trace st0 H M st" "runtime_inv st'" "\<exists>h s l. moves (st_envelopes st) (st_envelopes st') h s l"
    and "\<And>k. map_of (st_holds st') k = map_of (st_holds st) k"
    and "\<And>k. map_of (st_reservations st') k = map_of (st_reservations st) k"
  shows "trace st0 H M st'"
proof -
  from assms(1,3) have "\<exists>h s l. moves (st_envelopes st0) (st_envelopes st') h s l"
    unfolding trace_def by (blast intro: moves_trans)
  with assms show ?thesis by (simp add: trace_def)
qed

lemma quiet_moves: "quiet st st' \<Longrightarrow> \<exists>h s l. moves (st_envelopes st) (st_envelopes st') h s l"
  unfolding quiet_def by (blast dest: effect_moves)

lemma trace_quiet:
  "trace st0 H M st \<Longrightarrow> quiet st st' \<Longrightarrow> st_holds st' = st_holds st \<Longrightarrow>
   st_reservations st' = st_reservations st \<Longrightarrow> trace st0 H M st'"
  by (rule trace_moves) (auto dest: quiet_inv quiet_moves)

text \<open>Entries that were added and carry no load leave the sums as they were.\<close>

lemma asum_added_zero:
  assumes "keys_distinct xs" "keys_distinct ys"
    and same: "\<And>k. k \<notin> K \<Longrightarrow> map_of ys k = map_of xs k"
    and new: "\<And>k. k \<in> K \<Longrightarrow> map_of xs k = None"
    and zero: "\<And>k v. k \<in> K \<Longrightarrow> map_of ys k = Some v \<Longrightarrow> f v = 0"
  shows "asum f ys = asum f xs"
proof -
  have sub: "fst ` set xs \<subseteq> fst ` set ys"
  proof
    fix k assume k: "k \<in> fst ` set xs"
    then have "k \<notin> K" using new by (auto simp only: in_keys)
    then have "map_of ys k = map_of xs k" by (rule same)
    with k show "k \<in> fst ` set ys" by (metis in_keys)
  qed
  have zeros: "f (the (map_of ys k)) = 0" if "k \<in> fst ` set ys - fst ` set xs" for k
  proof -
    from that obtain v where v: "map_of ys k = Some v" "map_of xs k = None"
      by (auto simp only: in_keys Diff_iff)
    with same have "k \<in> K" by fastforce
    with zero v show ?thesis by simp
  qed
  have "asum f ys = (\<Sum>k\<in>fst ` set ys. f (the (map_of ys k)))" by (rule asum_map_of [OF assms(2)])
  also have "\<dots> = (\<Sum>k\<in>fst ` set xs. f (the (map_of ys k)))"
    by (rule sum.mono_neutral_right) (use sub zeros in auto)
  also have "\<dots> = (\<Sum>k\<in>fst ` set xs. f (the (map_of xs k)))"
  proof (rule sum.cong [OF refl])
    fix k assume "k \<in> fst ` set xs"
    then have "k \<notin> K" using new by (auto simp only: in_keys)
    with same show "f (the (map_of ys k)) = f (the (map_of xs k))" by simp
  qed
  also have "\<dots> = asum f xs" by (rule asum_map_of [OF assms(1), symmetric])
  finally show ?thesis .
qed

text \<open>When all that was added has been taken back, every line is what it was.\<close>

lemma trace_undone:
  assumes inv: "runtime_inv st0" and t: "trace st0 H M st"
    and holds: "\<And>k. k \<in> H \<Longrightarrow> off_line k st" and members: "\<And>k. k \<in> M \<Longrightarrow> cancelled k st"
  shows "env_point (st_envelopes st) i x = env_point (st_envelopes st0) i x"
proof -
  note inv' = trace_inv [OF t]
  obtain h s l where m: "moves (st_envelopes st0) (st_envelopes st) h s l"
    using t by (auto simp: trace_def)
  have hard: "asum (hard_of i t) (st_reservations st) = asum (hard_of i t) (st_reservations st0)"
    and soft: "asum (soft_of i t) (st_reservations st) = asum (soft_of i t) (st_reservations st0)" for i t
    by (rule asum_added_zero [OF runtime_parts(2) [OF inv] runtime_parts(2) [OF inv'], where K = M];
        use t members in \<open>auto simp: trace_def cancelled_def\<close>)+
  have held: "asum (held_of i t) (st_holds st) = asum (held_of i t) (st_holds st0)" for i t
    by (rule asum_added_zero [OF runtime_parts(3) [OF inv] runtime_parts(3) [OF inv'], where K = H])
       (use t holds in \<open>auto simp: trace_def off_line_def held_of_def\<close>)
  show ?thesis by (rule line_determined [OF inv inv' m hard soft held])
qed

section \<open>Releasing holds\<close>

lemma releaseHoldLocked_map:
  "map_of (st_holds (releaseHoldLocked i st)) i =
     map_option (\<lambda>h. h\<lparr>hold_state := Hold_Released, hold_applied := False\<rparr>) (map_of (st_holds st) i)"
  "k \<noteq> i \<Longrightarrow> map_of (st_holds (releaseHoldLocked i st)) k = map_of (st_holds st) k"
proof -
  have drop: "fst (drop_hold Hold_Released h es) = h\<lparr>hold_state := Hold_Released, hold_applied := False\<rparr>"
    for h es by (simp add: drop_hold_def)
  show "map_of (st_holds (releaseHoldLocked i st)) i =
     map_option (\<lambda>h. h\<lparr>hold_state := Hold_Released, hold_applied := False\<rparr>) (map_of (st_holds st) i)"
    "k \<noteq> i \<Longrightarrow> map_of (st_holds (releaseHoldLocked i st)) k = map_of (st_holds st) k"
    by (auto simp: releaseHoldLocked_def put_hold_def case_prod_beta drop split: option.split)
qed

lemma trace_release:
  assumes "trace st0 H M st" "k \<in> H"
  shows "trace st0 H M (releaseHoldLocked k st)" "off_line k (releaseHoldLocked k st)"
    "off_line j st \<Longrightarrow> off_line j (releaseHoldLocked k st)"
    "cancelled m st \<Longrightarrow> cancelled m (releaseHoldLocked k st)"
proof -
  note s = releaseHoldLocked_sheds [OF trace_inv [OF assms(1)], of k]
  have m: "\<exists>h s l. moves (st_envelopes st0) (st_envelopes (releaseHoldLocked k st)) h s l"
    using assms(1) sheds_moves [OF s] unfolding trace_def by (blast intro: moves_trans)
  have holds: "j \<notin> H \<longrightarrow> map_of (st_holds (releaseHoldLocked k st)) j = map_of (st_holds st) j"
    "map_of (st_holds (releaseHoldLocked k st)) j = None \<longleftrightarrow> map_of (st_holds st) j = None" for j
    using releaseHoldLocked_map(1) [of k st] releaseHoldLocked_map(2) [of j k st] assms(2)
    by (cases "j = k"; auto)+
  show "trace st0 H M (releaseHoldLocked k st)"
    using assms m sheds_inv [OF s] holds
    by (simp add: trace_def hold_operations_keep del: map_of_eq_None_iff)
  show "off_line k (releaseHoldLocked k st)"
    by (auto simp: off_line_def releaseHoldLocked_map)
  show "off_line j st \<Longrightarrow> off_line j (releaseHoldLocked k st)"
    by (cases "j = k") (auto simp: off_line_def releaseHoldLocked_map)
  show "cancelled m st \<Longrightarrow> cancelled m (releaseHoldLocked k st)"
    by (simp add: cancelled_def hold_operations_keep)
qed

lemma trace_release_holds:
  "trace st0 H M st \<Longrightarrow> set ids \<subseteq> H \<Longrightarrow>
   trace st0 H M (release_holds ids st) \<and> (\<forall>k\<in>set ids. off_line k (release_holds ids st)) \<and>
   (\<forall>k. off_line k st \<longrightarrow> off_line k (release_holds ids st)) \<and>
   (\<forall>m. cancelled m st \<longrightarrow> cancelled m (release_holds ids st))"
  unfolding release_holds_def
proof (induction ids arbitrary: st)
  case (Cons i ids)
  note r = trace_release [OF Cons.prems(1), of i]
  from Cons.IH [OF r(1)] Cons.prems(2) r(2-4) show ?case by simp
qed simp

section \<open>Phase 2\<close>

text \<open>The identities that the counter of the holds will give to the next \<open>n\<close> holds.\<close>

definition next_hold :: "Impl \<Rightarrow> nat \<Rightarrow> ReservationHoldId" where
  "next_hold st n = StrongId (st_nextHoldId st + 1 + word_of_nat n)"

lemma acquire_counters:
  "st_nextHoldId (snd (acquireHoldLocked now spec st)) = st_nextHoldId st"
  by (simp add: acquireHoldLocked_def Let_def case_prod_beta split: sum.split)

lemma acquire_refused:
  "acquireHoldLocked now spec st = (Inr hr, st') \<Longrightarrow> \<not> hr_created hr \<Longrightarrow>
   st_holds st' = st_holds st"
  by (auto simp: acquireHoldLocked_def Let_def HoldResult_default_def split: if_splits prod.splits sum.splits)

lemma next_hold_Suc:
  "next_hold (st'\<lparr>st_nextHoldId := st_nextHoldId st + 1\<rparr>) n = next_hold st (Suc n)"
  by (simp add: next_hold_def)

lemma next_hold_inj:
  assumes "next_hold st m = next_hold st n" "m < 2 ^ 64" "n < 2 ^ 64"
  shows "m = n"
proof -
  from assms(1) have "(word_of_nat m :: u64) = word_of_nat n" by (simp add: next_hold_def)
  then have "unat (word_of_nat m :: u64) = unat (word_of_nat n :: u64)" by simp
  with assms(2,3) show ?thesis by (simp add: unat_of_nat)
qed

lemma acquire_all_trace:
  assumes "acquire_all clock n ms ids st = (Inr res, st')"
    and "trace st0 (set ids) {} st" "distinct ids" "\<And>k. k \<in> set ids \<Longrightarrow> in_hold_state Hold_Acquired k st"
    and "\<And>j. j < length ms \<Longrightarrow> map_of (st_holds st0) (next_hold st j) = None \<and> next_hold st j \<notin> set ids"
    and "length ms < 2 ^ 64"
  shows "case res of
      None \<Rightarrow> \<exists>H. trace st0 H {} st' \<and> (\<forall>k\<in>H. off_line k st')
    | Some ids' \<Rightarrow> trace st0 (set ids') {} st' \<and> distinct ids' \<and> length ids' = length ids + length ms \<and>
        (\<forall>k\<in>set ids'. in_hold_state Hold_Acquired k st')"
  using assms
proof (induction clock n ms ids st rule: acquire_all.induct)
  case (1 clock n ids st)
  then show ?case by auto
next
  case (2 clock n m ms ids st)
  let ?i = "StrongId (st_nextHoldId st + 1) :: ReservationHoldId"
  let ?st1 = "st\<lparr>st_nextHoldId := st_nextHoldId st + 1\<rparr>"
  have i: "?i = next_hold st 0" by (simp add: next_hold_def)
  have new: "map_of (st_holds st0) ?i = None" "?i \<notin> set ids"
    using "2.prems"(5) [of 0] by (simp_all add: i del: map_of_eq_None_iff)
  have inv: "runtime_inv st" by (rule trace_inv [OF "2.prems"(2)])
  have t1: "trace st0 (set ids) {} ?st1"
    by (rule trace_quiet [OF "2.prems"(2) quiet_cong [OF inv]]) simp_all
  have fresh: "map_of (st_holds ?st1) (hs_holdId (bundle_hold_spec m ?i)) = None"
    using "2.prems"(2) new by (simp add: trace_def bundle_hold_spec_def del: map_of_eq_None_iff)
  obtain a st2 where a: "acquireHoldLocked (clock n) (bundle_hold_spec m ?i) ?st1 = (a, st2)" by fastforce
  with "2.prems"(1) obtain hr where hr: "a = Inr hr" by (cases a) auto
  from trace_inv [OF t1] fresh a show ?case
  proof (cases rule: acquireHold_cases)
    case refused
    have no: "\<not> hr_created hr" by (rule refused(2) [OF hr])
    have t2: "trace st0 (set ids) {} st2"
      by (rule trace_quiet [OF t1 refused(1) acquire_refused [OF _ no] refused(5)]) (use a hr in simp)
    have "res = None" "st' = release_holds ids st2"
      using "2.prems"(1) a hr no by simp_all
    with trace_release_holds [OF t2 order_refl] show ?thesis by auto
  next
    case (acquired b)
    have yes: "hr_created hr" using acquired(3) hr by simp
    have spec: "hs_holdId (bundle_hold_spec m ?i) = ?i" by (simp add: bundle_hold_spec_def)
    have c: "st_nextHoldId st2 = st_nextHoldId st + 1"
      using acquire_counters [of "clock n" "bundle_hold_spec m ?i" ?st1] a by simp
    have run: "acquire_all clock (n + 1) ms (ids @ [?i]) st2 = (Inr res, st')"
      using "2.prems"(1) a hr yes by simp
    have kept: "map_of (st_holds st2) k = map_of (st_holds st) k" if "k \<noteq> ?i" for k
      using acquired(7) [of k] that by (simp add: spec)
    have "\<exists>h s l. moves (st_envelopes st0) (st_envelopes st2) h s l"
      using t1 effect_moves [OF acquired(1)] unfolding trace_def by (blast intro: moves_trans)
    moreover have "map_of (st_holds st2) k = map_of (st_holds st0) k" if "k \<notin> set (ids @ [?i])" for k
      using that "2.prems"(2) kept [of k] by (simp add: trace_def)
    moreover have "map_of (st_holds st0) k = None \<and> map_of (st_holds st2) k \<noteq> None"
      if "k \<in> set (ids @ [?i])" for k
      using that "2.prems"(2) kept [of k] new acquired(6)
      by (cases "k = ?i") (auto simp: trace_def spec simp del: map_of_eq_None_iff)
    ultimately have t2: "trace st0 (set (ids @ [?i])) {} st2"
      using t1 acquired(1,4) by (simp add: trace_def effect_def del: map_of_eq_None_iff)
    have acq: "in_hold_state Hold_Acquired k st2" if "k \<in> set (ids @ [?i])" for k
      using that "2.prems"(4) [of k] acquired(6,7) new(2)
      by (cases "k = ?i") (auto simp: in_hold_state_def spec)
    have later: "map_of (st_holds st0) (next_hold st2 j) = None \<and> next_hold st2 j \<notin> set (ids @ [?i])"
      if "j < length ms" for j
    proof -
      have "next_hold st2 j = next_hold st (Suc j)" by (simp add: next_hold_def c)
      moreover have "next_hold st (Suc j) \<noteq> next_hold st 0"
        using next_hold_inj [of st "Suc j" 0] that "2.prems"(6) by auto
      ultimately show ?thesis
        using "2.prems"(5) [of "Suc j"] that by (simp add: i del: map_of_eq_None_iff)
    qed
    have "distinct (ids @ [?i])" using "2.prems"(3) new(2) by simp
    from "2.IH" [OF refl refl a [symmetric] hr _ run t2 this acq later] yes "2.prems"(6)
    show ?thesis by (auto split: option.splits)
  qed
qed

section \<open>Phase 3\<close>

definition member_of :: "Impl \<Rightarrow> ReservationRequest \<Rightarrow> ReservationId \<Rightarrow> bool" where
  "member_of st m k \<longleftrightarrow> (\<exists>r. map_of (st_reservations st) k = Some r \<and>
     rv_quantity r = req_quantity m \<and> rv_window r = req_window m \<and> rv_strength r = req_strength m \<and>
     rv_lifecycle r = Lifecycle_Committed \<and> rv_contributes r)"

lemma commitOne_uses_hold:
  assumes "commitOneLocked req (Some k) st = (Inr rr, st')" "rr_committed rr"
  shows "in_hold_state Hold_Committed k st'" "off_line k st'"
proof -
  obtain rep st1 where as: "assessOne req st = (rep, st1)" by fastforce
  from commitOne_run(1) [OF assms(1) as] assms(2) obtain st3 where
    ok: "hold_refusal (Some k) (fr_resource rep) st1 = None" and "st' = commit_hold k st3"
    "st_holds st3 = st_holds st1"
    by (auto simp: Let_def insert_reservation_def case_prod_beta)
  moreover from ok obtain h where "map_of (st_holds st1) k = Some h"
    by (auto simp: hold_refusal_None)
  ultimately show "in_hold_state Hold_Committed k st'" "off_line k st'"
    by (simp_all add: commit_hold_def put_hold_def in_hold_state_def off_line_def)
qed

lemma trace_rollback:
  assumes t: "trace st0 H M st" and k: "k \<in> M"
  shows "trace st0 H M (rollback_member k st)" "cancelled k (rollback_member k st)"
    "cancelled j st \<Longrightarrow> cancelled j (rollback_member k st)"
    "off_line i st \<Longrightarrow> off_line i (rollback_member k st)"
    "in_hold_state s i st \<Longrightarrow> in_hold_state s i (rollback_member k st)"
proof -
  let ?f = "\<lambda>r::Reservation. r\<lparr>rv_lifecycle := Lifecycle_Cancelled\<rparr>"
  obtain r where r: "map_of (st_reservations st) k = Some r" using t k by (auto simp: trace_def)
  have same: "\<And>r. same_load r (?f r)" by (simp add: same_load_def)
  have st': "rollback_member k st = withdraw k ?f r st"
    by (simp add: rollback_member_def r withdraw_def put_reservation_def case_prod_beta Let_def)
  note w = withdraw_sheds [where f = ?f, OF trace_inv [OF t] r same, folded st']
  from withdraw_result [where f = ?f, OF trace_inv [OF t] r same, folded st']
  have at: "map_of (st_reservations (rollback_member k st)) k = Some (?f (r\<lparr>rv_contributes := False\<rparr>))"
    and others: "\<And>j. j \<noteq> k \<Longrightarrow>
      map_of (st_reservations (rollback_member k st)) j = map_of (st_reservations st) j"
    and holds: "st_holds (rollback_member k st) = st_holds st" by auto
  have "\<exists>h s l. moves (st_envelopes st0) (st_envelopes (rollback_member k st)) h s l"
    using t sheds_moves [OF w] unfolding trace_def by (blast intro: moves_trans)
  moreover have "map_of (st_reservations (rollback_member k st)) j \<noteq> None" if "j \<in> M" for j
    using that t at others [of j] by (cases "j = k") (auto simp: trace_def simp del: map_of_eq_None_iff)
  moreover have "map_of (st_reservations (rollback_member k st)) j = map_of (st_reservations st) j"
    if "j \<notin> M" for j using that k others [of j] by blast
  ultimately show "trace st0 H M (rollback_member k st)"
    using t sheds_inv [OF w] by (simp add: trace_def holds del: map_of_eq_None_iff)
  show "cancelled k (rollback_member k st)" by (simp add: cancelled_def at)
  show "cancelled j st \<Longrightarrow> cancelled j (rollback_member k st)"
    using at others [of j] by (cases "j = k") (auto simp: cancelled_def)
  show "off_line i st \<Longrightarrow> off_line i (rollback_member k st)"
    "in_hold_state s i st \<Longrightarrow> in_hold_state s i (rollback_member k st)"
    by (simp_all add: off_line_def in_hold_state_def holds)
qed

lemma trace_rollback_all:
  "trace st0 H M st \<Longrightarrow> set ids \<subseteq> M \<Longrightarrow>
   trace st0 H M (fold rollback_member ids st) \<and>
   (\<forall>k\<in>set ids. cancelled k (fold rollback_member ids st)) \<and>
   (\<forall>k. cancelled k st \<longrightarrow> cancelled k (fold rollback_member ids st)) \<and>
   (\<forall>i. off_line i st \<longrightarrow> off_line i (fold rollback_member ids st))"
proof (induction ids arbitrary: st)
  case (Cons k ids)
  note r = trace_rollback [OF Cons.prems(1), of k]
  from Cons.IH [OF r(1)] Cons.prems(2) r(2-4) show ?case by simp
qed simp

lemma trace_commit:
  assumes t: "trace st0 H M st" and n: "st_nextReservationId st \<noteq> - 1"
    and run: "commitOneLocked m (Some i) st = (Inr rr, st')" and yes: "rr_committed rr" and i: "i \<in> H"
  shows "trace st0 H (insert (rr_id rr) M) st'" "member_of st' m (rr_id rr)" "rr_id rr \<notin> M"
    "off_line i st'" "k \<noteq> i \<Longrightarrow> off_line k st \<Longrightarrow> off_line k st'"
    "k \<noteq> i \<Longrightarrow> in_hold_state s k st \<Longrightarrow> in_hold_state s k st'"
    "j \<in> M \<Longrightarrow> member_of st x j \<Longrightarrow> member_of st' x j"
proof -
  note c = commitOne_success [OF trace_inv [OF t] n run yes]
  have fresh: "map_of (st_reservations st) (rr_id rr) = None"
    using fresh_reservation_id [OF runtime_parts(6) [OF trace_inv [OF t]] n] c(4) by simp
  show new: "rr_id rr \<notin> M" using t fresh by (auto simp: trace_def)
  have fresh0: "map_of (st_reservations st0) (rr_id rr) = None"
    using t new fresh by (simp add: trace_def del: map_of_eq_None_iff)
  obtain r where r: "map_of (st_reservations st') (rr_id rr) = Some r"
      "committed_reservation m (fr_resource (rr_feasibility rr)) (rr_id rr) (rr_generation rr) r"
    using c(4,5) by auto
  have others: "\<And>k. k \<noteq> rr_id rr \<Longrightarrow> map_of (st_reservations st') k = map_of (st_reservations st) k"
    using c(4,6) by simp
  have holds: "\<And>k. k \<noteq> i \<Longrightarrow> map_of (st_holds st') k = map_of (st_holds st) k" using c(7) by simp
  note used = commitOne_uses_hold [OF run yes]
  have "\<exists>h s l. moves (st_envelopes st0) (st_envelopes st') h s l"
    using t effect_moves [OF c(1)] unfolding trace_def by (blast intro: moves_trans)
  moreover have "map_of (st_holds st') k \<noteq> None" if "k \<in> H" for k
    using that t holds [of k] used(1) by (cases "k = i") (auto simp: trace_def in_hold_state_def simp del: map_of_eq_None_iff)
  moreover have "map_of (st_reservations st') k \<noteq> None" if "k \<in> insert (rr_id rr) M" for k
    using that t others [of k] r(1) by (cases "k = rr_id rr") (auto simp: trace_def simp del: map_of_eq_None_iff)
  moreover have "map_of (st_holds st') k = map_of (st_holds st0) k" if "k \<notin> H" for k
    using that i t holds [of k] by (auto simp: trace_def)
  moreover have "map_of (st_reservations st') k = map_of (st_reservations st0) k"
    if "k \<notin> insert (rr_id rr) M" for k
    using that t others [of k] by (auto simp: trace_def)
  moreover have "runtime_inv st'" using c(1) by (simp add: effect_def)
  ultimately show "trace st0 H (insert (rr_id rr) M) st'"
    using t fresh0 by (simp add: trace_def del: map_of_eq_None_iff)
  show "member_of st' m (rr_id rr)" using r by (simp add: member_of_def committed_reservation_def)
  show "off_line i st'" by (rule used(2))
  show "k \<noteq> i \<Longrightarrow> off_line k st \<Longrightarrow> off_line k st'"
    "k \<noteq> i \<Longrightarrow> in_hold_state s k st \<Longrightarrow> in_hold_state s k st'"
    using holds by (simp_all add: off_line_def in_hold_state_def)
  show "j \<in> M \<Longrightarrow> member_of st x j \<Longrightarrow> member_of st' x j"
    using others [of j] new by (cases "j = rr_id rr") (auto simp: member_of_def)
qed

lemma commit_all_trace:
  assumes "commit_all ms is mids st = (Inr res, st')"
    and "trace st0 H (set mids) st" "distinct mids" "list_all2 (member_of st) xs mids"
    and "set is \<subseteq> H" "distinct is" "length is = length ms"
    and "\<And>k. k \<in> H \<Longrightarrow> k \<notin> set is \<Longrightarrow> off_line k st"
    and "unat (st_nextReservationId st) + length ms < 2 ^ 64"
  shows "case res of
      None \<Rightarrow> \<exists>M. trace st0 H M st' \<and> (\<forall>k\<in>H. off_line k st') \<and> (\<forall>k\<in>M. cancelled k st')
    | Some ids \<Rightarrow> trace st0 H (set ids) st' \<and> (\<forall>k\<in>H. off_line k st') \<and> distinct ids \<and>
        list_all2 (member_of st') (xs @ ms) ids"
  using assms
proof (induction ms "is" mids st arbitrary: xs rule: commit_all.induct)
  case (1 m ms i "is" mids st)
  obtain a st1 where a: "commitOneLocked m (Some i) st = (a, st1)" by fastforce
  with "1.prems"(1) obtain rr where rr: "a = Inr rr" by (cases a) auto
  have room: "unat (st_nextReservationId st) + 1 < 2 ^ 64" using "1.prems"(9) by simp
  then have n: "st_nextReservationId st \<noteq> - 1" by (auto simp: unsigned_minus_1_eq_mask mask_eq_exp_minus_1)
  have iH: "i \<in> H" using "1.prems"(5) by simp
  show ?case
  proof (cases "rr_committed rr")
    case False
    note f = commitOne_failure [OF trace_inv [OF "1.prems"(2)] n a]
    have t1: "trace st0 H (set mids) st1"
      by (rule trace_quiet [OF "1.prems"(2) f(1,3,2)]) (use False rr in simp_all)
    have off1: "k \<in> H \<Longrightarrow> k \<notin> set (i # is) \<Longrightarrow> off_line k st1" for k
      using "1.prems"(8) f(3) False rr by (simp add: off_line_def)
    note u = trace_rollback_all [OF t1 order_refl]
    note w = trace_release_holds [OF conjunct1 [OF u] "1.prems"(5)]
    have "res = None" "st' = release_holds (i # is) (fold rollback_member mids st1)"
      using "1.prems"(1) a rr False by simp_all
    moreover have "off_line k (release_holds (i # is) (fold rollback_member mids st1))" if "k \<in> H" for k
      using that u w off1 by (cases "k \<in> set (i # is)") blast+
    ultimately show ?thesis using u w by auto
  next
    case True
    note c = trace_commit [OF "1.prems"(2) n a [unfolded rr] True iH]
    have run: "commit_all ms is (mids @ [rr_id rr]) st1 = (Inr res, st')"
      using "1.prems"(1) a rr True by simp
    have next_id: "st_nextReservationId st1 = st_nextReservationId st + 1"
      by (rule commitOne_success(8) [OF trace_inv [OF "1.prems"(2)] n a [unfolded rr] True])
    have t1: "trace st0 H (set (mids @ [rr_id rr])) st1" using c(1) by simp
    have kept: "list_all2 (member_of st1) (xs @ [m]) (mids @ [rr_id rr])"
      using "1.prems"(4) c(2,7) by (auto intro!: list_all2_appendI elim!: list.rel_mono_strong)
    have off: "off_line k st1" if "k \<in> H" "k \<notin> set is" for k
      using that "1.prems"(8) [of k] c(4,5) by (cases "k = i") auto
    have room': "unat (st_nextReservationId st1) + length ms < 2 ^ 64"
      using "1.prems"(9) n by (simp add: next_id unat_plus_one)
    have dist: "distinct (mids @ [rr_id rr])" using "1.prems"(3) c(3) by simp
    from "1.IH" [OF a [symmetric] rr _ run t1 dist kept _ _ _ off room'] True "1.prems"(5,6,7)
    show ?thesis by (auto split: option.splits)
  qed
qed auto

section \<open>The bundle\<close>

lemma assessOne_keeps_holds:
  "st_holds (snd (assessOne m st)) = st_holds st"
  "st_nextHoldId (snd (assessOne m st)) = st_nextHoldId st"
  "st_nextReservationId (snd (assessOne m st)) = st_nextReservationId st"
proof -
  obtain es where "snd (assessOne m st) = st\<lparr>st_envelopes := es\<rparr>"
    by (rule assessOne_frame [OF prod.collapse [symmetric]])
  then show "st_holds (snd (assessOne m st)) = st_holds st"
    "st_nextHoldId (snd (assessOne m st)) = st_nextHoldId st"
    "st_nextReservationId (snd (assessOne m st)) = st_nextReservationId st" by simp_all
qed

lemma assess_bundle_frame:
  "st_holds (snd (assess_bundle ms st)) = st_holds st"
  "st_nextHoldId (snd (assess_bundle ms st)) = st_nextHoldId st"
  "st_nextReservationId (snd (assess_bundle ms st)) = st_nextReservationId st"
proof (induction ms arbitrary: st)
  case (Cons m ms)
  { case 1 show ?case using Cons.IH(1) by (simp add: Let_def case_prod_beta assessOne_keeps_holds) }
  { case 2 show ?case using Cons.IH(2) by (simp add: Let_def case_prod_beta assessOne_keeps_holds) }
  { case 3 show ?case using Cons.IH(3) by (simp add: Let_def case_prod_beta assessOne_keeps_holds) }
qed simp_all

lemma acquire_all_counter:
  "st_nextReservationId (snd (acquire_all clock n ms ids st)) = st_nextReservationId st"
proof (induction clock n ms ids st rule: acquire_all.induct)
  case (2 clock n m ms ids st)
  have acq: "st_nextReservationId (snd (acquireHoldLocked now spec st)) = st_nextReservationId st"
    for now spec st
    by (simp add: acquireHoldLocked_def Let_def case_prod_beta split: sum.split)
  have rel: "st_nextReservationId (release_holds is st) = st_nextReservationId st" for "is" st
    unfolding release_holds_def
    by (induction "is" arbitrary: st)
       (simp_all add: releaseHoldLocked_def put_hold_def case_prod_beta split: option.split)
  obtain a st2 where a: "acquireHoldLocked (clock n)
      (bundle_hold_spec m (StrongId (st_nextHoldId st + 1))) (st\<lparr>st_nextHoldId := st_nextHoldId st + 1\<rparr>) = (a, st2)"
    by fastforce
  have "st_nextReservationId st2 = st_nextReservationId st"
    using acq [of "clock n" "bundle_hold_spec m (StrongId (st_nextHoldId st + 1))"
        "st\<lparr>st_nextHoldId := st_nextHoldId st + 1\<rparr>"] a by simp
  with 2 [OF refl refl a [symmetric]] a rel show ?case by (auto simp: Let_def split: sum.split)
qed simp

definition bundle_effect :: "Impl \<Rightarrow> ReservationRequest list \<Rightarrow> CompositeResult \<Rightarrow> Impl \<Rightarrow> bool" where
  "bundle_effect st ms out st' \<longleftrightarrow> runtime_inv st' \<and>
    (if cr_committed out
     then list_all2 (member_of st') ms (cr_memberIds out) \<and> distinct (cr_memberIds out) \<and>
       (\<exists>s. map_of (st_sets st') (cr_setId out) = Some s \<and> set_members s = cr_memberIds out)
     else \<forall>i t. env_point (st_envelopes st') i t = env_point (st_envelopes st) i t) \<and>
    (\<forall>k r. map_of (st_reservations st) k = Some r \<longrightarrow> map_of (st_reservations st') k = Some r) \<and>
    (\<forall>k h. map_of (st_holds st) k = Some h \<longrightarrow> map_of (st_holds st') k = Some h) \<and>
    (\<forall>k. map_of (st_reservations st) k = None \<longrightarrow>
       (if cr_committed out then k \<in> set (cr_memberIds out) \<or> map_of (st_reservations st') k = None
        else cancelled k st')) \<and>
    (\<forall>k. map_of (st_holds st) k = None \<longrightarrow> off_line k st')"

text \<open>What a trace leaves alone.\<close>

lemma trace_kept:
  assumes t: "trace st H M s" and off: "\<forall>k\<in>H. off_line k s"
  shows "(\<forall>k r. map_of (st_reservations st) k = Some r \<longrightarrow> map_of (st_reservations s) k = Some r) \<and>
      (\<forall>k h. map_of (st_holds st) k = Some h \<longrightarrow> map_of (st_holds s) k = Some h) \<and>
      (\<forall>k. map_of (st_holds st) k = None \<longrightarrow> off_line k s) \<and>
      (\<forall>k. map_of (st_reservations st) k = None \<longrightarrow> k \<in> M \<or> map_of (st_reservations s) k = None)"
proof (intro conjI allI impI)
  fix k r assume r: "map_of (st_reservations st) k = Some r"
  then have "k \<notin> M" using t by (auto simp: trace_def)
  with r t show "map_of (st_reservations s) k = Some r" by (simp add: trace_def)
next
  fix k h assume h: "map_of (st_holds st) k = Some h"
  then have "k \<notin> H" using t by (auto simp: trace_def)
  with h t show "map_of (st_holds s) k = Some h" by (simp add: trace_def)
next
  fix k assume "map_of (st_holds st) k = None"
  with t off show "off_line k s" by (cases "k \<in> H") (auto simp: trace_def off_line_def)
next
  fix k assume "map_of (st_reservations st) k = None"
  with t show "k \<in> M \<or> map_of (st_reservations s) k = None"
    by (cases "k \<in> M") (simp_all add: trace_def del: map_of_eq_None_iff)
qed

lemma bundle_undone:
  assumes "runtime_inv st" and t: "trace st H M st'" "\<forall>k\<in>H. off_line k st'" "\<forall>k\<in>M. cancelled k st'"
    and no: "\<not> cr_committed out"
  shows "bundle_effect st ms out st'"
proof -
  have "cancelled k st'" if "map_of (st_reservations st') k = None" for k
    using that by (simp add: cancelled_def)
  with trace_kept [OF t(1,2)] t(3) no trace_inv [OF t(1)] trace_undone [OF assms(1) t(1)] t(2) show ?thesis
    by (simp add: bundle_effect_def Ball_def del: map_of_eq_None_iff) blast
qed

lemma bundle_done:
  assumes t: "trace st H (set mids) st4" "\<forall>k\<in>H. off_line k st4" "distinct mids"
      "list_all2 (member_of st4) ms mids"
    and out: "st' = st4\<lparr>st_sets := AList.update sid (committed_set ms sid mids) (st_sets st4)\<rparr>"
      "cr_committed out" "cr_memberIds out = mids" "cr_setId out = sid"
  shows "bundle_effect st ms out st'"
proof -
  have "runtime_inv st'" by (rule runtime_inv_cong [OF trace_inv [OF t(1)]]) (simp_all add: out)
  moreover have "member_of st' = member_of st4" "\<And>k. off_line k st' = off_line k st4"
    by (simp_all add: fun_eq_iff member_of_def off_line_def out)
  ultimately show ?thesis
    using trace_kept [OF t(1,2)] t(3,4)
    by (simp add: bundle_effect_def out committed_set_def del: map_of_eq_None_iff)
qed

text \<open>The four ways through the bundle.\<close>

lemma commitBundle_phases:
  assumes run: "commitBundle clock ms hold st = (Inr out, st')"
  obtains (refused) reps where "assess_bundle ms (st\<lparr>st_nextSetId := st_nextSetId st + 1\<rparr>) = (reps, st')"
      "\<not> cr_committed out"
  | (unheld) reps st2 where "assess_bundle ms (st\<lparr>st_nextSetId := st_nextSetId st + 1\<rparr>) = (reps, st2)"
      "acquire_all clock 0 ms [] st2 = (Inr None, st')" "\<not> cr_committed out"
  | (undone) reps st2 ids st3 where
      "assess_bundle ms (st\<lparr>st_nextSetId := st_nextSetId st + 1\<rparr>) = (reps, st2)"
      "acquire_all clock 0 ms [] st2 = (Inr (Some ids), st3)"
      "commit_all ms ids [] st3 = (Inr None, st')" "\<not> cr_committed out"
  | (all_done) reps st2 ids st3 mids st4 where
      "assess_bundle ms (st\<lparr>st_nextSetId := st_nextSetId st + 1\<rparr>) = (reps, st2)"
      "acquire_all clock 0 ms [] st2 = (Inr (Some ids), st3)"
      "commit_all ms ids [] st3 = (Inr (Some mids), st4)"
      "st' = st4\<lparr>st_sets := AList.update (StrongId (st_nextSetId st + 1))
         (committed_set ms (StrongId (st_nextSetId st + 1)) mids) (st_sets st4)\<rparr>"
      "cr_committed out" "cr_memberIds out = mids" "cr_setId out = StrongId (st_nextSetId st + 1)"
  using run
  by (auto simp: commitBundle_def Let_def CompositeResult_default_def split: prod.splits if_splits
      sum.splits option.splits)

lemma assess_bundle_trace:
  assumes inv: "runtime_inv st" and b: "assess_bundle ms (st\<lparr>st_nextSetId := n\<rparr>) = (reps, st2)"
  shows "trace st {} {} st2" "st_nextReservationId st2 = st_nextReservationId st"
    "next_hold st2 j = next_hold st j"
proof -
  have inv1: "runtime_inv (st\<lparr>st_nextSetId := n\<rparr>)" by (rule runtime_inv_cong [OF inv]) simp_all
  note fr = assess_bundle_frame [of ms "st\<lparr>st_nextSetId := n\<rparr>", unfolded b, simplified]
    assess_bundle_keeps [of ms "st\<lparr>st_nextSetId := n\<rparr>", unfolded b, simplified]
  have "trace st {} {} (st\<lparr>st_nextSetId := n\<rparr>)"
    by (rule trace_quiet [OF trace_refl [OF inv] quiet_cong [OF inv]]) simp_all
  then show "trace st {} {} st2"
    by (rule trace_quiet [OF _ assess_bundle_quiet [OF inv1 b]]) (simp_all add: fr)
  show "st_nextReservationId st2 = st_nextReservationId st" "next_hold st2 j = next_hold st j"
    by (simp_all add: next_hold_def fr)
qed

lemma commitBundle_effect:
  assumes inv: "runtime_inv st" and run: "commitBundle clock ms hold st = (Inr out, st')"
    and room: "unat (st_nextReservationId st) + length ms < 2 ^ 64"
    and fresh: "\<forall>j < length ms. map_of (st_holds st) (next_hold st j) = None"
  shows "bundle_effect st ms out st'"
proof -
  have lt: "length ms < 2 ^ 64" using room by simp
  note held = acquire_all_trace [where ?st0.0 = st, OF _ _ _ _ _ lt]
    and committed = commit_all_trace [where ?st0.0 = st and xs = "[]", OF _ _ _ _ order_refl]
  have acquired: "case res of
        None \<Rightarrow> \<exists>H. trace st H {} st3 \<and> (\<forall>k\<in>H. off_line k st3)
      | Some ids \<Rightarrow> trace st (set ids) {} st3 \<and> distinct ids \<and> length ids = length ms \<and>
          (\<forall>k\<in>set ids. in_hold_state Hold_Acquired k st3)"
    if "assess_bundle ms (st\<lparr>st_nextSetId := st_nextSetId st + 1\<rparr>) = (reps, st2)"
      "acquire_all clock 0 ms [] st2 = (Inr res, st3)" for reps st2 res st3
    using held [OF that(2)] assess_bundle_trace [OF inv that(1)] fresh by (simp cong: option.case_cong)
  have room3: "unat (st_nextReservationId st3) + length ms < 2 ^ 64"
    if "assess_bundle ms (st\<lparr>st_nextSetId := st_nextSetId st + 1\<rparr>) = (reps, st2)"
      "acquire_all clock 0 ms [] st2 = (res, st3)" for reps st2 res st3
    using acquire_all_counter [of clock 0 ms "[]" st2] assess_bundle_trace(2) [OF inv that(1)] that(2) room
    by simp
  from run show ?thesis
  proof (cases rule: commitBundle_phases)
    case (refused reps)
    with bundle_undone [OF inv assess_bundle_trace(1) [OF inv refused(1)]] show ?thesis by simp
  next
    case (unheld reps st2)
    with acquired [OF unheld(1,2)] bundle_undone [OF inv, of _ "{}"] show ?thesis by auto
  next
    case (undone reps st2 ids st3)
    with acquired [OF undone(1,2)] have t: "trace st (set ids) {} st3" "distinct ids" "length ids = length ms"
      "\<forall>k\<in>set ids. in_hold_state Hold_Acquired k st3" by auto
    from committed [OF undone(3) _ _ _ t(2,3) _ room3 [OF undone(1,2)]] t
    obtain M where "trace st (set ids) M st'" "\<forall>k\<in>set ids. off_line k st'" "\<forall>k\<in>M. cancelled k st'"
      by auto
    then show ?thesis by (rule bundle_undone [OF inv _ _ _ undone(4)])
  next
    case (all_done reps st2 ids st3 mids st4)
    with acquired [OF all_done(1,2)] have t: "trace st (set ids) {} st3" "distinct ids" "length ids = length ms"
      "\<forall>k\<in>set ids. in_hold_state Hold_Acquired k st3" by auto
    from committed [OF all_done(3) _ _ _ t(2,3) _ room3 [OF all_done(1,2)]] t
    have "trace st (set ids) (set mids) st4" "\<forall>k\<in>set ids. off_line k st4" "distinct mids"
      "list_all2 (member_of st4) ms mids" by auto
    then show ?thesis using all_done(4-7) by (rule bundle_done)
  qed
qed


text \<open>
  A bundle of two, twenty units each over the same window, is admitted, held and committed. (The
  last phase assesses each member with the holds of the whole bundle on the line, so a bundle
  commits only when its quantities fit twice.)
\<close>

lemmas eval_bundle = commitBundle_def bundle_hold_spec_def rollback_member_def committed_set_def
  CompositeResult_default_def

lemma demo_bundle:
  "case commitBundle (\<lambda>_. Instant 0) [demo_req 1 20 100 200, demo_req 2 20 100 200] None demo0 of
     (Inr out, st') \<Rightarrow> cr_committed out \<and> cr_memberIds out = [StrongId 2, StrongId 3]
   | _ \<Rightarrow> False"
  by (simp add: eval_bundle demo_defs eval_domain eval_index eval_runtime Let_def cong: let_weak_cong)



end
