(* ===== verification/RF_Divergence.thy ===== *)
theory RF_Divergence
  imports RF_Roundtrip_Props
begin

text \<open>
  The operations that break the mirror between the registry and the lines, and with it the bound on
  hard commitments: they are excluded from \<open>safe_step\<close>, and this theory says what they do.
\<close>

section \<open>Resize and renewal\<close>

text \<open>
  The reservation is on record as a contributing commitment while the line has lost what the old
  version had on it and got nothing for the new one.
\<close>

definition lost_on_line :: "ReservationId \<Rightarrow> Reservation \<Rightarrow> Impl \<Rightarrow> Impl \<Rightarrow> bool" where
  "lost_on_line i r st st' \<longleftrightarrow>
     (\<exists>r'. map_of (st_reservations st') i = Some r' \<and> rv_lifecycle r' = Lifecycle_Committed \<and>
        rv_contributes r') \<and>
     (\<forall>j t. env_point (st_envelopes st') j t =
        map_option (shift (- hard_of j t r) (- soft_of j t r) 0) (env_point (st_envelopes st) j t))"

lemma removeContribution_off:
  assumes inv: "runtime_inv st" and r: "map_of (st_reservations st) i = Some r"
    and w: "removeContributionLocked r (st_envelopes st) = (r1, es1)"
  shows "\<not> rv_contributes r1"
proof -
  have "resv_ok (fst ` set (st_envelopes st)) (st_nextReservationId st) i r"
    by (rule resvs_okD [OF runtime_parts(6) [OF inv] r])
  then have "map_of (st_envelopes st) (rv_resource r) \<noteq> None" if "rv_contributes r"
    using that by (simp add: resv_ok_def in_keys del: map_of_eq_None_iff)
  with w show ?thesis
    by (auto simp: removeContributionLocked_def envelopeLocked_def split: option.splits if_splits)
qed

lemma supersede_keeps_line:
  assumes "supersede i r f st = (Inr g, st')"
  shows "st_envelopes st' = st_envelopes st"
    "\<exists>r'. map_of (st_reservations st') i = Some r' \<and> rv_lifecycle r' = Lifecycle_Committed \<and>
       rv_contributes r'"
proof -
  have same: "addContributionLocked x es = (x, es)" if "rv_contributes x" for x es
    using that by (simp add: addContributionLocked_def split: option.split)
  show "st_envelopes st' = st_envelopes st"
    "\<exists>r'. map_of (st_reservations st') i = Some r' \<and> rv_lifecycle r' = Lifecycle_Committed \<and>
       rv_contributes r'"
    using assms
    by (auto simp: supersede_def Let_def same push_history_def split: sum.splits)
qed

lemma modified_lost:
  assumes inv: "runtime_inv st" and r: "map_of (st_reservations st) i = Some r"
    and w: "removeContributionLocked r (st_envelopes st) = (r1, es1)"
    and h: "headroom_on s k win es1 = (h, es2)"
    and sup: "supersede i r1 f (put_reservation i r1 (st\<lparr>st_envelopes := es2\<rparr>)) = (Inr g, st')"
  shows "lost_on_line i r st st'"
proof -
  note off = removeContribution_off [OF inv r w]
  note m = removeContribution_moves [OF runtime_envs_ok [OF inv] w]
  have "envs_ok es1" using m by (simp add: moves_def)
  from moves_trans [OF m headroom_on_moves [OF this h]] off
  have "env_point es2 j t = map_option (shift (- hard_of j t r) (- soft_of j t r) 0)
      (env_point (st_envelopes st) j t)" for j t
    by (simp add: moves_def)
  with supersede_keeps_line [OF sup] show ?thesis by (simp add: lost_on_line_def put_reservation_def)
qed

text \<open>Claim C38: Every resize and every renewal that is applied takes the reservation's old load off the
  capacity line and puts none back, although the reservation stays on record as a contributing
  commitment: its capacity can be promised again to somebody else.\<close>

theorem modification_loses_capacity:
  assumes "runtime_inv st" "current_reservation i g st = Some r"
  shows "(\<forall>out st'. rf_resize i g q p st = (Inr out, st') \<and> mr_applied out \<longrightarrow> lost_on_line i r st st') \<and>
    (\<forall>out st'. rf_renew i g win p st = (Inr out, st') \<and> mr_applied out \<longrightarrow> lost_on_line i r st st')"
proof -
  have r: "map_of (st_reservations st) i = Some r" using assms(2) by (simp add: current_reservation_Some)
  obtain r1 es1 where w: "removeContributionLocked r (st_envelopes st) = (r1, es1)" by fastforce
  note lost = modified_lost [OF assms(1) r w]
  show ?thesis
    using assms(2) lost
    by (auto simp: rf_resize_def rf_renew_def w Let_def mk_ModifyResult_def split: prod.splits if_splits sum.splits)
qed

lemma demo_resized:
  "case rf_resize (StrongId 2) (StrongGeneration 1) (Quantity 70 Unit_Count) (StrongGeneration 0) demo2 of
     (Inr out, st') \<Rightarrow> mr_applied out
   | _ \<Rightarrow> False"
  by (simp add: rf_resize_def current_reservation_def mk_ModifyResult_def headroom_on_def supersede_def
      push_history_def current_gen_def put_reservation_def demo_rv_def demo_env_def eval_domain eval_index
      eval_runtime Let_def cong: let_weak_cong)

theorem modification_loses_capacity_witness:
  "\<exists>out st'. rf_resize (StrongId 2) (StrongGeneration 1) (Quantity 70 Unit_Count) (StrongGeneration 0) demo2 =
     (Inr out, st') \<and> mr_applied out \<and> lost_on_line (StrongId 2) demo_rv demo2 st'"
proof -
  have cur: "current_reservation (StrongId 2) (StrongGeneration 1) demo2 = Some demo_rv"
    by (simp add: current_reservation_def reservationLocked_def demo_rv_def)
  obtain out st' where run: "rf_resize (StrongId 2) (StrongGeneration 1) (Quantity 70 Unit_Count)
      (StrongGeneration 0) demo2 = (Inr out, st')" "mr_applied out"
    using demo_resized by (auto split: prod.splits sum.splits)
  with modification_loses_capacity [OF conjunct1 [OF reachable_inv [OF demo2_reachable]] cur]
  show ?thesis by blast
qed

section \<open>A partial hard request\<close>

lemmas eval_line = env_point_def env_profile_def agg_profile_def profile_def covers_def cell_point_def

text \<open>A hard request of 150 units that accepts a partial grant of 50 is committed on a resource of 100
  units, in full: the line then carries 150 units of hard commitments.\<close>

theorem partial_commit_overbooks:
  "case rf_commit ((demo_req 1 150 100 200)
      \<lparr>req_partialAllowed := True, req_minAcceptable := Some (Quantity 50 Unit_Count)\<rparr>) None demo0 of
     (Inr rr, st') \<Rightarrow> rr_committed rr \<and>
       env_point (st_envelopes st') (StrongId 7) 150 =
         Some \<lparr>pt_hard = 150, pt_soft = 0, pt_held = 0, pt_cap = 100\<rparr>
   | _ \<Rightarrow> False"
  by (simp add: demo_defs eval_domain eval_index eval_runtime eval_line Let_def cong: let_weak_cong)

section \<open>A replaced publication\<close>

text \<open>When a worker publishes the next generation of a resource, the new line starts empty: the
  hard commitment of 60 units and the hold of 30 units stay on record as contributing, and the
  line carries neither.\<close>

theorem publication_forgets_commitments:
  "case publishResource (demo_pub\<lparr>pub_generation := StrongGeneration 2\<rparr>) demo2 of
     (Inr (res, _), st') \<Rightarrow> res = AcceptedReplaced \<and>
       map_of (st_reservations st') (StrongId 2) = Some demo_rv \<and> rv_contributes demo_rv \<and>
       env_point (st_envelopes demo2) (StrongId 7) 150 =
         Some \<lparr>pt_hard = 60, pt_soft = 0, pt_held = 30, pt_cap = 100\<rparr> \<and>
       env_point (st_envelopes st') (StrongId 7) 150 =
         Some \<lparr>pt_hard = 0, pt_soft = 0, pt_held = 0, pt_cap = 100\<rparr>
   | _ \<Rightarrow> False"
  using demo_line
  by (simp add: demo_pub_def eval_domain eval_index eval_runtime eval_line readvance_def
      flag_revalidation_def needs_revalidation_def demo_rv_def Let_def cong: let_weak_cong)

end
