(* ===== verification/RF_Frame.thy ===== *)
theory RF_Frame
  imports RF_Codec
begin

text \<open>
  The framing of \<^verbatim>\<open>include/reservation_fabric/protocol.hpp\<close> and \<^verbatim>\<open>src/protocol.cpp\<close>: the
  message types, the encoder, the incremental decoder, and the blocking receive and send over
  a socket. What \<^verbatim>\<open>recv\<close> delivers is a list of chunks, in the sizes the network chose; an empty
  chunk, or the end of the list, is a closed or failed connection.
\<close>

section \<open>Message types\<close>

definition kFrameMagic :: u32 where
  "kFrameMagic = 0x52464246"

definition kFrameVersion :: u8 where
  "kFrameVersion = 1"

definition kMaxFramePayload :: u32 where
  "kMaxFramePayload = 0x100000"

definition kHeaderSize :: nat where
  "kHeaderSize = 4 + 1 + 1 + 4 + 4"

datatype MessageType =
    Msg_Hello
  | Msg_Acknowledge
  | Msg_ErrorResponse
  | Msg_Register
  | Msg_PublishResource
  | Msg_PublishResult
  | Msg_Assess
  | Msg_AssessResult
  | Msg_RequestReservation
  | Msg_ReservationResult
  | Msg_Activate
  | Msg_ActivateResult
  | Msg_Consume
  | Msg_ConsumeResult
  | Msg_Release
  | Msg_ReleaseResult
  | Msg_Query
  | Msg_QueryResult
  | Msg_Revalidate
  | Msg_Shutdown
  | Msg_raw u8

fun MessageType_byte :: "MessageType \<Rightarrow> u8" where
  "MessageType_byte Msg_Hello = 1"
| "MessageType_byte Msg_Acknowledge = 2"
| "MessageType_byte Msg_ErrorResponse = 3"
| "MessageType_byte Msg_Register = 4"
| "MessageType_byte Msg_PublishResource = 5"
| "MessageType_byte Msg_PublishResult = 6"
| "MessageType_byte Msg_Assess = 7"
| "MessageType_byte Msg_AssessResult = 8"
| "MessageType_byte Msg_RequestReservation = 9"
| "MessageType_byte Msg_ReservationResult = 10"
| "MessageType_byte Msg_Activate = 11"
| "MessageType_byte Msg_ActivateResult = 12"
| "MessageType_byte Msg_Consume = 13"
| "MessageType_byte Msg_ConsumeResult = 14"
| "MessageType_byte Msg_Release = 15"
| "MessageType_byte Msg_ReleaseResult = 16"
| "MessageType_byte Msg_Query = 17"
| "MessageType_byte Msg_QueryResult = 18"
| "MessageType_byte Msg_Revalidate = 19"
| "MessageType_byte Msg_Shutdown = 20"
| "MessageType_byte (Msg_raw b) = b"

definition MessageType_of_byte :: "u8 \<Rightarrow> MessageType" where
  "MessageType_of_byte b =
     (if b = 1 then Msg_Hello
      else if b = 2 then Msg_Acknowledge
      else if b = 3 then Msg_ErrorResponse
      else if b = 4 then Msg_Register
      else if b = 5 then Msg_PublishResource
      else if b = 6 then Msg_PublishResult
      else if b = 7 then Msg_Assess
      else if b = 8 then Msg_AssessResult
      else if b = 9 then Msg_RequestReservation
      else if b = 10 then Msg_ReservationResult
      else if b = 11 then Msg_Activate
      else if b = 12 then Msg_ActivateResult
      else if b = 13 then Msg_Consume
      else if b = 14 then Msg_ConsumeResult
      else if b = 15 then Msg_Release
      else if b = 16 then Msg_ReleaseResult
      else if b = 17 then Msg_Query
      else if b = 18 then Msg_QueryResult
      else if b = 19 then Msg_Revalidate
      else if b = 20 then Msg_Shutdown
      else Msg_raw b)"

text \<open>The switch has no case for \<open>Revalidate\<close>.\<close>

fun MessageType_to_string :: "MessageType \<Rightarrow> string" where
  "MessageType_to_string Msg_Hello = ''Hello''"
| "MessageType_to_string Msg_Acknowledge = ''Acknowledge''"
| "MessageType_to_string Msg_ErrorResponse = ''ErrorResponse''"
| "MessageType_to_string Msg_Register = ''Register''"
| "MessageType_to_string Msg_PublishResource = ''PublishResource''"
| "MessageType_to_string Msg_PublishResult = ''PublishResult''"
| "MessageType_to_string Msg_Assess = ''Assess''"
| "MessageType_to_string Msg_AssessResult = ''AssessResult''"
| "MessageType_to_string Msg_RequestReservation = ''RequestReservation''"
| "MessageType_to_string Msg_ReservationResult = ''ReservationResult''"
| "MessageType_to_string Msg_Activate = ''Activate''"
| "MessageType_to_string Msg_ActivateResult = ''ActivateResult''"
| "MessageType_to_string Msg_Consume = ''Consume''"
| "MessageType_to_string Msg_ConsumeResult = ''ConsumeResult''"
| "MessageType_to_string Msg_Release = ''Release''"
| "MessageType_to_string Msg_ReleaseResult = ''ReleaseResult''"
| "MessageType_to_string Msg_Query = ''Query''"
| "MessageType_to_string Msg_QueryResult = ''QueryResult''"
| "MessageType_to_string Msg_Shutdown = ''Shutdown''"
| "MessageType_to_string _ = ''Unknown''"

interpretation message: enumeration MessageType_byte MessageType_of_byte
  by unfold_locales (simp add: MessageType_of_byte_def)

section \<open>Encoding\<close>

record Frame =
  frame_type :: MessageType
  frame_payload :: "u8 list"

text \<open>The checksum covers the type byte and the payload.\<close>

definition frame_crc :: "u8 \<Rightarrow> u8 list \<Rightarrow> u32" where
  "frame_crc ty payload = crc32 (ty # payload) crc_seed"

definition encodeFrame :: "MessageType \<Rightarrow> u8 list \<Rightarrow> u8 list outcome" where
  "encodeFrame ty payload =
     (if length payload > unat kMaxFramePayload
      then throw_error ProtocolError ''frame payload exceeds bound''
      else Inr (w_u32 kFrameMagic @ w_u8 kFrameVersion @ w_u8 (MessageType_byte ty) @
                w_u32 (word_of_nat (length payload)) @
                w_u32 (frame_crc (MessageType_byte ty) payload) @ payload))"

section \<open>The incremental decoder\<close>

text \<open>The fields of a header, in the order they are read.\<close>

definition rd_header :: "(u32 \<times> u8 \<times> u8 \<times> u32 \<times> u32) reader" where
  "rd_header =
     rd_bind rd_u32 (\<lambda>magic. rd_bind rd_u8 (\<lambda>version. rd_bind rd_u8 (\<lambda>ty.
     rd_bind rd_u32 (\<lambda>payloadLen. rd_bind rd_u32 (\<lambda>crc.
       rd_return (magic, version, ty, payloadLen, crc))))))"

datatype push_result = Decoded Frame | NeedMore | Malformed

text \<open>
  \<^verbatim>\<open>FrameDecoder::push\<close> appends the data and then looks at the buffer: 0 with the frame is
  \<open>Decoded\<close>, 1 is \<open>NeedMore\<close>, -1 is \<open>Malformed\<close>. The loop of the code always
  returns in its first turn. The header reader cannot throw on a buffer of a header's size.
\<close>

definition decode_buffer :: "u8 list \<Rightarrow> push_result \<times> u8 list" where
  "decode_buffer buf =
     (if length buf < kHeaderSize then (NeedMore, buf)
      else case rd_header buf of
        Inl _ \<Rightarrow> (Malformed, buf)
      | Inr ((magic, version, ty, payloadLen, crc), body) \<Rightarrow>
          if magic \<noteq> kFrameMagic then (Malformed, buf)
          else if version \<noteq> kFrameVersion then (Malformed, buf)
          else if payloadLen > kMaxFramePayload then (Malformed, buf)
          else if length buf < kHeaderSize + unat payloadLen then (NeedMore, buf)
          else let payload = take (unat payloadLen) (drop kHeaderSize buf)
               in if frame_crc ty payload \<noteq> crc then (Malformed, buf)
                  else (Decoded \<lparr>frame_type = MessageType_of_byte ty, frame_payload = payload\<rparr>,
                        drop (kHeaderSize + unat payloadLen) buf))"

definition FrameDecoder_push :: "u8 list \<Rightarrow> u8 list \<Rightarrow> push_result \<times> u8 list" where
  "FrameDecoder_push data buf = decode_buffer (buf @ data)"

definition FrameDecoder_buffered :: "u8 list \<Rightarrow> nat" where
  "FrameDecoder_buffered buf = length buf"

section \<open>Sockets\<close>

type_synonym chunks = "u8 list list"

text \<open>One \<^verbatim>\<open>recv\<close> of at most \<open>n\<close> bytes; nothing means \<^verbatim>\<open>n <= 0\<close>.\<close>

fun recv :: "nat \<Rightarrow> chunks \<Rightarrow> u8 list \<times> chunks" where
  "recv n [] = ([], [])"
| "recv n (c # cs) = (if length c \<le> n then (c, cs) else (take n c, drop n c # cs))"

lemma recv_le: "length (fst (recv n cs)) \<le> n"
  by (cases "(n, cs)" rule: recv.cases) auto

text \<open>\<open>recvAll len got s\<close> is the loop with \<open>got\<close> received so far.\<close>

function recvAll :: "nat \<Rightarrow> u8 list \<Rightarrow> chunks \<Rightarrow> u8 list option \<times> chunks" where
  "recvAll len got s =
     (if length got \<ge> len then (Some got, s)
      else let (bs, s') = recv (len - length got) s
           in if bs = [] then (None, s') else recvAll len (got @ bs) s')"
  by pat_completeness auto

termination
proof (relation "measure (\<lambda>(len, got, s). len - length got)")
  fix len :: nat and got :: "u8 list" and s x bs s'
  assume "\<not> length got \<ge> len" "x = recv (len - length got) s" "(bs, s') = x" "bs \<noteq> []"
  then have "length got < len" "bs \<noteq> []" by simp_all
  then show "((len, got @ bs, s'), (len, got, s)) \<in> measure (\<lambda>(len, got, s). len - length got)"
    by (cases bs) auto
qed simp

declare recvAll.simps [simp del]

text \<open>\<open>send_results\<close> is what the successive calls of \<^verbatim>\<open>send\<close> return.\<close>

function sendAll :: "int list \<Rightarrow> u8 list \<Rightarrow> nat \<Rightarrow> u8 list \<Rightarrow> bool \<times> u8 list" where
  "sendAll results buf sent wire =
     (if sent \<ge> length buf then (True, wire)
      else case results of
        [] \<Rightarrow> (False, wire)
      | n # rs \<Rightarrow>
          if n \<le> 0 then (False, wire)
          else sendAll rs buf (sent + nat n) (wire @ take (nat n) (drop sent buf)))"
  by pat_completeness auto

termination
  by (relation "measure (\<lambda>(results, buf, sent, wire). length results)") auto

declare sendAll.simps [simp del]

definition recvFrame :: "chunks \<Rightarrow> push_result \<times> chunks" where
  "recvFrame s =
     (case recvAll kHeaderSize [] s of
        (None, s') \<Rightarrow> (NeedMore, s')
      | (Some hdr, s') \<Rightarrow>
          case rd_header hdr of
            Inl _ \<Rightarrow> (Malformed, s')
          | Inr ((magic, version, ty, len, crc), _) \<Rightarrow>
              if magic \<noteq> kFrameMagic \<or> version \<noteq> kFrameVersion \<or> len > kMaxFramePayload
              then (Malformed, s')
              else case (if len \<noteq> 0 then recvAll (unat len) [] s' else (Some [], s')) of
                (None, s'') \<Rightarrow> (NeedMore, s'')
              | (Some payload, s'') \<Rightarrow>
                  if frame_crc ty payload \<noteq> crc then (Malformed, s'')
                  else (Decoded \<lparr>frame_type = MessageType_of_byte ty, frame_payload = payload\<rparr>, s''))"

text \<open>The encoding may throw; otherwise the answer is whether all bytes went out.\<close>

definition sendFrame :: "int list \<Rightarrow> MessageType \<Rightarrow> u8 list \<Rightarrow> (bool \<times> u8 list) outcome" where
  "sendFrame results ty payload =
     bind_outcome (encodeFrame ty payload) (\<lambda>bytes. Inr (sendAll results bytes 0 []))"

end
