(* ===== verification/RF_Protocol.thy ===== *)
theory RF_Protocol
  imports RF_Frame RF_Persist_Codec
begin

text \<open>
  The payload codecs of \<^verbatim>\<open>src/protocol.cpp\<close>. They differ from the persisted form in that any byte
  but 0 announces an optional member, and that the counts of lists are not bounded.
\<close>

section \<open>Members\<close>

definition serInterval :: "Interval \<Rightarrow> u8 list" where
  "serInterval i = w_instant (iv_start i) @ w_instant (iv_end i)"

definition desInterval :: "Interval reader" where
  "desInterval =
     rd_bind rd_instant (\<lambda>s. rd_bind rd_instant (\<lambda>e. rd_outcome (mk_Interval s e)))"

definition proto_serOptGen :: "'tag StrongGeneration option \<Rightarrow> u8 list" where
  "proto_serOptGen v = (case v of Some g \<Rightarrow> w_u8 1 @ w_gen g | None \<Rightarrow> w_u8 0)"

definition proto_desOptGen :: "'tag StrongGeneration option reader" where
  "proto_desOptGen = rd_bind rd_u8 (\<lambda>b. if b \<noteq> 0 then rd_map Some rd_gen else rd_return None)"

definition serQuantity :: "Quantity \<Rightarrow> u8 list" where
  "serQuantity q = w_quant q"

definition desQuantity :: "Quantity reader" where
  "desQuantity = rd_quant"

text \<open>\<^verbatim>\<open>for (i = 0; i < n; ++i)\<close> with \<open>n\<close> read from the payload.\<close>

definition rd_list :: "'a reader \<Rightarrow> 'a list reader" where
  "rd_list m = rd_bind rd_u32 (\<lambda>n. rd_times (unat n) m)"

definition ser_ids :: "'tag StrongId list \<Rightarrow> u8 list" where
  "ser_ids xs = w_count xs @ w_each w_id xs"

definition des_ids :: "'tag StrongId list reader" where
  "des_ids = rd_list rd_id"

definition ser_reasons :: "string list \<Rightarrow> u8 list" where
  "ser_reasons xs = w_count xs @ w_each w_str xs"

definition des_reasons :: "string list reader" where
  "des_reasons = rd_list rd_str"

definition ser_unavailable :: "UnavailableWindow \<Rightarrow> u8 list" where
  "ser_unavailable u = serInterval (uw_interval u) @ w_str (uw_reason u)"

definition des_unavailable :: "UnavailableWindow reader" where
  "des_unavailable =
     rd_bind desInterval (\<lambda>i. rd_bind rd_str (\<lambda>s.
       rd_return \<lparr>uw_interval = i, uw_reason = s\<rparr>))"

definition ser_windows :: "UnavailableWindow list \<Rightarrow> u8 list" where
  "ser_windows us = w_count us @ w_each ser_unavailable us"

definition des_windows :: "UnavailableWindow list reader" where
  "des_windows = rd_list des_unavailable"

definition ser_ratio :: "Ratio \<Rightarrow> u8 list" where
  "ser_ratio r = w_u64 (word_of_int (basisPoints r))"

definition des_ratio :: "Ratio reader" where
  "des_ratio = rd_map (Ratio \<circ> sint) rd_u64"

text \<open>An interval behind a byte that says whether it is there.\<close>

definition ser_flagged :: "Interval \<Rightarrow> u8 list" where
  "ser_flagged i = w_u8 (if iv_isEmpty i then 0 else 1) @ (if \<not> iv_isEmpty i then serInterval i else [])"

definition des_flagged :: "Interval reader" where
  "des_flagged = rd_bind rd_u8 (\<lambda>b. if b \<noteq> 0 then desInterval else rd_return Interval_default)"

section \<open>Messages\<close>

definition serReq :: "ReservationRequest \<Rightarrow> u8 list" where
  "serReq req =
     w_id (req_requestId req) @
     w_gen (req_requestGeneration req) @
     w_enu ResourceClass_byte (req_class req) @
     w_enu Unit_byte (req_unit req) @
     w_quant (req_quantity req) @
     w_boolean (req_partialAllowed req) @
     w_optVal w_quant (req_minAcceptable req) @
     serInterval (req_window req) @
     w_enu ActivationMode_byte (req_activationMode req) @
     w_optVal w_duration (req_durationAfterActivation req) @
     w_enu ReservationStrength_byte (req_strength req) @
     w_id (req_owner req) @
     w_gen (req_ownerGeneration req) @
     w_optVal w_id (req_workload req) @
     w_optVal w_gen (req_workloadGeneration req) @
     w_optVal w_id (req_execution req) @
     w_optVal w_gen (req_executionGeneration req) @
     ser_capability (req_capability req) @
     ser_locality (req_locality req) @
     ser_topology (req_topology req) @
     ser_compatibility (req_compatibility req) @
     proto_serOptGen (req_minResourceGeneration req) @
     w_gen (req_policyGeneration req) @
     w_gen (req_priorityGeneration req) @
     w_i32 (req_priorityClass req) @
     w_boolean (req_preemptible req) @
     w_enu ExclusivityMode_byte (req_exclusivity req) @
     w_enu Elasticity_byte (req_elasticity req) @
     w_enu RenewalPermission_byte (req_renewal req) @
     w_enu TransferPermission_byte (req_transfer req) @
     w_i32 (req_fragmentationTolerance req) @
     w_boolean (req_allOrNothing req) @
     w_id (req_poolConstraint req) @
     w_optVal w_id (req_group req) @
     w_optVal w_id (req_targetResource req) @
     w_str (req_provenance req)"

definition desReq :: "ReservationRequest reader" where
  "desReq =
     rd_bind rd_id (\<lambda>i.
     rd_bind rd_gen (\<lambda>g.
     rd_bind (rd_enu ResourceClass_of_byte) (\<lambda>cls.
     rd_bind (rd_enu Unit_of_byte) (\<lambda>un.
     rd_bind rd_quant (\<lambda>q.
     rd_bind rd_boolean (\<lambda>pa.
     rd_bind (rd_optVal rd_quant) (\<lambda>mn.
     rd_bind desInterval (\<lambda>w.
     rd_bind (rd_enu ActivationMode_of_byte) (\<lambda>am.
     rd_bind (rd_optVal rd_duration) (\<lambda>dur.
     rd_bind (rd_enu ReservationStrength_of_byte) (\<lambda>str.
     rd_bind rd_id (\<lambda>ow.
     rd_bind rd_gen (\<lambda>og.
     rd_bind (rd_optVal rd_id) (\<lambda>wl.
     rd_bind (rd_optVal rd_gen) (\<lambda>wlg.
     rd_bind (rd_optVal rd_id) (\<lambda>ex.
     rd_bind (rd_optVal rd_gen) (\<lambda>exg.
     rd_bind des_capability (\<lambda>cap.
     rd_bind des_locality (\<lambda>loc.
     rd_bind des_topology (\<lambda>top.
     rd_bind des_compatibility (\<lambda>comp.
     rd_bind proto_desOptGen (\<lambda>mrg.
     rd_bind rd_gen (\<lambda>pg.
     rd_bind rd_gen (\<lambda>prg.
     rd_bind rd_i32 (\<lambda>pc.
     rd_bind rd_boolean (\<lambda>pre.
     rd_bind (rd_enu ExclusivityMode_of_byte) (\<lambda>exc.
     rd_bind (rd_enu Elasticity_of_byte) (\<lambda>ela.
     rd_bind (rd_enu RenewalPermission_of_byte) (\<lambda>ren.
     rd_bind (rd_enu TransferPermission_of_byte) (\<lambda>tra.
     rd_bind rd_i32 (\<lambda>fra.
     rd_bind rd_boolean (\<lambda>aon.
     rd_bind rd_id (\<lambda>pool.
     rd_bind (rd_optVal rd_id) (\<lambda>grp.
     rd_bind (rd_optVal rd_id) (\<lambda>tgt.
     rd_bind rd_str (\<lambda>prov.
       rd_return
         \<lparr>req_requestId = i, req_requestGeneration = g, req_class = cls, req_unit = un,
          req_quantity = q, req_partialAllowed = pa, req_minAcceptable = mn,
          req_window = w, req_activationMode = am, req_durationAfterActivation = dur,
          req_strength = str, req_owner = ow, req_ownerGeneration = og,
          req_workload = wl, req_workloadGeneration = wlg, req_execution = ex,
          req_executionGeneration = exg, req_capability = cap, req_locality = loc,
          req_topology = top, req_compatibility = comp, req_minResourceGeneration = mrg,
          req_policyGeneration = pg, req_priorityGeneration = prg,
          req_priorityClass = pc, req_preemptible = pre, req_exclusivity = exc,
          req_elasticity = ela, req_renewal = ren, req_transfer = tra,
          req_fragmentationTolerance = fra, req_allOrNothing = aon,
          req_poolConstraint = pool, req_group = grp, req_targetResource = tgt,
          req_provenance = prov\<rparr>))))))))))))))))))))))))))))))))))))"

text \<open>The overbookable classes are not sent; a received publication has none.\<close>

definition serPublication :: "ResourcePublication \<Rightarrow> u8 list" where
  "serPublication p =
     w_id (pub_worker p) @
     w_gen (pub_workerBoot p) @
     w_id (pub_id p) @
     w_gen (pub_generation p) @
     w_enu ResourceClass_byte (pub_class p) @
     w_enu Unit_byte (pub_unit p) @
     w_quant (pub_totalCapacity p) @
     w_id (pub_pool p) @
     w_gen (pub_poolGeneration p) @
     w_gen (pub_capabilities p) @
     w_gen (pub_topology p) @
     w_id (pub_contract p) @
     w_gen (pub_contractGeneration p) @
     w_instant (pub_availableFrom p) @
     w_duration (pub_lifetime p) @
     ser_ratio (pub_overbookRatio p) @
     ser_windows (pub_unavailable p)"

definition desPublication :: "ResourcePublication reader" where
  "desPublication =
     rd_bind rd_id (\<lambda>wk.
     rd_bind rd_gen (\<lambda>bt.
     rd_bind rd_id (\<lambda>i.
     rd_bind rd_gen (\<lambda>g.
     rd_bind (rd_enu ResourceClass_of_byte) (\<lambda>cls.
     rd_bind (rd_enu Unit_of_byte) (\<lambda>un.
     rd_bind rd_quant (\<lambda>q.
     rd_bind rd_id (\<lambda>pl.
     rd_bind rd_gen (\<lambda>plg.
     rd_bind rd_gen (\<lambda>cap.
     rd_bind rd_gen (\<lambda>top.
     rd_bind rd_id (\<lambda>ct.
     rd_bind rd_gen (\<lambda>ctg.
     rd_bind rd_instant (\<lambda>fr.
     rd_bind rd_duration (\<lambda>lt.
     rd_bind des_ratio (\<lambda>rt.
     rd_bind des_windows (\<lambda>un_w.
       rd_return
         \<lparr>pub_worker = wk, pub_workerBoot = bt, pub_id = i, pub_generation = g,
          pub_class = cls, pub_unit = un, pub_totalCapacity = q, pub_pool = pl,
          pub_poolGeneration = plg, pub_capabilities = cap, pub_topology = top,
          pub_contract = ct, pub_contractGeneration = ctg, pub_availableFrom = fr,
          pub_lifetime = lt, pub_unavailable = un_w, pub_overbookRatio = rt,
          pub_overbookableClasses = []\<rparr>)))))))))))))))))"

definition serReport :: "FeasibilityReport \<Rightarrow> u8 list" where
  "serReport rep =
     w_enu Feasibility_byte (fr_outcome rep) @
     w_enu ResourceClass_byte (fr_class rep) @
     w_enu Unit_byte (fr_unit rep) @
     w_quant (fr_requestedQuantity rep) @
     w_quant (fr_admissibleQuantity rep) @
     ser_flagged (fr_requestedInterval rep) @
     w_id (fr_resource rep) @
     w_gen (fr_currentResourceGeneration rep) @
     w_gen (fr_staleResourceGeneration rep) @
     w_gen (fr_policyGeneration rep) @
     w_gen (fr_stalePolicyGeneration rep) @
     w_gen (fr_currentEpoch rep) @
     w_gen (fr_staleEpoch rep) @
     ser_ids (fr_conflicting rep) @
     ser_ids (fr_bottleneck rep) @
     w_quant (fr_availableAtBottleneck rep) @
     ser_flagged (fr_conflictingInterval rep) @
     w_boolean (fr_blockedBySoftOnly rep) @
     w_boolean (fr_overbookEligible rep) @
     w_boolean (fr_revalidationRequired rep) @
     ser_reasons (fr_reasons rep)"

definition desReport :: "FeasibilityReport reader" where
  "desReport =
     rd_bind (rd_enu Feasibility_of_byte) (\<lambda>out.
     rd_bind (rd_enu ResourceClass_of_byte) (\<lambda>cls.
     rd_bind (rd_enu Unit_of_byte) (\<lambda>un.
     rd_bind rd_quant (\<lambda>rq.
     rd_bind rd_quant (\<lambda>aq.
     rd_bind des_flagged (\<lambda>ri.
     rd_bind rd_id (\<lambda>res.
     rd_bind rd_gen (\<lambda>cg.
     rd_bind rd_gen (\<lambda>sg.
     rd_bind rd_gen (\<lambda>pg.
     rd_bind rd_gen (\<lambda>spg.
     rd_bind rd_gen (\<lambda>ep.
     rd_bind rd_gen (\<lambda>sep.
     rd_bind des_ids (\<lambda>con.
     rd_bind des_ids (\<lambda>bot.
     rd_bind rd_quant (\<lambda>av.
     rd_bind des_flagged (\<lambda>ci.
     rd_bind rd_boolean (\<lambda>so.
     rd_bind rd_boolean (\<lambda>ob.
     rd_bind rd_boolean (\<lambda>rv.
     rd_bind des_reasons (\<lambda>why.
       rd_return
         \<lparr>fr_outcome = out, fr_class = cls, fr_unit = un, fr_requestedQuantity = rq,
          fr_admissibleQuantity = aq, fr_requestedInterval = ri, fr_resource = res,
          fr_currentResourceGeneration = cg, fr_staleResourceGeneration = sg,
          fr_policyGeneration = pg, fr_stalePolicyGeneration = spg, fr_currentEpoch = ep,
          fr_staleEpoch = sep, fr_conflicting = con, fr_bottleneck = bot,
          fr_availableAtBottleneck = av, fr_conflictingInterval = ci,
          fr_blockedBySoftOnly = so, fr_overbookEligible = ob,
          fr_revalidationRequired = rv, fr_reasons = why\<rparr>)))))))))))))))))))))"

definition serActivationEvidence :: "ActivationEvidence \<Rightarrow> u8 list" where
  "serActivationEvidence e =
     w_id (ae_worker e) @
     w_gen (ae_workerBoot e) @
     w_gen (ae_activationGeneration e) @
     w_instant (ae_at e) @
     w_u64 (ae_token e)"

definition desActivationEvidence :: "ActivationEvidence reader" where
  "desActivationEvidence =
     rd_bind rd_id (\<lambda>w.
     rd_bind rd_gen (\<lambda>b.
     rd_bind rd_gen (\<lambda>g.
     rd_bind rd_instant (\<lambda>t.
     rd_bind rd_u64 (\<lambda>k.
       rd_return
         \<lparr>ae_worker = w, ae_workerBoot = b, ae_activationGeneration = g, ae_at = t,
          ae_token = k\<rparr>)))))"

definition serReservationResult :: "ReservationResult \<Rightarrow> u8 list" where
  "serReservationResult rr =
     w_boolean (rr_committed rr) @
     w_boolean (rr_idempotent rr) @
     w_id (rr_id rr) @
     w_gen (rr_generation rr) @
     w_str (rr_errorMessage rr) @
     serReport (rr_feasibility rr)"

definition desReservationResult :: "ReservationResult reader" where
  "desReservationResult =
     rd_bind rd_boolean (\<lambda>com.
     rd_bind rd_boolean (\<lambda>ide.
     rd_bind rd_id (\<lambda>i.
     rd_bind rd_gen (\<lambda>g.
     rd_bind rd_str (\<lambda>msg.
     rd_bind desReport (\<lambda>rep.
       rd_return
         \<lparr>rr_errorMessage = msg, rr_committed = com, rr_idempotent = ide, rr_id = i,
          rr_generation = g, rr_feasibility = rep\<rparr>))))))"

definition serActivationResult :: "ActivationResult \<Rightarrow> u8 list" where
  "serActivationResult ar =
     w_boolean (ar_activated ar) @
     w_boolean (ar_revalidationRequired ar) @
     w_id (ar_id ar) @
     w_gen (ar_generation ar) @
     w_str (ar_errorMessage ar)"

definition desActivationResult :: "ActivationResult reader" where
  "desActivationResult =
     rd_bind rd_boolean (\<lambda>act.
     rd_bind rd_boolean (\<lambda>rv.
     rd_bind rd_id (\<lambda>i.
     rd_bind rd_gen (\<lambda>g.
     rd_bind rd_str (\<lambda>msg.
       rd_return
         \<lparr>ar_errorMessage = msg, ar_activated = act, ar_revalidationRequired = rv,
          ar_id = i, ar_generation = g\<rparr>)))))"

definition serConsumeResult :: "ConsumeResult \<Rightarrow> u8 list" where
  "serConsumeResult cr =
     w_boolean (cs_consumed cr) @
     w_boolean (cs_idempotent cr) @
     w_id (cs_id cr) @
     w_gen (cs_generation cr) @
     w_quant (cs_consumedQuantity cr) @
     w_quant (cs_remaining cr) @
     w_str (cs_errorMessage cr)"

definition desConsumeResult :: "ConsumeResult reader" where
  "desConsumeResult =
     rd_bind rd_boolean (\<lambda>con.
     rd_bind rd_boolean (\<lambda>ide.
     rd_bind rd_id (\<lambda>i.
     rd_bind rd_gen (\<lambda>g.
     rd_bind rd_quant (\<lambda>q.
     rd_bind rd_quant (\<lambda>rem.
     rd_bind rd_str (\<lambda>msg.
       rd_return
         \<lparr>cs_errorMessage = msg, cs_consumed = con, cs_idempotent = ide, cs_id = i,
          cs_generation = g, cs_consumedQuantity = q, cs_remaining = rem\<rparr>)))))))"

definition serReleaseResult :: "ReleaseResult \<Rightarrow> u8 list" where
  "serReleaseResult rr =
     w_boolean (rl_released rr) @
     w_boolean (rl_idempotent rr) @
     w_id (rl_id rr) @
     w_gen (rl_generation rr) @
     w_str (rl_errorMessage rr)"

definition desReleaseResult :: "ReleaseResult reader" where
  "desReleaseResult =
     rd_bind rd_boolean (\<lambda>rel.
     rd_bind rd_boolean (\<lambda>ide.
     rd_bind rd_id (\<lambda>i.
     rd_bind rd_gen (\<lambda>g.
     rd_bind rd_str (\<lambda>msg.
       rd_return
         \<lparr>rl_errorMessage = msg, rl_released = rel, rl_idempotent = ide, rl_id = i,
          rl_generation = g\<rparr>)))))"

end
