(* ===== verification/RF_Protocol_Codec.thy ===== *)
theory RF_Protocol_Codec
  imports RF_Protocol
begin

text \<open>
  The payload codecs satisfy the codec contract on messages whose members are in range.
\<close>

section \<open>Ranges\<close>

definition counted :: "'a list \<Rightarrow> bool" where
  "counted xs \<longleftrightarrow> length xs < 2 ^ 32"

definition reasons_ok :: "string list \<Rightarrow> bool" where
  "reasons_ok xs \<longleftrightarrow> counted xs \<and> list_all string_ok xs"

definition unavailable_ok :: "UnavailableWindow \<Rightarrow> bool" where
  "unavailable_ok u \<longleftrightarrow> window_ok (uw_interval u) \<and> string_ok (uw_reason u)"

definition windows_ok :: "UnavailableWindow list \<Rightarrow> bool" where
  "windows_ok us \<longleftrightarrow> counted us \<and> list_all unavailable_ok us"

definition ratio_ok :: "Ratio \<Rightarrow> bool" where
  "ratio_ok r \<longleftrightarrow> in_i64 (basisPoints r)"

definition flagged_ok :: "Interval \<Rightarrow> bool" where
  "flagged_ok i \<longleftrightarrow> i = Interval_default \<or> window_ok i"

definition request_sendable :: "ReservationRequest \<Rightarrow> bool" where
  "request_sendable req \<longleftrightarrow>
     resource_class.canonical (req_class req) \<and>
     unit.canonical (req_unit req) \<and>
     quantity_ok (req_quantity req) \<and>
     pred_option quantity_ok (req_minAcceptable req) \<and>
     window_ok (req_window req) \<and>
     activation_mode.canonical (req_activationMode req) \<and>
     pred_option duration_ok (req_durationAfterActivation req) \<and>
     strength.canonical (req_strength req) \<and>
     locality_ok (req_locality req) \<and>
     exclusivity.canonical (req_exclusivity req) \<and>
     elasticity.canonical (req_elasticity req) \<and>
     renewal.canonical (req_renewal req) \<and>
     transfer.canonical (req_transfer req) \<and>
     string_ok (req_provenance req)"

definition publication_sendable :: "ResourcePublication \<Rightarrow> bool" where
  "publication_sendable p \<longleftrightarrow>
     resource_class.canonical (pub_class p) \<and>
     unit.canonical (pub_unit p) \<and>
     quantity_ok (pub_totalCapacity p) \<and>
     instant_ok (pub_availableFrom p) \<and>
     duration_ok (pub_lifetime p) \<and>
     ratio_ok (pub_overbookRatio p) \<and>
     windows_ok (pub_unavailable p) \<and>
     pub_overbookableClasses p = []"

definition report_sendable :: "FeasibilityReport \<Rightarrow> bool" where
  "report_sendable rep \<longleftrightarrow>
     feasibility.canonical (fr_outcome rep) \<and>
     resource_class.canonical (fr_class rep) \<and>
     unit.canonical (fr_unit rep) \<and>
     quantity_ok (fr_requestedQuantity rep) \<and>
     quantity_ok (fr_admissibleQuantity rep) \<and>
     flagged_ok (fr_requestedInterval rep) \<and>
     counted (fr_conflicting rep) \<and>
     counted (fr_bottleneck rep) \<and>
     quantity_ok (fr_availableAtBottleneck rep) \<and>
     flagged_ok (fr_conflictingInterval rep) \<and>
     reasons_ok (fr_reasons rep)"

definition activation_evidence_sendable :: "ActivationEvidence \<Rightarrow> bool" where
  "activation_evidence_sendable e \<longleftrightarrow>
     instant_ok (ae_at e)"

definition reservation_result_sendable :: "ReservationResult \<Rightarrow> bool" where
  "reservation_result_sendable rr \<longleftrightarrow>
     string_ok (rr_errorMessage rr) \<and>
     report_sendable (rr_feasibility rr)"

definition activation_result_sendable :: "ActivationResult \<Rightarrow> bool" where
  "activation_result_sendable ar \<longleftrightarrow>
     string_ok (ar_errorMessage ar)"

definition consume_result_sendable :: "ConsumeResult \<Rightarrow> bool" where
  "consume_result_sendable cr \<longleftrightarrow>
     quantity_ok (cs_consumedQuantity cr) \<and>
     quantity_ok (cs_remaining cr) \<and>
     string_ok (cs_errorMessage cr)"

definition release_result_sendable :: "ReleaseResult \<Rightarrow> bool" where
  "release_result_sendable rr \<longleftrightarrow>
     string_ok (rl_errorMessage rr)"

section \<open>Members\<close>

interpretation interval_codec: codec serInterval desInterval window_ok
  using window_codec.codec_axioms
  by (simp add: codec_def serInterval_def desInterval_def ser_window_def des_window_def)

lemma opt_rounds [codec_simps]:
  "rd_optVal rd_id (w_optVal w_id i @ rest) = Inr (i, rest)"
  "rd_optVal rd_gen (w_optVal w_gen g @ rest) = Inr (g, rest)"
  "pred_option quantity_ok q \<Longrightarrow> rd_optVal rd_quant (w_optVal w_quant q @ rest) = Inr (q, rest)"
  "pred_option duration_ok d \<Longrightarrow> rd_optVal rd_duration (w_optVal w_duration d @ rest) = Inr (d, rest)"
  by (simp_all add: id_codec.opt_round gen_codec.opt_round quant_codec.opt_round
      duration_codec.opt_round option.pred_True)

lemma proto_optGen_round [codec_simps]: "proto_desOptGen (proto_serOptGen g @ rest) = Inr (g, rest)"
  by (cases g) (simp_all add: proto_desOptGen_def proto_serOptGen_def codec_simps)

context codec
begin

lemma list_round:
  "counted xs \<Longrightarrow> list_all ok xs \<Longrightarrow>
   rd_list dec (w_count xs @ w_each enc xs @ rest) = Inr (xs, rest)"
  by (simp add: rd_list_def w_count_def counted_def times_round)

lemma list_prefix: "sound_reader (rd_list dec)"
  unfolding rd_list_def by (intro reader_intros prefix)

end

interpretation ids_codec: codec ser_ids des_ids counted
  by unfold_locales
     (simp_all add: ser_ids_def des_ids_def id_codec.list_round id_codec.list_prefix list_all_iff)

interpretation reasons_codec: codec ser_reasons des_reasons reasons_ok
  by unfold_locales
     (simp_all add: ser_reasons_def des_reasons_def reasons_ok_def str_codec.list_round
        str_codec.list_prefix)

interpretation unavailable_codec: codec ser_unavailable des_unavailable unavailable_ok
  by unfold_locales
     (auto simp: ser_unavailable_def des_unavailable_def unavailable_ok_def interval_codec.round
        codec_simps intro!: reader_intros interval_codec.prefix)

interpretation windows_codec: codec ser_windows des_windows windows_ok
  by unfold_locales
     (simp_all add: ser_windows_def des_windows_def windows_ok_def unavailable_codec.list_round
        unavailable_codec.list_prefix)

interpretation ratio_codec: codec ser_ratio des_ratio ratio_ok
  by unfold_locales
     (auto simp: ser_ratio_def des_ratio_def ratio_ok_def codec_simps intro!: reader_intros)

interpretation flagged_codec: codec ser_flagged des_flagged flagged_ok
proof
  fix i rest assume "flagged_ok i"
  then show "des_flagged (ser_flagged i @ rest) = Inr (i, rest)"
    by (auto simp: flagged_ok_def ser_flagged_def des_flagged_def codec_simps interval_codec.round
        iv_isEmpty_def window_ok_def Interval_default_def)
next
  show "sound_reader des_flagged"
    unfolding des_flagged_def by (intro reader_intros interval_codec.prefix)
qed

lemmas message_rounds [codec_simps] = interval_codec.round ids_codec.round reasons_codec.round
  windows_codec.round ratio_codec.round flagged_codec.round

lemma proto_optGen_prefix: "sound_reader proto_desOptGen"
  unfolding proto_desOptGen_def by (intro reader_intros)

lemmas message_prefixes [reader_intros] = interval_codec.prefix ids_codec.prefix reasons_codec.prefix
  windows_codec.prefix ratio_codec.prefix flagged_codec.prefix proto_optGen_prefix

section \<open>Messages\<close>

interpretation request_codec: codec serReq desReq request_sendable
proof
  fix x rest assume "request_sendable x"
  then show "desReq (serReq x @ rest) = Inr (x, rest)"
    by (simp add: serReq_def desReq_def request_sendable_def codec_simps)
next
  show "sound_reader desReq" unfolding desReq_def by (intro reader_intros)
qed

interpretation publication_codec: codec serPublication desPublication publication_sendable
proof
  fix x rest assume "publication_sendable x"
  then show "desPublication (serPublication x @ rest) = Inr (x, rest)"
    by (simp add: serPublication_def desPublication_def publication_sendable_def codec_simps)
next
  show "sound_reader desPublication" unfolding desPublication_def by (intro reader_intros)
qed

interpretation report_codec: codec serReport desReport report_sendable
proof
  fix x rest assume "report_sendable x"
  then show "desReport (serReport x @ rest) = Inr (x, rest)"
    by (simp add: serReport_def desReport_def report_sendable_def codec_simps)
next
  show "sound_reader desReport" unfolding desReport_def by (intro reader_intros)
qed

interpretation evidence_codec: codec serActivationEvidence desActivationEvidence activation_evidence_sendable
proof
  fix x rest assume "activation_evidence_sendable x"
  then show "desActivationEvidence (serActivationEvidence x @ rest) = Inr (x, rest)"
    by (simp add: serActivationEvidence_def desActivationEvidence_def activation_evidence_sendable_def codec_simps)
next
  show "sound_reader desActivationEvidence" unfolding desActivationEvidence_def by (intro reader_intros)
qed

interpretation reservation_result_codec: codec serReservationResult desReservationResult reservation_result_sendable
proof
  fix x rest assume "reservation_result_sendable x"
  then show "desReservationResult (serReservationResult x @ rest) = Inr (x, rest)"
    by (simp add: serReservationResult_def desReservationResult_def reservation_result_sendable_def codec_simps report_codec.round)
next
  show "sound_reader desReservationResult" unfolding desReservationResult_def by (intro reader_intros report_codec.prefix)
qed

interpretation activation_result_codec: codec serActivationResult desActivationResult activation_result_sendable
proof
  fix x rest assume "activation_result_sendable x"
  then show "desActivationResult (serActivationResult x @ rest) = Inr (x, rest)"
    by (simp add: serActivationResult_def desActivationResult_def activation_result_sendable_def codec_simps)
next
  show "sound_reader desActivationResult" unfolding desActivationResult_def by (intro reader_intros)
qed

interpretation consume_result_codec: codec serConsumeResult desConsumeResult consume_result_sendable
proof
  fix x rest assume "consume_result_sendable x"
  then show "desConsumeResult (serConsumeResult x @ rest) = Inr (x, rest)"
    by (simp add: serConsumeResult_def desConsumeResult_def consume_result_sendable_def codec_simps)
next
  show "sound_reader desConsumeResult" unfolding desConsumeResult_def by (intro reader_intros)
qed

interpretation release_result_codec: codec serReleaseResult desReleaseResult release_result_sendable
proof
  fix x rest assume "release_result_sendable x"
  then show "desReleaseResult (serReleaseResult x @ rest) = Inr (x, rest)"
    by (simp add: serReleaseResult_def desReleaseResult_def release_result_sendable_def codec_simps)
next
  show "sound_reader desReleaseResult" unfolding desReleaseResult_def by (intro reader_intros)
qed

end
