(* ===== verification/RF_Text.thy ===== *)
theory RF_Text
  imports RF_Query
begin

text \<open>
  Text: the names of the enumerations, the decimal numerals that \<^verbatim>\<open>std::to_string\<close> and the stream
  operator produce, and the inventory dump of \<^verbatim>\<open>src/runtime_query.cpp\<close>.
\<close>

section \<open>Names\<close>

fun ReservationStrength_to_string :: "ReservationStrength \<Rightarrow> string" where
  "ReservationStrength_to_string Hard = ''Hard''"
| "ReservationStrength_to_string Soft = ''Soft''"
| "ReservationStrength_to_string Opportunistic = ''Opportunistic''"
| "ReservationStrength_to_string BestEffort = ''BestEffort''"
| "ReservationStrength_to_string Strength_Unknown = ''Unknown''"
| "ReservationStrength_to_string (Strength_raw _) = ''Unknown''"

fun ActivationMode_to_string :: "ActivationMode \<Rightarrow> string" where
  "ActivationMode_to_string ActivateNotBefore = ''ActivateNotBefore''"
| "ActivationMode_to_string ImmediateAfterCommit = ''ImmediateAfterCommit''"
| "ActivationMode_to_string FixedInterval = ''FixedInterval''"
| "ActivationMode_to_string LatestStart = ''LatestStart''"
| "ActivationMode_to_string DurationAfterActivation = ''DurationAfterActivation''"
| "ActivationMode_to_string ExternalAuthority = ''ExternalAuthority''"
| "ActivationMode_to_string (ActivationMode_raw _) = ''Unknown''"

fun HoldState_to_string :: "HoldState \<Rightarrow> string" where
  "HoldState_to_string Hold_Acquired = ''Acquired''"
| "HoldState_to_string Hold_Releasing = ''Releasing''"
| "HoldState_to_string Hold_Released = ''Released''"
| "HoldState_to_string Hold_Expired = ''Expired''"
| "HoldState_to_string Hold_Committed = ''Committed''"
| "HoldState_to_string (HoldState_raw _) = ''Unknown''"

fun SetTransactionState_to_string :: "SetTransactionState \<Rightarrow> string" where
  "SetTransactionState_to_string Tx_None = ''None''"
| "SetTransactionState_to_string Tx_Validating = ''Validating''"
| "SetTransactionState_to_string Tx_HoldsAcquired = ''HoldsAcquired''"
| "SetTransactionState_to_string Tx_Committing = ''Committing''"
| "SetTransactionState_to_string Tx_Committed = ''Committed''"
| "SetTransactionState_to_string Tx_RolledBack = ''RolledBack''"
| "SetTransactionState_to_string Tx_Failed = ''Failed''"
| "SetTransactionState_to_string Tx_Persisted = ''Persisted''"
| "SetTransactionState_to_string (Tx_raw _) = ''Unknown''"

fun Feasibility_to_string :: "Feasibility \<Rightarrow> string" where
  "Feasibility_to_string Admissible = ''Admissible''"
| "Feasibility_to_string AdmissibleWithModification = ''AdmissibleWithModification''"
| "Feasibility_to_string PartiallyAdmissible = ''PartiallyAdmissible''"
| "Feasibility_to_string RejectCapacity = ''RejectCapacity''"
| "Feasibility_to_string RejectConflict = ''RejectConflict''"
| "Feasibility_to_string RejectStaleResource = ''RejectStaleResource''"
| "Feasibility_to_string RejectStalePolicy = ''RejectStalePolicy''"
| "Feasibility_to_string RejectTopology = ''RejectTopology''"
| "Feasibility_to_string RejectCapability = ''RejectCapability''"
| "Feasibility_to_string RejectLocality = ''RejectLocality''"
| "Feasibility_to_string RejectInvalidInterval = ''RejectInvalidInterval''"
| "Feasibility_to_string RejectInvalidQuantity = ''RejectInvalidQuantity''"
| "Feasibility_to_string RejectDuplicate = ''RejectDuplicate''"
| "Feasibility_to_string RejectStaleAuthority = ''RejectStaleAuthority''"
| "Feasibility_to_string Feasibility_RevalidationRequired = ''RevalidationRequired''"
| "Feasibility_to_string Feasibility_Unknown = ''Unknown''"
| "Feasibility_to_string (Feasibility_raw _) = ''Unknown''"

fun ResourceRegisterResult_to_string :: "ResourceRegisterResult \<Rightarrow> string" where
  "ResourceRegisterResult_to_string Accepted = ''Accepted''"
| "ResourceRegisterResult_to_string AcceptedReplaced = ''AcceptedReplaced''"
| "ResourceRegisterResult_to_string RejectedStale = ''RejectedStale''"
| "ResourceRegisterResult_to_string RejectedInvalid = ''RejectedInvalid''"
| "ResourceRegisterResult_to_string RejectedDuplicate = ''RejectedDuplicate''"

fun ResourceCondition_to_string :: "ResourceCondition \<Rightarrow> string" where
  "ResourceCondition_to_string Cond_Available = ''Available''"
| "ResourceCondition_to_string Cond_Unavailable = ''Unavailable''"
| "ResourceCondition_to_string Cond_Invalidated = ''Invalidated''"
| "ResourceCondition_to_string Cond_Drained = ''Drained''"
| "ResourceCondition_to_string Cond_Degraded = ''Degraded''"
| "ResourceCondition_to_string Cond_Unknown = ''Unknown''"

section \<open>Decimal numerals\<close>

definition digit :: "nat \<Rightarrow> char" where
  "digit d = char_of (48 + d)"

fun nat_to_string :: "nat \<Rightarrow> string" where
  "nat_to_string n = (if n < 10 then [digit n] else nat_to_string (n div 10) @ [digit (n mod 10)])"

declare nat_to_string.simps [simp del]

definition int_to_string :: "int \<Rightarrow> string" where
  "int_to_string i = (if i < 0 then CHR ''-'' # nat_to_string (nat (- i)) else nat_to_string (nat i))"

definition u64_to_string :: "u64 \<Rightarrow> string" where
  "u64_to_string w = nat_to_string (unat w)"

section \<open>The inventory\<close>

abbreviation newline :: string where
  "newline \<equiv> [CHR 0x0A]"

definition dump_resource :: "ResourceId \<times> Resource \<Rightarrow> string" where
  "dump_resource = (\<lambda>(i, res).
     ''  resource '' @ u64_to_string (id_value i) @
     '' gen='' @ u64_to_string (gen_value (res_generation res)) @
     '' class='' @ ResourceClass_to_string (res_class res) @
     '' capacity='' @ int_to_string (q_value (res_totalCapacity res)) @
     '' worker='' @ u64_to_string (id_value (res_owner res)) @
     '' boot='' @ u64_to_string (gen_value (res_ownerBoot res)) @
     '' available='' @ int_to_string (if res_available res then 1 else 0) @ newline)"

definition dump_reservation :: "ReservationId \<times> Reservation \<Rightarrow> string" where
  "dump_reservation = (\<lambda>(i, r).
     ''  reservation '' @ u64_to_string (id_value i) @
     '' gen='' @ u64_to_string (gen_value (rv_generation r)) @
     '' lifecycle='' @ Lifecycle_to_string (rv_lifecycle r) @
     '' resource='' @ u64_to_string (id_value (rv_resource r)) @
     '' qty='' @ int_to_string (q_value (rv_quantity r)) @
     '' window=['' @ int_to_string (inst_ns (iv_start (rv_window r))) @ '','' @
     int_to_string (inst_ns (iv_end (rv_window r))) @ '')'' @
     '' owner='' @ u64_to_string (id_value (rv_owner r)) @
     '' contributes='' @ int_to_string (if rv_contributes r then 1 else 0) @ newline)"

definition dumpInventory :: "Impl \<Rightarrow> string" where
  "dumpInventory st =
     ''epoch='' @ u64_to_string (gen_value (st_epoch st)) @
     '' authority='' @ u64_to_string (gen_value (st_authority st)) @ newline @
     ''resources='' @ nat_to_string (length (st_resources st)) @
     '' reservations='' @ nat_to_string (length (st_reservations st)) @
     '' holds='' @ nat_to_string (length (st_holds st)) @
     '' sets='' @ nat_to_string (length (st_sets st)) @ newline @
     concat (map dump_resource (st_resources st)) @
     concat (map dump_reservation (st_reservations st))"

section \<open>Numerals read back\<close>

text \<open>The value of a string of digits.\<close>

definition digits_value :: "string \<Rightarrow> nat" where
  "digits_value s = foldl (\<lambda>n c. 10 * n + (of_char c - 48)) 0 s"

lemma digits_value_append [simp]: "digits_value (s @ [c]) = 10 * digits_value s + (of_char c - 48)"
  by (simp add: digits_value_def)

lemma of_char_digit [simp]: "d < 10 \<Longrightarrow> of_char (digit d) = 48 + d"
  by (simp add: digit_def)

lemma digits_value_nat_to_string [simp]: "digits_value (nat_to_string n) = n"
proof (induction n rule: nat_to_string.induct)
  case (1 n)
  show ?case
  proof (cases "n < 10")
    case True
    then show ?thesis using digits_value_append [of "[]"]
      by (simp add: nat_to_string.simps [of n] digits_value_def)
  next
    case False
    with 1 show ?thesis by (simp add: nat_to_string.simps [of n])
  qed
qed

lemma length_nat_to_string: "length (nat_to_string n) \<le> n + 1"
proof (induction n rule: nat_to_string.induct)
  case (1 n)
  then show ?case by (cases "n < 10") (auto simp: nat_to_string.simps [of n])
qed

text \<open>Decimal numerals are unambiguous.\<close>

lemma nat_to_string_inj: "nat_to_string m = nat_to_string n \<longleftrightarrow> m = n"
  using digits_value_nat_to_string by metis

end
