(* ===== verification/RF_Coordinator.thy ===== *)
theory RF_Coordinator
  imports RF_Protocol_Codec RF_Text
begin

text \<open>
  The coordinator program, \<^verbatim>\<open>src/distributed/coordinator_main.cpp\<close>: the reply to each message
  and the service of one connection. Every message makes at most one call of the runtime, which is
  atomic, so the connections that are served at the same time interleave call by call. A
  \<^verbatim>\<open>FabricError\<close> is caught and answered; undefined behaviour of the runtime is not.
\<close>

section \<open>One message\<close>

record CoordinatorState =
  co_runtime :: Impl
  co_shutdown :: bool

text \<open>What goes to the socket, or the throw, and the state; the result of the write is ignored.\<close>

type_synonym served = "u8 list outcome \<times> CoordinatorState"

definition sendErr :: "string \<Rightarrow> u8 list outcome" where
  "sendErr msg = encodeFrame Msg_ErrorResponse (w_str msg)"

fun ResourceRegisterResult_byte :: "ResourceRegisterResult \<Rightarrow> u8" where
  "ResourceRegisterResult_byte Accepted = 1"
| "ResourceRegisterResult_byte AcceptedReplaced = 2"
| "ResourceRegisterResult_byte RejectedStale = 3"
| "ResourceRegisterResult_byte RejectedInvalid = 4"
| "ResourceRegisterResult_byte RejectedDuplicate = 5"

text \<open>The payload is decoded before the runtime is called.\<close>

definition with_payload ::
    "'a reader \<Rightarrow> u8 list \<Rightarrow> CoordinatorState \<Rightarrow> ('a \<Rightarrow> served) \<Rightarrow> served" where
  "with_payload m payload cs k =
     (case m payload of Inl e \<Rightarrow> (Inl e, cs) | Inr (a, _) \<Rightarrow> k a)"

definition rd_hello :: "(string \<times> WorkerId \<times> WorkerBootId) reader" where
  "rd_hello = rd_bind rd_str (\<lambda>role. rd_bind rd_id (\<lambda>w. rd_bind rd_gen (\<lambda>boot.
     rd_return (role, w, boot))))"

definition rd_register :: "(WorkerId \<times> WorkerBootId) reader" where
  "rd_register = rd_bind rd_id (\<lambda>w. rd_bind rd_gen (\<lambda>boot. rd_return (w, boot)))"

definition rd_activate ::
    "(ReservationId \<times> ReservationGeneration \<times> ActivationEvidence) reader" where
  "rd_activate = rd_bind rd_id (\<lambda>i. rd_bind rd_gen (\<lambda>g. rd_bind desActivationEvidence (\<lambda>ev.
     rd_return (i, g, ev))))"

definition rd_consume ::
    "(ReservationId \<times> ReservationGeneration \<times> Quantity \<times> ConsumeEvidence) reader" where
  "rd_consume = rd_bind rd_id (\<lambda>i. rd_bind rd_gen (\<lambda>g. rd_bind rd_quant (\<lambda>amount.
     rd_bind rd_id (\<lambda>w. rd_bind rd_gen (\<lambda>boot. rd_bind rd_gen (\<lambda>cg. rd_bind rd_instant (\<lambda>t.
     rd_return (i, g, amount, \<lparr>ce_worker = w, ce_workerBoot = boot,
       ce_consumptionGeneration = cg, ce_at = t\<rparr>))))))))"

definition rd_release ::
    "(ReservationId \<times> ReservationGeneration \<times> ReleaseEvidence) reader" where
  "rd_release = rd_bind rd_id (\<lambda>i. rd_bind rd_gen (\<lambda>g.
     rd_bind rd_id (\<lambda>w. rd_bind rd_gen (\<lambda>boot. rd_bind rd_gen (\<lambda>lg. rd_bind rd_instant (\<lambda>t.
     rd_return (i, g, \<lparr>le_worker = w, le_workerBoot = boot, le_releaseGeneration = lg,
       le_at = t\<rparr>)))))))"

text \<open>The part of a query after its kind, which only the accounting query reads.\<close>

definition answer_query :: "string \<Rightarrow> u8 list \<Rightarrow> Impl \<Rightarrow> u8 list outcome \<times> Impl" where
  "answer_query kind rest st =
     (if kind = ''inventory'' then (Inr (w_str (dumpInventory st)), st)
      else if kind = ''count'' then (Inr (w_str (nat_to_string (currentReservationCount st))), st)
      else if kind = ''epoch'' then (Inr (w_str (u64_to_string (gen_value (coordinatorEpoch st)))), st)
      else if kind = ''accounting''
      then case rd_id rest of
             Inl e \<Rightarrow> (Inl e, st)
           | Inr (i, _) \<Rightarrow>
               (case rf_accounting i st of
                  (Inl e, st') \<Rightarrow> (Inl e, st')
                | (Inr acc, st') \<Rightarrow>
                    (Inr (w_i64 (q_value (ca_committed acc)) @ w_i64 (q_value (ca_headroom acc)) @
                          w_boolean (ca_consistent acc)), st'))
      else (Inr (w_str ''''), st))"

definition handleMessage :: "Frame \<Rightarrow> CoordinatorState \<Rightarrow> served" where
  "handleMessage frame cs =
     (let payload = frame_payload frame; st = co_runtime cs in
      case frame_type frame of
        Msg_Hello \<Rightarrow>
          with_payload rd_hello payload cs (\<lambda>(role, _, _).
            (encodeFrame Msg_Acknowledge (w_str role), cs))
      | Msg_Register \<Rightarrow>
          with_payload rd_register payload cs (\<lambda>(w, _).
            (encodeFrame Msg_Acknowledge (w_id w), cs))
      | Msg_PublishResource \<Rightarrow>
          with_payload desPublication payload cs (\<lambda>pub.
            case publishResource pub st of
              (Inl e, st') \<Rightarrow> (Inl e, cs\<lparr>co_runtime := st'\<rparr>)
            | (Inr (res, err), st') \<Rightarrow>
                (encodeFrame Msg_PublishResult
                   (w_enu ResourceRegisterResult_byte res @
                    w_str (case err of None \<Rightarrow> '''' | Some e \<Rightarrow> e)),
                 cs\<lparr>co_runtime := st'\<rparr>))
      | Msg_Assess \<Rightarrow>
          with_payload desReq payload cs (\<lambda>req.
            case rf_assess req st of (rep, st') \<Rightarrow>
              (encodeFrame Msg_AssessResult (serReport rep), cs\<lparr>co_runtime := st'\<rparr>))
      | Msg_RequestReservation \<Rightarrow>
          with_payload desReq payload cs (\<lambda>req.
            case rf_commit req None st of
              (Inl e, st') \<Rightarrow> (Inl e, cs\<lparr>co_runtime := st'\<rparr>)
            | (Inr rr, st') \<Rightarrow>
                (encodeFrame Msg_ReservationResult (serReservationResult rr), cs\<lparr>co_runtime := st'\<rparr>))
      | Msg_Activate \<Rightarrow>
          with_payload rd_activate payload cs (\<lambda>(i, g, ev).
            case rf_activate i g ev st of (ar, st') \<Rightarrow>
              (encodeFrame Msg_ActivateResult (serActivationResult ar), cs\<lparr>co_runtime := st'\<rparr>))
      | Msg_Consume \<Rightarrow>
          with_payload rd_consume payload cs (\<lambda>(i, g, amount, ev).
            case rf_consume i g amount ev st of (cr, st') \<Rightarrow>
              (encodeFrame Msg_ConsumeResult (serConsumeResult cr), cs\<lparr>co_runtime := st'\<rparr>))
      | Msg_Release \<Rightarrow>
          with_payload rd_release payload cs (\<lambda>(i, g, ev).
            case rf_release i g ev st of (rr, st') \<Rightarrow>
              (encodeFrame Msg_ReleaseResult (serReleaseResult rr), cs\<lparr>co_runtime := st'\<rparr>))
      | Msg_Query \<Rightarrow>
          (case rd_str payload of
             Inl e \<Rightarrow> (Inl e, cs)
           | Inr (kind, rest) \<Rightarrow>
               case answer_query kind rest st of (ans, st') \<Rightarrow>
                 (bind_outcome ans (encodeFrame Msg_QueryResult), cs\<lparr>co_runtime := st'\<rparr>))
      | Msg_Revalidate \<Rightarrow>
          with_payload desPublication payload cs (\<lambda>fresh.
            case revalidateResource (pub_id fresh) fresh st of
              (Inl e, st') \<Rightarrow> (Inl e, cs\<lparr>co_runtime := st'\<rparr>)
            | (Inr n, st') \<Rightarrow>
                (encodeFrame Msg_Acknowledge (w_u64 (word_of_nat n)), cs\<lparr>co_runtime := st'\<rparr>))
      | Msg_Shutdown \<Rightarrow> (encodeFrame Msg_Acknowledge (w_u8 1), cs\<lparr>co_shutdown := True\<rparr>)
      | _ \<Rightarrow> (sendErr ''unhandled message type'', cs))"

section \<open>One connection\<close>

text \<open>The worker that the connection stands for, as far as the frame says.\<close>

definition conn_worker :: "Frame \<Rightarrow> WorkerId \<Rightarrow> WorkerId outcome" where
  "conn_worker frame connWorker =
     (case frame_type frame of
        Msg_Register \<Rightarrow> bind_outcome (rd_id (frame_payload frame)) (\<lambda>(w, _). Inr w)
      | Msg_Hello \<Rightarrow>
          bind_outcome (rd_str (frame_payload frame)) (\<lambda>(role, rest).
            bind_outcome (rd_id rest) (\<lambda>(w, _).
              Inr (if role = ''worker'' then w else connWorker)))
      | _ \<Rightarrow> Inr connWorker)"

text \<open>The body of the try block and its handler.\<close>

definition serve_frame ::
    "Frame \<Rightarrow> WorkerId \<Rightarrow> CoordinatorState \<Rightarrow> u8 list outcome \<times> WorkerId \<times> CoordinatorState" where
  "serve_frame frame connWorker cs =
     (let (out, w, cs') =
        (case conn_worker frame connWorker of
           Inl e \<Rightarrow> (Inl e, connWorker, cs)
         | Inr w \<Rightarrow> (case handleMessage frame cs of (out, cs') \<Rightarrow> (out, w, cs')))
      in case out of
           Inl (FabricError code msg) \<Rightarrow> (sendErr msg, w, cs')
         | _ \<Rightarrow> (out, w, cs'))"

text \<open>The loop after the connection is gone: fence what the worker owned.\<close>

definition fence_notice :: "ResourceId \<Rightarrow> InvalidationNotice" where
  "fence_notice i =
     \<lparr>in_resource = i, in_obsoleteAtGeneration = StrongGeneration 0,
      in_condition = Cond_Invalidated, in_reason = ''worker disconnected''\<rparr>"

definition fence_resource :: "WorkerId \<Rightarrow> ResourceId \<Rightarrow> Impl \<Rightarrow> Impl" where
  "fence_resource w i st =
     (case rf_resource i st of
        Some res \<Rightarrow> if res_owner res = w then snd (invalidateResource (fence_notice i) st) else st
      | None \<Rightarrow> st)"

definition fence_worker :: "WorkerId \<Rightarrow> Impl \<Rightarrow> Impl" where
  "fence_worker w st = (if id_valid w then fold (fence_resource w) (resourceIds st) st else st)"

lemma recv_concat: "recv n s = (bs, s') \<Longrightarrow> concat s = bs @ concat s'"
  by (cases "(n, s)" rule: recv.cases) (auto split: if_splits)

lemma recvAll_concat:
  "recvAll len got s = (Some bs, s') \<Longrightarrow> length got \<le> len \<Longrightarrow>
   length bs = len \<and> (\<exists>new. bs = got @ new \<and> concat s = new @ concat s')"
proof (induction len got s rule: recvAll.induct)
  case (1 len got s)
  obtain b s1 where b: "recv (len - length got) s = (b, s1)" by fastforce
  show ?case
  proof (cases "length got \<ge> len")
    case True
    with 1(2,3) show ?thesis by (simp add: recvAll.simps [of len got s])
  next
    case False
    with 1(2) b have "b \<noteq> []" "recvAll len (got @ b) s1 = (Some bs, s')"
      by (auto simp: recvAll.simps [of len got s] split: if_splits)
    moreover have "length (got @ b) \<le> len" using recv_le [of "len - length got" s] b False by simp
    ultimately show ?thesis using 1(1) [OF False b [symmetric] refl] recv_concat [OF b] by auto
  qed
qed

lemma recvFrame_consumes:
  assumes "recvFrame s = (Decoded f, s')"
  shows "length (concat s') < length (concat s)"
proof -
  from assms obtain hdr s1 where h: "recvAll kHeaderSize [] s = (Some hdr, s1)"
    by (auto simp: recvFrame_def split: prod.splits option.splits)
  have "length (concat s1) < length (concat s)"
    using recvAll_concat [OF h] by (auto simp: kHeaderSize_def)
  moreover have "length (concat s') \<le> length (concat s1)"
    using assms h recvAll_concat
    by (fastforce simp: recvFrame_def split: sum.splits prod.splits option.splits if_splits)
  ultimately show ?thesis by simp
qed

text \<open>
  The replies in the order they are sent, or the undefined behaviour that ended the process, and the
  final state. The two codes of \<^verbatim>\<open>recvFrame\<close> other than a frame both end the loop.
\<close>

function serveConnection ::
    "chunks \<Rightarrow> WorkerId \<Rightarrow> CoordinatorState \<Rightarrow> u8 list list outcome \<times> CoordinatorState" where
  "serveConnection s connWorker cs =
     (case recvFrame s of
        (Decoded frame, s') \<Rightarrow>
          (case serve_frame frame connWorker cs of
             (Inl e, w, cs') \<Rightarrow> (Inl e, cs')
           | (Inr reply, w, cs') \<Rightarrow>
               (case serveConnection s' w cs' of
                  (replies, cs'') \<Rightarrow> (bind_outcome replies (\<lambda>rs. Inr (reply # rs)), cs'')))
      | (NeedMore, s') \<Rightarrow> (Inr [], cs\<lparr>co_runtime := fence_worker connWorker (co_runtime cs)\<rparr>)
      | (Malformed, s') \<Rightarrow> (Inr [], cs\<lparr>co_runtime := fence_worker connWorker (co_runtime cs)\<rparr>))"
  by pat_completeness auto

termination
  by (relation "measure (\<lambda>(s, w, cs). length (concat s))") (auto dest: recvFrame_consumes [OF sym])

declare serveConnection.simps [simp del]

end
