(* ===== verification/RF_Service.thy ===== *)
theory RF_Service
  imports RF_Coordinator
begin

text \<open>
  The main loop of \<^verbatim>\<open>src/distributed/coordinator_main.cpp\<close> and the threads it starts, one per
  connection, as a step relation. A step is what happens between two points where another thread
  can intervene: one call of the runtime holds its mutex, so a message is one step, but the
  fencing of a lost worker is a call for the list of resources and then, for each of them, a look
  at its owner and a call that invalidates it.
\<close>

section \<open>One thread\<close>

datatype thread =
    Serving chunks WorkerId
  | Fencing WorkerId "ResourceId list"
  | Notifying WorkerId ResourceId "ResourceId list"
  | Closed

datatype thread_result = Continues thread CoordinatorState | Dies CoordinatorState

text \<open>Undefined behaviour of the runtime ends the process; what is sent back is left out here.\<close>

fun thread_step :: "thread \<Rightarrow> CoordinatorState \<Rightarrow> thread_result" where
  "thread_step (Serving s connWorker) cs =
     (case recvFrame s of
        (Decoded frame, s') \<Rightarrow>
          (case serve_frame frame connWorker cs of
             (Inl _, _, cs') \<Rightarrow> Dies cs'
           | (Inr _, w, cs') \<Rightarrow> Continues (Serving s' w) cs')
      | _ \<Rightarrow>
          Continues
            (if id_valid connWorker then Fencing connWorker (resourceIds (co_runtime cs)) else Closed) cs)"
| "thread_step (Fencing connWorker []) cs = Continues Closed cs"
| "thread_step (Fencing connWorker (i # is)) cs =
     (case rf_resource i (co_runtime cs) of
        Some res \<Rightarrow>
          Continues (if res_owner res = connWorker then Notifying connWorker i is
                     else Fencing connWorker is) cs
      | None \<Rightarrow> Continues (Fencing connWorker is) cs)"
| "thread_step (Notifying connWorker i is) cs =
     Continues (Fencing connWorker is)
       (cs\<lparr>co_runtime := snd (invalidateResource (fence_notice i) (co_runtime cs))\<rparr>)"
| "thread_step Closed cs = Continues Closed cs"

section \<open>The main loop\<close>

text \<open>
  The loop head tests the flag; \<open>Accepting\<close> is the call of \<^verbatim>\<open>acceptConn\<close>; \<open>Joining\<close> the join inside
  the loop, \<open>Finishing\<close> the one after it.
\<close>

datatype main_point = Loop_head | Accepting | Joining | Finishing | Stopped | Crashed

record Service =
  sv_coord :: CoordinatorState
  sv_threads :: "thread list"
  sv_main :: main_point

definition service_start :: "RuntimeConfig \<Rightarrow> Service" where
  "service_start config =
     \<lparr>sv_coord = \<lparr>co_runtime = mk_Impl config, co_shutdown = False\<rparr>, sv_threads = [],
      sv_main = Loop_head\<rparr>"

definition kMaxThreads :: nat where
  "kMaxThreads = 16"

definition main_test :: "Service \<Rightarrow> Service" where
  "main_test sv =
     sv\<lparr>sv_main := (if co_shutdown (sv_coord sv) then Finishing else Accepting)\<rparr>"

text \<open>\<open>s\<close> is what the new connection will deliver; its worker is not known yet.\<close>

definition main_accept :: "chunks \<Rightarrow> Service \<Rightarrow> Service" where
  "main_accept s sv =
     (let ts = sv_threads sv @ [Serving s (StrongId 0)]
      in sv\<lparr>sv_threads := ts,
            sv_main := (if length ts > kMaxThreads then Joining else Loop_head)\<rparr>)"

definition main_clear :: "Service \<Rightarrow> Service" where
  "main_clear sv = sv\<lparr>sv_threads := [], sv_main := Loop_head\<rparr>"

definition all_closed :: "Service \<Rightarrow> bool" where
  "all_closed sv \<longleftrightarrow> list_all (\<lambda>t. t = Closed) (sv_threads sv)"

definition run_thread :: "nat \<Rightarrow> Service \<Rightarrow> Service" where
  "run_thread k sv =
     (case thread_step (sv_threads sv ! k) (sv_coord sv) of
        Continues t cs \<Rightarrow> sv\<lparr>sv_coord := cs, sv_threads := (sv_threads sv)[k := t]\<rparr>
      | Dies cs \<Rightarrow> sv\<lparr>sv_coord := cs, sv_main := Crashed\<rparr>)"

text \<open>
  The frames that the clients send are restricted by \<open>ok\<close>, a condition on the frame and the runtime
  that serves it; with \<^term>\<open>\<lambda>_ _. True\<close> there is no restriction.
\<close>

definition admits :: "(Frame \<Rightarrow> Impl \<Rightarrow> bool) \<Rightarrow> thread \<Rightarrow> CoordinatorState \<Rightarrow> bool" where
  "admits ok t cs =
     (case t of
        Serving s _ \<Rightarrow>
          (case recvFrame s of (Decoded frame, _) \<Rightarrow> ok frame (co_runtime cs) | _ \<Rightarrow> True)
      | _ \<Rightarrow> True)"

inductive service_step :: "(Frame \<Rightarrow> Impl \<Rightarrow> bool) \<Rightarrow> Service \<Rightarrow> Service \<Rightarrow> bool" for ok where
  step_test: "sv_main sv = Loop_head \<Longrightarrow> service_step ok sv (main_test sv)"
| step_accept: "sv_main sv = Accepting \<Longrightarrow> service_step ok sv (main_accept s sv)"
| step_accept_fails: "sv_main sv = Accepting \<Longrightarrow> service_step ok sv (sv\<lparr>sv_main := Finishing\<rparr>)"
| step_joined: "sv_main sv = Joining \<Longrightarrow> all_closed sv \<Longrightarrow> service_step ok sv (main_clear sv)"
| step_finished:
    "sv_main sv = Finishing \<Longrightarrow> all_closed sv \<Longrightarrow> service_step ok sv (sv\<lparr>sv_main := Stopped\<rparr>)"
| step_thread:
    "sv_main sv \<noteq> Crashed \<Longrightarrow> k < length (sv_threads sv) \<Longrightarrow>
     admits ok (sv_threads sv ! k) (sv_coord sv) \<Longrightarrow> service_step ok sv (run_thread k sv)"

inductive service_run :: "(Frame \<Rightarrow> Impl \<Rightarrow> bool) \<Rightarrow> RuntimeConfig \<Rightarrow> Service \<Rightarrow> bool" for ok config where
  service_begins: "service_run ok config (service_start config)"
| service_moves: "service_run ok config sv \<Longrightarrow> service_step ok sv sv' \<Longrightarrow> service_run ok config sv'"

inductive_cases service_stepE: "service_step ok sv sv'"

lemma run_thread_length [simp]: "length (sv_threads (run_thread k sv)) = length (sv_threads sv)"
  by (simp add: run_thread_def split: thread_result.split)

lemma run_thread_main: "sv_main (run_thread k sv) = sv_main sv \<or> sv_main (run_thread k sv) = Crashed"
  by (simp add: run_thread_def split: thread_result.split)

end
