(* ===== verification/RF_Frame_Props.thy ===== *)
theory RF_Frame_Props
  imports RF_Frame
begin

text \<open>
  What the framing guarantees: every message that is sent is decoded, in order and whole, however
  the network cuts the bytes; a damaged frame is never delivered; the incremental decoder and the
  blocking receive agree.
\<close>

section \<open>Frames as bytes\<close>

definition frame_bytes :: "u32 \<Rightarrow> u8 \<Rightarrow> u8 \<Rightarrow> u32 \<Rightarrow> u32 \<Rightarrow> u8 list \<Rightarrow> u8 list" where
  "frame_bytes magic version ty len crc body =
     w_u32 magic @ w_u8 version @ w_u8 ty @ w_u32 len @ w_u32 crc @ body"

lemma length_frame_bytes [simp]: "length (frame_bytes m v t l c body) = 14 + length body"
  by (simp add: frame_bytes_def)

lemma kHeaderSize_14 [simp]: "kHeaderSize = 14"
  by (simp add: kHeaderSize_def)

lemma frame_bytes_append: "frame_bytes m v t l c body @ ext = frame_bytes m v t l c (body @ ext)"
  by (simp add: frame_bytes_def)

lemma rd_header_frame: "rd_header (frame_bytes m v t l c body) = Inr ((m, v, t, l, c), body)"
  by (simp add: rd_header_def frame_bytes_def codec_simps)

lemma drop_frame_bytes [simp]: "drop (14 + n) (frame_bytes m v t l c body) = drop n body"
  by (simp add: frame_bytes_def)

lemma drop_frame_header [simp]: "drop 14 (frame_bytes m v t l c body) = body"
  using drop_frame_bytes [of 0] by simp

text \<open>Every buffer of a header's size is a frame, sound or not.\<close>

lemma frame_bytes_surj:
  assumes "14 \<le> length buf"
  obtains m v t l c body where "buf = frame_bytes m v t l c body"
proof -
  obtain m where m: "take 4 buf = w_u32 m" using w_u32_surj [of "take 4 buf"] assms by auto
  obtain l where l: "take 4 (drop 6 buf) = w_u32 l" using w_u32_surj [of "take 4 (drop 6 buf)"] assms by auto
  obtain c where c: "take 4 (drop 10 buf) = w_u32 c" using w_u32_surj [of "take 4 (drop 10 buf)"] assms by auto
  have "buf = take 4 buf @ drop 4 buf" by simp
  also have "drop 4 buf = [buf ! 4] @ [buf ! 5] @ drop 6 buf"
    using assms Cons_nth_drop_Suc [of 4 buf] Cons_nth_drop_Suc [of 5 buf] by simp
  also have "drop 6 buf = take 4 (drop 6 buf) @ drop 10 buf"
    using append_take_drop_id [of 4 "drop 6 buf"] by simp
  also have "drop 10 buf = take 4 (drop 10 buf) @ drop 14 buf"
    using append_take_drop_id [of 4 "drop 10 buf"] by simp
  finally have "buf = frame_bytes m (buf ! 4) (buf ! 5) l c (drop 14 buf)"
    by (simp add: frame_bytes_def w_u8_def m l c)
  then show ?thesis by (rule that)
qed

lemma decode_frame_bytes:
  "decode_buffer (frame_bytes m v t l c body) =
     (if m \<noteq> kFrameMagic \<or> v \<noteq> kFrameVersion \<or> l > kMaxFramePayload
      then (Malformed, frame_bytes m v t l c body)
      else if length body < unat l then (NeedMore, frame_bytes m v t l c body)
      else if frame_crc t (take (unat l) body) \<noteq> c then (Malformed, frame_bytes m v t l c body)
      else (Decoded \<lparr>frame_type = MessageType_of_byte t, frame_payload = take (unat l) body\<rparr>,
            drop (unat l) body))"
  by (simp add: decode_buffer_def rd_header_frame Let_def)

lemma decode_short: "length buf < 14 \<Longrightarrow> decode_buffer buf = (NeedMore, buf)"
  by (simp add: decode_buffer_def)

text \<open>A verdict does not change when more bytes arrive.\<close>

lemma decode_more:
  assumes "decode_buffer buf = (r, rest)" "r \<noteq> NeedMore"
  shows "decode_buffer (buf @ ext) = (r, rest @ ext)"
proof -
  from assms have "14 \<le> length buf" using decode_short [of buf] by (cases "length buf < 14") auto
  then obtain m v t l c body where buf: "buf = frame_bytes m v t l c body" by (rule frame_bytes_surj)
  show ?thesis
    using assms by (auto simp: buf frame_bytes_append decode_frame_bytes split: if_splits)
qed

lemma decode_need_more: "decode_buffer buf = (NeedMore, rest) \<Longrightarrow> rest = buf"
  by (auto simp: decode_buffer_def Let_def split: if_splits sum.splits)

lemma decode_malformed: "decode_buffer buf = (Malformed, rest) \<Longrightarrow> rest = buf"
  by (auto simp: decode_buffer_def Let_def split: if_splits sum.splits)

lemma decode_decoded:
  assumes "decode_buffer buf = (Decoded f, rest)"
  shows "length rest < length buf"
proof -
  from assms have "14 \<le> length buf" using decode_short [of buf] by (cases "length buf < 14") auto
  then obtain m v t l c body where buf: "buf = frame_bytes m v t l c body" by (rule frame_bytes_surj)
  show ?thesis using assms by (auto simp: buf decode_frame_bytes split: if_splits)
qed

section \<open>Encoded frames\<close>

lemma encodeFrame_bytes:
  "encodeFrame ty p =
     (if length p \<le> 2 ^ 20
      then Inr (frame_bytes kFrameMagic kFrameVersion (MessageType_byte ty)
        (word_of_nat (length p)) (frame_crc (MessageType_byte ty) p) p)
      else throw_error ProtocolError ''frame payload exceeds bound'')"
  by (simp add: encodeFrame_def frame_bytes_def kMaxFramePayload_def)

lemma payload_fits: "n \<le> 2 ^ 20 \<Longrightarrow> \<not> (word_of_nat n :: u32) > kMaxFramePayload"
  by (simp add: kMaxFramePayload_def not_less word_le_nat_alt unat_of_nat)

lemma decode_encoded:
  assumes "message.canonical ty" "encodeFrame ty p = Inr bytes"
  shows "decode_buffer (bytes @ rest) = (Decoded \<lparr>frame_type = ty, frame_payload = p\<rparr>, rest)"
proof -
  from assms(2) have p: "length p \<le> 2 ^ 20" and
    bytes: "bytes = frame_bytes kFrameMagic kFrameVersion (MessageType_byte ty)
        (word_of_nat (length p)) (frame_crc (MessageType_byte ty) p) p"
    by (auto simp: encodeFrame_bytes split: if_splits)
  show ?thesis
    using p payload_fits [OF p] assms(1)
    by (simp add: bytes frame_bytes_append decode_frame_bytes)
qed

section \<open>A stream of frames\<close>

text \<open>
  A client that pushes what it received and then takes frames until the decoder asks for more or
  reports a malformed frame.
\<close>

function take_frames :: "u8 list \<Rightarrow> Frame list \<times> push_result \<times> u8 list" where
  "take_frames buf =
     (case decode_buffer buf of
        (Decoded f, rest) \<Rightarrow> (case take_frames rest of (fs, r, b) \<Rightarrow> (f # fs, r, b))
      | (NeedMore, rest) \<Rightarrow> ([], NeedMore, rest)
      | (Malformed, rest) \<Rightarrow> ([], Malformed, rest))"
  by pat_completeness auto

termination
  by (relation "measure length") (auto dest: decode_decoded [OF sym])

declare take_frames.simps [simp del]

fun receive_chunks :: "u8 list list \<Rightarrow> u8 list \<Rightarrow> Frame list \<times> u8 list" where
  "receive_chunks [] buf = ([], buf)"
| "receive_chunks (c # cs) buf =
     (case take_frames (buf @ c) of (fs, r, b) \<Rightarrow>
        (case receive_chunks cs b of (gs, b') \<Rightarrow> (fs @ gs, b')))"

lemma take_frames_more:
  "take_frames buf = (fs, r, b) \<Longrightarrow>
   take_frames (buf @ ext) =
     (if r = Malformed then (fs, Malformed, b @ ext)
      else case take_frames (b @ ext) of (gs, r', b') \<Rightarrow> (fs @ gs, r', b'))"
proof (induction buf arbitrary: fs r b rule: take_frames.induct)
  case (1 buf)
  obtain d rest where d: "decode_buffer buf = (d, rest)" by fastforce
  show ?case
  proof (cases d)
    case (Decoded f)
    obtain gs where gs: "take_frames rest = (gs, r, b)" "fs = f # gs"
      using 1(2) d Decoded by (auto simp: take_frames.simps [of buf] split: prod.splits)
    have "decode_buffer (buf @ ext) = (Decoded f, rest @ ext)"
      using decode_more [OF d] Decoded by simp
    with 1(1) [OF d [symmetric] Decoded gs(1)] gs(2) show ?thesis
      by (auto simp: take_frames.simps [of "buf @ ext"] split: prod.splits)
  next
    case NeedMore
    with 1(2) d have "fs = []" "r = NeedMore" "b = buf"
      using decode_need_more by (auto simp: take_frames.simps [of buf])
    then show ?thesis by (auto split: prod.splits)
  next
    case Malformed
    with 1(2) d have "fs = []" "r = Malformed" "b = rest" by (auto simp: take_frames.simps [of buf])
    then show ?thesis
      using decode_more [OF d] Malformed by (simp add: take_frames.simps [of "buf @ ext"])
  qed
qed

lemma take_frames_twice:
  assumes "take_frames buf = (fs, r, b)"
  shows "take_frames b = ([], r, b)"
  using assms
proof (induction buf arbitrary: fs rule: take_frames.induct)
  case (1 buf)
  obtain d rest where d: "decode_buffer buf = (d, rest)" by fastforce
  show ?case
  proof (cases d)
    case (Decoded f)
    then obtain gs where "take_frames rest = (gs, r, b)"
      using 1(2) d by (auto simp: take_frames.simps [of buf] split: prod.splits)
    with 1(1) [OF d [symmetric] Decoded] show ?thesis by simp
  next
    case NeedMore
    have "rest = buf" using decode_need_more d NeedMore by simp
    with 1(2) d NeedMore have "b = buf" "fs = []" by (simp_all add: take_frames.simps [of buf])
    with 1(2) show ?thesis by simp
  next
    case Malformed
    have "rest = buf" using decode_malformed d Malformed by simp
    with 1(2) d Malformed have "b = buf" "fs = []" by (simp_all add: take_frames.simps [of buf])
    with 1(2) show ?thesis by simp
  qed
qed

text \<open>Cutting the bytes differently changes neither the frames nor what stays in the buffer.\<close>

lemma receive_chunks_concat:
  "receive_chunks cs b0 = (fs, b) \<Longrightarrow> take_frames b0 = ([], r0, b0) \<Longrightarrow>
   \<exists>r. take_frames (b0 @ concat cs) = (fs, r, b)"
proof (induction cs arbitrary: b0 fs r0)
  case Nil
  then show ?case by auto
next
  case (Cons c cs)
  obtain gs r b1 where first: "take_frames (b0 @ c) = (gs, r, b1)" by (cases "take_frames (b0 @ c)") auto
  obtain hs where rest: "receive_chunks cs b1 = (hs, b)" "fs = gs @ hs"
    using Cons.prems(1) first by (auto split: prod.splits)
  from Cons.IH [OF rest(1) take_frames_twice [OF first]]
  obtain r' where tail: "take_frames (b1 @ concat cs) = (hs, r', b)" by blast
  show ?case
  proof (cases "r = Malformed")
    case True
    with take_frames_more [OF take_frames_twice [OF first], of "concat cs"] tail
    have "hs = []" "b = b1 @ concat cs" by auto
    with True rest(2) show ?thesis using take_frames_more [OF first, of "concat cs"] by auto
  next
    case False
    with take_frames_more [OF first, of "concat cs"] tail rest(2) show ?thesis by auto
  qed
qed

lemma take_frames_Nil: "take_frames [] = ([], NeedMore, [])"
  by (simp add: take_frames.simps [of "[]"] decode_short)

lemma take_frames_encoded:
  "list_all2 (\<lambda>f bytes. message.canonical (frame_type f) \<and>
     encodeFrame (frame_type f) (frame_payload f) = Inr bytes) fs bss \<Longrightarrow>
   take_frames (concat bss) = (fs, NeedMore, [])"
proof (induction rule: list_all2_induct)
  case Nil
  then show ?case by (simp add: take_frames_Nil)
next
  case (Cons f fs bytes bss)
  then have "decode_buffer (bytes @ concat bss) = (Decoded f, concat bss)"
    using decode_encoded [of "frame_type f" "frame_payload f" bytes "concat bss"] by simp
  with Cons.IH show ?case by (simp add: take_frames.simps [of "bytes @ concat bss"])
qed

section \<open>Properties of the decoder\<close>

text \<open>Claim C27: Whatever messages are encoded and however the network cuts their bytes into chunks, an
  incremental decoder that starts empty delivers exactly these messages, in order, and
  keeps nothing back.\<close>

theorem frames_survive_chunking:
  assumes "list_all2 (\<lambda>f bytes. message.canonical (frame_type f) \<and>
      encodeFrame (frame_type f) (frame_payload f) = Inr bytes) fs bss"
    and "concat chunks = concat bss"
  shows "receive_chunks chunks [] = (fs, [])"
proof -
  obtain gs b where run: "receive_chunks chunks [] = (gs, b)" by fastforce
  with receive_chunks_concat [OF run take_frames_Nil] assms(2)
  obtain r where "take_frames (concat bss) = (gs, r, b)" by auto
  with take_frames_encoded [OF assms(1)] run show ?thesis by simp
qed

lemma demo_frame:
  "encodeFrame Msg_Shutdown [1] = Inr [0x46, 0x42, 0x46, 0x52, 1, 20, 1, 0, 0, 0, 0xC3, 0xA, 0x8F, 0xE7, 1]"
proof -
  have "frame_crc 20 [1] = 0xE78F0AC3"
    by (simp add: frame_crc_def eval_crc)
  then show ?thesis
    by (simp add: encodeFrame_def kMaxFramePayload_def kFrameMagic_def kFrameVersion_def w_u32_def
        w_u8_def upt_rec)
qed

theorem frames_survive_chunking_witness:
  "receive_chunks [[0x46, 0x42], [0x46, 0x52, 1, 20, 1, 0, 0, 0, 0xC3, 0xA, 0x8F], [0xE7, 1]] [] =
     ([\<lparr>frame_type = Msg_Shutdown, frame_payload = [1]\<rparr>], [])"
  by (rule frames_survive_chunking
        [where bss = "[[0x46, 0x42, 0x46, 0x52, 1, 20, 1, 0, 0, 0, 0xC3, 0xA, 0x8F, 0xE7, 1]]"])
     (simp_all add: demo_frame MessageType_of_byte_def)

section \<open>Damage\<close>

text \<open>The checksum of two frame bodies that differ in one byte.\<close>

lemma changed_crc:
  assumes "us @ [c] @ vs = x # xs" "us @ [d] @ vs = y # ys" "c \<noteq> d"
  shows "frame_crc x xs \<noteq> frame_crc y ys"
  unfolding frame_crc_def assms(1,2) [symmetric] using assms(3) by (intro crc32_burst) simp_all

text \<open>The frame that the encoder builds, as a list of its fields.\<close>

definition encoded :: "u8 \<Rightarrow> u8 list \<Rightarrow> u8 list" where
  "encoded t p = frame_bytes kFrameMagic kFrameVersion t (word_of_nat (length p)) (frame_crc t p) p"

lemma unat_payload: "length p \<le> 2 ^ 20 \<Longrightarrow> unat (word_of_nat (length p) :: u32) = length p"
  by (intro unat_length) simp

lemma damaged_header:
  assumes "length p \<le> 2 ^ 20" "n < 6" "b \<noteq> encoded t p ! n"
  shows "fst (decode_buffer ((encoded t p)[n := b])) = Malformed"
proof -
  let ?l = "word_of_nat (length p) :: u32"
  consider "n < 4" | "n = 4" | "n = 5" using assms(2) by linarith
  then show ?thesis
  proof cases
    case 1
    with assms(3) have "b \<noteq> w_u32 kFrameMagic ! n" by (simp add: encoded_def frame_bytes_def nth_append)
    with 1 obtain m where "(w_u32 kFrameMagic)[n := b] = w_u32 m" "m \<noteq> kFrameMagic"
      by (rule update_u32)
    with 1 have "(encoded t p)[n := b] = frame_bytes m kFrameVersion t ?l (frame_crc t p) p" "m \<noteq> kFrameMagic"
      by (simp_all add: encoded_def frame_bytes_def list_update_append1)
    then show ?thesis by (simp add: decode_frame_bytes)
  next
    case 2
    with assms(3) have "(encoded t p)[n := b] = frame_bytes kFrameMagic b t ?l (frame_crc t p) p" "b \<noteq> kFrameVersion"
      by (simp_all add: encoded_def frame_bytes_def list_update_append nth_append w_u8_def)
    then show ?thesis by (simp add: decode_frame_bytes)
  next
    case 3
    with assms(3) have b: "(encoded t p)[n := b] = frame_bytes kFrameMagic kFrameVersion b ?l (frame_crc t p) p"
      "b \<noteq> t" by (simp_all add: encoded_def frame_bytes_def list_update_append nth_append w_u8_def)
    have "frame_crc b p \<noteq> frame_crc t p"
      by (rule changed_crc [of "[]" b p b p t]) (use b(2) in simp_all)
    with b(1) show ?thesis
      using payload_fits [OF assms(1)] by (simp add: decode_frame_bytes unat_payload [OF assms(1)])
  qed
qed

lemma damaged_checksum:
  assumes "length p \<le> 2 ^ 20" "k < 4" "b \<noteq> encoded t p ! (10 + k)"
  shows "fst (decode_buffer ((encoded t p)[10 + k := b])) = Malformed"
proof -
  have "b \<noteq> w_u32 (frame_crc t p) ! k"
    using assms(2,3) by (simp add: encoded_def frame_bytes_def nth_append w_u8_def)
  with assms(2) obtain c where "(w_u32 (frame_crc t p))[k := b] = w_u32 c" "c \<noteq> frame_crc t p"
    by (rule update_u32)
  with assms(2) have "(encoded t p)[10 + k := b] =
      frame_bytes kFrameMagic kFrameVersion t (word_of_nat (length p)) c p" "c \<noteq> frame_crc t p"
    by (simp_all add: encoded_def frame_bytes_def list_update_append w_u8_def)
  then show ?thesis
    using payload_fits [OF assms(1)] by (simp add: decode_frame_bytes unat_payload [OF assms(1)])
qed

lemma damaged_payload:
  assumes "length p \<le> 2 ^ 20" "k < length p" "b \<noteq> encoded t p ! (14 + k)"
  shows "fst (decode_buffer ((encoded t p)[14 + k := b])) = Malformed"
proof -
  have b: "(encoded t p)[14 + k := b] =
      frame_bytes kFrameMagic kFrameVersion t (word_of_nat (length p)) (frame_crc t p) (p[k := b])"
    "b \<noteq> p ! k"
    using assms(3) by (simp_all add: encoded_def frame_bytes_def list_update_append nth_append w_u8_def)
  have "frame_crc t (p[k := b]) \<noteq> frame_crc t p"
    by (rule changed_crc [of "t # take k p" b "drop (Suc k) p" _ _ "p ! k"])
       (use assms(2) b(2) in \<open>simp_all add: upd_conv_take_nth_drop flip: id_take_nth_drop\<close>)
  with b(1) show ?thesis
    using payload_fits [OF assms(1)] by (simp add: decode_frame_bytes unat_payload [OF assms(1)])
qed

text \<open>Claim C28: A damaged frame is never delivered: changing one byte of an encoded frame anywhere but in its
  length field makes the decoder report it as malformed.\<close>

theorem damaged_frame_is_malformed:
  assumes "encodeFrame ty p = Inr bytes" "n < length bytes" "b \<noteq> bytes ! n"
    and "n < 6 \<or> 10 \<le> n"
  shows "fst (FrameDecoder_push (bytes[n := b]) []) = Malformed"
proof -
  let ?t = "MessageType_byte ty"
  from assms(1) have p: "length p \<le> 2 ^ 20" and bytes: "bytes = encoded ?t p"
    by (auto simp: encodeFrame_bytes encoded_def split: if_splits)
  consider "n < 6" | k where "n = 10 + k" "k < 4" | k where "n = 14 + k"
    using assms(4) le_Suc_ex [of 10 n] le_Suc_ex [of 14 n] by (cases "14 \<le> n") auto
  then show ?thesis
  proof cases
    case 1
    then show ?thesis using damaged_header [OF p 1] assms(3) by (simp add: FrameDecoder_push_def bytes)
  next
    case 2
    then show ?thesis using damaged_checksum [OF p 2(2)] assms(3) by (simp add: FrameDecoder_push_def bytes)
  next
    case 3
    then have "k < length p" using assms(2) by (simp add: bytes encoded_def)
    then show ?thesis using damaged_payload [OF p] assms(3) 3 by (simp add: FrameDecoder_push_def bytes)
  qed
qed

theorem damaged_frame_is_malformed_witness:
  "\<exists>bytes. encodeFrame Msg_Shutdown [1] = Inr bytes \<and>
     fst (FrameDecoder_push (bytes[14 := 9]) []) = Malformed"
proof -
  obtain bytes where bytes: "encodeFrame Msg_Shutdown [1] = Inr bytes" using demo_frame by blast
  with demo_frame have "14 < length bytes" "9 \<noteq> bytes ! 14" by auto
  with damaged_frame_is_malformed [OF bytes, of 14 9] bytes show ?thesis by simp
qed

section \<open>The socket loops\<close>

text \<open>A connection that delivers no empty chunk before it ends.\<close>

abbreviation live :: "chunks \<Rightarrow> bool" where
  "live s \<equiv> [] \<notin> set s"

lemma recv_live:
  assumes "live s" "0 < n" "recv n s = (bs, s')"
  shows "live s'" "concat s = bs @ concat s'" "bs = [] \<longleftrightarrow> s = []" "length bs \<le> n"
  using assms by (cases "(n, s)" rule: recv.cases; auto split: if_splits)+

lemma recvAll_live:
  "live s \<Longrightarrow> length got \<le> len \<Longrightarrow> recvAll len got s = (r, s') \<Longrightarrow>
   live s' \<and>
   (if len - length got \<le> length (concat s)
    then r = Some (got @ take (len - length got) (concat s)) \<and>
         concat s' = drop (len - length got) (concat s)
    else r = None)"
proof (induction len got s arbitrary: r s' rule: recvAll.induct)
  case (1 len got s)
  show ?case
  proof (cases "length got = len")
    case True
    with 1(4) 1(2) show ?thesis by (auto simp: recvAll.simps [of len got s])
  next
    case False
    with 1(3) have more: "\<not> length got \<ge> len" by simp
    obtain bs s1 where bs: "recv (len - length got) s = (bs, s1)" by fastforce
    have pos: "0 < len - length got" using more by simp
    note live = recv_live [OF 1(2) pos bs]
    show ?thesis
    proof (cases "bs = []")
      case True
      have "recvAll len got s = (None, s1)"
        using more bs True by (simp add: recvAll.simps [of len got s])
      with 1(4) have "r = None" "s' = s1" by simp_all
      moreover have "s = []" using live(3) True by simp
      ultimately show ?thesis using live(1) pos by simp
    next
      case False
      have rec: "recvAll len (got @ bs) s1 = (r, s')"
        using 1(4) more bs False by (simp add: recvAll.simps [of len got s])
      have "length (got @ bs) \<le> len" using live(4) more by simp
      from 1(1) [OF more bs [symmetric] refl False live(1) this rec]
      show ?thesis using live(2,4) more by (auto split: if_splits)
    qed
  qed
qed

lemma rd_header_take:
  assumes "14 \<le> length bs"
  shows "rd_header (take 14 bs) = map_sum id (\<lambda>(h, rest). (h, [])) (rd_header bs)"
proof -
  obtain m v t l c body where bs: "bs = frame_bytes m v t l c body"
    using frame_bytes_surj [OF assms] by blast
  have "take 14 bs = frame_bytes m v t l c []" by (simp add: bs frame_bytes_def)
  then show ?thesis by (simp add: bs rd_header_frame)
qed

lemma receive_agree:
  assumes "[] \<notin> set s" "recvFrame s = (r, s')"
  shows "fst (decode_buffer (concat s)) = r \<and>
    (\<forall>f. r = Decoded f \<longrightarrow> concat s' = snd (decode_buffer (concat s)))"
proof -
  obtain h s1 where h: "recvAll 14 [] s = (h, s1)" by fastforce
  note hdr = recvAll_live [OF assms(1) _ h]
  show ?thesis
  proof (cases "14 \<le> length (concat s)")
    case False
    with hdr assms(2) h decode_short [of "concat s"] show ?thesis by (auto simp: recvFrame_def)
  next
    case True
    then obtain m v t l c body where all: "concat s = frame_bytes m v t l c body"
      by (rule frame_bytes_surj)
    from hdr True have h': "h = Some (take 14 (concat s))" "concat s1 = body" "[] \<notin> set s1"
      by (auto simp: all)
    have rd: "rd_header (take 14 (concat s)) = Inr ((m, v, t, l, c), [])"
      using rd_header_take [OF True] by (simp add: all rd_header_frame)
    obtain q s2 where q: "recvAll (unat l) [] s1 = (q, s2)" by fastforce
    have body: "if unat l \<le> length body then q = Some (take (unat l) body) \<and> concat s2 = drop (unat l) body
        else q = None"
      using recvAll_live [OF h'(3) _ q] h'(2) by simp
    have len: "(if l \<noteq> 0 then recvAll (unat l) [] s1 else (Some [], s1)) = (q, s2)"
      using q by (auto simp: recvAll.simps [of 0 "[]" s1])
    have "recvFrame s = (if m \<noteq> kFrameMagic \<or> v \<noteq> kFrameVersion \<or> l > kMaxFramePayload
        then (Malformed, s1)
        else case q of None \<Rightarrow> (NeedMore, s2)
          | Some payload \<Rightarrow> if frame_crc t payload \<noteq> c then (Malformed, s2)
              else (Decoded \<lparr>frame_type = MessageType_of_byte t, frame_payload = payload\<rparr>, s2))"
      by (simp add: recvFrame_def h h'(1) rd len split: option.split)
    with assms(2) body show ?thesis
      by (auto simp: all decode_frame_bytes split: if_splits option.splits)
  qed
qed

text \<open>The blocking receive and the incremental decoder agree: on a live connection, however its
  bytes are cut, \<open>recvFrame\<close> gives the verdict that the decoder gives on the whole stream,
  and after a frame it leaves exactly the bytes that the decoder leaves.\<close>

theorem receive_agrees_with_decoder:
  assumes "[] \<notin> set s" "recvFrame s = (r, s')"
  shows "fst (decode_buffer (concat s)) = r \<and>
    (\<forall>f. r = Decoded f \<longrightarrow> concat s' = snd (decode_buffer (concat s)))"
  using assms by (rule receive_agree)

lemma sendAll_prefix:
  "sendAll results buf sent (take sent buf) = (ok, wire) \<Longrightarrow>
   (\<exists>n. wire = take n buf) \<and> (ok \<longrightarrow> wire = buf)"
proof (induction results buf sent "take sent buf" arbitrary: ok wire rule: sendAll.induct)
  case (1 results buf sent)
  show ?case
  proof (cases "sent \<ge> length buf")
    case True
    with 1(2) have "wire = take sent buf" by (simp add: sendAll.simps)
    then have "\<exists>n. wire = take n buf" by blast
    with True \<open>wire = take sent buf\<close> show ?thesis by simp
  next
    case False
    show ?thesis
    proof (cases results)
      case Nil
      with 1(2) False have "wire = take sent buf" "\<not> ok"
        by (simp_all add: sendAll.simps [of "[]"])
      then show ?thesis by blast
    next
      case (Cons n rs)
      show ?thesis
      proof (cases "n \<le> 0")
        case True
        with 1(2) False Cons have "wire = take sent buf" "\<not> ok"
          by (simp_all add: sendAll.simps [of "n # rs"])
        then show ?thesis by blast
      next
        case pos: False
        have wire: "take sent buf @ take (nat n) (drop sent buf) = take (sent + nat n) buf"
          by (simp add: take_add)
        with 1(2) False Cons pos have "sendAll rs buf (sent + nat n) (take (sent + nat n) buf) = (ok, wire)"
          by (simp add: sendAll.simps [of "n # rs"])
        with 1(1) [OF False Cons pos wire] wire show ?thesis by simp
      qed
    qed
  qed
qed

text \<open>A frame that was sent is received: when \<open>sendFrame\<close> reports success, whatever partial
  writes it took, and the network delivers the bytes on a live connection, cut anywhere and
  followed by anything, the receiver gets the same type and payload and keeps the rest of the stream.\<close>

theorem sent_frame_is_received:
  assumes "message.canonical ty" "sendFrame results ty payload = Inr (True, wire)"
    and "[] \<notin> set s" "concat s = wire @ rest"
  shows "\<exists>s'. recvFrame s = (Decoded \<lparr>frame_type = ty, frame_payload = payload\<rparr>, s') \<and>
    concat s' = rest"
proof -
  from assms(2) obtain bytes where bytes: "encodeFrame ty payload = Inr bytes"
    and sent: "sendAll results bytes 0 [] = (True, wire)"
    by (auto simp: sendFrame_def bind_outcome_Inr_iff)
  with sendAll_prefix [of results bytes 0 True wire] have "wire = bytes" by simp
  with decode_encoded [OF assms(1) bytes] assms(4)
  have dec: "decode_buffer (concat s) = (Decoded \<lparr>frame_type = ty, frame_payload = payload\<rparr>, rest)"
    by simp
  obtain r s' where "recvFrame s = (r, s')" by fastforce
  with receive_agree [OF assms(3) this] dec show ?thesis by auto
qed

theorem receive_agrees_with_decoder_witness:
  "fst (recvFrame [[0x46, 0x42], [0x46, 0x52, 1]]) = NeedMore"
proof -
  obtain r s' where r: "recvFrame [[0x46, 0x42], [0x46, 0x52, 1]] = (r, s')" by fastforce
  from receive_agrees_with_decoder [OF _ r] r show ?thesis by (simp add: decode_short)
qed

theorem sent_frame_is_received_witness:
  "\<exists>wire s'. sendFrame [3, 12] Msg_Shutdown [1] = Inr (True, wire) \<and>
     recvFrame [take 5 wire, drop 5 wire] =
       (Decoded \<lparr>frame_type = Msg_Shutdown, frame_payload = [1]\<rparr>, s') \<and> concat s' = []"
proof -
  obtain bytes where bytes: "encodeFrame Msg_Shutdown [1] = Inr bytes" "length bytes = 15"
    using demo_frame by force
  then have wire: "sendFrame [3, 12] Msg_Shutdown [1] = Inr (True, bytes)"
    by (simp add: sendFrame_def sendAll.simps flip: take_add)
  have "[] \<notin> set [take 5 bytes, drop 5 bytes]" "concat [take 5 bytes, drop 5 bytes] = bytes @ []"
    using bytes(2) by auto
  with sent_frame_is_received [OF _ wire this] wire show ?thesis
    by (auto simp: MessageType_of_byte_def)
qed

end
