(* ===== verification/RF_Coordinator_Props.thy ===== *)
theory RF_Coordinator_Props
  imports RF_Coordinator RF_Frame_Props RF_All_Steps
begin

text \<open>
  What a client of the coordinator may rely on: a remote call is the local call, a frame that cannot
  be decoded changes nothing, whatever bytes arrive the runtime only takes steps of its public
  interface, and a worker that is gone no longer backs reservations.
\<close>

section \<open>The runtime behind the socket\<close>

lemma fence_resource_run:
  "runtime_run config st \<Longrightarrow> runtime_run config (fence_resource w i st)"
  by (auto simp: fence_resource_def split: option.split intro: run_step any_invalidate)

lemma fence_worker_run: "runtime_run config st \<Longrightarrow> runtime_run config (fence_worker w st)"
proof -
  have "runtime_run config st \<Longrightarrow> runtime_run config (fold (fence_resource w) is st)" for "is"
    by (induction "is" arbitrary: st) (simp_all add: fence_resource_run)
  then show "runtime_run config st \<Longrightarrow> runtime_run config (fence_worker w st)"
    by (simp add: fence_worker_def)
qed

text \<open>The shape that every branch of the handler has: one operation, then a reply.\<close>

lemma run_operation:
  "runtime_run config st \<Longrightarrow> runtime_step st (snd res) \<Longrightarrow> res = (r, st') \<Longrightarrow> runtime_run config st'"
  by (auto intro: run_step)

lemma answer_query_run:
  assumes "runtime_run config st" "answer_query kind rest st = (r, st')"
  shows "runtime_run config st'"
  using run_operation [OF assms(1) any_accounting] assms
  by (auto simp: answer_query_def split: sum.splits prod.splits if_splits)

lemma with_payload_run:
  assumes "runtime_run config (co_runtime cs)" "\<And>a. runtime_run config (co_runtime (snd (k a)))"
  shows "runtime_run config (co_runtime (snd (with_payload m p cs k)))"
  using assms by (auto simp: with_payload_def split: sum.splits)

lemma handleMessage_run:
  assumes "runtime_run config (co_runtime cs)"
  shows "runtime_run config (co_runtime (snd (handleMessage f cs)))"
proof -
  note op = run_operation [OF assms]
  show ?thesis
    using assms
    by (auto simp: handleMessage_def Let_def split: MessageType.split prod.splits sum.splits
        intro!: with_payload_run
        dest: answer_query_run [OF assms] op [OF any_publish] op [OF any_assess] op [OF any_commit] op [OF any_activate]
          op [OF any_consume] op [OF any_release] op [OF any_revalidate])
qed

lemma serve_frame_run:
  assumes "runtime_run config (co_runtime cs)" "serve_frame f w cs = (r, w', cs')"
  shows "runtime_run config (co_runtime cs')"
  using handleMessage_run [OF assms(1), of f] assms
  by (auto simp: serve_frame_def Let_def split: sum.splits prod.splits failure.splits)

lemma serveConnection_run:
  "runtime_run config (co_runtime cs) \<Longrightarrow>
   runtime_run config (co_runtime (snd (serveConnection s w cs)))"
proof (induction s w cs rule: serveConnection.induct)
  case (1 s w cs)
  obtain r s' where r: "recvFrame s = (r, s')" by fastforce
  show ?case
  proof (cases r)
    case (Decoded f)
    obtain out w' cs' where sv: "serve_frame f w cs = (out, w', cs')" by (rule prod_cases3)
    note run = serve_frame_run [OF 1(2) sv]
    show ?thesis
    proof (cases out)
      case (Inr reply)
      from 1(1) [OF r [symmetric] Decoded sv [symmetric] Inr refl run] show ?thesis
        by (simp add: serveConnection.simps [of s] r Decoded sv Inr case_prod_beta)
    qed (simp add: serveConnection.simps [of s] r Decoded sv run)
  qed (simp_all add: serveConnection.simps [of s] r fence_worker_run 1(2))
qed



section \<open>A connection is a sequence of frames\<close>

fun serve_frames ::
    "Frame list \<Rightarrow> WorkerId \<Rightarrow> CoordinatorState \<Rightarrow> u8 list list outcome \<times> CoordinatorState" where
  "serve_frames [] w cs = (Inr [], cs\<lparr>co_runtime := fence_worker w (co_runtime cs)\<rparr>)"
| "serve_frames (f # fs) w cs =
     (case serve_frame f w cs of
        (Inl e, w', cs') \<Rightarrow> (Inl e, cs')
      | (Inr reply, w', cs') \<Rightarrow>
          (case serve_frames fs w' cs' of
             (replies, cs'') \<Rightarrow> (bind_outcome replies (\<lambda>rs. Inr (reply # rs)), cs'')))"

lemma recvFrame_live:
  assumes "live s" "recvFrame s = (r, s')"
  shows "live s'"
proof -
  have all: "live (snd (recvAll n [] s1))" if "live s1" for n s1
    using recvAll_live [OF that _ prod.collapse [symmetric]] by simp
  have "live (snd (recvFrame s))"
    using assms(1) all
    by (simp add: recvFrame_def case_prod_beta Let_def split: option.split sum.split)
  with assms(2) show ?thesis by simp
qed

lemma serve_stream:
  "live s \<Longrightarrow> serveConnection s w cs = serve_frames (fst (take_frames (concat s))) w cs"
proof (induction s w cs rule: serveConnection.induct)
  case (1 s w cs)
  obtain r s' where r: "recvFrame s = (r, s')" by fastforce
  note agree = receive_agree [OF 1(2) r] and live = recvFrame_live [OF 1(2) r]
  show ?case
  proof (cases r)
    case (Decoded f)
    obtain out w' cs' where sv: "serve_frame f w cs = (out, w', cs')" by (rule prod_cases3)
    have "decode_buffer (concat s) = (Decoded f, concat s')"
      using agree Decoded by (cases "decode_buffer (concat s)") simp
    then have fs: "fst (take_frames (concat s)) = f # fst (take_frames (concat s'))"
      by (simp add: take_frames.simps [of "concat s"] split: prod.splits)
    show ?thesis
    proof (cases out)
      case (Inr reply)
      from 1(1) [OF r [symmetric] Decoded sv [symmetric] Inr refl live] show ?thesis
        by (simp add: serveConnection.simps [of s] r Decoded sv Inr fs split: prod.splits)
    qed (simp add: serveConnection.simps [of s] r Decoded sv fs)
  next
    case NeedMore
    then obtain b where "decode_buffer (concat s) = (NeedMore, b)"
      using agree by (cases "decode_buffer (concat s)") simp
    then show ?thesis
      by (simp add: serveConnection.simps [of s] r NeedMore take_frames.simps [of "concat s"])
  next
    case Malformed
    then obtain b where "decode_buffer (concat s) = (Malformed, b)"
      using agree by (cases "decode_buffer (concat s)") simp
    then show ?thesis
      by (simp add: serveConnection.simps [of s] r Malformed take_frames.simps [of "concat s"])
  qed
qed

lemma serve_frames_replies:
  "serve_frames fs w cs = (Inr replies, cs') \<Longrightarrow> length replies = length fs"
  by (induction fs w cs arbitrary: replies cs' rule: serve_frames.induct)
     (auto simp: bind_outcome_Inr_iff split: prod.splits sum.splits)

text \<open>Claim C16: On a live connection the coordinator serves exactly the frames that the incremental
  decoder takes from the whole stream, in their order, however the bytes are cut; and unless
  the process dies it sends one reply for each of them.\<close>

theorem every_frame_is_answered:
  assumes "live s"
  shows "serveConnection s w cs = serve_frames (fst (take_frames (concat s))) w cs \<and>
    (\<forall>replies. fst (serveConnection s w cs) = Inr replies \<longrightarrow>
       length replies = length (fst (take_frames (concat s))))"
  using serve_stream [OF assms, of w cs] serve_frames_replies by (metis prod.collapse)

lemma shutdown_stream:
  "take_frames (concat [take 3 bytes, drop 3 bytes]) =
     ([\<lparr>frame_type = Msg_Shutdown, frame_payload = [1]\<rparr>], NeedMore, [])"
  if "encodeFrame Msg_Shutdown [1] = Inr bytes"
  using take_frames_encoded
      [of "[\<lparr>frame_type = Msg_Shutdown, frame_payload = [1]\<rparr>]" "[bytes]"] that
  by (simp add: MessageType_of_byte_def)

theorem every_frame_is_answered_witness:
  "\<exists>reply. serveConnection
     [[0x46, 0x42, 0x46], [0x52, 1, 20, 1, 0, 0, 0, 0xC3, 0xA, 0x8F, 0xE7, 1]] (StrongId 0)
       \<lparr>co_runtime = demo2, co_shutdown = False\<rparr> =
     (Inr [reply], \<lparr>co_runtime = demo2, co_shutdown = True\<rparr>)"
proof -
  let ?s = "[[0x46, 0x42, 0x46], [0x52, 1, 20, 1, 0, 0, 0, 0xC3, 0xA, 0x8F, 0xE7, 1]] :: u8 list list"
  let ?cs = "\<lparr>co_runtime = demo2, co_shutdown = False\<rparr>"
  have "take_frames (concat ?s) = ([\<lparr>frame_type = Msg_Shutdown, frame_payload = [1]\<rparr>], NeedMore, [])"
    using shutdown_stream [OF demo_frame] by simp
  moreover obtain reply where "encodeFrame Msg_Acknowledge (w_u8 1) = Inr reply"
    by (simp add: encodeFrame_bytes w_u8_def)
  ultimately show ?thesis
    using every_frame_is_answered [of ?s "StrongId 0" ?cs]
    by (simp add: serve_frame_def conn_worker_def handleMessage_def fence_worker_def id_valid_def)
qed

section \<open>A remote call is the local call\<close>

lemma evidence_collapse [simp]:
  "\<lparr>ce_worker = ce_worker cev, ce_workerBoot = ce_workerBoot cev,
     ce_consumptionGeneration = ce_consumptionGeneration cev, ce_at = ce_at cev\<rparr> = cev"
  "\<lparr>le_worker = le_worker lev, le_workerBoot = le_workerBoot lev,
     le_releaseGeneration = le_releaseGeneration lev, le_at = le_at lev\<rparr> = lev"
  by (cases cev, simp) (cases lev, simp)

lemma handle_assess:
  "request_sendable req \<Longrightarrow>
   handleMessage \<lparr>frame_type = Msg_Assess, frame_payload = serReq req\<rparr> cs =
     (case rf_assess req (co_runtime cs) of (rep, st') \<Rightarrow>
        (encodeFrame Msg_AssessResult (serReport rep), cs\<lparr>co_runtime := st'\<rparr>))"
  by (simp add: handleMessage_def with_payload_def request_codec.round_end)

lemma handle_request:
  "request_sendable req \<Longrightarrow>
   handleMessage \<lparr>frame_type = Msg_RequestReservation, frame_payload = serReq req\<rparr> cs =
     (case rf_commit req None (co_runtime cs) of (r, st') \<Rightarrow>
        (bind_outcome r (\<lambda>rr. encodeFrame Msg_ReservationResult (serReservationResult rr)),
         cs\<lparr>co_runtime := st'\<rparr>))"
  by (simp add: handleMessage_def with_payload_def Let_def request_codec.round_end bind_outcome_def
      case_prod_beta split: sum.split)

lemma handle_activate:
  "activation_evidence_sendable aev \<Longrightarrow>
   handleMessage \<lparr>frame_type = Msg_Activate,
       frame_payload = w_id i @ w_gen g @ serActivationEvidence aev\<rparr> cs =
     (case rf_activate i g aev (co_runtime cs) of (ar, st') \<Rightarrow>
        (encodeFrame Msg_ActivateResult (serActivationResult ar), cs\<lparr>co_runtime := st'\<rparr>))"
  by (simp add: handleMessage_def with_payload_def Let_def codec_simps rd_bind_def rd_activate_def
      evidence_codec.round_end)

lemma handle_consume:
  "quantity_ok amount \<Longrightarrow> instant_ok (ce_at cev) \<Longrightarrow>
   handleMessage \<lparr>frame_type = Msg_Consume,
       frame_payload = w_id i @ w_gen g @ w_quant amount @ w_id (ce_worker cev) @
         w_gen (ce_workerBoot cev) @ w_gen (ce_consumptionGeneration cev) @ w_instant (ce_at cev)\<rparr> cs =
     (case rf_consume i g amount cev (co_runtime cs) of (cr, st') \<Rightarrow>
        (encodeFrame Msg_ConsumeResult (serConsumeResult cr), cs\<lparr>co_runtime := st'\<rparr>))"
  by (simp add: handleMessage_def with_payload_def Let_def codec_simps rd_bind_def rd_consume_def
      instant_codec.round_end)

lemma handle_release:
  "instant_ok (le_at lev) \<Longrightarrow>
   handleMessage \<lparr>frame_type = Msg_Release,
       frame_payload = w_id i @ w_gen g @ w_id (le_worker lev) @
         w_gen (le_workerBoot lev) @ w_gen (le_releaseGeneration lev) @ w_instant (le_at lev)\<rparr> cs =
     (case rf_release i g lev (co_runtime cs) of (rr, st') \<Rightarrow>
        (encodeFrame Msg_ReleaseResult (serReleaseResult rr), cs\<lparr>co_runtime := st'\<rparr>))"
  by (simp add: handleMessage_def with_payload_def Let_def codec_simps rd_bind_def rd_release_def
      instant_codec.round_end)

lemma handle_publish:
  "publication_sendable pub \<Longrightarrow>
   handleMessage \<lparr>frame_type = Msg_PublishResource, frame_payload = serPublication pub\<rparr> cs =
     (case publishResource pub (co_runtime cs) of (r, st') \<Rightarrow>
        (bind_outcome r (\<lambda>(res, err). encodeFrame Msg_PublishResult
           (w_enu ResourceRegisterResult_byte res @ w_str (case err of None \<Rightarrow> '''' | Some e \<Rightarrow> e))),
         cs\<lparr>co_runtime := st'\<rparr>))"
  by (simp add: handleMessage_def with_payload_def Let_def publication_codec.round_end bind_outcome_def
      case_prod_beta split: sum.split)

lemmas handled_messages = handle_assess handle_request handle_activate handle_consume
  handle_release handle_publish

text \<open>Every operation that a client calls by a message is the operation of the library on the
  arguments that the client encoded: the coordinator ends in the state that the local call
  leaves, and answers with the encoded result.\<close>

theorem remote_operations_are_local:
  assumes "request_sendable req" "activation_evidence_sendable aev" "quantity_ok amount"
    and "instant_ok (ce_at cev)" "instant_ok (le_at lev)" "publication_sendable pub"
  shows
    "handleMessage \<lparr>frame_type = Msg_Assess, frame_payload = serReq req\<rparr> cs =
       (case rf_assess req (co_runtime cs) of (rep, st') \<Rightarrow>
          (encodeFrame Msg_AssessResult (serReport rep), cs\<lparr>co_runtime := st'\<rparr>)) \<and>
     handleMessage \<lparr>frame_type = Msg_RequestReservation, frame_payload = serReq req\<rparr> cs =
       (case rf_commit req None (co_runtime cs) of (r, st') \<Rightarrow>
          (bind_outcome r (\<lambda>rr. encodeFrame Msg_ReservationResult (serReservationResult rr)),
           cs\<lparr>co_runtime := st'\<rparr>)) \<and>
     handleMessage \<lparr>frame_type = Msg_Activate,
         frame_payload = w_id i @ w_gen g @ serActivationEvidence aev\<rparr> cs =
       (case rf_activate i g aev (co_runtime cs) of (ar, st') \<Rightarrow>
          (encodeFrame Msg_ActivateResult (serActivationResult ar), cs\<lparr>co_runtime := st'\<rparr>)) \<and>
     handleMessage \<lparr>frame_type = Msg_Consume,
         frame_payload = w_id i @ w_gen g @ w_quant amount @ w_id (ce_worker cev) @
           w_gen (ce_workerBoot cev) @ w_gen (ce_consumptionGeneration cev) @ w_instant (ce_at cev)\<rparr> cs =
       (case rf_consume i g amount cev (co_runtime cs) of (cr, st') \<Rightarrow>
          (encodeFrame Msg_ConsumeResult (serConsumeResult cr), cs\<lparr>co_runtime := st'\<rparr>)) \<and>
     handleMessage \<lparr>frame_type = Msg_Release,
         frame_payload = w_id i @ w_gen g @ w_id (le_worker lev) @
           w_gen (le_workerBoot lev) @ w_gen (le_releaseGeneration lev) @ w_instant (le_at lev)\<rparr> cs =
       (case rf_release i g lev (co_runtime cs) of (rr, st') \<Rightarrow>
          (encodeFrame Msg_ReleaseResult (serReleaseResult rr), cs\<lparr>co_runtime := st'\<rparr>)) \<and>
     co_runtime (snd (handleMessage
         \<lparr>frame_type = Msg_PublishResource, frame_payload = serPublication pub\<rparr> cs)) =
       snd (publishResource pub (co_runtime cs))"
  using assms by (simp add: handled_messages case_prod_beta)

lemma demo_messages:
  "request_sendable (demo_req 1 60 100 200)" "publication_sendable demo_pub"
  "quantity_ok (Quantity 5 Unit_Count)" "instant_ok (Instant 150)"
proof -
  show "quantity_ok (Quantity 5 Unit_Count)" "instant_ok (Instant 150)"
    by (simp_all add: quantity_ok_def quantity_wf_def instant_ok_def i64_defs Unit_of_byte_def)
  show "request_sendable (demo_req 1 60 100 200)" "publication_sendable demo_pub"
    by (simp_all add: request_sendable_def publication_sendable_def demo_req_def demo_pub_def
        eval_domain quantity_ok_def quantity_wf_def instant_ok_def duration_ok_def window_ok_def locality_ok_def
        string_ok_def ratio_ok_def windows_ok_def counted_def
        Unit_of_byte_def ResourceClass_of_byte_def ActivationMode_of_byte_def
        ReservationStrength_of_byte_def ExclusivityMode_of_byte_def Elasticity_of_byte_def
        RenewalPermission_of_byte_def TransferPermission_of_byte_def)
qed

theorem remote_operations_are_local_witness:
  "co_runtime (snd (handleMessage
       \<lparr>frame_type = Msg_PublishResource, frame_payload = serPublication demo_pub\<rparr>
       \<lparr>co_runtime = mk_Impl demo_config, co_shutdown = False\<rparr>)) = demo0"
  using remote_operations_are_local
    [OF demo_messages(1) _ demo_messages(3) _ _ demo_messages(2),
     where aev = "\<lparr>ae_worker = StrongId 3, ae_workerBoot = StrongGeneration 1,
             ae_activationGeneration = StrongGeneration 1, ae_at = Instant 150, ae_token = 0\<rparr>"
       and cev = "\<lparr>ce_worker = StrongId 3, ce_workerBoot = StrongGeneration 1,
             ce_consumptionGeneration = StrongGeneration 1, ce_at = Instant 150\<rparr>"
       and lev = "\<lparr>le_worker = StrongId 3, le_workerBoot = StrongGeneration 1,
             le_releaseGeneration = StrongGeneration 1, le_at = Instant 150\<rparr>"
       and cs = "\<lparr>co_runtime = mk_Impl demo_config, co_shutdown = False\<rparr>"]
    demo_messages(4)
  by (simp add: activation_evidence_sendable_def demo0_def)

section \<open>Messages\<close>


lemma demo_results:
  "report_sendable FeasibilityReport_default" "reservation_result_sendable ReservationResult_default"
  "consume_result_sendable (mk_ConsumeResult i g)"
  "activation_result_sendable (mk_ActivationResult i g)" "release_result_sendable (mk_ReleaseResult i g)"
  by (simp_all add: report_sendable_def reservation_result_sendable_def consume_result_sendable_def
      activation_result_sendable_def release_result_sendable_def mk_ActivationResult_def
      mk_ConsumeResult_def mk_ReleaseResult_def eval_domain quantity_ok_def quantity_wf_def string_ok_def
      flagged_ok_def counted_def reasons_ok_def Unit_of_byte_def ResourceClass_of_byte_def
      Feasibility_of_byte_def)


section \<open>Payloads that do not decode\<close>

lemma serve_rejected:
  assumes "frame_type f \<in> {Msg_Assess, Msg_RequestReservation} \<and> desReq (frame_payload f) = Inl e \<or>
      frame_type f \<in> {Msg_PublishResource, Msg_Revalidate} \<and> desPublication (frame_payload f) = Inl e"
  shows "\<exists>code what. e = FabricError code what \<and> serve_frame f w cs = (sendErr what, w, cs)"
proof -
  obtain code what where e: "e = FabricError code what"
    using assms sound_reader_throws [OF request_codec.prefix] sound_reader_throws [OF publication_codec.prefix]
    by blast
  have "serve_frame f w cs = (sendErr what, w, cs)"
    using assms by (auto simp: serve_frame_def conn_worker_def handleMessage_def with_payload_def e)
  with e show ?thesis by blast
qed

text \<open>Claim C29: A message that carries a request or a publication cut short, anywhere, changes nothing:
  the coordinator's state and the worker of the connection stay as they are and the reply is
  an error response.\<close>

theorem truncated_message_changes_nothing:
  assumes "request_sendable req" "n < length (serReq req)"
    and "publication_sendable pub" "m < length (serPublication pub)"
  shows "(\<forall>ty \<in> {Msg_Assess, Msg_RequestReservation}. \<exists>what.
      serve_frame \<lparr>frame_type = ty, frame_payload = take n (serReq req)\<rparr> w cs = (sendErr what, w, cs)) \<and>
    (\<forall>ty \<in> {Msg_PublishResource, Msg_Revalidate}. \<exists>what.
      serve_frame \<lparr>frame_type = ty, frame_payload = take m (serPublication pub)\<rparr> w cs =
        (sendErr what, w, cs))"
proof -
  obtain e e' where "desReq (take n (serReq req)) = Inl e"
    "desPublication (take m (serPublication pub)) = Inl e'"
    using request_codec.truncated [OF assms(1,2)] publication_codec.truncated [OF assms(3,4)] by blast
  then have "\<And>ty. ty \<in> {Msg_Assess, Msg_RequestReservation} \<Longrightarrow>
      \<exists>what. serve_frame \<lparr>frame_type = ty, frame_payload = take n (serReq req)\<rparr> w cs = (sendErr what, w, cs)"
    "\<And>ty. ty \<in> {Msg_PublishResource, Msg_Revalidate} \<Longrightarrow>
      \<exists>what. serve_frame \<lparr>frame_type = ty, frame_payload = take m (serPublication pub)\<rparr> w cs =
        (sendErr what, w, cs)"
    using serve_rejected [of "\<lparr>frame_type = ty, frame_payload = p\<rparr>" _ w cs for ty p] by force+
  then show ?thesis by blast
qed

theorem truncated_message_changes_nothing_witness:
  "\<exists>what. serve_frame \<lparr>frame_type = Msg_RequestReservation, frame_payload = []\<rparr> (StrongId 3)
       \<lparr>co_runtime = demo2, co_shutdown = False\<rparr> =
     (sendErr what, StrongId 3, \<lparr>co_runtime = demo2, co_shutdown = False\<rparr>)"
  using truncated_message_changes_nothing
    [OF demo_messages(1) _ demo_messages(2), of 0 0 "StrongId 3"
       "\<lparr>co_runtime = demo2, co_shutdown = False\<rparr>"]
  by (simp add: serReq_def serPublication_def w_id_def w_u64_def)

text \<open>The decoders of the messages are safe on arbitrary bytes: each of them returns a value and
  leaves a suffix of its input, or throws a \<open>FabricError\<close>; none reads past the end or reaches
  undefined behaviour.\<close>

theorem decoders_are_memory_safe:
  "sound_reader desReq \<and> sound_reader desPublication \<and> sound_reader desReport \<and>
   sound_reader desReservationResult \<and> sound_reader desActivationResult \<and>
   sound_reader desConsumeResult \<and> sound_reader desReleaseResult \<and>
   sound_reader rd_hello \<and> sound_reader rd_register \<and> sound_reader rd_activate \<and>
   sound_reader rd_consume \<and> sound_reader rd_release"
  by (auto simp: rd_hello_def rd_register_def rd_activate_def rd_consume_def rd_release_def
      request_codec.prefix publication_codec.prefix report_codec.prefix reservation_result_codec.prefix
      activation_result_codec.prefix consume_result_codec.prefix release_result_codec.prefix
      intro!: reader_intros evidence_codec.prefix)

section \<open>A worker that is gone\<close>

text \<open>
  The effect that fencing should have: the resources of the worker become unavailable, the
  reservations that hold capacity on them have to be revalidated, and nothing else changes.
\<close>

definition owned_by :: "WorkerId \<Rightarrow> Impl \<Rightarrow> ResourceId \<Rightarrow> bool" where
  "owned_by w st i \<longleftrightarrow> (case map_of (st_resources st) i of None \<Rightarrow> False | Some res \<Rightarrow> res_owner res = w)"

definition withdrawn :: "Resource \<Rightarrow> Resource" where
  "withdrawn res = res\<lparr>res_available := False\<rparr>"

definition suspended :: "Reservation \<Rightarrow> Reservation" where
  "suspended r =
     (if lifecycle_holds_capacity (rv_lifecycle r)
      then r\<lparr>rv_lifecycle := Lifecycle_RevalidationRequired\<rparr> else r)"

lemma suspended_idem [simp]: "suspended (suspended r) = suspended r"
  by (simp add: suspended_def)

lemma suspended_resource [simp]: "rv_resource (suspended r) = rv_resource r"
  by (simp add: suspended_def)

lemma invalidate_fence:
  assumes "map_of (st_resources st) i = Some res"
  shows "st_resources (snd (invalidateResource (fence_notice i) st)) =
      AList.update i (withdrawn res) (st_resources st)"
    "st_reservations (snd (invalidateResource (fence_notice i) st)) =
      amap_values (\<lambda>r. if rv_resource r = i then suspended r else r) (st_reservations st)"
proof -
  have "(if rv_resource r = i \<and> lifecycle_holds_capacity (rv_lifecycle r) \<and>
      \<not> (rv_lifecycle r = Lifecycle_Released \<or> rv_lifecycle r = Lifecycle_Expired \<or>
         rv_lifecycle r = Lifecycle_Cancelled)
    then r\<lparr>rv_lifecycle := Lifecycle_RevalidationRequired\<rparr> else r) =
    (if rv_resource r = i then suspended r else r)" for r
    by (cases "rv_lifecycle r") (simp_all add: suspended_def)
  then show "st_resources (snd (invalidateResource (fence_notice i) st)) =
      AList.update i (withdrawn res) (st_resources st)"
    "st_reservations (snd (invalidateResource (fence_notice i) st)) =
      amap_values (\<lambda>r. if rv_resource r = i then suspended r else r) (st_reservations st)"
    using assms
    by (simp_all add: invalidateResource_def fence_notice_def put_resource_def withdrawn_def Let_def)
qed

lemma fence_resource_effect:
  "map_of (st_resources (fence_resource w i st)) j =
     map_option (\<lambda>res. if j = i \<and> res_owner res = w then withdrawn res else res) (map_of (st_resources st) j)"
  "map_of (st_reservations (fence_resource w i st)) k =
     map_option (\<lambda>r. if rv_resource r = i \<and> owned_by w st i then suspended r else r)
       (map_of (st_reservations st) k)"
proof -
  show "map_of (st_resources (fence_resource w i st)) j =
     map_option (\<lambda>res. if j = i \<and> res_owner res = w then withdrawn res else res) (map_of (st_resources st) j)"
    by (cases "j = i"; cases "map_of (st_resources st) i"; cases "map_of (st_resources st) j")
       (simp_all add: fence_resource_def rf_resource_def findResourceLocked_def invalidate_fence
          update_conv')
  show "map_of (st_reservations (fence_resource w i st)) k =
     map_option (\<lambda>r. if rv_resource r = i \<and> owned_by w st i then suspended r else r)
       (map_of (st_reservations st) k)"
    by (cases "map_of (st_resources st) i")
       (simp_all add: fence_resource_def rf_resource_def findResourceLocked_def invalidate_fence
          owned_by_def option.map_ident)
qed

lemma owned_by_fenced: "owned_by w (fence_resource w i st) j = owned_by w st j"
  by (simp add: owned_by_def fence_resource_effect(1) withdrawn_def split: option.split)

lemma fence_all_effect:
  "map_of (st_resources (fold (fence_resource w) is st)) j =
     map_option (\<lambda>res. if j \<in> set is \<and> res_owner res = w then withdrawn res else res)
       (map_of (st_resources st) j)"
  "map_of (st_reservations (fold (fence_resource w) is st)) k =
     map_option (\<lambda>r. if rv_resource r \<in> set is \<and> owned_by w st (rv_resource r) then suspended r else r)
       (map_of (st_reservations st) k)"
proof (induction "is" arbitrary: st)
  case (Cons i js)
  { case 1 show ?case
      by (simp add: Cons.IH fence_resource_effect(1) option.map_comp)
         (cases "map_of (st_resources st) j"; auto simp: withdrawn_def) }
  { case 2 show ?case
      by (simp add: Cons.IH fence_resource_effect(2) option.map_comp owned_by_fenced)
         (cases "map_of (st_reservations st) k"; auto) }
qed (simp_all add: option.map_ident)

lemma fence_worker_effect:
  assumes "id_valid w"
  shows "map_of (st_resources (fence_worker w st)) j =
      map_option (\<lambda>res. if res_owner res = w then withdrawn res else res) (map_of (st_resources st) j)"
    "map_of (st_reservations (fence_worker w st)) k =
      map_option (\<lambda>r. if owned_by w st (rv_resource r) then suspended r else r)
        (map_of (st_reservations st) k)"
proof -
  have known: "map_of (st_resources st) i = Some res \<Longrightarrow> i \<in> fst ` set (st_resources st)" for i res
    by (drule map_of_SomeD) force
  show "map_of (st_resources (fence_worker w st)) j =
      map_option (\<lambda>res. if res_owner res = w then withdrawn res else res) (map_of (st_resources st) j)"
    using assms known [of j]
    by (cases "map_of (st_resources st) j")
       (simp_all add: fence_worker_def fence_all_effect resourceIds_def)
  have "owned_by w st i \<Longrightarrow> i \<in> fst ` set (st_resources st)" for i
    using known by (auto simp: owned_by_def split: option.splits)
  then show "map_of (st_reservations (fence_worker w st)) k =
      map_option (\<lambda>r. if owned_by w st (rv_resource r) then suspended r else r)
        (map_of (st_reservations st) k)"
    using assms
    by (cases "map_of (st_reservations st) k")
       (auto simp: fence_worker_def fence_all_effect resourceIds_def)
qed

lemma serve_register:
  "\<exists>reply. serve_frame \<lparr>frame_type = Msg_Register, frame_payload = w_id w @ w_gen (boot :: WorkerBootId)\<rparr> w0 cs =
     (Inr reply, w, cs)"
proof -
  have "length (w_id w) \<le> 2 ^ 20" by (simp add: w_id_def w_u64_def)
  then obtain reply where "encodeFrame Msg_Acknowledge (w_id w) = Inr reply"
    by (simp add: encodeFrame_bytes)
  then show ?thesis
    by (simp add: serve_frame_def conn_worker_def handleMessage_def with_payload_def rd_register_def
        codec_simps gen_codec.round_end rd_bind_def)
qed



section \<open>A publication that ends the process\<close>

text \<open>One well-formed publication of a new resource whose first instant lies within the horizon of
  the largest 64-bit value makes the coordinator compute a signed overflow, which is
  undefined behaviour and not an error that the connection could catch.\<close>

theorem late_publication_overflows:
  assumes "publication_sendable pub" "INT64_MAX < inst_ns (pub_availableFrom pub) + dur_ns (st_horizon (co_runtime cs))"
    and "map_of (st_resources (co_runtime cs)) (pub_id pub) = None"
    and "map_of (st_workerBoots (co_runtime cs)) (pub_worker pub) = None"
    and "0 < q_value (pub_totalCapacity pub)" "q_unit (pub_totalCapacity pub) = pub_unit pub"
    and "id_valid (pub_id pub)" "gen_valid (pub_generation pub)" "id_valid (pub_worker pub)"
      "gen_valid (pub_workerBoot pub)" "0 < dur_ns (st_horizon (co_runtime cs))"
  shows "fst (serve_frame \<lparr>frame_type = Msg_PublishResource, frame_payload = serPublication pub\<rparr> w cs) =
    Inl SignedOverflow"
  using assms
  by (simp add: serve_frame_def conn_worker_def handleMessage_def with_payload_def
      publication_codec.round_end publishResource_def Let_def env_init_def mk_CapacityEnvelope_def
      agg_initialize_def dur_isZero_def ub_i64_def in_i64_def case_prod_beta)

theorem late_publication_overflows_witness:
  "fst (serve_frame \<lparr>frame_type = Msg_PublishResource,
       frame_payload = serPublication (demo_pub\<lparr>pub_availableFrom := Instant (INT64_MAX - 10)\<rparr>)\<rparr>
       (StrongId 3) \<lparr>co_runtime = mk_Impl demo_config, co_shutdown = False\<rparr>) = Inl SignedOverflow"
proof (rule late_publication_overflows)
  show "publication_sendable (demo_pub\<lparr>pub_availableFrom := Instant (INT64_MAX - 10)\<rparr>)"
    using demo_messages(2) by (simp add: publication_sendable_def instant_ok_def i64_defs)
qed (simp_all add: demo_pub_def demo_config_def mk_Impl_def eval_domain)

end
