(* ===== verification/RF_Client.thy ===== *)
theory RF_Client
  imports RF_Coordinator RF_Frame_Props
begin

text \<open>
  The other ends of the socket: the worker program \<^verbatim>\<open>src/distributed/worker_main.cpp\<close> and the
  calls that the client \<^verbatim>\<open>src/distributed/mp_scenario.cpp\<close> makes. Every call sends one frame and
  waits for one. The results of the successive \<^verbatim>\<open>send\<close> calls and the chunks that \<^verbatim>\<open>recv\<close>
  delivers are arguments; a call returns what went out, what it computed, and the chunks left.
\<close>

section \<open>Numerals of the C library\<close>

definition is_space :: "char \<Rightarrow> bool" where
  "is_space c \<longleftrightarrow> c = CHR '' '' \<or> 9 \<le> (of_char c :: nat) \<and> (of_char c :: nat) \<le> 13"

definition is_digit :: "char \<Rightarrow> bool" where
  "is_digit c \<longleftrightarrow> 48 \<le> (of_char c :: nat) \<and> (of_char c :: nat) \<le> 57"

text \<open>\<^verbatim>\<open>atoll\<close>: blanks, a sign, digits; without digits 0, and undefined out of range.\<close>

definition c_atoll :: "string \<Rightarrow> int outcome" where
  "c_atoll s =
     (let t = dropWhile is_space s
      in case t of
           [] \<Rightarrow> Inr 0
         | c # u \<Rightarrow>
             if c = CHR ''-'' then ub_i64 (- int (digits_value (takeWhile is_digit u)))
             else if c = CHR ''+'' then ub_i64 (int (digits_value (takeWhile is_digit u)))
             else ub_i64 (int (digits_value (takeWhile is_digit t))))"

section \<open>Publications\<close>

definition ResourcePublication_default :: ResourcePublication where
  "ResourcePublication_default =
     \<lparr>pub_worker = StrongId 0, pub_workerBoot = StrongGeneration 0, pub_id = StrongId 0,
      pub_generation = StrongGeneration 0, pub_class = ResourceClass_Unknown,
      pub_unit = Unit_Count, pub_totalCapacity = Quantity_zero Unit_Count, pub_pool = StrongId 0,
      pub_poolGeneration = StrongGeneration 0, pub_capabilities = StrongGeneration 0,
      pub_topology = StrongGeneration 0, pub_contract = StrongId 0,
      pub_contractGeneration = StrongGeneration 0, pub_availableFrom = Instant 0,
      pub_lifetime = Duration 0, pub_unavailable = [], pub_overbookRatio = Ratio_one,
      pub_overbookableClasses = []\<rparr>"

text \<open>What the worker announces: always generation 1 of the resource.\<close>

definition worker_publication ::
    "WorkerId \<Rightarrow> WorkerBootId \<Rightarrow> ResourceId \<Rightarrow> Quantity \<Rightarrow> Instant \<Rightarrow> ResourcePublication outcome" where
  "worker_publication worker boot resId cap start =
     bind_outcome (Duration_seconds (365 * 24 * 3600)) (\<lambda>lifetime.
       Inr (ResourcePublication_default\<lparr>
         pub_worker := worker, pub_workerBoot := boot, pub_id := resId,
         pub_generation := StrongGeneration 1, pub_class := AcceleratorCompute,
         pub_unit := Unit_Count, pub_totalCapacity := cap, pub_pool := StrongId 1,
         pub_poolGeneration := StrongGeneration 1, pub_capabilities := StrongGeneration 1,
         pub_topology := StrongGeneration 1, pub_contract := StrongId 1,
         pub_contractGeneration := StrongGeneration 1, pub_availableFrom := start,
         pub_lifetime := lifetime\<rparr>))"

section \<open>The worker\<close>

text \<open>The arguments after the host and the port; \<^verbatim>\<open>argv[0]\<close> is the program.\<close>

definition worker_args ::
    "string list \<Rightarrow> (WorkerId \<times> WorkerBootId \<times> ResourceId \<times> Quantity \<times> Instant) outcome" where
  "worker_args argv =
     bind_outcome (c_atoll (argv ! 3)) (\<lambda>w.
     bind_outcome (c_atoll (argv ! 4)) (\<lambda>b.
     bind_outcome (c_atoll (argv ! 5)) (\<lambda>r.
     bind_outcome (c_atoll (argv ! 6)) (\<lambda>c.
     bind_outcome (Quantity_count c) (\<lambda>cap.
     bind_outcome (c_atoll (argv ! 7)) (\<lambda>t.
       Inr (StrongId (word_of_int w), StrongGeneration (word_of_int b),
            StrongId (word_of_int r), cap, Instant t)))))))"

text \<open>
  The three messages of the worker. It waits for a frame after each of them but neither looks at
  the answer nor at the results of the send and the receive.
\<close>

definition worker_messages ::
    "WorkerId \<Rightarrow> WorkerBootId \<Rightarrow> ResourceId \<Rightarrow> Quantity \<Rightarrow> Instant \<Rightarrow> Frame list outcome" where
  "worker_messages worker boot resId cap start =
     bind_outcome (worker_publication worker boot resId cap start) (\<lambda>pub.
       Inr [\<lparr>frame_type = Msg_Hello,
             frame_payload = w_str ''worker'' @ w_id worker @ w_gen boot\<rparr>,
            \<lparr>frame_type = Msg_Register, frame_payload = w_id worker @ w_gen boot\<rparr>,
            \<lparr>frame_type = Msg_PublishResource, frame_payload = serPublication pub\<rparr>])"

text \<open>
  The program up to the loop that waits for the end of the connection: what it sends, or \<open>None\<close> when
  it exits with code 2 because of its arguments, because the socket library does not start or
  because it cannot connect. The arguments are parsed before the library is started.
\<close>

definition worker_program :: "string list \<Rightarrow> bool \<Rightarrow> bool \<Rightarrow> Frame list option outcome" where
  "worker_program argv started connected =
     (if length argv < 8 then Inr None
      else bind_outcome (worker_args argv) (\<lambda>(worker, boot, resId, cap, start).
        if \<not> started then Inr None
        else if \<not> connected then Inr None
        else bind_outcome (worker_messages worker boot resId cap start) (\<lambda>fs. Inr (Some fs))))"

section \<open>One exchange\<close>

definition exchange ::
    "MessageType \<Rightarrow> u8 list \<Rightarrow> int list \<Rightarrow> chunks \<Rightarrow> u8 list \<times> Frame outcome \<times> chunks" where
  "exchange t payload results s =
     (case sendFrame results t payload of
        Inl e \<Rightarrow> ([], Inl e, s)
      | Inr (False, wire) \<Rightarrow> (wire, throw_error ProtocolError ''sendFrame failed'', s)
      | Inr (True, wire) \<Rightarrow>
          (case recvFrame s of
             (Decoded resp, s') \<Rightarrow>
               if frame_type resp = Msg_ErrorResponse
               then (wire, bind_outcome (rd_str (frame_payload resp)) (\<lambda>(msg, _).
                       throw_error ProtocolError (''coordinator error: '' @ msg)), s')
               else (wire, Inr resp, s')
           | (_, s') \<Rightarrow> (wire, throw_error ProtocolError ''peer closed frame channel'', s')))"

text \<open>An exchange and the decoding of the answer, whose type is not compared.\<close>

definition call ::
    "MessageType \<Rightarrow> u8 list \<Rightarrow> 'a reader \<Rightarrow> int list \<Rightarrow> chunks \<Rightarrow> u8 list \<times> 'a outcome \<times> chunks" where
  "call t payload decode results s =
     (case exchange t payload results s of
        (wire, resp, s') \<Rightarrow>
          (wire, bind_outcome resp (\<lambda>f. bind_outcome (decode (frame_payload f)) (\<lambda>(a, _). Inr a)), s'))"

section \<open>The calls\<close>

definition makeProtoReq ::
    "u64 \<Rightarrow> int \<Rightarrow> int \<Rightarrow> int \<Rightarrow> ResourceId \<Rightarrow> ReservationRequest outcome" where
  "makeProtoReq reqId qty startNs durNs target =
     bind_outcome (Quantity_count qty) (\<lambda>q.
     bind_outcome (mk_Interval_length (Instant startNs) (Duration durNs)) (\<lambda>w.
       Inr (ReservationRequest_default\<lparr>
         req_requestId := StrongId reqId, req_requestGeneration := StrongGeneration 1,
         req_class := AcceleratorCompute, req_unit := Unit_Count, req_quantity := q,
         req_window := w, req_activationMode := FixedInterval, req_strength := Hard,
         req_owner := StrongId 1, req_ownerGeneration := StrongGeneration 1,
         req_policyGeneration := StrongGeneration 1, req_priorityGeneration := StrongGeneration 1,
         req_targetResource := (if id_valid target then Some target else None)\<rparr>)))"

definition sendRequest ::
    "ReservationRequest \<Rightarrow> int list \<Rightarrow> chunks \<Rightarrow> u8 list \<times> ReservationResult outcome \<times> chunks" where
  "sendRequest req = call Msg_RequestReservation (serReq req) desReservationResult"

definition scenario_activation :: "WorkerId \<Rightarrow> WorkerBootId \<Rightarrow> ActivationEvidence" where
  "scenario_activation w boot =
     \<lparr>ae_worker = w, ae_workerBoot = boot, ae_activationGeneration = StrongGeneration 1,
      ae_at = Instant 100, ae_token = 0\<rparr>"

definition sendActivate ::
    "ReservationId \<Rightarrow> ReservationGeneration \<Rightarrow> WorkerId \<Rightarrow> WorkerBootId \<Rightarrow> int list \<Rightarrow> chunks \<Rightarrow>
     u8 list \<times> ActivationResult outcome \<times> chunks" where
  "sendActivate i g w boot =
     call Msg_Activate (w_id i @ w_gen g @ serActivationEvidence (scenario_activation w boot))
       desActivationResult"

definition sendConsume ::
    "ReservationId \<Rightarrow> ReservationGeneration \<Rightarrow> int \<Rightarrow> WorkerId \<Rightarrow> WorkerBootId \<Rightarrow> u64 \<Rightarrow>
     int list \<Rightarrow> chunks \<Rightarrow> u8 list \<times> ConsumeResult outcome \<times> chunks" where
  "sendConsume i g qty w boot cg =
     call Msg_Consume
       (w_id i @ w_gen g @ w_i64 qty @ w_u8 (Unit_byte Unit_Count) @ w_id w @ w_gen boot @
        w_gen (StrongGeneration cg :: ConsumptionGeneration) @ w_instant (Instant 100))
       desConsumeResult"

definition sendRelease ::
    "ReservationId \<Rightarrow> ReservationGeneration \<Rightarrow> WorkerId \<Rightarrow> WorkerBootId \<Rightarrow> int list \<Rightarrow> chunks \<Rightarrow>
     u8 list \<times> ReleaseResult outcome \<times> chunks" where
  "sendRelease i g w boot =
     call Msg_Release
       (w_id i @ w_gen g @ w_id w @ w_gen boot @
        w_gen (StrongGeneration 1 :: ReleaseGeneration) @ w_instant (Instant 100))
       desReleaseResult"

text \<open>The committed amount and the flag of the accounting; the headroom between them is dropped.\<close>

definition rd_accounting :: "(int \<times> bool) reader" where
  "rd_accounting =
     rd_bind rd_i64 (\<lambda>committed. rd_bind rd_i64 (\<lambda>headroom. rd_bind rd_boolean (\<lambda>consistent.
       rd_return (committed, consistent))))"

definition sendAccounting ::
    "ResourceId \<Rightarrow> int list \<Rightarrow> chunks \<Rightarrow> u8 list \<times> (int \<times> bool) outcome \<times> chunks" where
  "sendAccounting i = call Msg_Query (w_str ''accounting'' @ w_id i) rd_accounting"

definition sendCount :: "int list \<Rightarrow> chunks \<Rightarrow> u8 list \<times> u64 outcome \<times> chunks" where
  "sendCount results s =
     (case call Msg_Query (w_str ''count'') rd_str results s of
        (wire, text, s') \<Rightarrow>
          (wire, bind_outcome text (\<lambda>t. bind_outcome (c_atoll t) (\<lambda>n. Inr (word_of_int n))), s'))"

definition revalidate_publication ::
    "ResourceId \<Rightarrow> WorkerId \<Rightarrow> WorkerBootId \<Rightarrow> ResourceGeneration \<Rightarrow> int \<Rightarrow>
     ResourcePublication outcome" where
  "revalidate_publication i w boot g cap =
     bind_outcome (Quantity_count cap) (\<lambda>c.
     bind_outcome (Duration_seconds (365 * 24 * 3600)) (\<lambda>lifetime.
       Inr (ResourcePublication_default\<lparr>
         pub_worker := w, pub_workerBoot := boot, pub_id := i, pub_generation := g,
         pub_class := AcceleratorCompute, pub_unit := Unit_Count, pub_totalCapacity := c,
         pub_pool := StrongId 1, pub_poolGeneration := StrongGeneration 1,
         pub_capabilities := StrongGeneration 1, pub_topology := StrongGeneration 1,
         pub_contract := StrongId 1, pub_contractGeneration := StrongGeneration 1,
         pub_availableFrom := Instant 0, pub_lifetime := lifetime\<rparr>)))"

definition sendRevalidate ::
    "ResourceId \<Rightarrow> WorkerId \<Rightarrow> WorkerBootId \<Rightarrow> ResourceGeneration \<Rightarrow> int \<Rightarrow> int list \<Rightarrow> chunks \<Rightarrow>
     u8 list \<times> unit outcome \<times> chunks" where
  "sendRevalidate i w boot g cap results s =
     (case revalidate_publication i w boot g cap of
        Inl e \<Rightarrow> ([], Inl e, s)
      | Inr pub \<Rightarrow>
          (case exchange Msg_Revalidate (serPublication pub) results s of
             (wire, resp, s') \<Rightarrow> (wire, bind_outcome resp (\<lambda>_. Inr ()), s')))"

end
