(* ===== verification/RF_Client_Props.thy ===== *)
theory RF_Client_Props
  imports RF_Client RF_Coordinator_Props
begin

text \<open>
  Both ends of the socket together: what a client's call returns when the network carries its bytes
  to the coordinator and the reply back, in whatever pieces.
\<close>

section \<open>Numerals\<close>

lemma digit_first: "\<exists>d ds. nat_to_string n = digit d # ds \<and> d < 10"
proof (induction n rule: nat_to_string.induct)
  case (1 n)
  then show ?case by (cases "n < 10") (auto simp: nat_to_string.simps [of n])
qed

lemma digits_only: "c \<in> set (nat_to_string n) \<Longrightarrow> is_digit c"
proof (induction n rule: nat_to_string.induct)
  case (1 n)
  then show ?case
    by (cases "n < 10") (auto simp: nat_to_string.simps [of n] is_digit_def)
qed

lemma digit_plain: "d < 10 \<Longrightarrow> \<not> is_space (digit d) \<and> digit d \<noteq> CHR ''-'' \<and> digit d \<noteq> CHR ''+''"
  by (auto simp: is_space_def dest: arg_cong [of "digit d" _ "of_char :: char \<Rightarrow> nat"])

text \<open>\<^verbatim>\<open>atoll\<close> reads back what \<^verbatim>\<open>std::to_string\<close> wrote.\<close>

lemma atoll_to_string:
  assumes "int n \<le> INT64_MAX"
  shows "c_atoll (nat_to_string n) = Inr (int n)"
proof -
  obtain d ds where n: "nat_to_string n = digit d # ds" and d: "d < 10" using digit_first by blast
  have all: "takeWhile is_digit (digit d # ds) = digit d # ds"
    using digits_only [of _ n] unfolding n by (simp add: takeWhile_eq_all_conv)
  have "dropWhile is_space (nat_to_string n) = digit d # ds"
    using digit_plain [OF d] by (simp add: n)
  then have "c_atoll (nat_to_string n) = ub_i64 (int (digits_value (digit d # ds)))"
    using digit_plain [OF d] by (simp only: c_atoll_def Let_def list.case if_False all)
  also have "digits_value (digit d # ds) = n" using digits_value_nat_to_string [of n] by (simp add: n)
  finally show ?thesis using assms by (simp add: i64_defs)
qed

text \<open>The numbers on the worker's command line are the ones it announces.\<close>

lemma worker_command_line:
  assumes "int w \<le> INT64_MAX" "int b \<le> INT64_MAX" "int r \<le> INT64_MAX" "int c \<le> INT64_MAX"
    and "int t \<le> INT64_MAX"
  shows "worker_program [name, host, port, nat_to_string w, nat_to_string b, nat_to_string r,
      nat_to_string c, nat_to_string t] True True =
    bind_outcome (worker_messages (StrongId (word_of_nat w)) (StrongGeneration (word_of_nat b))
      (StrongId (word_of_nat r)) (Quantity (int c) Unit_Count) (Instant (int t))) (\<lambda>fs. Inr (Some fs))"
  using assms
  by (simp add: worker_program_def worker_args_def atoll_to_string Quantity_count_def mk_Quantity_def
      check_quantity_rep_def)

section \<open>A call over the network\<close>

text \<open>A network that loses nothing and delivers no empty chunk, cutting the bytes as it likes.\<close>

definition carries :: "(u8 list \<Rightarrow> chunks) \<Rightarrow> bool" where
  "carries net \<longleftrightarrow> (\<forall>b. concat (net b) = b \<and> live (net b))"

definition sent :: "int list \<Rightarrow> MessageType \<Rightarrow> u8 list \<Rightarrow> bool" where
  "sent results t p \<longleftrightarrow> (\<exists>wire. sendFrame results t p = Inr (True, wire))"

text \<open>
  One call: the bytes go \<open>up\<close>, the coordinator serves the frame, its reply comes \<open>down\<close>. When no
  frame arrives, or the coordinator dies, the client finds the connection closed.
\<close>

definition remote ::
    "(int list \<Rightarrow> chunks \<Rightarrow> u8 list \<times> 'a outcome \<times> chunks) \<Rightarrow> int list \<Rightarrow> (u8 list \<Rightarrow> chunks) \<Rightarrow>
     (u8 list \<Rightarrow> chunks) \<Rightarrow> WorkerId \<Rightarrow> CoordinatorState \<Rightarrow> 'a outcome \<times> CoordinatorState" where
  "remote f results up down w cs =
     (case recvFrame (up (fst (f results []))) of
        (Decoded frame, _) \<Rightarrow>
          (case serve_frame frame w cs of
             (Inr reply, _, cs') \<Rightarrow> (fst (snd (f results (down reply))), cs')
           | (Inl _, _, cs') \<Rightarrow> (fst (snd (f results [])), cs'))
      | _ \<Rightarrow> (fst (snd (f results [])), cs))"

lemma recv_frame_carried:
  assumes "carries net" "message.canonical t" "encodeFrame t p = Inr bytes"
  shows "recvFrame (net bytes) = (Decoded \<lparr>frame_type = t, frame_payload = p\<rparr>, [])"
proof -
  obtain r s' where r: "recvFrame (net bytes) = (r, s')" by fastforce
  have net: "live (net bytes)" "concat (net bytes) = bytes" using assms(1) by (simp_all add: carries_def)
  from decode_encoded [OF assms(2,3), of "[]"]
  have "decode_buffer bytes = (Decoded \<lparr>frame_type = t, frame_payload = p\<rparr>, [])" by simp
  with receive_agree [OF net(1) r] net(2) have "r = Decoded \<lparr>frame_type = t, frame_payload = p\<rparr>"
    "concat s' = []" by auto
  moreover have "live s'" using recvFrame_live [OF net(1) r] .
  ultimately show ?thesis using r by (cases s') auto
qed

lemma sent_bytes:
  assumes "sent results t p"
  obtains wire where "encodeFrame t p = Inr wire" "sendFrame results t p = Inr (True, wire)"
proof -
  from assms obtain bytes wire where "encodeFrame t p = Inr bytes"
    "sendAll results bytes 0 [] = (True, wire)" "sendFrame results t p = Inr (True, wire)"
    by (auto simp: sent_def sendFrame_def bind_outcome_Inr_iff)
  with sendAll_prefix [of results bytes 0 True wire] that show thesis by simp
qed

text \<open>A call that arrives, is answered \<open>r\<close> and leaves no byte behind.\<close>

definition delivers ::
    "(int list \<Rightarrow> chunks \<Rightarrow> u8 list \<times> 'a outcome \<times> chunks) \<Rightarrow> int list \<Rightarrow> (u8 list \<Rightarrow> chunks) \<Rightarrow>
     (u8 list \<Rightarrow> chunks) \<Rightarrow> WorkerId \<Rightarrow> CoordinatorState \<Rightarrow> 'a outcome \<Rightarrow> CoordinatorState \<Rightarrow> bool" where
  "delivers f results up down w cs r cs' \<longleftrightarrow>
     (\<exists>wire frame reply. fst (f results []) = wire \<and> recvFrame (up wire) = (Decoded frame, []) \<and>
        serve_frame frame w cs = (Inr reply, w, cs') \<and> f results (down reply) = (wire, r, []))"

lemma delivers_remote: "delivers f results up down w cs r cs' \<Longrightarrow> remote f results up down w cs = (r, cs')"
  by (auto simp: delivers_def remote_def)

lemma delivers_exchange:
  assumes "carries up" "carries down" "sent results t p" "message.canonical t"
    and "serve_frame \<lparr>frame_type = t, frame_payload = p\<rparr> w cs = (Inr reply, w, cs')"
    and "encodeFrame rt rp = Inr reply" "message.canonical rt"
    and f: "\<And>s. f results s = (case exchange t p results s of (wire, resp, s') \<Rightarrow> (wire, g resp, s'))"
  shows "delivers f results up down w cs
    (g (if rt = Msg_ErrorResponse
        then bind_outcome (rd_str rp) (\<lambda>(msg, _). throw_error ProtocolError (''coordinator error: '' @ msg))
        else Inr \<lparr>frame_type = rt, frame_payload = rp\<rparr>)) cs'"
proof -
  obtain wire where wire: "encodeFrame t p = Inr wire" "sendFrame results t p = Inr (True, wire)"
    using assms(3) by (rule sent_bytes)
  note up = recv_frame_carried [OF assms(1,4) wire(1)]
    and down = recv_frame_carried [OF assms(2,7,6)]
  have "fst (f results []) = wire" by (simp add: f exchange_def wire(2) split: prod.split push_result.split)
  moreover have "f results (down reply) = (wire, g (if rt = Msg_ErrorResponse
        then bind_outcome (rd_str rp) (\<lambda>(msg, _). throw_error ProtocolError (''coordinator error: '' @ msg))
        else Inr \<lparr>frame_type = rt, frame_payload = rp\<rparr>), [])"
    using down by (simp add: f exchange_def wire(2))
  ultimately show ?thesis unfolding delivers_def using up assms(5) by blast
qed

lemma delivers_call:
  assumes "carries up" "carries down" "sent results t p" "message.canonical t"
    and "serve_frame \<lparr>frame_type = t, frame_payload = p\<rparr> w cs = (Inr reply, w, cs')"
    and "encodeFrame rt rp = Inr reply" "message.canonical rt" "rt \<noteq> Msg_ErrorResponse"
    and "decode rp = Inr (a, rest)"
  shows "delivers (call t p decode) results up down w cs (Inr a) cs'"
  using delivers_exchange [OF assms(1-7), of "call t p decode"
      "\<lambda>resp. bind_outcome resp (\<lambda>f. bind_outcome (decode (frame_payload f)) (\<lambda>(a, _). Inr a))"] assms(8,9)
  by (simp add: call_def)

section \<open>The replies\<close>

lemma serve_plain:
  assumes "ty \<noteq> Msg_Hello" "ty \<noteq> Msg_Register"
    and "handleMessage \<lparr>frame_type = ty, frame_payload = p\<rparr> cs = (Inr reply, cs')"
  shows "serve_frame \<lparr>frame_type = ty, frame_payload = p\<rparr> w cs = (Inr reply, w, cs')"
  using assms by (cases ty) (simp_all add: serve_frame_def conn_worker_def)

text \<open>The results of the lifecycle calls carry only messages of the program text.\<close>

lemma activate_message: "length (ar_errorMessage (fst (rf_activate i g ev st))) \<le> 100"
  by (simp add: rf_activate_def Let_def mk_ActivationResult_def split: option.split)

lemma release_message: "length (rl_errorMessage (fst (rf_release i g ev st))) \<le> 100"
  by (simp add: rf_release_def Let_def mk_ReleaseResult_def split: option.split)

lemma consume_message: "length (cs_errorMessage (fst (rf_consume i g amount ev st))) \<le> 100"
  by (simp add: rf_consume_def Let_def mk_ConsumeResult_def split: option.split)

lemma length_writers [simp]:
  "length (w_boolean b) = 1" "length (w_id i) = 8" "length (w_gen g) = 8" "length (w_str s) = 4 + length s"
  "length (w_quant q) = 9" "length (w_i64 v) = 8"
  by (simp_all add: w_boolean_def w_u8_def w_id_def w_gen_def w_u64_def w_str_def w_u32_def
      w_quant_def w_i64_def w_enu_def)

lemma activate_reply:
  "\<exists>reply. encodeFrame Msg_ActivateResult (serActivationResult (fst (rf_activate i g ev st))) = Inr reply"
  "activation_result_sendable (fst (rf_activate i g ev st))"
  using activate_message [of i g ev st]
  by (simp_all add: encodeFrame_bytes serActivationResult_def activation_result_sendable_def string_ok_def)

lemma release_reply:
  "\<exists>reply. encodeFrame Msg_ReleaseResult (serReleaseResult (fst (rf_release i g lev st))) = Inr reply"
  "release_result_sendable (fst (rf_release i g lev st))"
  using release_message [of i g lev st]
  by (simp_all add: encodeFrame_bytes serReleaseResult_def release_result_sendable_def string_ok_def)

lemma consume_reply:
  "\<exists>reply. encodeFrame Msg_ConsumeResult (serConsumeResult (fst (rf_consume i g amount cev st))) = Inr reply"
  using consume_message [of i g amount cev st] by (simp add: encodeFrame_bytes serConsumeResult_def)

section \<open>Calls\<close>

definition sends_all :: "int list \<Rightarrow> bool" where
  "sends_all results \<longleftrightarrow> (\<forall>t p. length p \<le> 2 ^ 20 \<longrightarrow> sent results t p)"

text \<open>For instance one \<^verbatim>\<open>send\<close> that takes everything.\<close>

lemma one_send: "2 ^ 20 + 14 \<le> n \<Longrightarrow> sends_all [n]"
  by (auto simp: sends_all_def sent_def sendFrame_def encodeFrame_bytes sendAll.simps)

lemma delivers_handled:
  assumes "carries up" "carries down" "sends_all results" "length p \<le> 2 ^ 20"
    and "handleMessage \<lparr>frame_type = t, frame_payload = p\<rparr> cs = (encodeFrame rt rp, cs')"
    and "decode rp = Inr (a, rest)" "length rp \<le> 2 ^ 20"
    and "message.canonical t" "t \<noteq> Msg_Hello" "t \<noteq> Msg_Register"
    and "message.canonical rt" "rt \<noteq> Msg_ErrorResponse"
  shows "delivers (call t p decode) results up down w cs (Inr a) cs'"
proof -
  from assms(7) obtain reply where reply: "encodeFrame rt rp = Inr reply" by (simp add: encodeFrame_bytes)
  have sent: "sent results t p" using assms(3,4) by (simp add: sends_all_def)
  have "serve_frame \<lparr>frame_type = t, frame_payload = p\<rparr> w cs = (Inr reply, w, cs')"
    using serve_plain [OF assms(9,10)] assms(5) reply by simp
  from delivers_call [where decode = decode and rp = rp, OF assms(1,2) sent assms(8) this reply assms(11,12,6)]
  show ?thesis .
qed

lemmas canonical_types = MessageType_of_byte_def

lemma delivers_request:
  assumes "carries up" "carries down" "sends_all results" "length (serReq req) \<le> 2 ^ 20"
    and "request_sendable req" "rf_commit req None (co_runtime cs) = (Inr rr, st')"
    and "reservation_result_sendable rr" "length (serReservationResult rr) \<le> 2 ^ 20"
  shows "delivers (sendRequest req) results up down w cs (Inr rr) (cs\<lparr>co_runtime := st'\<rparr>)"
proof -
  have handle: "handleMessage \<lparr>frame_type = Msg_RequestReservation, frame_payload = serReq req\<rparr> cs =
      (encodeFrame Msg_ReservationResult (serReservationResult rr), cs\<lparr>co_runtime := st'\<rparr>)"
    by (simp add: handle_request assms(5,6))
  show ?thesis
    unfolding sendRequest_def
    by (rule delivers_handled [where decode = desReservationResult and rp = "serReservationResult rr",
          OF assms(1-4) handle reservation_result_codec.round_end [OF assms(7)] assms(8)])
      (simp_all add: canonical_types)
qed

lemma delivers_activate:
  assumes "carries up" "carries down" "sends_all results"
    and "rf_activate i g (scenario_activation v boot) (co_runtime cs) = (ar, st')"
  shows "delivers (sendActivate i g v boot) results up down w cs (Inr ar) (cs\<lparr>co_runtime := st'\<rparr>)"
proof -
  have ev: "activation_evidence_sendable (scenario_activation v boot)"
    by (simp add: activation_evidence_sendable_def scenario_activation_def instant_ok_def i64_defs)
  have ar: "length (ar_errorMessage ar) \<le> 100"
    using activate_message [of i g "scenario_activation v boot" "co_runtime cs"] assms(4) by simp
  then have ok: "activation_result_sendable ar" by (simp add: activation_result_sendable_def string_ok_def)
  have handle: "handleMessage \<lparr>frame_type = Msg_Activate,
        frame_payload = w_id i @ w_gen g @ serActivationEvidence (scenario_activation v boot)\<rparr> cs =
      (encodeFrame Msg_ActivateResult (serActivationResult ar), cs\<lparr>co_runtime := st'\<rparr>)"
    by (simp add: handle_activate [OF ev] assms(4))
  show ?thesis
    unfolding sendActivate_def
    by (rule delivers_handled [where decode = desActivationResult and rp = "serActivationResult ar",
          OF assms(1-3) _ handle activation_result_codec.round_end [OF ok]])
      (use ar in \<open>simp_all add: canonical_types serActivationEvidence_def serActivationResult_def
         w_instant_def w_u64_def\<close>)
qed

lemma delivers_consume:
  assumes "carries up" "carries down" "sends_all results" "quantity_ok (Quantity qty Unit_Count)"
    and con: "rf_consume i g (Quantity qty Unit_Count) \<lparr>ce_worker = v, ce_workerBoot = boot,
      ce_consumptionGeneration = StrongGeneration cg, ce_at = Instant 100\<rparr> (co_runtime cs) = (cr, st')"
    and ok: "consume_result_sendable cr"
  shows "delivers (sendConsume i g qty v boot cg) results up down w cs (Inr cr) (cs\<lparr>co_runtime := st'\<rparr>)"
proof -
  have cr: "length (cs_errorMessage cr) \<le> 100"
    using consume_message [of i g "Quantity qty Unit_Count"] con by (metis fst_conv)
  have wire: "w_i64 qty @ w_u8 (Unit_byte Unit_Count) @ r = w_quant (Quantity qty Unit_Count) @ r" for r
    by (simp add: w_quant_def w_enu_def)
  have at: "instant_ok (Instant 100)" by (simp add: instant_ok_def i64_defs)
  have handle: "handleMessage \<lparr>frame_type = Msg_Consume,
        frame_payload = w_id i @ w_gen g @ w_quant (Quantity qty Unit_Count) @ w_id v @ w_gen boot @
          w_gen (StrongGeneration cg :: ConsumptionGeneration) @ w_instant (Instant 100)\<rparr> cs =
      (encodeFrame Msg_ConsumeResult (serConsumeResult cr), cs\<lparr>co_runtime := st'\<rparr>)"
    using handle_consume [OF assms(4), where i = i and g = g and cs = cs and cev =
        "\<lparr>ce_worker = v, ce_workerBoot = boot, ce_consumptionGeneration = StrongGeneration cg, ce_at = Instant 100\<rparr>"]
      con at by simp
  show ?thesis
    unfolding sendConsume_def wire
    by (rule delivers_handled [where decode = desConsumeResult and rp = "serConsumeResult cr",
        OF assms(1-3) _ handle consume_result_codec.round_end [OF ok]])
      (use cr in \<open>simp_all add: canonical_types w_instant_def serConsumeResult_def\<close>)
qed

lemma delivers_release:
  assumes "carries up" "carries down" "sends_all results"
    and rel: "rf_release i g \<lparr>le_worker = v, le_workerBoot = boot,
      le_releaseGeneration = StrongGeneration 1, le_at = Instant 100\<rparr> (co_runtime cs) = (rr, st')"
  shows "delivers (sendRelease i g v boot) results up down w cs (Inr rr) (cs\<lparr>co_runtime := st'\<rparr>)"
proof -
  have rr: "length (rl_errorMessage rr) \<le> 100"
    using release_message [of i g] rel by (metis fst_conv)
  then have ok: "release_result_sendable rr" by (simp add: release_result_sendable_def string_ok_def)
  have at: "instant_ok (Instant 100)" by (simp add: instant_ok_def i64_defs)
  have handle: "handleMessage \<lparr>frame_type = Msg_Release,
        frame_payload = w_id i @ w_gen g @ w_id v @ w_gen boot @
          w_gen (StrongGeneration 1 :: ReleaseGeneration) @ w_instant (Instant 100)\<rparr> cs =
      (encodeFrame Msg_ReleaseResult (serReleaseResult rr), cs\<lparr>co_runtime := st'\<rparr>)"
    using handle_release [where i = i and g = g and cs = cs and lev =
        "\<lparr>le_worker = v, le_workerBoot = boot, le_releaseGeneration = StrongGeneration 1, le_at = Instant 100\<rparr>"]
      rel at by simp
  show ?thesis
    unfolding sendRelease_def
    by (rule delivers_handled [where decode = desReleaseResult and rp = "serReleaseResult rr",
        OF assms(1-3) _ handle release_result_codec.round_end [OF ok]])
      (use rr in \<open>simp_all add: canonical_types w_instant_def serReleaseResult_def\<close>)
qed

lemma length_numeral: "n < 10 ^ Suc k \<Longrightarrow> length (nat_to_string n) \<le> Suc k"
proof (induction k arbitrary: n)
  case 0
  then show ?case by (simp add: nat_to_string.simps)
next
  case (Suc k)
  have "length (nat_to_string (n div 10)) \<le> Suc k"
    by (rule Suc.IH) (use Suc.prems in auto)
  then show ?case by (simp add: nat_to_string.simps [of n])
qed

lemma delivers_count:
  assumes "carries up" "carries down" "sends_all results"
    and "int (currentReservationCount (co_runtime cs)) \<le> INT64_MAX"
  shows "delivers (sendCount) results up down w cs
    (Inr (word_of_nat (currentReservationCount (co_runtime cs)))) cs"
proof -
  let ?n = "currentReservationCount (co_runtime cs)" and ?p = "w_str ''count''"
  have len: "length (nat_to_string ?n) \<le> Suc 18"
    by (rule length_numeral) (use assms(4) in \<open>simp add: INT64_MAX_def\<close>)
  then have ok: "string_ok (nat_to_string ?n)" by (simp add: string_ok_def)
  have "string_ok ''count''" by (simp add: string_ok_def)
  then have handle: "handleMessage \<lparr>frame_type = Msg_Query, frame_payload = ?p\<rparr> cs =
      (encodeFrame Msg_QueryResult (w_str (nat_to_string ?n)), cs)"
    by (simp add: handleMessage_def Let_def answer_query_def str_codec.round_end)
  obtain reply where reply: "encodeFrame Msg_QueryResult (w_str (nat_to_string ?n)) = Inr reply"
    using len by (simp add: encodeFrame_bytes)
  have "serve_frame \<lparr>frame_type = Msg_Query, frame_payload = ?p\<rparr> w cs = (Inr reply, w, cs)"
    using handle reply by (intro serve_plain) simp_all
  moreover have "sent results Msg_Query ?p" using assms(3) by (simp add: sends_all_def)
  ultimately show ?thesis
    using delivers_exchange [OF assms(1,2) _ _ _ reply, of results Msg_Query ?p w cs cs sendCount
        "\<lambda>resp. bind_outcome (bind_outcome resp (\<lambda>f. bind_outcome (rd_str (frame_payload f))
           (\<lambda>(a, _). Inr a))) (\<lambda>t. bind_outcome (c_atoll t) (\<lambda>n. Inr (word_of_int n)))"]
    by (simp add: canonical_types sendCount_def call_def case_prod_beta str_codec.round_end [OF ok]
        atoll_to_string [OF assms(4)])
qed

lemma delivers_accounting:
  assumes "carries up" "carries down" "sends_all results"
    and "rf_accounting i (co_runtime cs) = (Inr acc, st')"
    and "in_i64 (q_value (ca_committed acc))" "in_i64 (q_value (ca_headroom acc))"
  shows "delivers (sendAccounting i) results up down w cs
    (Inr (q_value (ca_committed acc), ca_consistent acc)) (cs\<lparr>co_runtime := st'\<rparr>)"
proof -
  let ?rp = "w_i64 (q_value (ca_committed acc)) @ w_i64 (q_value (ca_headroom acc)) @
    w_boolean (ca_consistent acc)"
  have "string_ok ''accounting''" by (simp add: string_ok_def)
  then have handle: "handleMessage \<lparr>frame_type = Msg_Query, frame_payload = w_str ''accounting'' @ w_id i\<rparr> cs =
      (encodeFrame Msg_QueryResult ?rp, cs\<lparr>co_runtime := st'\<rparr>)"
    by (simp add: handleMessage_def Let_def answer_query_def str_codec.round id_codec.round_end assms(4))
  have decode: "rd_accounting ?rp = Inr ((q_value (ca_committed acc), ca_consistent acc), [])"
    using assms(5,6)
    by (simp add: rd_accounting_def rd_bind_def i64_codec.round boolean_codec.round_end rd_return_def)
  show ?thesis
    unfolding sendAccounting_def
    by (rule delivers_handled [where decode = rd_accounting and rp = ?rp, OF assms(1-3) _ handle decode])
      (simp_all add: canonical_types)
qed

text \<open>Claim C5: Remote calls are local calls, end to end: when the client's bytes and the coordinator's
  reply are carried without loss, in whatever pieces the network cuts them, a request, an
  activation, a consumption and a release return exactly the result of the library's operation on
  the coordinator's state, the coordinator ends in the state of that operation, and the count of
  reservations arrives as the number it is.\<close>

theorem remote_calls_return_local_results:
  assumes "carries up" "carries down" "sends_all results"
    and "request_sendable req" "length (serReq req) \<le> 2 ^ 20"
    and "rf_commit req None (co_runtime cs) = (Inr rr, st1)"
    and "reservation_result_sendable rr" "length (serReservationResult rr) \<le> 2 ^ 20"
    and "rf_activate i g (scenario_activation v boot) (co_runtime cs) = (ar, st2)"
    and "quantity_ok (Quantity qty Unit_Count)"
    and "rf_consume i g (Quantity qty Unit_Count) \<lparr>ce_worker = v, ce_workerBoot = boot,
      ce_consumptionGeneration = StrongGeneration cg, ce_at = Instant 100\<rparr> (co_runtime cs) = (cr, st3)"
    and "consume_result_sendable cr"
    and "rf_release i g \<lparr>le_worker = v, le_workerBoot = boot,
      le_releaseGeneration = StrongGeneration 1, le_at = Instant 100\<rparr> (co_runtime cs) = (lr, st4)"
    and "int (currentReservationCount (co_runtime cs)) \<le> INT64_MAX"
  shows "remote (sendRequest req) results up down w cs = (Inr rr, cs\<lparr>co_runtime := st1\<rparr>) \<and>
    remote (sendActivate i g v boot) results up down w cs = (Inr ar, cs\<lparr>co_runtime := st2\<rparr>) \<and>
    remote (sendConsume i g qty v boot cg) results up down w cs = (Inr cr, cs\<lparr>co_runtime := st3\<rparr>) \<and>
    remote (sendRelease i g v boot) results up down w cs = (Inr lr, cs\<lparr>co_runtime := st4\<rparr>) \<and>
    remote (sendCount) results up down w cs =
      (Inr (word_of_nat (currentReservationCount (co_runtime cs))), cs)"
  using assms
  by (intro conjI delivers_remote delivers_request delivers_activate delivers_consume delivers_release
      delivers_count)

lemma carries_bytewise: "carries (map (\<lambda>b. [b]))"
proof -
  have "concat (map (\<lambda>b. [b]) bs) = bs" for bs :: "u8 list" by (induction bs) simp_all
  then show ?thesis by (auto simp: carries_def)
qed

lemma demo_refused:
  "\<exists>rr. rf_commit (demo_req 1 60 100 200) None demo2 = (Inr rr, demo2) \<and> \<not> rr_committed rr \<and>
     reservation_result_sendable rr \<and> length (serReservationResult rr) \<le> 2 ^ 20"
  by (simp add: eval_domain eval_runtime Let_def is_duplicate_def demo_rv_def cong: let_weak_cong)
    (simp add: reservation_result_sendable_def report_sendable_def string_ok_def quantity_ok_def
      quantity_wf_def flagged_ok_def counted_def reasons_ok_def Unit_of_byte_def ResourceClass_of_byte_def
      Feasibility_of_byte_def i64_defs iv_isEmpty_def window_ok_def less_Instant_def less_eq_Instant_def
      instant_ok_def serReservationResult_def serReport_def w_enu_def w_u8_def ser_flagged_def
      ser_ids_def ser_reasons_def w_each_def w_count_def w_u32_def serInterval_def w_instant_def
      Interval_default_def)

lemma demo_request_fits: "length (serReq (demo_req 1 60 100 200)) \<le> 2 ^ 20"
  by (simp add: serReq_def demo_req_def eval_domain w_enu_def w_u8_def w_u32_def w_optVal_def
    serInterval_def w_instant_def proto_serOptGen_def w_optId_def w_i32_def
    ser_capability_def ser_locality_def ser_topology_def ser_compatibility_def)

theorem remote_calls_return_local_results_witness:
  "remote (sendCount) [2 ^ 21] (map (\<lambda>b. [b])) (map (\<lambda>b. [b])) (StrongId 0)
     \<lparr>co_runtime = demo2, co_shutdown = False\<rparr> =
   (Inr 1, \<lparr>co_runtime = demo2, co_shutdown = False\<rparr>)"
proof -
  let ?cs = "\<lparr>co_runtime = demo2, co_shutdown = False\<rparr>"
  obtain rr where rr: "rf_commit (demo_req 1 60 100 200) None (co_runtime ?cs) = (Inr rr, demo2)"
    "reservation_result_sendable rr" "length (serReservationResult rr) \<le> 2 ^ 20"
    using demo_refused by auto
  let ?ev = "\<lparr>ce_worker = StrongId 3, ce_workerBoot = StrongGeneration 1,
    ce_consumptionGeneration = StrongGeneration 1, ce_at = Instant 100\<rparr>"
  have con: "rf_consume (StrongId 9) (StrongGeneration 1) (Quantity 5 Unit_Count) ?ev (co_runtime ?cs) =
      (mk_ConsumeResult (StrongId 9) (StrongGeneration 1)\<lparr>cs_errorMessage := ''stale reservation generation''\<rparr>, demo2)"
    by (simp add: rf_consume_def current_reservation_def reservationLocked_def)
  have ok: "consume_result_sendable
      (mk_ConsumeResult (StrongId 9) (StrongGeneration 1)\<lparr>cs_errorMessage := ''stale reservation generation''\<rparr>)"
    using demo_results(3) by (simp add: consume_result_sendable_def string_ok_def)
  have all: "sends_all [2 ^ 21]" by (rule one_send) simp
  have count: "currentReservationCount demo2 = 1" by (simp add: currentReservationCount_def)
  then have "int (currentReservationCount (co_runtime ?cs)) \<le> INT64_MAX" by (simp add: i64_defs)
  from remote_calls_return_local_results [OF carries_bytewise carries_bytewise all demo_messages(1)
      demo_request_fits rr prod.collapse [symmetric] demo_messages(3) con ok prod.collapse [symmetric] this]
  show ?thesis by (simp add: count)
qed

section \<open>The session of a worker\<close>

lemma serve_hello:
  assumes "length role \<le> 100"
  shows "\<exists>reply. serve_frame \<lparr>frame_type = Msg_Hello,
      frame_payload = w_str role @ w_id w @ w_gen (boot :: WorkerBootId)\<rparr> w0 cs =
    (Inr reply, if role = ''worker'' then w else w0, cs)"
proof -
  have ok: "string_ok role" using assms by (simp add: string_ok_def)
  obtain reply where "encodeFrame Msg_Acknowledge (w_str role) = Inr reply"
    using assms by (simp add: encodeFrame_bytes)
  then show ?thesis
    by (simp add: serve_frame_def conn_worker_def handleMessage_def with_payload_def rd_hello_def
        codec_simps str_codec.round [OF ok] gen_codec.round_end rd_bind_def)
qed

text \<open>The three frames of a worker, one by one.\<close>

lemma worker_frames:
  assumes "publication_sendable pub" "publishResource pub (co_runtime cs) = (Inr (res, err), st')"
    and "pred_option (\<lambda>e. length e \<le> 1000) err"
  shows "\<exists>h. serve_frame \<lparr>frame_type = Msg_Hello,
      frame_payload = w_str ''worker'' @ w_id w @ w_gen (boot :: WorkerBootId)\<rparr> w0 cs = (Inr h, w, cs)"
    and "\<exists>r. serve_frame \<lparr>frame_type = Msg_Register, frame_payload = w_id w @ w_gen (boot :: WorkerBootId)\<rparr> w cs =
      (Inr r, w, cs)"
    and "\<exists>p. serve_frame \<lparr>frame_type = Msg_PublishResource, frame_payload = serPublication pub\<rparr> w cs =
      (Inr p, w, cs\<lparr>co_runtime := st'\<rparr>)"
proof -
  show "\<exists>h. serve_frame \<lparr>frame_type = Msg_Hello,
      frame_payload = w_str ''worker'' @ w_id w @ w_gen (boot :: WorkerBootId)\<rparr> w0 cs = (Inr h, w, cs)"
    using serve_hello [of "''worker''" w boot w0 cs] by auto
  show "\<exists>r. serve_frame \<lparr>frame_type = Msg_Register, frame_payload = w_id w @ w_gen (boot :: WorkerBootId)\<rparr> w cs =
      (Inr r, w, cs)"
    using serve_register [of w boot w cs] by blast
  have "length (w_enu ResourceRegisterResult_byte res @ w_str (case err of None \<Rightarrow> [] | Some e \<Rightarrow> e)) \<le> 2 ^ 20"
    using assms(3) by (cases err) (simp_all add: w_enu_def w_u8_def)
  then obtain p where p: "encodeFrame Msg_PublishResult
      (w_enu ResourceRegisterResult_byte res @ w_str (case err of None \<Rightarrow> [] | Some e \<Rightarrow> e)) = Inr p"
    by (simp add: encodeFrame_bytes)
  have "serve_frame \<lparr>frame_type = Msg_PublishResource, frame_payload = serPublication pub\<rparr> w cs =
      (Inr p, w, cs\<lparr>co_runtime := st'\<rparr>)"
    by (rule serve_plain) (simp_all add: handle_publish [OF assms(1)] assms(2) p)
  then show "\<exists>p. serve_frame \<lparr>frame_type = Msg_PublishResource, frame_payload = serPublication pub\<rparr> w cs =
      (Inr p, w, cs\<lparr>co_runtime := st'\<rparr>)" by blast
qed



text \<open>A worker that is restarted cannot bring its resource back: the program always announces
  generation 1, so once the resource is known its publication is rejected, the resource
  and the reservations stay as they are, and a resource withdrawn by the loss of the former
  connection stays withdrawn.\<close>

theorem restarted_worker_is_rejected:
  assumes "worker_publication w boot i cap start = Inr pub"
    and "map_of (st_resources st) i = Some res" "gen_valid (res_generation res)"
  shows "\<exists>why. fst (publishResource pub st) \<in> {Inr (RejectedInvalid, Some why),
      Inr (RejectedStale, Some why), Inr (RejectedDuplicate, Some why)} \<and>
    st_resources (snd (publishResource pub st)) = st_resources st \<and>
    st_reservations (snd (publishResource pub st)) = st_reservations st"
proof -
  have pub: "pub_generation pub = StrongGeneration 1" "pub_id pub = i"
    using assms(1) by (auto simp: worker_publication_def bind_outcome_Inr_iff)
  have "1 \<le> gen_value (res_generation res)"
    using assms(3) by (simp add: gen_valid_def word_le_nat_alt unat_gt_0 Suc_le_eq)
  then have "StrongGeneration 1 < res_generation res \<or> StrongGeneration 1 = res_generation res"
    by (cases "res_generation res") (auto simp: less_StrongGeneration_def)
  then show ?thesis
    using assms(2) by (auto simp: publishResource_def pub Let_def split: option.split)
qed

theorem restarted_worker_is_rejected_witness:
  "fst (publishResource (demo_pub\<lparr>pub_workerBoot := StrongGeneration 2,
       pub_lifetime := Duration 31536000000000000\<rparr>) demo2) \<noteq> Inr (AcceptedReplaced, None) \<and>
   st_resources (snd (publishResource (demo_pub\<lparr>pub_workerBoot := StrongGeneration 2,
       pub_lifetime := Duration 31536000000000000\<rparr>) demo2)) = st_resources demo2"
proof -
  let ?pub = "demo_pub\<lparr>pub_workerBoot := StrongGeneration 2, pub_lifetime := Duration 31536000000000000\<rparr>"
  have "worker_publication (StrongId 3) (StrongGeneration 2) (StrongId 7) (Quantity 100 Unit_Count)
      (Instant 0) = Inr ?pub"
    by (simp add: worker_publication_def Duration_seconds_def signed_divide_int_def i64_defs ub_i64_def
      ResourcePublication_default_def demo_pub_def)
  from restarted_worker_is_rejected [OF this, where st = demo2] show ?thesis
    by (auto simp: gen_valid_def)
qed

end
