(* ===== verification/RF_Service_Props.thy ===== *)
theory RF_Service_Props
  imports RF_Service RF_Coordinator_Props RF_Runtime_Props RF_Client_Props
begin

text \<open>
  What holds of the coordinator in every interleaving of its connections, and what the separate
  steps of the fencing loop permit.
\<close>

section \<open>Invariants of the runtime behind all connections\<close>

text \<open>
  A property of the runtime that serving one admitted frame keeps, and that invalidating a resource
  keeps, holds in every interleaving.
\<close>

locale frame_invariant =
  fixes ok :: "Frame \<Rightarrow> Impl \<Rightarrow> bool" and I :: "Impl \<Rightarrow> bool"
  assumes serve: "I (co_runtime cs) \<Longrightarrow> ok f (co_runtime cs) \<Longrightarrow>
      I (co_runtime (snd (handleMessage f cs)))"
    and fence: "I st \<Longrightarrow> I (snd (invalidateResource n st))"
begin

lemma serve_frame_keeps:
  assumes "I (co_runtime cs)" "ok f (co_runtime cs)" "serve_frame f w cs = (r, w', cs')"
  shows "I (co_runtime cs')"
  using serve [OF assms(1,2)] assms
  by (auto simp: serve_frame_def Let_def split: sum.splits prod.splits failure.splits)

lemma thread_keeps:
  assumes "I (co_runtime cs)" "admits ok t cs"
  shows "case thread_step t cs of Continues _ cs' \<Rightarrow> I (co_runtime cs') | Dies cs' \<Rightarrow> I (co_runtime cs')"
  using assms
  by (cases "(t, cs)" rule: thread_step.cases)
     (auto simp: admits_def fence split: push_result.splits prod.splits sum.splits option.splits
        dest: serve_frame_keeps)

lemma step_keeps:
  assumes "service_step ok sv sv'" "I (co_runtime (sv_coord sv))"
  shows "I (co_runtime (sv_coord sv'))"
  using assms(1)
proof cases
  case (step_thread k)
  with thread_keeps [OF assms(2) step_thread(4)] show ?thesis
    by (simp add: run_thread_def split: thread_result.splits)
qed (use assms(2) in \<open>simp_all add: main_test_def main_accept_def main_clear_def Let_def\<close>)

lemma run_keeps:
  assumes "service_run ok config sv" "I (mk_Impl config)"
  shows "I (co_runtime (sv_coord sv))"
  using assms by induction (auto simp: service_start_def step_keeps)

end

interpretation any_service: frame_invariant "\<lambda>_ _. True" "runtime_run config" for config
  by unfold_locales (auto intro: handleMessage_run run_step any_invalidate)


lemma demo_connection:
  "service_run ok demo_config (main_accept s (main_test (service_start demo_config)))"
proof -
  have "service_run ok demo_config (main_test (service_start demo_config))"
    by (rule service_moves [OF service_begins step_test]) (simp add: service_start_def)
  then show ?thesis
    by (rule service_moves [OF _ step_accept]) (simp add: main_test_def service_start_def)
qed


section \<open>Traffic that keeps the registry sound\<close>

text \<open>
  The operations that break the agreement of the index and the registry and that a client can reach
  over the wire are the replacement of a published resource and a partial hard request; the
  identity of the next reservation must not have wrapped.
\<close>

definition tame_frame :: "Frame \<Rightarrow> Impl \<Rightarrow> bool" where
  "tame_frame f st \<longleftrightarrow>
     (frame_type f = Msg_PublishResource \<longrightarrow>
        (\<forall>pub rest. desPublication (frame_payload f) = Inr (pub, rest) \<longrightarrow>
           map_of (st_resources st) (pub_id pub) = None)) \<and>
     (frame_type f = Msg_RequestReservation \<longrightarrow>
        st_nextReservationId st \<noteq> - 1 \<and>
        (\<forall>req rest. desReq (frame_payload f) = Inr (req, rest) \<longrightarrow>
           req_strength req = Hard \<longrightarrow> \<not> req_partialAllowed req))"

lemma reach_operation:
  "reachable config st \<Longrightarrow> safe_step st (snd res) \<Longrightarrow> res = (r, st') \<Longrightarrow> reachable config st'"
  by (auto intro: reach_step)

lemma answer_query_reachable:
  assumes "reachable config st" "answer_query kind rest st = (r, st')"
  shows "reachable config st'"
  using reach_operation [OF assms(1) step_accounting] assms
  by (auto simp: answer_query_def split: sum.splits prod.splits if_splits)

lemma with_payload_reachable:
  assumes "reachable config (co_runtime cs)"
    and "\<And>a rest. m p = Inr (a, rest) \<Longrightarrow> reachable config (co_runtime (snd (k a)))"
  shows "reachable config (co_runtime (snd (with_payload m p cs k)))"
  using assms by (auto simp: with_payload_def split: sum.splits)

lemma handleMessage_reachable:
  assumes "reachable config (co_runtime cs)" "tame_frame f (co_runtime cs)"
  shows "reachable config (co_runtime (snd (handleMessage f cs)))"
proof -
  note op = reach_operation [OF assms(1)]
  have publish: "publishResource pub (co_runtime cs) = (r, st') \<Longrightarrow> reachable config st'"
    if "frame_type f = Msg_PublishResource" "desPublication (frame_payload f) = Inr (pub, rest)"
    for pub rest r st'
    using assms(2) that by (intro op [OF step_publish]) (auto simp: tame_frame_def)
  have commit: "rf_commit req None (co_runtime cs) = (r, st') \<Longrightarrow> reachable config st'"
    if "frame_type f = Msg_RequestReservation" "desReq (frame_payload f) = Inr (req, rest)"
    for req rest r st'
    using assms(2) that by (intro op [OF step_commit]) (auto simp: tame_frame_def)
  show ?thesis
    using assms(1) publish commit
    by (auto simp: handleMessage_def Let_def split: MessageType.split prod.splits sum.splits
        intro!: with_payload_reachable
        dest: answer_query_reachable [OF assms(1)] op [OF step_assess] op [OF step_activate]
          op [OF step_consume] op [OF step_release] op [OF step_revalidate])
qed

interpretation tame_service: frame_invariant tame_frame "reachable config" for config
  by unfold_locales (auto intro: handleMessage_reachable reach_step step_invalidate)

text \<open>Claim C2: The coordinator never overbooks a resource, in any interleaving of its connections: as long
  as no client replaces a published resource or asks for a partial hard reservation, the hard
  reservations that contribute and the applied holds never exceed the capacity at any instant.\<close>

theorem interleaved_service_never_overbooks:
  assumes "service_run tame_frame config sv" "0 < dur_ns (st_horizon (mk_Impl config))"
    and "env_point (st_envelopes (co_runtime (sv_coord sv))) i t = Some p"
  shows "asum (hard_of i t) (st_reservations (co_runtime (sv_coord sv))) +
    asum (held_of i t) (st_holds (co_runtime (sv_coord sv))) \<le> pt_cap p"
proof -
  have "reachable config (co_runtime (sv_coord sv))"
    using assms(1) by (rule tame_service.run_keeps) (rule reach_init [OF assms(2)])
  then have "runtime_inv (co_runtime (sv_coord sv))" "hard_safe (co_runtime (sv_coord sv))"
    by (auto dest: reachable_inv)
  then show ?thesis
    using assms(3) by (auto simp: runtime_inv_def mirror_inv_def mirrors_def hard_safe_def)
qed

lemma publish_stream:
  assumes "encodeFrame Msg_PublishResource (serPublication pub) = Inr frame"
  shows "recvFrame [frame] = (Decoded \<lparr>frame_type = Msg_PublishResource, frame_payload = serPublication pub\<rparr>,
    snd (recvFrame [frame]))"
proof -
  have "frame \<noteq> []" using assms by (auto simp: encodeFrame_bytes frame_bytes_def w_u32_def split: if_splits)
  moreover have "fst (decode_buffer (frame @ [])) =
      Decoded \<lparr>frame_type = Msg_PublishResource, frame_payload = serPublication pub\<rparr>"
    using decode_encoded [OF _ assms, of "[]"] by (simp add: canonical_types)
  ultimately have "fst (recvFrame [frame]) =
      Decoded \<lparr>frame_type = Msg_PublishResource, frame_payload = serPublication pub\<rparr>"
    using receive_agree [of "[frame]", OF _ prod.collapse [symmetric]] by simp
  then show ?thesis by (simp add: prod_eq_iff)
qed

lemma demo_pub_frame: "\<exists>frame. encodeFrame Msg_PublishResource (serPublication demo_pub) = Inr frame"
  by (simp add: encodeFrame_bytes serPublication_def demo_pub_def w_enu_def w_u8_def w_instant_def
    w_duration_def ser_windows_def w_each_def w_count_def w_u32_def ser_ratio_def Ratio_one_def)

theorem interleaved_service_never_overbooks_witness:
  "\<exists>frame p. encodeFrame Msg_PublishResource (serPublication demo_pub) = Inr frame \<and>
     env_point (st_envelopes (co_runtime (sv_coord (run_thread 0 (main_accept [frame]
       (main_test (service_start demo_config))))))) (StrongId 7) 150 = Some p \<and> pt_cap p = 100 \<and>
     asum (hard_of (StrongId 7) 150) (st_reservations (co_runtime (sv_coord (run_thread 0
       (main_accept [frame] (main_test (service_start demo_config))))))) \<le> 100"
proof -
  obtain frame where frame: "encodeFrame Msg_PublishResource (serPublication demo_pub) = Inr frame"
    using demo_pub_frame by blast
  let ?f = "\<lparr>frame_type = Msg_PublishResource, frame_payload = serPublication demo_pub\<rparr>"
  define sv where "sv = main_accept [frame] (main_test (service_start demo_config))"
  have th: "sv_threads sv ! 0 = Serving [frame] (StrongId 0)" "0 < length (sv_threads sv)"
    "sv_main sv \<noteq> Crashed" "sv_coord sv = \<lparr>co_runtime = mk_Impl demo_config, co_shutdown = False\<rparr>"
    by (simp_all add: sv_def main_accept_def main_test_def service_start_def kMaxThreads_def)
  obtain s' where recv: "recvFrame [frame] = (Decoded ?f, s')" using publish_stream [OF frame] by blast
  have "tame_frame ?f (mk_Impl demo_config)" by (simp add: tame_frame_def mk_Impl_def)
  then have "admits tame_frame (sv_threads sv ! 0) (sv_coord sv)" by (simp add: admits_def th recv)
  then have run: "service_run tame_frame demo_config (run_thread 0 sv)"
    using service_moves [OF demo_connection step_thread] th(2,3) by (simp add: sv_def)
  obtain out w cs' where serve: "serve_frame ?f (StrongId 0) (sv_coord sv) = (out, w, cs')" by (rule prod_cases3)
  have pubs: "publishResource demo_pub (mk_Impl demo_config) = (Inr (Accepted, None), demo0)"
    by (simp add: demo_defs eval_domain eval_index eval_runtime Let_def cong: let_weak_cong)
  obtain p where p: "encodeFrame Msg_PublishResult (w_enu ResourceRegisterResult_byte Accepted @ w_str []) = Inr p"
    by (simp add: encodeFrame_bytes w_enu_def w_u8_def)
  have "serve_frame ?f (StrongId 0) (sv_coord sv) =
      (Inr p, StrongId 0, (sv_coord sv)\<lparr>co_runtime := demo0\<rparr>)"
    by (rule serve_plain) (simp_all add: handle_publish [OF demo_messages(2)] th(4) pubs p)
  then have rt: "co_runtime (sv_coord (run_thread 0 sv)) = demo0"
    using recv by (simp add: run_thread_def th(1))
  have point: "\<exists>p. env_point (st_envelopes demo0) (StrongId 7) 150 = Some p \<and> pt_cap p = 100"
    by (simp add: demo0_def demo_config_def demo_pub_def eval_domain eval_index eval_runtime Let_def
      env_point_def env_profile_def agg_profile_def profile_def covers_def cell_point_def cong: let_weak_cong)
  then obtain p where "env_point (st_envelopes (co_runtime (sv_coord (run_thread 0 sv)))) (StrongId 7) 150 = Some p"
    "pt_cap p = 100" by (auto simp: rt)
  moreover have "0 < dur_ns (st_horizon (mk_Impl demo_config))"
    by (simp add: mk_Impl_def demo_config_def RuntimeConfig_default_def dur_isZero_def)
  ultimately have "asum (hard_of (StrongId 7) 150) (st_reservations (co_runtime (sv_coord (run_thread 0 sv)))) +
      asum (held_of (StrongId 7) 150) (st_holds (co_runtime (sv_coord (run_thread 0 sv)))) \<le> 100"
    using interleaved_service_never_overbooks [OF run] by metis
  moreover have "st_holds demo0 = []"
    by (simp add: demo0_def demo_config_def demo_pub_def eval_domain eval_index eval_runtime Let_def
      cong: let_weak_cong)
  ultimately have "\<exists>p. env_point (st_envelopes (co_runtime (sv_coord (run_thread 0 sv)))) (StrongId 7) 150 = Some p \<and>
      pt_cap p = 100 \<and>
      asum (hard_of (StrongId 7) 150) (st_reservations (co_runtime (sv_coord (run_thread 0 sv)))) \<le> 100"
    using point by (auto simp: rt)
  with frame show ?thesis unfolding sv_def by blast
qed

section \<open>The bound on the connections\<close>

definition bounded :: "Service \<Rightarrow> bool" where
  "bounded sv \<longleftrightarrow> length (sv_threads sv) \<le> kMaxThreads + 1 \<and>
     (length (sv_threads sv) = kMaxThreads + 1 \<longrightarrow> sv_main sv = Joining \<or> sv_main sv = Crashed)"

lemma bounded_step: "service_step ok sv sv' \<Longrightarrow> bounded sv \<Longrightarrow> bounded sv'"
proof (induction rule: service_step.induct)
  case (step_thread sv k)
  then show ?case using run_thread_main [of k sv] by (auto simp: bounded_def)
qed (auto simp: bounded_def main_test_def main_accept_def main_clear_def Let_def kMaxThreads_def)

lemma bounded_run: "service_run ok config sv \<Longrightarrow> bounded sv"
proof (induction rule: service_run.induct)
  case service_begins
  show ?case by (simp add: service_start_def bounded_def kMaxThreads_def)
qed (rule bounded_step)

text \<open>Claim C20: At most 17 threads exist at any time. After the 17th connection the coordinator accepts no
  further one until every one of the 17 has ended: while one of them is open, every step leaves the
  list of connections as long as it is and the main thread where it is, unless the process dies.\<close>

theorem connections_are_bounded:
  assumes "service_run ok config sv"
  shows "length (sv_threads sv) \<le> 17 \<and>
    (length (sv_threads sv) = 17 \<longrightarrow> \<not> all_closed sv \<longrightarrow> service_step ok sv sv' \<longrightarrow>
       length (sv_threads sv') = 17 \<and> (sv_main sv' = Joining \<or> sv_main sv' = Crashed))"
proof -
  have b: "bounded sv" using assms by (rule bounded_run)
  moreover have "length (sv_threads sv') = 17 \<and> (sv_main sv' = Joining \<or> sv_main sv' = Crashed)"
    if "length (sv_threads sv) = 17" "\<not> all_closed sv" "service_step ok sv sv'"
    using that(3)
  proof cases
    case (step_thread k)
    then show ?thesis
      using b that(1) run_thread_main [of k sv] by (auto simp: bounded_def kMaxThreads_def)
  qed (use b that in \<open>auto simp: bounded_def kMaxThreads_def\<close>)
  ultimately show ?thesis by (auto simp: bounded_def kMaxThreads_def)
qed

text \<open>Seventeen clients that connect and send nothing.\<close>

definition house :: "nat \<Rightarrow> Service" where
  "house n = ((main_accept [] \<circ> main_test) ^^ n) (service_start demo_config)"

lemma house_run:
  "n \<le> 17 \<Longrightarrow> service_run ok demo_config (house n) \<and> sv_coord (house n) = sv_coord (house 0) \<and>
     length (sv_threads (house n)) = n \<and>
     (\<forall>k < n. sv_threads (house n) ! k = Serving [] (StrongId 0)) \<and>
     sv_main (house n) = (if n = 17 then Joining else Loop_head)"
proof (induction n)
  case 0
  show ?case by (simp add: house_def service_start_def service_begins [unfolded service_start_def])
next
  case (Suc n)
  let ?sv = "house n"
  have ih: "service_run ok demo_config ?sv" "sv_coord ?sv = sv_coord (house 0)" "length (sv_threads ?sv) = n"
    "\<forall>k < n. sv_threads ?sv ! k = Serving [] (StrongId 0)" "sv_main ?sv = Loop_head"
    using Suc by auto
  have step: "house (Suc n) = main_accept [] (main_test ?sv)" by (simp add: house_def)
  have "\<not> co_shutdown (sv_coord ?sv)" by (simp add: ih(2)) (simp add: house_def service_start_def)
  then have main: "sv_main (main_test ?sv) = Accepting" by (simp add: main_test_def)
  have "service_run ok demo_config (main_test ?sv)" using ih(1,5) by (auto intro: service_moves step_test)
  then have "service_run ok demo_config (house (Suc n))"
    unfolding step using main by (auto intro: service_moves step_accept)
  then show ?case
    using ih Suc.prems by (auto simp: step main_accept_def main_test_def Let_def kMaxThreads_def nth_append)
qed

theorem connections_are_bounded_witness:
  "length (sv_threads (house 17)) = 17 \<and> length (sv_threads (run_thread 0 (house 17))) = 17 \<and>
   (sv_main (run_thread 0 (house 17)) = Joining \<or> sv_main (run_thread 0 (house 17)) = Crashed)"
proof -
  have h: "service_run (\<lambda>_ _. True) demo_config (house 17)" "length (sv_threads (house 17)) = 17"
    "sv_threads (house 17) ! 0 = Serving [] (StrongId 0)" "sv_main (house 17) = Joining"
    using house_run [of 17 "\<lambda>_ _. True"] by auto
  have "service_step (\<lambda>_ _. True) (house 17) (run_thread 0 (house 17))"
    by (rule step_thread) (simp_all add: h admits_def split: push_result.split prod.split)
  moreover have "\<not> all_closed (house 17)"
    using h(2,3) by (auto simp: all_closed_def list_all_length intro!: exI [of _ 0])
  ultimately show ?thesis using connections_are_bounded [OF h(1), of "run_thread 0 (house 17)"] h(2) by simp
qed

section \<open>One connection on its own\<close>

abbreviation moves :: "Service \<Rightarrow> Service \<Rightarrow> bool" where
  "moves \<equiv> (service_step (\<lambda>_ _. True))\<^sup>*\<^sup>*"

text \<open>A service in which thread \<open>k\<close> has come to \<open>t\<close> and the coordinator to \<open>cs\<close>.\<close>

definition at_thread :: "nat \<Rightarrow> thread \<Rightarrow> CoordinatorState \<Rightarrow> Service \<Rightarrow> Service" where
  "at_thread k t cs sv = sv\<lparr>sv_coord := cs, sv_threads := (sv_threads sv)[k := t]\<rparr>"

lemma at_thread_sel [simp]:
  "sv_coord (at_thread k t cs sv) = cs" "sv_main (at_thread k t cs sv) = sv_main sv"
  "sv_threads (at_thread k t cs sv) = (sv_threads sv)[k := t]"
  by (simp_all add: at_thread_def)

lemma at_thread_again [simp]: "at_thread k t cs (at_thread k t' cs' sv) = at_thread k t cs sv"
  by (simp add: at_thread_def)

lemma at_thread_id: "k < length (sv_threads sv) \<Longrightarrow> at_thread k (sv_threads sv ! k) (sv_coord sv) sv = sv"
  by (simp add: at_thread_def)

definition live_thread :: "nat \<Rightarrow> Service \<Rightarrow> bool" where
  "live_thread k sv \<longleftrightarrow> sv_main sv \<noteq> Crashed \<and> k < length (sv_threads sv)"

lemma live_thread_at [simp]: "live_thread k (at_thread j t cs sv) \<longleftrightarrow> live_thread k sv"
  by (simp add: live_thread_def)

lemma thread_moves:
  assumes "live_thread k sv" "thread_step t cs = Continues t' cs'"
  shows "service_step (\<lambda>_ _. True) (at_thread k t cs sv) (at_thread k t' cs' sv)"
proof -
  have "sv_main (at_thread k t cs sv) \<noteq> Crashed" "k < length (sv_threads (at_thread k t cs sv))"
    using assms(1) by (simp_all add: live_thread_def)
  moreover have "admits (\<lambda>_ _. True) (sv_threads (at_thread k t cs sv) ! k) (sv_coord (at_thread k t cs sv))"
    by (auto simp: admits_def split: thread.split push_result.split prod.split)
  moreover have "run_thread k (at_thread k t cs sv) = at_thread k t' cs' sv"
    using assms by (simp add: run_thread_def live_thread_def at_thread_def)
  ultimately show ?thesis by (metis step_thread)
qed

lemma fencing_moves:
  assumes "live_thread k sv"
  shows "moves (at_thread k (Fencing w js) cs sv)
    (at_thread k Closed (cs\<lparr>co_runtime := fold (fence_resource w) js (co_runtime cs)\<rparr>) sv)"
proof (induction js arbitrary: cs)
  case Nil
  show ?case using thread_moves [OF assms, of "Fencing w []" cs] by simp
next
  case (Cons i js)
  let ?cs = "cs\<lparr>co_runtime := fence_resource w i (co_runtime cs)\<rparr>"
  have "moves (at_thread k (Fencing w (i # js)) cs sv) (at_thread k (Fencing w js) ?cs sv)"
  proof (cases "rf_resource i (co_runtime cs)")
    case None
    then have "thread_step (Fencing w (i # js)) cs = Continues (Fencing w js) ?cs"
      by (simp add: fence_resource_def)
    from thread_moves [OF assms this] show ?thesis by blast
  next
    case (Some res)
    show ?thesis
    proof (cases "res_owner res = w")
      case True
      have "thread_step (Fencing w (i # js)) cs = Continues (Notifying w i js) cs" using Some True by simp
      moreover have "thread_step (Notifying w i js) cs = Continues (Fencing w js) ?cs"
        using Some True by (simp add: fence_resource_def)
      ultimately show ?thesis using thread_moves [OF assms] by (meson converse_rtranclp_into_rtranclp rtranclp.rtrancl_refl)
    next
      case False
      then have "thread_step (Fencing w (i # js)) cs = Continues (Fencing w js) ?cs"
        using Some by (simp add: fence_resource_def)
      from thread_moves [OF assms this] show ?thesis by blast
    qed
  qed
  with Cons.IH [of ?cs] show ?case by (simp add: rtranclp_trans)
qed

lemma lost_moves:
  assumes "live_thread k sv" "recvFrame s = (r, s')" "\<And>f. r \<noteq> Decoded f"
  shows "moves (at_thread k (Serving s w) cs sv)
    (at_thread k Closed (cs\<lparr>co_runtime := fence_worker w (co_runtime cs)\<rparr>) sv)"
proof (cases "id_valid w")
  case True
  then have "thread_step (Serving s w) cs = Continues (Fencing w (resourceIds (co_runtime cs))) cs"
    using assms(2,3) by (cases r) auto
  from thread_moves [OF assms(1) this] fencing_moves [OF assms(1)] True show ?thesis
    by (simp add: fence_worker_def converse_rtranclp_into_rtranclp)
next
  case False
  then have "thread_step (Serving s w) cs = Continues Closed cs"
    using assms(2,3) by (cases r) auto
  from thread_moves [OF assms(1) this] False show ?thesis by (simp add: fence_worker_def)
qed

lemma connection_moves:
  "live_thread k sv \<Longrightarrow> serveConnection s w cs = (Inr replies, cs') \<Longrightarrow>
   moves (at_thread k (Serving s w) cs sv) (at_thread k Closed cs' sv)"
proof (induction s w cs arbitrary: replies cs' rule: serveConnection.induct)
  case (1 s w cs)
  obtain r s' where r: "recvFrame s = (r, s')" by fastforce
  show ?case
  proof (cases r)
    case (Decoded f)
    obtain out w' cs1 where sv: "serve_frame f w cs = (out, w', cs1)" by (rule prod_cases3)
    with 1(3) r Decoded obtain reply rs where out: "out = Inr reply"
      and rec: "serveConnection s' w' cs1 = (Inr rs, cs')"
      by (auto simp: serveConnection.simps [of s] bind_outcome_Inr_iff split: sum.splits prod.splits)
    have "thread_step (Serving s w) cs = Continues (Serving s' w') cs1"
      using r Decoded sv out by simp
    from thread_moves [OF 1(2) this] 1(1) [OF r [symmetric] Decoded sv [symmetric] out refl 1(2) rec]
    show ?thesis by (rule converse_rtranclp_into_rtranclp)
  qed (use 1(3) r lost_moves [OF 1(2) r, of w cs] in \<open>simp_all add: serveConnection.simps [of s]\<close>)
qed



section \<open>What the separate steps of the fencing permit\<close>

lemma accepted_publication_is_filed:
  "publishResource pub st = (Inr (AcceptedReplaced, None), st') \<Longrightarrow>
   map_of (st_resources st') (pub_id pub) = Some (resource_of pub)"
  by (auto simp: publishResource_def Let_def split: if_splits option.splits sum.splits prod.splits)

text \<open>Claim C39: The fencing of a lost worker is not atomic. When its thread has looked at a resource of the
  worker and another connection publishes that resource for a different worker before the thread
  goes on, the resource of the other worker is withdrawn, although its worker is connected.\<close>

theorem fence_withdraws_anothers_resource:
  assumes "sv_main sv \<noteq> Crashed" "k < length (sv_threads sv)" "m < length (sv_threads sv)" "k \<noteq> m"
    and "sv_threads sv ! k = Fencing w (i # js)" "sv_threads sv ! m = Serving s v"
    and "map_of (st_resources (co_runtime (sv_coord sv))) i = Some res" "res_owner res = w"
    and "recvFrame s = (Decoded \<lparr>frame_type = Msg_PublishResource, frame_payload = serPublication pub\<rparr>, s')"
    and "publication_sendable pub" "pub_id pub = i" "pub_worker pub \<noteq> w"
    and "publishResource pub (co_runtime (sv_coord sv)) = (Inr (AcceptedReplaced, None), st')"
  shows "\<exists>sv' res'. moves sv sv' \<and> sv_threads sv' ! m = Serving s' v \<and>
    map_of (st_resources (co_runtime (sv_coord sv'))) i = Some res' \<and>
    res_owner res' = pub_worker pub \<and> \<not> res_available res'"
proof -
  let ?cs = "sv_coord sv" and ?cs' = "sv_coord sv\<lparr>co_runtime := st'\<rparr>"
  let ?f = "\<lparr>frame_type = Msg_PublishResource, frame_payload = serPublication pub\<rparr>"
  define sv1 where "sv1 = at_thread k (Notifying w i js) ?cs sv"
  define sv2 where "sv2 = at_thread m (Serving s' v) ?cs' sv1"
  define sv3 where "sv3 = at_thread k (Fencing w js)
    (?cs'\<lparr>co_runtime := snd (invalidateResource (fence_notice i) st')\<rparr>) sv2"
  have live: "live_thread k sv" "live_thread m sv1" "live_thread k sv2"
    using assms(1-4) by (simp_all add: live_thread_def sv1_def sv2_def)
  have "thread_step (Fencing w (i # js)) ?cs = Continues (Notifying w i js) ?cs"
    using assms(7,8) by (simp add: rf_resource_def findResourceLocked_def)
  from thread_moves [OF live(1) this] at_thread_id [OF assms(2)]
  have 1: "service_step (\<lambda>_ _. True) sv sv1" by (simp add: assms(5) sv1_def)
  obtain p where "encodeFrame Msg_PublishResult (w_enu ResourceRegisterResult_byte AcceptedReplaced @ w_str []) = Inr p"
    by (simp add: encodeFrame_bytes w_enu_def w_u8_def)
  then have "serve_frame ?f v ?cs = (Inr p, v, ?cs')"
    by (intro serve_plain) (simp_all add: handle_publish [OF assms(10)] assms(13))
  then have "thread_step (Serving s v) ?cs = Continues (Serving s' v) ?cs'" using assms(9) by simp
  from thread_moves [OF live(2) this] at_thread_id [of m sv1] assms(3,4,6)
  have 2: "service_step (\<lambda>_ _. True) sv1 sv2" by (simp add: sv1_def sv2_def)
  have "thread_step (Notifying w i js) ?cs' = Continues (Fencing w js) (sv_coord sv3)" by (simp add: sv3_def)
  from thread_moves [OF live(3) this] at_thread_id [of k sv2] assms(2,4)
  have 3: "service_step (\<lambda>_ _. True) sv2 sv3" by (simp add: sv1_def sv2_def sv3_def)
  have "moves sv sv3" using 1 2 3 by (meson converse_rtranclp_into_rtranclp rtranclp.rtrancl_refl)
  moreover have "sv_threads sv3 ! m = Serving s' v" using assms(3,4) by (simp add: sv1_def sv2_def sv3_def)
  moreover have "map_of (st_resources (co_runtime (sv_coord sv3))) i = Some (withdrawn (resource_of pub))"
    using accepted_publication_is_filed [OF assms(13)] assms(11) by (simp add: sv3_def invalidate_fence)
  ultimately show ?thesis by (auto simp: withdrawn_def resource_of_def)
qed

lemma demo_republication:
  "\<exists>st'. publishResource (demo_pub\<lparr>pub_worker := StrongId 4, pub_generation := StrongGeneration 2\<rparr>) demo2 =
     (Inr (AcceptedReplaced, None), st')"
  by (simp add: publishResource_def demo_pub_def eval_domain eval_index Let_def case_prod_beta
    del: fold_simps cong: let_weak_cong)

theorem fence_withdraws_anothers_resource_witness:
  "\<exists>frame sv' res'. encodeFrame Msg_PublishResource (serPublication
       (demo_pub\<lparr>pub_worker := StrongId 4, pub_generation := StrongGeneration 2\<rparr>)) = Inr frame \<and>
     moves \<lparr>sv_coord = \<lparr>co_runtime = demo2, co_shutdown = False\<rparr>,
         sv_threads = [Fencing (StrongId 3) [StrongId 7], Serving [frame] (StrongId 4)],
         sv_main = Accepting\<rparr> sv' \<and>
     map_of (st_resources (co_runtime (sv_coord sv'))) (StrongId 7) = Some res' \<and>
     res_owner res' = StrongId 4 \<and> \<not> res_available res'"
proof -
  let ?pub = "demo_pub\<lparr>pub_worker := StrongId 4, pub_generation := StrongGeneration 2\<rparr>"
  obtain frame where frame: "encodeFrame Msg_PublishResource (serPublication ?pub) = Inr frame"
    by (simp add: encodeFrame_bytes serPublication_def demo_pub_def w_enu_def w_u8_def w_instant_def
      w_duration_def ser_windows_def w_each_def w_count_def w_u32_def ser_ratio_def Ratio_one_def)
  let ?sv = "\<lparr>sv_coord = \<lparr>co_runtime = demo2, co_shutdown = False\<rparr>,
         sv_threads = [Fencing (StrongId 3) [StrongId 7], Serving [frame] (StrongId 4)],
         sv_main = Accepting\<rparr>"
  have send: "publication_sendable ?pub" using demo_messages(2) by (simp add: publication_sendable_def)
  obtain st' where pubs: "publishResource ?pub (co_runtime (sv_coord ?sv)) = (Inr (AcceptedReplaced, None), st')"
    using demo_republication by auto
  obtain res where res: "map_of (st_resources (co_runtime (sv_coord ?sv))) (StrongId 7) = Some res"
    "res_owner res = StrongId 3" by simp
  have "\<exists>sv' res'. moves ?sv sv' \<and> sv_threads sv' ! 1 = Serving (snd (recvFrame [frame])) (StrongId 4) \<and>
      map_of (st_resources (co_runtime (sv_coord sv'))) (StrongId 7) = Some res' \<and>
      res_owner res' = pub_worker ?pub \<and> \<not> res_available res'"
    by (rule fence_withdraws_anothers_resource [OF _ _ _ _ _ _ res publish_stream [OF frame] send _ _ pubs,
          where k = 0 and js = "[]"]) (simp_all add: demo_pub_def)
  with frame show ?thesis by (auto simp: demo_pub_def)
qed

end
