(* ===== verification/RF_Tools.thy ===== *)
theory RF_Tools
  imports RF_Client RF_Example
begin

text \<open>
  The programs that drive the library in one process: the inspection tool
  \<^verbatim>\<open>src/tools/rfcli.cpp\<close>, the examples \<^verbatim>\<open>src/examples/basic.cpp\<close> and
  \<^verbatim>\<open>src/examples/example_scenarios.cpp\<close>, and the downstream consumer
  \<^verbatim>\<open>src/consumer/main.cpp\<close>. A program is what it prints, or what it throws; a default-constructed
  \<^verbatim>\<open>ReservationFabric\<close> is the runtime with the default configuration.
\<close>

section \<open>The inspection tool\<close>

definition tool_lifetime :: "Duration outcome" where
  "tool_lifetime = Duration_seconds (365 * 24 * 3600)"

definition publish100 :: "ResourceId \<Rightarrow> unit operation" where
  "publish100 i rf =
     (case bind_outcome (Quantity_count 100) (\<lambda>c. bind_outcome tool_lifetime (\<lambda>l.
             Inr (ResourcePublication_default\<lparr>
               pub_worker := StrongId 1, pub_workerBoot := StrongGeneration 1, pub_id := i,
               pub_generation := StrongGeneration 1, pub_class := AcceleratorCompute,
               pub_unit := Unit_Count, pub_totalCapacity := c, pub_availableFrom := Instant 0,
               pub_lifetime := l\<rparr>))) of
        Inl e \<Rightarrow> (Inl e, rf)
      | Inr pub \<Rightarrow>
          (case publishResource pub rf of
             (Inl e, rf') \<Rightarrow> (Inl e, rf')
           | (Inr _, rf') \<Rightarrow> (Inr (), rf')))"

definition rfcli_request :: "ReservationRequest outcome" where
  "rfcli_request =
     bind_outcome (Duration_seconds 100) (\<lambda>d.
     bind_outcome (mk_Interval_length (Instant 100) d) (\<lambda>w.
     bind_outcome (Quantity_count 60) (\<lambda>q.
       Inr (ReservationRequest_default\<lparr>
         req_requestId := StrongId 1, req_requestGeneration := StrongGeneration 1,
         req_class := AcceleratorCompute, req_unit := Unit_Count, req_quantity := q,
         req_window := w, req_activationMode := FixedInterval, req_strength := Hard,
         req_owner := StrongId 1, req_ownerGeneration := StrongGeneration 1,
         req_policyGeneration := StrongGeneration 1, req_priorityGeneration := StrongGeneration 1,
         req_targetResource := Some (StrongId 1)\<rparr>))))"

definition bool_digit :: "bool \<Rightarrow> string" where
  "bool_digit b = (if b then ''1'' else ''0'')"

text \<open>Activation, consumption and accounting of the reservation that was committed.\<close>

definition rfcli_use :: "ReservationResult \<Rightarrow> Impl \<Rightarrow> string outcome" where
  "rfcli_use rc rf =
     (case rf_activate (rr_id rc) (rr_generation rc)
             \<lparr>ae_worker = StrongId 1, ae_workerBoot = StrongGeneration 1,
              ae_activationGeneration = StrongGeneration 1, ae_at = Instant 150, ae_token = 0\<rparr> rf of
        (active, rf1) \<Rightarrow>
          bind_outcome (Quantity_count 25) (\<lambda>amount.
            case rf_consume (rr_id rc) (rr_generation rc) amount
                   \<lparr>ce_worker = StrongId 1, ce_workerBoot = StrongGeneration 1,
                    ce_consumptionGeneration = StrongGeneration 1, ce_at = Instant 200\<rparr> rf1 of
              (consumed, rf2) \<Rightarrow>
                (case rf_accounting (StrongId 1) rf2 of
                   (Inl e, _) \<Rightarrow> Inl e
                 | (Inr acc, rf3) \<Rightarrow>
                     Inr (''reservation '' @ u64_to_string (id_value (rr_id rc)) @
                          '' gen '' @ u64_to_string (gen_value (rr_generation rc)) @
                          '' active='' @ bool_digit (ar_activated active) @
                          '' consumed='' @ bool_digit (cs_consumed consumed) @
                          '' committed='' @ int_to_string (q_value (ca_committed acc)) @
                          '' headroom='' @ int_to_string (q_value (ca_headroom acc)) @ newline @
                          dumpInventory rf3))))"

definition rfcli_main :: "string \<Rightarrow> string outcome" where
  "rfcli_main cmd =
     (let rf = mk_Impl RuntimeConfig_default
      in if cmd = ''inventory'' then Inr (dumpInventory rf)
         else
           case publish100 (StrongId 1) rf of
             (Inl e, _) \<Rightarrow> Inl e
           | (Inr _, rf1) \<Rightarrow>
               bind_outcome rfcli_request (\<lambda>req.
                 case rf_commit req None rf1 of
                   (Inl e, _) \<Rightarrow> Inl e
                 | (Inr rc, rf2) \<Rightarrow>
                     if rr_committed rc then rfcli_use rc rf2
                     else Inr (''commit rejected: '' @ rr_errorMessage rc @ newline @
                               dumpInventory rf2)))"

section \<open>The downstream consumer\<close>

text \<open>The exit code: 1 after a failed check, 0 at the end.\<close>

definition consumer_main :: "int outcome" where
  "consumer_main =
     (case bind_outcome (Quantity_count 100) (\<lambda>c. bind_outcome tool_lifetime (\<lambda>l.
             Inr (ResourcePublication_default\<lparr>
               pub_worker := StrongId 1, pub_workerBoot := StrongGeneration 1,
               pub_id := StrongId 1, pub_generation := StrongGeneration 1,
               pub_class := AcceleratorCompute, pub_unit := Unit_Count,
               pub_totalCapacity := c, pub_availableFrom := Instant 0, pub_lifetime := l\<rparr>))) of
        Inl e \<Rightarrow> Inl e
      | Inr pub \<Rightarrow>
          (case publishResource pub (mk_Impl RuntimeConfig_default) of
             (Inl e, _) \<Rightarrow> Inl e
           | (Inr (res, _), rf1) \<Rightarrow>
               if res \<noteq> Accepted then Inr 1
               else bind_outcome rfcli_request (\<lambda>req.
                 case rf_commit req None rf1 of
                   (Inl e, _) \<Rightarrow> Inl e
                 | (Inr rc, rf2) \<Rightarrow>
                     if \<not> rr_committed rc then Inr 1
                     else
                       (case rf_activate (rr_id rc) (rr_generation rc)
                               \<lparr>ae_worker = StrongId 1, ae_workerBoot = StrongGeneration 1,
                                ae_activationGeneration = StrongGeneration 1, ae_at = Instant 150,
                                ae_token = 0\<rparr> rf2 of
                          (active, rf3) \<Rightarrow>
                            if \<not> ar_activated active then Inr 1
                            else
                              (case rf_accounting (StrongId 1) rf3 of
                                 (Inl e, _) \<Rightarrow> Inl e
                               | (Inr acc, _) \<Rightarrow>
                                   if q_value (ca_committed acc) \<noteq> 60 \<or>
                                      q_value (ca_headroom acc) \<noteq> 40
                                   then Inr 1 else Inr 0)))))"

section \<open>The examples\<close>

definition basic_main :: "string outcome" where
  "basic_main =
     (case bind_outcome (Quantity_count 100) (\<lambda>c. bind_outcome tool_lifetime (\<lambda>l.
             Inr (ResourcePublication_default\<lparr>
               pub_worker := StrongId 1, pub_workerBoot := StrongGeneration 1,
               pub_id := StrongId 1, pub_generation := StrongGeneration 1,
               pub_class := AcceleratorCompute, pub_unit := Unit_Count,
               pub_totalCapacity := c, pub_availableFrom := Instant 0, pub_lifetime := l\<rparr>))) of
        Inl e \<Rightarrow> Inl e
      | Inr pub \<Rightarrow>
          (case fst (publishResource pub (mk_Impl RuntimeConfig_default)) of
             Inl e \<Rightarrow> Inl e
           | Inr (res, _) \<Rightarrow>
               Inr (''resource register: '' @ ResourceRegisterResult_to_string res @ newline)))"

definition example_publish :: "ResourceId \<Rightarrow> int \<Rightarrow> unit operation" where
  "example_publish i cap rf =
     (case bind_outcome (Quantity_count cap) (\<lambda>c. bind_outcome tool_lifetime (\<lambda>l.
             Inr (ResourcePublication_default\<lparr>
               pub_worker := StrongId 1, pub_workerBoot := StrongGeneration 1, pub_id := i,
               pub_generation := StrongGeneration 1, pub_class := AcceleratorCompute,
               pub_unit := Unit_Count, pub_totalCapacity := c, pub_availableFrom := Instant 0,
               pub_lifetime := l\<rparr>))) of
        Inl e \<Rightarrow> (Inl e, rf)
      | Inr pub \<Rightarrow>
          (case publishResource pub rf of
             (Inl e, rf') \<Rightarrow> (Inl e, rf')
           | (Inr _, rf') \<Rightarrow> (Inr (), rf')))"

text \<open>The quantity is a count whatever the unit of the request.\<close>

definition example_request ::
    "u64 \<Rightarrow> ResourceClass \<Rightarrow> Unit \<Rightarrow> int \<Rightarrow> Interval \<Rightarrow> ReservationRequest outcome" where
  "example_request rid cls u q win =
     bind_outcome (Quantity_count q) (\<lambda>quantity.
       Inr (ReservationRequest_default\<lparr>
         req_requestId := StrongId rid, req_requestGeneration := StrongGeneration 1,
         req_class := cls, req_unit := u, req_quantity := quantity, req_window := win,
         req_activationMode := FixedInterval, req_strength := Hard, req_owner := StrongId 1,
         req_ownerGeneration := StrongGeneration 1, req_policyGeneration := StrongGeneration 1,
         req_priorityGeneration := StrongGeneration 1\<rparr>))"

text \<open>Publications that fail are ignored; a throw ends the program.\<close>

definition example_resources :: "Impl operation" where
  "example_resources rf =
     (case example_publish (StrongId 1) 100 rf of
        (Inl e, rf1) \<Rightarrow> (Inl e, rf1)
      | (Inr _, rf1) \<Rightarrow>
          (case example_publish (StrongId 2) (100 * 1000) rf1 of
             (Inl e, rf2) \<Rightarrow> (Inl e, rf2)
           | (Inr _, rf2) \<Rightarrow>
               (case example_publish (StrongId 3) (100 * 1000) rf2 of
                  (Inl e, rf3) \<Rightarrow> (Inl e, rf3)
                | (Inr _, rf3) \<Rightarrow>
                    (case example_publish (StrongId 4) (1000 * 1000) rf3 of
                       (Inl e, rf4) \<Rightarrow> (Inl e, rf4)
                     | (Inr _, rf4) \<Rightarrow> (Inr rf4, rf4)))))"

definition example_bundle :: "Interval \<Rightarrow> ReservationRequest list outcome" where
  "example_bundle w =
     bind_outcome (example_request 2 AcceleratorCompute Unit_Count 50 w) (\<lambda>r2.
     bind_outcome (example_request 3 AcceleratorMemory Unit_Bytes (10 * 1024 * 1024) w) (\<lambda>r3.
     bind_outcome (example_request 4 PinnedHostMemory Unit_Bytes (1024 * 1024) w) (\<lambda>r4.
     bind_outcome (example_request 5 NetworkBandwidth Unit_BytesPerSecond (5 * 1000 * 1000) w) (\<lambda>r5.
       Inr [r2, r3, r4, r5]))))"

definition example_main :: "(nat \<Rightarrow> Instant) \<Rightarrow> string outcome" where
  "example_main clock =
     (case example_resources (mk_Impl RuntimeConfig_default) of
        (Inl e, _) \<Rightarrow> Inl e
      | (Inr rf, _) \<Rightarrow>
          bind_outcome (Duration_seconds 100) (\<lambda>d.
          bind_outcome (mk_Interval_length (Instant 100) d) (\<lambda>w.
          bind_outcome (example_request 1 AcceleratorCompute Unit_Count 60 w) (\<lambda>r1.
            case rf_commit r1 None rf of
              (Inl e, _) \<Rightarrow> Inl e
            | (Inr a, rf1) \<Rightarrow>
                bind_outcome (example_bundle w) (\<lambda>members.
                  case commitBundle clock members None rf1 of
                    (Inl e, _) \<Rightarrow> Inl e
                  | (Inr cb, _) \<Rightarrow>
                      Inr (''basic example: reservationA committed='' @ bool_digit (rr_committed a) @
                           '', compositeBundle committed='' @ bool_digit (cr_committed cb) @
                           '' members='' @ nat_to_string (length (cr_memberIds cb)) @ newline))))))"

section \<open>What the programs print\<close>

lemma tool_priority [simp]: "det_prio 100000000100 = 2632213493"
  by code_simp

lemma digitI: "of_char c = 48 + d \<Longrightarrow> digit d = c"
  by (metis char_of_char digit_def)

lemma digit_chars [simp]:
  "digit 0 = CHR ''0''" "digit (Suc 0) = CHR ''1''" "digit 2 = CHR ''2''" "digit 3 = CHR ''3''"
  "digit 4 = CHR ''4''" "digit 5 = CHR ''5''" "digit 6 = CHR ''6''" "digit 7 = CHR ''7''"
  "digit 8 = CHR ''8''" "digit 9 = CHR ''9''"
  by (rule digitI, simp)+

lemmas eval_tools = Quantity_count_def tool_lifetime_def ResourcePublication_default_def
  Duration_seconds_def signed_divide_int_def rf_activate_def current_reservation_def
  mk_ActivationResult_def put_reservation_def worker_fresh_def rf_consume_def mk_ConsumeResult_def
  workerEvidenceFreshLocked_def remaining_quantity_def rf_accounting_def account_contribution_def
  Totals_zero_def account_envelope_def fill_accounting_def

lemmas eval_text = u64_to_string_def int_to_string_def nat_to_string.simps bool_digit_def
  dumpInventory_def dump_resource_def dump_reservation_def

text \<open>The self-check of the inspection tool commits, activates and consumes: of 100 units 60 stay
  committed after 25 are consumed, and 40 remain; the inventory lists the one resource and the
  reservation, partly consumed, that still contributes.\<close>

theorem rfcli_selfcheck_output:
  "rfcli_main ''check'' =
     Inr (''reservation 2 gen 1 active=1 consumed=1 committed=60 headroom=40'' @ newline @
          ''epoch=1 authority=1'' @ newline @
          ''resources=1 reservations=1 holds=0 sets=0'' @ newline @
          ''  resource 1 gen=1 class=AcceleratorCompute capacity=100 worker=1 boot=1 available=1'' @ newline @
          ''  reservation 2 gen=1 lifecycle=PartiallyConsumed resource=1 qty=60 window=[100,100000000100) owner=1 contributes=1'' @ newline)"
  by (simp add: rfcli_main_def rfcli_use_def publish100_def rfcli_request_def eval_tools eval_domain
      eval_index eval_runtime eval_text Let_def cong: let_weak_cong)

lemma consumer_main_succeeds: "consumer_main = Inr 0"
  by (simp add: consumer_main_def rfcli_request_def eval_tools eval_domain eval_index eval_runtime
      Let_def cong: let_weak_cong)

lemma basic_main_output: "basic_main = Inr (''resource register: Accepted'' @ newline)"
  by (simp add: basic_main_def eval_tools eval_domain eval_index eval_runtime Let_def
      cong: let_weak_cong)

lemma example_main_output:
  "example_main clock =
     Inr (''basic example: reservationA committed=1, compositeBundle committed=0 members=0'' @ newline)"
  by (simp add: example_main_def example_resources_def example_publish_def example_bundle_def
      example_request_def commitBundle_def CompositeResult_default_def eval_tools eval_domain eval_index
      eval_runtime eval_text Let_def cong: let_weak_cong)

end
