(* ===== verification/RF_Script.thy ===== *)
theory RF_Script
  imports RF_Prelude
begin

text \<open>
  Test drivers: \<^verbatim>\<open>src/distributed/mp_scenario.cpp\<close> and \<^verbatim>\<open>src/cuda/rf_cuda_proof.cu\<close> are sequences
  of calls that count failed checks in a global variable. A script takes the count and the state
  of what it calls and returns a result, or what was thrown, with the new count and state.
\<close>

type_synonym ('s, 'a) script = "nat \<Rightarrow> 's \<Rightarrow> 'a outcome \<times> nat \<times> 's"

definition script_return :: "'a \<Rightarrow> ('s, 'a) script" where
  "script_return a failures s = (Inr a, failures, s)"

definition script_bind :: "('s, 'a) script \<Rightarrow> ('a \<Rightarrow> ('s, 'b) script) \<Rightarrow> ('s, 'b) script" where
  "script_bind m k failures s =
     (case m failures s of
        (Inl e, failures', s') \<Rightarrow> (Inl e, failures', s')
      | (Inr a, failures', s') \<Rightarrow> k a failures' s')"

definition script_then :: "('s, 'a) script \<Rightarrow> ('s, 'b) script \<Rightarrow> ('s, 'b) script" where
  "script_then m k = script_bind m (\<lambda>_. k)"

definition script_outcome :: "'a outcome \<Rightarrow> ('s, 'a) script" where
  "script_outcome r failures s = (r, failures, s)"

definition script_state :: "('s \<Rightarrow> 'a \<times> 's) \<Rightarrow> ('s, 'a) script" where
  "script_state f failures s = (case f s of (a, s') \<Rightarrow> (Inr a, failures, s'))"

definition script_call :: "('s \<Rightarrow> 'a outcome \<times> 's) \<Rightarrow> ('s, 'a) script" where
  "script_call f failures s = (case f s of (r, s') \<Rightarrow> (r, failures, s'))"

text \<open>The two \<^verbatim>\<open>CHECK\<close> macros differ only in what they print.\<close>

definition CHECK :: "bool \<Rightarrow> ('s, unit) script" where
  "CHECK cond failures s = (Inr (), (if cond then failures else Suc failures), s)"

fun script_each :: "('a \<Rightarrow> ('s, unit) script) \<Rightarrow> 'a list \<Rightarrow> ('s, unit) script" where
  "script_each f [] = script_return ()"
| "script_each f (x # xs) = script_then (f x) (script_each f xs)"

named_theorems script_simps \<open>one step of a script\<close>

lemma script_runs [script_simps]:
  "script_return a n s = (Inr a, n, s)"
  "script_outcome r n s = (r, n, s)"
  "CHECK cond n s = (Inr (), (if cond then n else Suc n), s)"
  by (simp_all add: script_return_def script_outcome_def CHECK_def)

lemma script_bind_run [script_simps]:
  "m n s = (Inr a, n', s') \<Longrightarrow> script_bind m k n s = k a n' s'"
  "m n s = (Inl e, n', s') \<Longrightarrow> script_bind m k n s = (Inl e, n', s')"
  by (simp_all add: script_bind_def)

lemma script_then_run [script_simps]:
  "m n s = (Inr a, n', s') \<Longrightarrow> script_then m k n s = k n' s'"
  "m n s = (Inl e, n', s') \<Longrightarrow> script_then m k n s = (Inl e, n', s')"
  by (simp_all add: script_then_def script_bind_def)

lemma script_state_run [script_simps]:
  "f s = (a, s') \<Longrightarrow> script_state f n s = (Inr a, n, s')"
  by (simp add: script_state_def)

lemma script_call_run [script_simps]:
  "f s = (r, s') \<Longrightarrow> script_call f n s = (r, n, s')"
  by (simp add: script_call_def)

text \<open>To evaluate a script, instead.\<close>

lemmas eval_script = script_bind_def script_then_def script_outcome_def script_state_def
  script_call_def CHECK_def script_return_def

text \<open>Laws of sequencing, and checks that succeed.\<close>

lemma script_bind_assoc:
  "script_bind (script_bind m f) g = script_bind m (\<lambda>a. script_bind (f a) g)"
  by (auto simp: script_bind_def fun_eq_iff split: prod.split sum.split)

lemma CHECK_True [simp]: "script_then (CHECK True) k = k"
  by (simp add: script_then_def script_bind_def CHECK_def fun_eq_iff)

end
