(* ===== verification/RF_Cuda.thy ===== *)
theory RF_Cuda
  imports RF_Script RF_Tools RF_Persist
begin

text \<open>
  The device test \<^verbatim>\<open>src/cuda/rf_cuda_proof.cu\<close>: a kernel, the allocation that runs it on the
  device and compares the result, and five scenarios in which a reservation of device memory has
  to be in force before the device is used. The CUDA runtime and single precision arithmetic are
  a record of parameters, \<open>platform\<close>, over a state \<open>'d\<close> of the device and values \<open>'f\<close>.
\<close>

section \<open>The device\<close>

record ('d, 'f) platform =
  cudaMalloc :: "nat \<Rightarrow> 'd \<Rightarrow> nat option \<times> 'd"
  cudaFree :: "nat \<Rightarrow> 'd \<Rightarrow> 'd"
  cudaMemcpyHostToDevice :: "nat \<Rightarrow> 'f list \<Rightarrow> 'd \<Rightarrow> bool \<times> 'd"
  cudaMemcpyDeviceToHost :: "nat \<Rightarrow> nat \<Rightarrow> 'd \<Rightarrow> 'f list option \<times> 'd"
  cudaLaunch :: "('f list \<Rightarrow> 'f list \<Rightarrow> nat \<Rightarrow> nat \<Rightarrow> 'f list \<Rightarrow> 'f list) \<Rightarrow> nat \<Rightarrow> nat \<Rightarrow>
    nat \<Rightarrow> nat \<Rightarrow> nat \<Rightarrow> nat \<Rightarrow> 'd \<Rightarrow> bool \<times> 'd"
  cudaMemFree :: "'d \<Rightarrow> int"
  fl_of_nat :: "nat \<Rightarrow> 'f"
  fl_add :: "'f \<Rightarrow> 'f \<Rightarrow> 'f"
  fl_apart :: "'f \<Rightarrow> 'f \<Rightarrow> bool"

text \<open>
  The kernel, run by thread \<open>i\<close> on the contents of its buffers: the value of the output buffer. A
  launch names the kernel, the blocks, the threads of a block, the buffers and \<open>n\<close>.
\<close>

definition vecadd ::
    "('d, 'f) platform \<Rightarrow> 'f list \<Rightarrow> 'f list \<Rightarrow> nat \<Rightarrow> nat \<Rightarrow> 'f list \<Rightarrow> 'f list" where
  "vecadd pf a b n i out = (if i < n then out[i := fl_add pf (a ! i) (b ! i)] else out)"

definition runVecAdd :: "('d, 'f) platform \<Rightarrow> nat \<Rightarrow> nat \<Rightarrow> nat \<Rightarrow> nat \<Rightarrow> 'd \<Rightarrow> bool \<times> 'd" where
  "runVecAdd pf a b out n d = cudaLaunch pf (vecadd pf) ((n + 255) div 256) 256 a b out n d"

text \<open>What is left to do once the three buffers are allocated, up to the frees.\<close>

definition copy_run_compare ::
    "('d, 'f) platform \<Rightarrow> nat \<Rightarrow> nat \<Rightarrow> nat \<Rightarrow> nat \<Rightarrow> 'd \<Rightarrow> bool \<times> 'd" where
  "copy_run_compare pf a b out n d =
     (let ha = map (fl_of_nat pf) [0..<n]; hb = replicate n (fl_of_nat pf 2) in
      case cudaMemcpyHostToDevice pf a ha d of
        (False, d1) \<Rightarrow> (False, d1)
      | (True, d1) \<Rightarrow>
          (case cudaMemcpyHostToDevice pf b hb d1 of
             (False, d2) \<Rightarrow> (False, d2)
           | (True, d2) \<Rightarrow>
               (case runVecAdd pf a b out n d2 of
                  (False, d3) \<Rightarrow> (False, d3)
                | (True, d3) \<Rightarrow>
                    (case cudaMemcpyDeviceToHost pf out n d3 of
                       (None, d4) \<Rightarrow> (False, d4)
                     | (Some hout, d4) \<Rightarrow>
                         (list_all (\<lambda>i. \<not> fl_apart pf (hout ! i) (fl_add pf (ha ! i) (hb ! i)))
                            [0..<n], d4)))))"

text \<open>
  \<open>bytes\<close> is below \<open>2 ^ 33\<close> in every call, so that the number of floats is in the range of \<^verbatim>\<open>int\<close>.
  Whatever way the middle part ends, the three buffers are freed.
\<close>

definition allocAndVerify :: "('d, 'f) platform \<Rightarrow> nat \<Rightarrow> 'd \<Rightarrow> bool \<times> 'd" where
  "allocAndVerify pf bytes d =
     (let n = bytes div 4 in
      case cudaMalloc pf (n * 4) d of
        (None, d1) \<Rightarrow> (False, d1)
      | (Some a, d1) \<Rightarrow>
          (case cudaMalloc pf (n * 4) d1 of
             (None, d2) \<Rightarrow> (False, cudaFree pf a d2)
           | (Some b, d2) \<Rightarrow>
               (case cudaMalloc pf (n * 4) d2 of
                  (None, d3) \<Rightarrow> (False, cudaFree pf b (cudaFree pf a d3))
                | (Some out, d3) \<Rightarrow>
                    (case copy_run_compare pf a b out n d3 of
                       (ok, d4) \<Rightarrow> (ok, cudaFree pf out (cudaFree pf b (cudaFree pf a d4)))))))"

section \<open>The fabric under test\<close>

record 'd bench =
  bn_rf :: Impl
  bn_dev :: 'd

definition on_fabric :: "'a operation \<Rightarrow> ('d bench, 'a) script" where
  "on_fabric f = script_call (\<lambda>s. case f (bn_rf s) of (r, rf) \<Rightarrow> (r, s\<lparr>bn_rf := rf\<rparr>))"

text \<open>Operations of the library that do not throw.\<close>

definition with_fabric :: "(Impl \<Rightarrow> 'a \<times> Impl) \<Rightarrow> ('d bench, 'a) script" where
  "with_fabric f = script_state (\<lambda>s. case f (bn_rf s) of (a, rf) \<Rightarrow> (a, s\<lparr>bn_rf := rf\<rparr>))"

definition new_fabric :: "('d bench, unit) script" where
  "new_fabric = script_state (\<lambda>s. ((), s\<lparr>bn_rf := mk_Impl RuntimeConfig_default\<rparr>))"

definition on_device :: "('d \<Rightarrow> bool \<times> 'd) \<Rightarrow> ('d bench, bool) script" where
  "on_device f = script_state (\<lambda>s. case f (bn_dev s) of (b, d) \<Rightarrow> (b, s\<lparr>bn_dev := d\<rparr>))"

definition mkAct :: "WorkerId \<Rightarrow> WorkerBootId \<Rightarrow> Instant \<Rightarrow> ActivationEvidence" where
  "mkAct w b at' =
     \<lparr>ae_worker = w, ae_workerBoot = b, ae_activationGeneration = StrongGeneration 1,
      ae_at = at', ae_token = 0\<rparr>"

definition mkRel :: "WorkerId \<Rightarrow> WorkerBootId \<Rightarrow> Instant \<Rightarrow> ReleaseEvidence" where
  "mkRel w b at' =
     \<lparr>le_worker = w, le_workerBoot = b, le_releaseGeneration = StrongGeneration 1, le_at = at'\<rparr>"

text \<open>The publication of \<^verbatim>\<open>makeFabric\<close>; the fresh ones of scenarios D and E differ in boot and generation.\<close>

definition vram_publication ::
    "WorkerBootId \<Rightarrow> ResourceId \<Rightarrow> ResourceGeneration \<Rightarrow> int \<Rightarrow> ResourcePublication outcome" where
  "vram_publication boot rid gen poolBytes =
     bind_outcome (Quantity_bytes poolBytes) (\<lambda>cap.
     bind_outcome (Duration_seconds (365 * 24 * 3600)) (\<lambda>lifetime.
       Inr (ResourcePublication_default\<lparr>
         pub_worker := StrongId 1, pub_workerBoot := boot, pub_id := rid, pub_generation := gen,
         pub_class := AcceleratorMemory, pub_unit := Unit_Bytes, pub_totalCapacity := cap,
         pub_pool := StrongId 1, pub_poolGeneration := StrongGeneration 1,
         pub_capabilities := StrongGeneration 1, pub_topology := StrongGeneration 1,
         pub_contract := StrongId 1, pub_contractGeneration := StrongGeneration 1,
         pub_availableFrom := Instant 0, pub_lifetime := lifetime\<rparr>)))"

definition makeFabric :: "ResourceId \<Rightarrow> int \<Rightarrow> ('d bench, unit) script" where
  "makeFabric rid poolBytes =
     script_bind (script_outcome (vram_publication (StrongGeneration 1) rid (StrongGeneration 1) poolBytes))
       (\<lambda>pub. script_bind (on_fabric (publishResource pub)) (\<lambda>_. script_return ()))"

definition makeVRAMReq :: "u64 \<Rightarrow> int \<Rightarrow> Interval \<Rightarrow> OwnerId \<Rightarrow> ReservationRequest outcome" where
  "makeVRAMReq rid bytes w owner =
     bind_outcome (Quantity_bytes bytes) (\<lambda>q.
       Inr (ReservationRequest_default\<lparr>
         req_requestId := StrongId rid, req_requestGeneration := StrongGeneration 1,
         req_class := AcceleratorMemory, req_unit := Unit_Bytes, req_quantity := q,
         req_window := w, req_activationMode := FixedInterval, req_strength := Hard,
         req_owner := owner, req_ownerGeneration := StrongGeneration 1,
         req_policyGeneration := StrongGeneration 1, req_priorityGeneration := StrongGeneration 1,
         req_targetResource := Some (StrongId 1)\<rparr>))"

definition GiB :: int where
  "GiB = 1024 * 1024 * 1024"

definition pool_bytes :: int where
  "pool_bytes = 4 * GiB"

text \<open>The commit of a request for \<open>k\<close> GiB, and the work on the device with as much memory.\<close>

definition commit_vram :: "u64 \<Rightarrow> int \<Rightarrow> Interval \<Rightarrow> ('d bench, ReservationResult) script" where
  "commit_vram rid k w =
     script_bind (script_outcome (makeVRAMReq rid (k * GiB) w (StrongId 1))) (\<lambda>req.
       on_fabric (rf_commit req None))"

definition device_work :: "('d, 'f) platform \<Rightarrow> int \<Rightarrow> ('d bench, bool) script" where
  "device_work pf k = on_device (allocAndVerify pf (nat (k * GiB)))"

section \<open>The scenarios\<close>

definition scenario_A :: "('d, 'f) platform \<Rightarrow> Interval \<Rightarrow> ('d bench, unit) script" where
  "scenario_A pf w =
     script_then new_fabric (
     script_then (makeFabric (StrongId 1) pool_bytes) (
     script_bind (commit_vram 1 1 w) (\<lambda>rc.
     script_then (CHECK (rr_committed rc)) (
     script_bind (with_fabric (rf_activate (rr_id rc) (rr_generation rc)
       (mkAct (StrongId 1) (StrongGeneration 1) (Instant 200)))) (\<lambda>act.
     script_then (CHECK (ar_activated act)) (
     script_bind (device_work pf 1) (\<lambda>ok.
     script_then (CHECK ok) (
     script_bind (with_fabric (rf_release (rr_id rc) (rr_generation rc)
       (mkRel (StrongId 1) (StrongGeneration 1) (Instant 300)))) (\<lambda>rel.
     script_then (CHECK (rl_released rel)) (
     script_bind (on_fabric (rf_accounting (StrongId 1))) (\<lambda>acc.
     CHECK (q_value (ca_headroom acc) = pool_bytes))))))))))))"

definition scenario_B :: "('d, 'f) platform \<Rightarrow> Interval \<Rightarrow> ('d bench, unit) script" where
  "scenario_B pf w =
     script_then new_fabric (
     script_then (makeFabric (StrongId 1) pool_bytes) (
     script_bind (commit_vram 2 3 w) (\<lambda>a.
     script_then (CHECK (rr_committed a)) (
     script_bind (commit_vram 3 2 w) (\<lambda>b.
     script_then (CHECK (\<not> rr_committed b)) (
     script_bind (with_fabric (rf_release (rr_id a) (rr_generation a)
       (mkRel (StrongId 1) (StrongGeneration 1) (Instant 300)))) (\<lambda>rel.
     script_then (CHECK (rl_released rel)) (
     script_bind (commit_vram 4 2 w) (\<lambda>c.
     script_then (CHECK (rr_committed c)) (
     script_bind (device_work pf 2) CHECK))))))))))"

definition scenario_C :: "('d, 'f) platform \<Rightarrow> Interval \<Rightarrow> ('d bench, unit) script" where
  "scenario_C pf w =
     script_then new_fabric (
     script_then (makeFabric (StrongId 1) pool_bytes) (
     script_bind (commit_vram 5 1 w) (\<lambda>rc.
     script_then (CHECK (rr_committed rc)) (
     script_bind (script_outcome (Quantity_bytes (2 * GiB))) (\<lambda>q.
     script_bind (on_fabric (rf_resize (rr_id rc) (rr_generation rc) q (StrongGeneration 1))) (\<lambda>m.
     script_then (CHECK (mr_applied m)) (
     script_bind (with_fabric (rf_activate (rr_id rc) (rr_generation rc)
       (mkAct (StrongId 1) (StrongGeneration 1) (Instant 250)))) (\<lambda>stale.
     script_then (CHECK (\<not> ar_activated stale)) (
     script_bind (with_fabric (rf_activate (rr_id rc) (mr_newGeneration m)
       (mkAct (StrongId 1) (StrongGeneration 1) (Instant 250)))) (\<lambda>fresh.
     script_then (CHECK (ar_activated fresh)) (
     script_bind (device_work pf 2) CHECK)))))))))))"

text \<open>A pointer into the registry is read through at once; a null pointer ends the program.\<close>

definition read_reservation :: "ReservationId \<Rightarrow> (Reservation \<Rightarrow> 'a) \<Rightarrow> ('d bench, 'a) script" where
  "read_reservation i sel = script_call (\<lambda>s.
     (case rf_reservation i (bn_rf s) of None \<Rightarrow> Inl NullPointer | Some r \<Rightarrow> Inr (sel r), s))"

definition death_notice :: InvalidationNotice where
  "death_notice =
     \<lparr>in_resource = StrongId 1, in_obsoleteAtGeneration = StrongGeneration 0,
      in_condition = Cond_Invalidated, in_reason = ''worker died''\<rparr>"

definition scenario_D :: "('d, 'f) platform \<Rightarrow> Interval \<Rightarrow> ('d bench, unit) script" where
  "scenario_D pf w =
     script_then new_fabric (
     script_then (makeFabric (StrongId 1) pool_bytes) (
     script_bind (commit_vram 6 1 w) (\<lambda>rc.
     script_then (CHECK (rr_committed rc)) (
     script_bind (with_fabric (rf_activate (rr_id rc) (rr_generation rc)
       (mkAct (StrongId 1) (StrongGeneration 1) (Instant 250)))) (\<lambda>act.
     script_then (CHECK (ar_activated act)) (
     script_bind (device_work pf 1) (\<lambda>ok.
     script_then (CHECK ok) (
     script_then (on_fabric (invalidateResource death_notice)) (
     script_bind (with_fabric (\<lambda>rf. (rf_reservation (rr_id rc) rf, rf))) (\<lambda>r.
     script_then (CHECK (r \<noteq> None)) (
     script_bind (read_reservation (rr_id rc) rv_lifecycle) (\<lambda>lc.
     script_then (CHECK (lc = Lifecycle_RevalidationRequired)) (
     script_bind (with_fabric (rf_activate (rr_id rc) (rr_generation rc)
       (mkAct (StrongId 1) (StrongGeneration 1) (Instant 400)))) (\<lambda>stale.
     script_then (CHECK (\<not> ar_activated stale)) (
     script_bind (script_outcome
       (vram_publication (StrongGeneration 2) (StrongId 1) (StrongGeneration 2) pool_bytes)) (\<lambda>pub.
     script_then (on_fabric (revalidateResource (StrongId 1) pub)) (
     script_bind (with_fabric (rf_activate (rr_id rc) (rr_generation rc)
       (mkAct (StrongId 1) (StrongGeneration 2) (Instant 400)))) (\<lambda>fresh.
     script_then (CHECK (ar_activated fresh)) (
     script_bind (device_work pf 1) CHECK)))))))))))))))))))"

text \<open>
  Scenario E saves the fabric, drops it and loads the file. \<open>opened\<close> and \<open>written\<close> are what the
  stream reports, \<open>disk\<close> what is read from a file that was written with these bytes.
\<close>

definition save_fabric :: "bool \<Rightarrow> bool \<Rightarrow> ('d bench, u8 list) script" where
  "save_fabric opened written =
     script_call (\<lambda>s. (rf_save opened written (bn_rf s), s))"

definition load_fabric :: "u8 list option \<Rightarrow> ('d bench, unit) script" where
  "load_fabric file = script_call (\<lambda>s.
     case rf_load file of Inl e \<Rightarrow> (Inl e, s) | Inr rf \<Rightarrow> (Inr (), s\<lparr>bn_rf := rf\<rparr>))"

definition recover_one :: "('d, 'f) platform \<Rightarrow> ReservationId \<Rightarrow> ('d bench, unit) script" where
  "recover_one pf i =
     script_bind (with_fabric (\<lambda>rf. (rf_reservation i rf, rf))) (\<lambda>found.
     if found = None then script_return ()
     else
       script_bind (script_outcome
         (vram_publication (StrongGeneration 3) (StrongId 1) (StrongGeneration 3) pool_bytes)) (\<lambda>pub.
       script_then (on_fabric (revalidateResource (StrongId 1) pub)) (
       script_bind (read_reservation i rv_generation) (\<lambda>g1.
       script_bind (with_fabric (rf_activate i g1
         (mkAct (StrongId 1) (StrongGeneration 3) (Instant 400)))) (\<lambda>act.
       script_then (CHECK (ar_activated act)) (
       script_bind (device_work pf 1) (\<lambda>ok.
       script_then (CHECK ok) (
       script_bind (read_reservation i rv_generation) (\<lambda>g2.
       script_bind (with_fabric (rf_release i g2
         (mkRel (StrongId 1) (StrongGeneration 3) (Instant 500)))) (\<lambda>rel.
       CHECK (rl_released rel)))))))))))"

text \<open>The flag is set while the loop runs; a reservation is looked at before it is revalidated.\<close>

fun recover_all ::
    "('d, 'f) platform \<Rightarrow> ReservationId list \<Rightarrow> bool \<Rightarrow> ('d bench, bool) script" where
  "recover_all pf [] anyRevalidated = script_return anyRevalidated"
| "recover_all pf (i # is) anyRevalidated =
     script_bind (with_fabric (\<lambda>rf. (rf_reservation i rf, rf))) (\<lambda>found.
     script_then (recover_one pf i)
       (recover_all pf is
         (anyRevalidated \<or> (case found of None \<Rightarrow> False
            | Some r \<Rightarrow> rv_lifecycle r = Lifecycle_RevalidationRequired))))"

text \<open>The inner block, at whose end the first fabric is gone and only its file is left.\<close>

definition scenario_E_saved :: "bool \<Rightarrow> bool \<Rightarrow> Interval \<Rightarrow> ('d bench, u8 list) script" where
  "scenario_E_saved opened written w =
     script_then new_fabric (
     script_then (makeFabric (StrongId 1) pool_bytes) (
     script_bind (commit_vram 7 1 w) (\<lambda>rc.
     script_then (CHECK (rr_committed rc)) (
     script_bind (with_fabric (rf_activate (rr_id rc) (rr_generation rc)
       (mkAct (StrongId 1) (StrongGeneration 1) (Instant 250)))) (\<lambda>act.
     script_then (CHECK (ar_activated act))
       (save_fabric opened written))))))"

definition scenario_E ::
    "('d, 'f) platform \<Rightarrow> bool \<Rightarrow> bool \<Rightarrow> (u8 list \<Rightarrow> u8 list option) \<Rightarrow> Interval \<Rightarrow> ('d bench, unit) script" where
  "scenario_E pf opened written disk w =
     script_bind (scenario_E_saved opened written w) (\<lambda>bytes.
     script_then (load_fabric (disk bytes)) (
     script_bind (with_fabric (\<lambda>rf. (reservationIds rf, rf))) (\<lambda>ids.
     script_then (CHECK (length ids = 1)) (
     script_bind (recover_all pf ids False) CHECK))))"

text \<open>
  The program: its exit code, or the exception that nobody catches. The interval is computed before
  the first scenario; the free memory is read before it and after the last.
\<close>

definition cuda_main ::
    "('d, 'f) platform \<Rightarrow> bool \<Rightarrow> bool \<Rightarrow> (u8 list \<Rightarrow> u8 list option) \<Rightarrow> 'd \<Rightarrow> int outcome" where
  "cuda_main pf opened written disk d =
     bind_outcome (bind_outcome (Duration_seconds 3600) (mk_Interval_length (Instant 100))) (\<lambda>w.
       case script_then (scenario_A pf w) (script_then (scenario_B pf w)
              (script_then (scenario_C pf w) (script_then (scenario_D pf w)
                (scenario_E pf opened written disk w))))
            0 \<lparr>bn_rf = mk_Impl RuntimeConfig_default, bn_dev = d\<rparr> of
         (Inl e, _, _) \<Rightarrow> Inl e
       | (Inr _, failures, s) \<Rightarrow>
           (let drift = cudaMemFree pf (bn_dev s) - cudaMemFree pf d;
                failures' = (if drift < 512 * 1024 * 1024 \<and> drift > - (512 * 1024 * 1024)
                             then failures else Suc failures)
            in Inr (if failures' = 0 then 0 else 1)))"

end
