(* ===== verification/RF_Cuda_Props.thy ===== *)
theory RF_Cuda_Props
  imports RF_Cuda RF_Persist_Props
begin

text \<open>
  The device test: the kernel is right in whatever order its threads run, no path leaves a buffer
  allocated, and the exit code is decided by the device alone.
\<close>

section \<open>The kernel and the buffers\<close>

lemma length_vecadd_fold [simp]: "length (fold (vecadd pf a b n) ids out) = length out"
  by (induction ids arbitrary: out) (simp_all add: vecadd_def)

lemma nth_vecadd_fold:
  "i < length out \<Longrightarrow> fold (vecadd pf a b n) ids out ! i =
     (if i \<in> set ids \<and> i < n then fl_add pf (a ! i) (b ! i) else out ! i)"
  by (induction ids arbitrary: out) (auto simp: vecadd_def nth_list_update)

lemma kernel_any_order:
  assumes "set ids = {..<m}" "n \<le> m" "length out = n"
  shows "fold (vecadd pf a b n) ids out = map (\<lambda>i. fl_add pf (a ! i) (b ! i)) [0..<n]"
  using assms by (intro nth_equalityI) (auto simp: nth_vecadd_fold)

text \<open>
  The documented behaviour of the CUDA calls, over the buffers \<open>mem\<close> of a device: a failing
  call leaves the set of buffers alone, a launch runs every thread of its grid once.
\<close>

definition device_ok :: "('d, 'f) platform \<Rightarrow> ('d \<Rightarrow> nat \<Rightarrow> 'f list option) \<Rightarrow> bool" where
  "device_ok pf mem \<longleftrightarrow>
     (\<forall>k d. case cudaMalloc pf k d of
        (None, d') \<Rightarrow> mem d' = mem d
      | (Some p, d') \<Rightarrow>
          mem d p = None \<and> (\<exists>buf. length buf = k div 4 \<and> mem d' = (mem d)(p \<mapsto> buf))) \<and>
     (\<forall>p d. mem (cudaFree pf p d) = (mem d)(p := None)) \<and>
     (\<forall>p xs buf d ok d'. mem d p = Some buf \<longrightarrow> length xs = length buf \<longrightarrow>
        cudaMemcpyHostToDevice pf p xs d = (ok, d') \<longrightarrow>
        (if ok then mem d' = (mem d)(p \<mapsto> xs) else dom (mem d') = dom (mem d))) \<and>
     (\<forall>kern blocks threads a b out n d xa xb xo ok d'.
        mem d a = Some xa \<longrightarrow> mem d b = Some xb \<longrightarrow> mem d out = Some xo \<longrightarrow>
        cudaLaunch pf kern blocks threads a b out n d = (ok, d') \<longrightarrow>
        (if ok then \<exists>ids. distinct ids \<and> set ids = {..<blocks * threads} \<and>
           mem d' = (mem d)(out \<mapsto> fold (kern xa xb n) ids xo)
         else dom (mem d') = dom (mem d))) \<and>
     (\<forall>p n d buf r d'. mem d p = Some buf \<longrightarrow> cudaMemcpyDeviceToHost pf p n d = (r, d') \<longrightarrow>
        (case r of None \<Rightarrow> dom (mem d') = dom (mem d) | Some xs \<Rightarrow> mem d' = mem d \<and> xs = take n buf))"

definition device_never_fails :: "('d, 'f) platform \<Rightarrow> bool" where
  "device_never_fails pf \<longleftrightarrow>
     (\<forall>k d. fst (cudaMalloc pf k d) \<noteq> None) \<and>
     (\<forall>p xs d. fst (cudaMemcpyHostToDevice pf p xs d)) \<and>
     (\<forall>kern blocks threads a b out n d. fst (cudaLaunch pf kern blocks threads a b out n d)) \<and>
     (\<forall>p n d. fst (cudaMemcpyDeviceToHost pf p n d) \<noteq> None)"

lemma device_laws:
  assumes "device_ok pf mem"
  shows device_malloc: "cudaMalloc pf k d = (r, d') \<Longrightarrow>
      case r of None \<Rightarrow> mem d' = mem d
      | Some p \<Rightarrow> mem d p = None \<and> (\<exists>buf. length buf = k div 4 \<and> mem d' = (mem d)(p \<mapsto> buf))"
    and device_free: "mem (cudaFree pf p d) = (mem d)(p := None)"
    and device_in: "mem d p = Some buf \<Longrightarrow> length xs = length buf \<Longrightarrow>
      cudaMemcpyHostToDevice pf p xs d = (ok, d') \<Longrightarrow>
      if ok then mem d' = (mem d)(p \<mapsto> xs) else dom (mem d') = dom (mem d)"
    and device_launch: "mem d a = Some xa \<Longrightarrow> mem d b = Some xb \<Longrightarrow> mem d out = Some xo \<Longrightarrow>
      cudaLaunch pf kern blocks threads a b out n d = (ok, d') \<Longrightarrow>
      if ok then \<exists>ids. distinct ids \<and> set ids = {..<blocks * threads} \<and>
        mem d' = (mem d)(out \<mapsto> fold (kern xa xb n) ids xo)
      else dom (mem d') = dom (mem d)"
    and device_out: "mem d p = Some buf \<Longrightarrow> cudaMemcpyDeviceToHost pf p n d = (r2, d') \<Longrightarrow>
      case r2 of None \<Rightarrow> dom (mem d') = dom (mem d) | Some xs \<Rightarrow> mem d' = mem d \<and> xs = take n buf"
proof -
  note ok = assms [unfolded device_ok_def]
  have "case cudaMalloc pf k d of (None, d') \<Rightarrow> mem d' = mem d
      | (Some p, d') \<Rightarrow> mem d p = None \<and> (\<exists>buf. length buf = k div 4 \<and> mem d' = (mem d)(p \<mapsto> buf))"
    by (rule spec [OF spec [OF conjunct1 [OF ok]]])
  then show "cudaMalloc pf k d = (r, d') \<Longrightarrow>
      case r of None \<Rightarrow> mem d' = mem d
      | Some p \<Rightarrow> mem d p = None \<and> (\<exists>buf. length buf = k div 4 \<and> mem d' = (mem d)(p \<mapsto> buf))"
    by (auto split: option.splits)
  show "mem (cudaFree pf p d) = (mem d)(p := None)"
    by (rule spec [OF spec [OF conjunct1 [OF conjunct2 [OF ok]]]])
  show "mem d p = Some buf \<Longrightarrow> length xs = length buf \<Longrightarrow>
      cudaMemcpyHostToDevice pf p xs d = (ok, d') \<Longrightarrow>
      if ok then mem d' = (mem d)(p \<mapsto> xs) else dom (mem d') = dom (mem d)" using ok by meson
  show "mem d a = Some xa \<Longrightarrow> mem d b = Some xb \<Longrightarrow> mem d out = Some xo \<Longrightarrow>
      cudaLaunch pf kern blocks threads a b out n d = (ok, d') \<Longrightarrow>
      if ok then \<exists>ids. distinct ids \<and> set ids = {..<blocks * threads} \<and>
        mem d' = (mem d)(out \<mapsto> fold (kern xa xb n) ids xo)
      else dom (mem d') = dom (mem d)" using ok by meson
  show "mem d p = Some buf \<Longrightarrow> cudaMemcpyDeviceToHost pf p n d = (r2, d') \<Longrightarrow>
      case r2 of None \<Rightarrow> dom (mem d') = dom (mem d) | Some xs \<Rightarrow> mem d' = mem d \<and> xs = take n buf"
    using ok by meson
qed

lemma grid_covers: "n \<le> (n + 255) div 256 * (256 :: nat)"
  using div_mult_mod_eq [of "n + 255" 256] mod_less_divisor [of 256 "n + 255"] by linarith

lemma copy_run_compare_buffers:
  assumes ok: "device_ok pf mem"
    and bufs: "mem d a = Some xa" "mem d b = Some xb" "mem d out = Some xo"
    and "length xa = n" "length xb = n" "length xo = n" "a \<noteq> b" "a \<noteq> out" "b \<noteq> out"
    and run: "copy_run_compare pf a b out n d = (res, d')"
  shows "dom (mem d') = dom (mem d)"
    and "device_never_fails pf \<Longrightarrow> (\<And>x. \<not> fl_apart pf x x) \<Longrightarrow> res"
proof -
  define ha where "ha = map (fl_of_nat pf) [0..<n]"
  define hb where "hb = replicate n (fl_of_nat pf 2)"
  obtain ok1 d1 where c1: "cudaMemcpyHostToDevice pf a ha d = (ok1, d1)" by fastforce
  obtain ok2 d2 where c2: "cudaMemcpyHostToDevice pf b hb d1 = (ok2, d2)" by fastforce
  obtain ok3 d3 where c3: "runVecAdd pf a b out n d2 = (ok3, d3)" by fastforce
  obtain r4 d4 where c4: "cudaMemcpyDeviceToHost pf out n d3 = (r4, d4)" by fastforce
  note run = run [unfolded copy_run_compare_def Let_def, folded ha_def hb_def, unfolded c1 prod.case]
  have 1: "if ok1 then mem d1 = (mem d)(a \<mapsto> ha) else dom (mem d1) = dom (mem d)"
    by (rule device_in [OF ok bufs(1) _ c1]) (simp add: ha_def assms)
  have 2: "if ok2 then mem d2 = (mem d1)(b \<mapsto> hb) else dom (mem d2) = dom (mem d1)" if ok1
    by (rule device_in [OF ok _ _ c2]) (use that 1 bufs assms in \<open>auto simp: hb_def\<close>)
  have 3: "if ok3 then mem d3 = (mem d2)(out \<mapsto> map (\<lambda>i. fl_add pf (ha ! i) (hb ! i)) [0..<n])
      else dom (mem d3) = dom (mem d2)" if ok1 ok2
  proof -
    have "mem d2 a = Some ha" "mem d2 b = Some hb" "mem d2 out = Some xo"
      using 1 2 that bufs assms(8-10) by auto
    note launch = device_launch [OF ok this c3 [unfolded runVecAdd_def]]
    show ?thesis
    proof (cases ok3)
      case True
      with launch obtain ids where "set ids = {..<(n + 255) div 256 * 256}"
        "mem d3 = (mem d2)(out \<mapsto> fold (vecadd pf ha hb n) ids xo)" by auto
      with True show ?thesis by (simp add: kernel_any_order [OF _ grid_covers assms(7)])
    next
      case False
      with launch show ?thesis by simp
    qed
  qed
  have 4: "case r4 of None \<Rightarrow> dom (mem d4) = dom (mem d3)
      | Some xs \<Rightarrow> mem d4 = mem d3 \<and> xs = map (\<lambda>i. fl_add pf (ha ! i) (hb ! i)) [0..<n]"
    if ok1 ok2 ok3
    using device_out [OF ok _ c4] 3 [OF that(1,2)] that(3) by (cases r4) simp_all
  have doms: "{a, b, out} \<subseteq> dom (mem d)" using bufs by blast
  show "dom (mem d') = dom (mem d)"
    using run 1 2 3 4 c2 c3 c4 doms by (auto split: if_splits bool.splits option.splits)
  assume nf: "device_never_fails pf" and same: "\<And>x. \<not> fl_apart pf x x"
  have "fst (runVecAdd pf a b out n d2)" using nf by (simp add: device_never_fails_def runVecAdd_def)
  then have oks: ok1 ok2 ok3 "r4 \<noteq> None"
    using nf c1 c2 c3 c4 unfolding device_never_fails_def by (metis fst_conv)+
  with 4 have "r4 = Some (map (\<lambda>i. fl_add pf (ha ! i) (hb ! i)) [0..<n])" by auto
  with run oks c2 c3 c4 show res by (auto simp: list_all_iff same)
qed

text \<open>The three allocations around it.\<close>

lemma malloc_buffer:
  assumes "device_ok pf mem" "cudaMalloc pf (n * 4) d = (Some p, d')"
  obtains buf where "length buf = n" "mem d p = None" "mem d' = (mem d)(p \<mapsto> buf)"
  using device_malloc [OF assms] by auto

lemma malloc_refused:
  assumes "device_ok pf mem" "cudaMalloc pf k d = (None, d')"
  shows "mem d' = mem d"
  using device_malloc [OF assms] by simp

text \<open>Claim C36: The device test gives back what it takes: whichever call of the CUDA runtime fails, no buffer
  stays allocated and none of the others is freed; and when none fails the result is right, in
  whatever order the threads of the kernel run.\<close>

theorem device_work_gives_back_its_buffers:
  assumes "device_ok pf mem"
  shows "dom (mem (snd (allocAndVerify pf bytes d))) = dom (mem d) \<and>
    (device_never_fails pf \<longrightarrow> (\<forall>x. \<not> fl_apart pf x x) \<longrightarrow> fst (allocAndVerify pf bytes d))"
proof -
  note ok = assms
  define n where "n = bytes div 4"
  note run = allocAndVerify_def [of pf bytes d, unfolded Let_def, folded n_def]
  obtain ra d1 where a: "cudaMalloc pf (n * 4) d = (ra, d1)" by fastforce
  obtain rb d2 where b: "cudaMalloc pf (n * 4) d1 = (rb, d2)" by fastforce
  obtain rc d3 where c: "cudaMalloc pf (n * 4) d2 = (rc, d3)" by fastforce
  have never: "device_never_fails pf \<Longrightarrow> ra \<noteq> None \<and> rb \<noteq> None \<and> rc \<noteq> None"
    using a b c unfolding device_never_fails_def by (metis fst_conv)
  show ?thesis
  proof (cases ra)
    case None
    then show ?thesis using malloc_refused [OF ok, of "n * 4" d d1] a never by (auto simp: run)
  next
    case (Some pa)
    with a obtain xa where xa: "length xa = n" "mem d pa = None" "mem d1 = (mem d)(pa \<mapsto> xa)"
      using malloc_buffer [OF ok] by blast
    show ?thesis
    proof (cases rb)
      case None
      with b xa have "mem d2 = (mem d)(pa \<mapsto> xa)" using malloc_refused [OF ok] by simp
      with None Some a b never xa show ?thesis by (auto simp: run device_free [OF ok])
    next
      case Some': (Some pb)
      with b obtain xb where xb: "length xb = n" "mem d1 pb = None" "mem d2 = (mem d1)(pb \<mapsto> xb)"
        using malloc_buffer [OF ok] by blast
      show ?thesis
      proof (cases rc)
        case None
        with c xb have "mem d3 = (mem d1)(pb \<mapsto> xb)" using malloc_refused [OF ok] by simp
        with None Some Some' a b c never xa xb show ?thesis
          by (auto simp: run device_free [OF ok] split: if_splits)
      next
        case Some'': (Some po)
        with c obtain xo where xo: "length xo = n" "mem d2 po = None" "mem d3 = (mem d2)(po \<mapsto> xo)"
          using malloc_buffer [OF ok] by blast
        obtain res d4 where core: "copy_run_compare pf pa pb po n d3 = (res, d4)" by fastforce
        have "mem d3 pa = Some xa" "mem d3 pb = Some xb" "mem d3 po = Some xo"
          "pa \<noteq> pb" "pa \<noteq> po" "pb \<noteq> po" using xa xb xo by (auto split: if_splits)
        note core' = copy_run_compare_buffers [OF ok this(1-3) xa(1) xb(1) xo(1) this(4-6) core]
        have "allocAndVerify pf bytes d = (res, cudaFree pf po (cudaFree pf pb (cudaFree pf pa d4)))"
          using Some Some' Some'' a b c core by (simp add: run)
        moreover have "dom (mem d4) - {pa, pb, po} = dom (mem d)"
          unfolding core'(1) using xa xb xo by (auto split: if_splits)
        ultimately show ?thesis using core'(2) by (auto simp: device_free [OF ok] split: if_splits)
      qed
    qed
  qed
qed

section \<open>The scenarios\<close>

definition vram_window :: Interval where
  "vram_window = Interval (Instant 100) (Instant 3600000000100)"

lemma vram_priority [simp]: "det_prio 3600000000100 = 3665600039"
  by code_simp

lemma vram_window: "bind_outcome (Duration_seconds 3600) (mk_Interval_length (Instant 100)) = Inr vram_window"
  by (simp add: vram_window_def eval_tools eval_domain)

definition works :: "('d, 'f) platform \<Rightarrow> int \<Rightarrow> 'd \<Rightarrow> bool \<Rightarrow> 'd \<Rightarrow> bool" where
  "works pf k d ok d' \<longleftrightarrow> allocAndVerify pf (nat (k * GiB)) d = (ok, d')"

lemma device_work_run:
  "works pf k d ok d' \<Longrightarrow> device_work pf k n \<lparr>bn_rf = rf, bn_dev = d\<rparr> = (Inr ok, n, \<lparr>bn_rf = rf, bn_dev = d'\<rparr>)"
  by (simp add: works_def device_work_def on_device_def script_state_def)

lemmas eval_cuda = on_fabric_def with_fabric_def new_fabric_def on_device_def mkAct_def mkRel_def
  vram_publication_def makeFabric_def makeVRAMReq_def GiB_def pool_bytes_def commit_vram_def
  read_reservation_def vram_window_def Quantity_bytes_def

lemmas eval_release = rf_release_def mk_ReleaseResult_def withdraw_def

lemmas eval_resize = current_gen_def push_history_def rf_resize_def mk_ModifyResult_def
  supersede_def headroom_on_def

lemmas eval_evidence = invalidateResource_def revalidateResource_def put_resource_def
  amap_values_def death_notice_def rf_reservation_def

lemmas eval_scenario = eval_script eval_cuda eval_tools eval_domain eval_index eval_runtime
  eval_release eval_resize eval_evidence

text \<open>Whatever the device did before, in each scenario only the device can fail a check.\<close>

lemma scenario_A_run:
  assumes "works pf 1 d ok d'"
  shows "\<exists>rf'. scenario_A pf vram_window n \<lparr>bn_rf = rf, bn_dev = d\<rparr> =
    (Inr (), n + of_bool (\<not> ok), \<lparr>bn_rf = rf', bn_dev = d'\<rparr>)"
  by (simp add: scenario_A_def device_work_run [OF assms] eval_scenario Let_def cong: let_weak_cong)

lemma scenario_B_run:
  assumes "works pf 2 d ok d'"
  shows "\<exists>rf'. scenario_B pf vram_window n \<lparr>bn_rf = rf, bn_dev = d\<rparr> =
    (Inr (), n + of_bool (\<not> ok), \<lparr>bn_rf = rf', bn_dev = d'\<rparr>)"
  by (simp add: scenario_B_def device_work_run [OF assms] eval_scenario Let_def cong: let_weak_cong)

lemma scenario_C_run:
  assumes "works pf 2 d ok d'"
  shows "\<exists>rf'. scenario_C pf vram_window n \<lparr>bn_rf = rf, bn_dev = d\<rparr> =
    (Inr (), n + of_bool (\<not> ok), \<lparr>bn_rf = rf', bn_dev = d'\<rparr>)"
  by (simp add: scenario_C_def device_work_run [OF assms] eval_scenario Let_def cong: let_weak_cong)

lemma scenario_D_run:
  assumes "works pf 1 d ok1 d1" "works pf 1 d1 ok2 d2"
  shows "\<exists>rf'. scenario_D pf vram_window n \<lparr>bn_rf = rf, bn_dev = d\<rparr> =
    (Inr (), n + of_bool (\<not> ok1) + of_bool (\<not> ok2), \<lparr>bn_rf = rf', bn_dev = d2\<rparr>)"
  by (simp add: scenario_D_def device_work_run [OF assms(1)] device_work_run [OF assms(2)]
      eval_scenario Let_def cong: let_weak_cong)

text \<open>The state that scenario E saves.\<close>

definition vram_active :: Impl where
  "vram_active = bn_rf (snd (snd (scenario_E_saved True True vram_window 0
     \<lparr>bn_rf = mk_Impl RuntimeConfig_default, bn_dev = ()\<rparr>)))"

lemmas eval_saved = scenario_E_saved_def eval_script eval_cuda eval_tools eval_domain eval_index
  eval_runtime save_fabric_def rf_save_def

lemma scenario_E_saved_run:
  "scenario_E_saved True True vram_window n \<lparr>bn_rf = rf, bn_dev = d\<rparr> =
     (Inr (save_file vram_active), n, \<lparr>bn_rf = vram_active, bn_dev = d\<rparr>)"
  by (simp add: vram_active_def eval_saved Let_def cong: let_weak_cong)

lemma vram_active_storable: "storable vram_active"
  by (simp add: vram_active_def eval_saved Let_def cong: let_weak_cong)
     (simp add: storable_def keyed_def fits_section_def resource_storable_def line_storable_def
      reservation_storable_def window_ok_def locality_ok_def instant_ok_def duration_ok_def
      quantity_ok_def quantity_wf_def string_ok_def of_byte_defs i64_defs less_Instant_def)

lemma vram_active_fits: "fits_file vram_active"
  by (simp add: vram_active_def eval_saved Let_def cong: let_weak_cong)
     (simp add: fits_file_def save_payload_def w_each_def w_count_def save_resource_def
      serResource_def envelopeLocked_def serReservation_def ser_window_def w_id_def w_gen_def
      w_enu_def w_quant_def w_i64_def w_i32_def w_boolean_def w_instant_def w_duration_def w_str_def
      serOptGen_def serOptId_def serOptInstant_def ser_capability_def ser_locality_def
      ser_topology_def ser_compatibility_def)

lemma scenario_E_run:
  assumes "works pf 1 d ok d'"
  shows "\<exists>rf'. scenario_E pf True True Some vram_window n \<lparr>bn_rf = rf, bn_dev = d\<rparr> =
    (Inr (), n + of_bool (\<not> ok), \<lparr>bn_rf = rf', bn_dev = d'\<rparr>)"
proof -
  have load: "load_fabric (Some (save_file vram_active)) n \<lparr>bn_rf = vram_active, bn_dev = d\<rparr> =
    (Inr (), n, \<lparr>bn_rf = reloaded vram_active, bn_dev = d\<rparr>)" for n d
    by (simp add: load_fabric_def script_call_def load_save [OF vram_active_storable vram_active_fits])
  have "\<exists>rf'. script_bind (with_fabric (\<lambda>rf. (reservationIds rf, rf))) (\<lambda>ids.
     script_then (CHECK (length ids = 1)) (
     script_bind (recover_all pf ids False) CHECK)) n \<lparr>bn_rf = reloaded vram_active, bn_dev = d\<rparr> =
     (Inr (), n + of_bool (\<not> ok), \<lparr>bn_rf = rf', bn_dev = d'\<rparr>)"
    by (simp add: vram_active_def eval_saved reloaded_def restored_def reapplyAfterLoad_def
        fresh_line_def reapply_reservation_def recover_one_def eval_evidence eval_release
        device_work_run [OF assms] reservationIds_def Let_def cong: let_weak_cong)
  then show ?thesis
    by (simp add: scenario_E_def script_bind_def script_then_def scenario_E_saved_run load)
qed

text \<open>The six uses of the device in the order of the program, each with its number of GiB.\<close>

fun device_runs :: "('d, 'f) platform \<Rightarrow> int list \<Rightarrow> 'd \<Rightarrow> bool \<times> 'd" where
  "device_runs pf [] d = (True, d)"
| "device_runs pf (k # ks) d =
     (case allocAndVerify pf (nat (k * GiB)) d of (ok, d1) \<Rightarrow>
       (case device_runs pf ks d1 of (oks, d2) \<Rightarrow> (ok \<and> oks, d2)))"

text \<open>Claim C37: Only the device can fail the device test: on a file system that keeps what it is given, the
  program throws nothing, and its exit code is 0 exactly if the six runs of the kernel compute what
  the host expects and the free memory of the device changes by less than 512 MiB. Every check of a
  reservation (admission up to the capacity, rejection beyond it, release, fencing of a stale
  generation and of a stale boot, recovery from the file) passes on the model.\<close>

theorem only_the_device_fails_the_device_test:
  "cuda_main pf True True Some d =
     (case device_runs pf [1, 2, 2, 1, 1, 1] d of (passed, d') \<Rightarrow>
        Inr (if passed \<and> \<bar>cudaMemFree pf d' - cudaMemFree pf d\<bar> < 512 * 1024 * 1024 then 0 else 1))"
proof -
  obtain ok1 d1 where 1: "works pf 1 d ok1 d1" unfolding works_def by fastforce
  obtain ok2 d2 where 2: "works pf 2 d1 ok2 d2" unfolding works_def by fastforce
  obtain ok3 d3 where 3: "works pf 2 d2 ok3 d3" unfolding works_def by fastforce
  obtain ok4 d4 where 4: "works pf 1 d3 ok4 d4" unfolding works_def by fastforce
  obtain ok5 d5 where 5: "works pf 1 d4 ok5 d5" unfolding works_def by fastforce
  obtain ok6 d6 where 6: "works pf 1 d5 ok6 d6" unfolding works_def by fastforce
  define rf0 where "rf0 = mk_Impl RuntimeConfig_default"
  obtain n1 rf1 where A: "scenario_A pf vram_window 0 \<lparr>bn_rf = rf0, bn_dev = d\<rparr> =
      (Inr (), n1, \<lparr>bn_rf = rf1, bn_dev = d1\<rparr>)" "n1 = 0 + of_bool (\<not> ok1)"
    using scenario_A_run [OF 1] by blast
  obtain n2 rf2 where B: "scenario_B pf vram_window n1 \<lparr>bn_rf = rf1, bn_dev = d1\<rparr> =
      (Inr (), n2, \<lparr>bn_rf = rf2, bn_dev = d2\<rparr>)" "n2 = n1 + of_bool (\<not> ok2)"
    using scenario_B_run [OF 2] by blast
  obtain n3 rf3 where C: "scenario_C pf vram_window n2 \<lparr>bn_rf = rf2, bn_dev = d2\<rparr> =
      (Inr (), n3, \<lparr>bn_rf = rf3, bn_dev = d3\<rparr>)" "n3 = n2 + of_bool (\<not> ok3)"
    using scenario_C_run [OF 3] by blast
  obtain n4 rf4 where D: "scenario_D pf vram_window n3 \<lparr>bn_rf = rf3, bn_dev = d3\<rparr> =
      (Inr (), n4, \<lparr>bn_rf = rf4, bn_dev = d5\<rparr>)" "n4 = n3 + of_bool (\<not> ok4) + of_bool (\<not> ok5)"
    using scenario_D_run [OF 4 5] by blast
  obtain n rf where E: "scenario_E pf True True Some vram_window n4 \<lparr>bn_rf = rf4, bn_dev = d5\<rparr> =
      (Inr (), n, \<lparr>bn_rf = rf, bn_dev = d6\<rparr>)" "n = n4 + of_bool (\<not> ok6)"
    using scenario_E_run [OF 6] by blast
  have run: "script_then (scenario_A pf vram_window) (script_then (scenario_B pf vram_window)
      (script_then (scenario_C pf vram_window) (script_then (scenario_D pf vram_window)
        (scenario_E pf True True Some vram_window)))) 0 \<lparr>bn_rf = rf0, bn_dev = d\<rparr> =
      (Inr (), n, \<lparr>bn_rf = rf, bn_dev = d6\<rparr>)"
    by (simp add: script_then_def script_bind_def A(1) B(1) C(1) D(1) E(1))
  have n: "n = 0 \<longleftrightarrow> ok1 \<and> ok2 \<and> ok3 \<and> ok4 \<and> ok5 \<and> ok6"
    unfolding A(2) B(2) C(2) D(2) E(2) by auto
  have "device_runs pf [1, 2, 2, 1, 1, 1] d = (ok1 \<and> ok2 \<and> ok3 \<and> ok4 \<and> ok5 \<and> ok6, d6)"
    using 1 2 3 4 5 6 by (simp add: works_def)
  with n show ?thesis
    unfolding cuda_main_def vram_window bind_outcome_simps run [unfolded rf0_def] by (auto simp: Let_def abs_less_iff)
qed

section \<open>A device\<close>

text \<open>A device that is a list of buffers and never fails, for the witnesses.\<close>

definition list_mem :: "nat list option list \<Rightarrow> nat \<Rightarrow> nat list option" where
  "list_mem d p = (if p < length d then d ! p else None)"

definition list_device :: "(nat list option list, nat) platform" where
  "list_device =
     \<lparr>cudaMalloc = (\<lambda>k d. (Some (length d), d @ [Some (replicate (k div 4) 0)])),
      cudaFree = (\<lambda>p d. d[p := None]),
      cudaMemcpyHostToDevice = (\<lambda>p xs d. (True, d[p := Some xs])),
      cudaMemcpyDeviceToHost = (\<lambda>p n d. (Some (take n (the (list_mem d p))), d)),
      cudaLaunch = (\<lambda>kern blocks threads a b out n d. (True, d[out := Some
        (fold (kern (the (list_mem d a)) (the (list_mem d b)) n) [0..<blocks * threads]
          (the (list_mem d out)))])),
      cudaMemFree = (\<lambda>d. - int (length (filter (\<lambda>b. b \<noteq> None) d))),
      fl_of_nat = id, fl_add = (+), fl_apart = (\<noteq>)\<rparr>"

lemma list_device_ok: "device_ok list_device list_mem"
  unfolding device_ok_def list_device_def
  by (auto simp: list_mem_def nth_append nth_list_update fun_eq_iff split: if_splits
      intro!: exI [of _ "[0..<_]"])

lemma list_device_never_fails: "device_never_fails list_device"
  by (simp add: device_never_fails_def list_device_def)

theorem device_work_gives_back_its_buffers_witness:
  "dom (list_mem (snd (allocAndVerify list_device 16 [Some [7]]))) = {0} \<and>
   fst (allocAndVerify list_device 16 [Some [7]])"
proof -
  have "\<forall>x. \<not> fl_apart list_device x x" by (simp add: list_device_def)
  moreover have "dom (list_mem [Some [7]]) = {0}" by (auto simp: list_mem_def split: if_splits)
  ultimately show ?thesis
    using device_work_gives_back_its_buffers [OF list_device_ok, of 16 "[Some [7]]"]
      list_device_never_fails by simp
qed

end
