(* ===== verification/RF_Net.thy ===== *)
theory RF_Net
  imports RF_Client RF_Service
begin

text \<open>
  Setting up sockets in \<^verbatim>\<open>src/protocol.cpp\<close>, and the programs that do it: the beginning and the end of
  \<^verbatim>\<open>coordinator_main.cpp\<close> and all of \<^verbatim>\<open>worker_main.cpp\<close>. The socket library of the operating system is
  a record of parameters over a state \<open>'o\<close>. No path keeps a socket that it does not hand out.
\<close>

section \<open>Sockets\<close>

type_synonym SOCKET = u64

definition INVALID_SOCKET :: SOCKET where
  "INVALID_SOCKET = - 1"

text \<open>
  The calls return whether they succeeded; \<open>ws_socket\<close> and \<open>ws_accept\<close> return a socket or
  \<open>INVALID_SOCKET\<close>. An address is four bytes and a port of 16 bits, from which \<^verbatim>\<open>htons\<close> makes the
  bytes of the structure. The result of \<^verbatim>\<open>setsockopt\<close> is not looked at.
\<close>

record 'o winsock =
  ws_startup :: "'o \<Rightarrow> bool \<times> 'o"
  ws_cleanup :: "'o \<Rightarrow> 'o"
  ws_socket :: "'o \<Rightarrow> SOCKET \<times> 'o"
  ws_reuse :: "SOCKET \<Rightarrow> 'o \<Rightarrow> 'o"
  ws_inet_pton :: "string \<Rightarrow> u32 option"
  ws_connect :: "SOCKET \<Rightarrow> u32 \<Rightarrow> u16 \<Rightarrow> 'o \<Rightarrow> bool \<times> 'o"
  ws_bind :: "SOCKET \<Rightarrow> u32 \<Rightarrow> u16 \<Rightarrow> 'o \<Rightarrow> bool \<times> 'o"
  ws_listen :: "SOCKET \<Rightarrow> 'o \<Rightarrow> bool \<times> 'o"
  ws_accept :: "SOCKET \<Rightarrow> 'o \<Rightarrow> SOCKET \<times> 'o"
  ws_closesocket :: "SOCKET \<Rightarrow> 'o \<Rightarrow> 'o"

definition netInit :: "'o winsock \<Rightarrow> 'o \<Rightarrow> bool \<times> 'o" where
  "netInit api os = ws_startup api os"

definition netCleanup :: "'o winsock \<Rightarrow> 'o \<Rightarrow> 'o" where
  "netCleanup api os = ws_cleanup api os"

text \<open>The result of \<^verbatim>\<open>inet_pton\<close> is not looked at: the address of an unknown host is 0.\<close>

definition connectTo :: "'o winsock \<Rightarrow> string \<Rightarrow> int \<Rightarrow> 'o \<Rightarrow> SOCKET \<times> 'o" where
  "connectTo api host port os =
     (case ws_socket api os of
        (s, os1) \<Rightarrow>
          if s = INVALID_SOCKET then (INVALID_SOCKET, os1)
          else
            let addr = (case ws_inet_pton api host of None \<Rightarrow> 0 | Some a \<Rightarrow> a)
            in (case ws_connect api s addr (word_of_int port) os1 of
                  (False, os2) \<Rightarrow> (INVALID_SOCKET, ws_closesocket api s os2)
                | (True, os2) \<Rightarrow> (s, os2)))"

text \<open>The second component is the value of the reference argument.\<close>

definition listenOn :: "'o winsock \<Rightarrow> int \<Rightarrow> 'o \<Rightarrow> bool \<times> SOCKET \<times> 'o" where
  "listenOn api port os =
     (case ws_socket api os of
        (listener, os1) \<Rightarrow>
          if listener = INVALID_SOCKET then (False, listener, os1)
          else
            (case ws_bind api listener 0 (word_of_int port) (ws_reuse api listener os1) of
               (False, os2) \<Rightarrow> (False, listener, ws_closesocket api listener os2)
             | (True, os2) \<Rightarrow>
                 (case ws_listen api listener os2 of
                    (False, os3) \<Rightarrow> (False, listener, ws_closesocket api listener os3)
                  | (True, os3) \<Rightarrow> (True, listener, os3))))"

definition acceptConn :: "'o winsock \<Rightarrow> SOCKET \<Rightarrow> 'o \<Rightarrow> SOCKET \<times> bool \<times> 'o" where
  "acceptConn api listener os =
     (case ws_accept api listener os of (s, os1) \<Rightarrow> (s, s \<noteq> INVALID_SOCKET, os1))"

section \<open>The programs\<close>

text \<open>\<^verbatim>\<open>atoi\<close> is undefined outside the range of \<^verbatim>\<open>int\<close>.\<close>

definition c_atoi :: "string \<Rightarrow> int outcome" where
  "c_atoi s = bind_outcome (c_atoll s) (\<lambda>v.
     if - (2 ^ 31) \<le> v \<and> v < 2 ^ 31 then Inr v else Inl SignedOverflow)"

text \<open>The coordinator up to its loop: an exit code, or the listener and the service that starts.\<close>

definition coordinator_begin ::
    "'o winsock \<Rightarrow> string list \<Rightarrow> 'o \<Rightarrow> (int + SOCKET \<times> Service) outcome \<times> 'o" where
  "coordinator_begin api argv os =
     (if length argv < 2 then (Inr (Inl 2), os)
      else case c_atoi (argv ! 1) of
        Inl e \<Rightarrow> (Inl e, os)
      | Inr port \<Rightarrow>
          (case netInit api os of
             (False, os1) \<Rightarrow> (Inr (Inl 2), os1)
           | (True, os1) \<Rightarrow>
               (case listenOn api port os1 of
                  (False, _, os2) \<Rightarrow> (Inr (Inl 2), netCleanup api os2)
                | (True, listener, os2) \<Rightarrow>
                    (Inr (Inr (listener, service_start RuntimeConfig_default)), os2))))"

definition coordinator_end :: "'o winsock \<Rightarrow> SOCKET \<Rightarrow> 'o \<Rightarrow> int \<times> 'o" where
  "coordinator_end api listener os = (0, netCleanup api (ws_closesocket api listener os))"

text \<open>
  The worker: its exit code and the messages it sent. What is received is not looked at; the loop
  at the end waits for the connection to be lost.
\<close>

definition worker_main ::
    "'o winsock \<Rightarrow> string list \<Rightarrow> 'o \<Rightarrow> (int \<times> Frame list) outcome \<times> 'o" where
  "worker_main api argv os =
     (if length argv < 8 then (Inr (2, []), os)
      else case bind_outcome (c_atoi (argv ! 2)) (\<lambda>port.
             bind_outcome (worker_args argv) (\<lambda>a. Inr (port, a))) of
        Inl e \<Rightarrow> (Inl e, os)
      | Inr (port, worker, boot, resId, cap, start) \<Rightarrow>
          (case netInit api os of
             (False, os1) \<Rightarrow> (Inr (2, []), os1)
           | (True, os1) \<Rightarrow>
               (case connectTo api (argv ! 1) port os1 of
                  (s, os2) \<Rightarrow>
                    if s = INVALID_SOCKET then (Inr (2, []), netCleanup api os2)
                    else case worker_messages worker boot resId cap start of
                      Inl e \<Rightarrow> (Inl e, os2)
                    | Inr fs \<Rightarrow> (Inr (0, fs), netCleanup api (ws_closesocket api s os2)))))"

section \<open>What they keep open\<close>

text \<open>
  The documented behaviour of the library, over the sockets \<open>opened\<close> that a process holds: a socket
  is new, and only closing it and the end of the library give it back.
\<close>

definition winsock_ok :: "'o winsock \<Rightarrow> ('o \<Rightarrow> SOCKET set) \<Rightarrow> bool" where
  "winsock_ok api opened \<longleftrightarrow>
     (\<forall>os. opened (snd (ws_startup api os)) = opened os) \<and>
     (\<forall>os. opened (ws_cleanup api os) \<subseteq> opened os) \<and>
     (\<forall>os. case ws_socket api os of (s, os') \<Rightarrow>
        if s = INVALID_SOCKET then opened os' = opened os
        else s \<notin> opened os \<and> opened os' = insert s (opened os)) \<and>
     (\<forall>l os. case ws_accept api l os of (s, os') \<Rightarrow>
        if s = INVALID_SOCKET then opened os' = opened os
        else s \<notin> opened os \<and> opened os' = insert s (opened os)) \<and>
     (\<forall>s os. opened (ws_reuse api s os) = opened os) \<and>
     (\<forall>s a p os. opened (snd (ws_connect api s a p os)) = opened os) \<and>
     (\<forall>s a p os. opened (snd (ws_bind api s a p os)) = opened os) \<and>
     (\<forall>s os. opened (snd (ws_listen api s os)) = opened os) \<and>
     (\<forall>s os. opened (ws_closesocket api s os) = opened os - {s})"

lemma winsock_laws:
  assumes "winsock_ok api opened"
  shows "opened (ws_cleanup api os) \<subseteq> opened os"
    and "ws_startup api os = (ok, os') \<Longrightarrow> opened os' = opened os"
    and "ws_socket api os = (s, os') \<Longrightarrow> if s = INVALID_SOCKET then opened os' = opened os
      else s \<notin> opened os \<and> opened os' = insert s (opened os)"
    and "ws_accept api l os = (s, os') \<Longrightarrow> if s = INVALID_SOCKET then opened os' = opened os
      else s \<notin> opened os \<and> opened os' = insert s (opened os)"
    and "opened (ws_reuse api s os) = opened os"
    and "ws_connect api s a p os = (ok, os') \<Longrightarrow> opened os' = opened os"
    and "ws_bind api s a p os = (ok, os') \<Longrightarrow> opened os' = opened os"
    and "ws_listen api s os = (ok, os') \<Longrightarrow> opened os' = opened os"
    and "opened (ws_closesocket api s os) = opened os - {s}"
proof -
  have laws: "opened (snd (ws_startup api os)) = opened os" "opened (snd (ws_connect api s a p os)) = opened os"
    "opened (snd (ws_bind api s a p os)) = opened os" "opened (snd (ws_listen api s os)) = opened os"
    "case ws_socket api os of (s, os') \<Rightarrow> if s = INVALID_SOCKET then opened os' = opened os
      else s \<notin> opened os \<and> opened os' = insert s (opened os)"
    "case ws_accept api l os of (s, os') \<Rightarrow> if s = INVALID_SOCKET then opened os' = opened os
      else s \<notin> opened os \<and> opened os' = insert s (opened os)"
    using assms by (simp_all add: winsock_ok_def)
  from laws show "ws_startup api os = (ok, os') \<Longrightarrow> opened os' = opened os"
    "ws_connect api s a p os = (ok, os') \<Longrightarrow> opened os' = opened os"
    "ws_bind api s a p os = (ok, os') \<Longrightarrow> opened os' = opened os"
    "ws_listen api s os = (ok, os') \<Longrightarrow> opened os' = opened os"
    "ws_socket api os = (s, os') \<Longrightarrow> if s = INVALID_SOCKET then opened os' = opened os
      else s \<notin> opened os \<and> opened os' = insert s (opened os)"
    "ws_accept api l os = (s, os') \<Longrightarrow> if s = INVALID_SOCKET then opened os' = opened os
      else s \<notin> opened os \<and> opened os' = insert s (opened os)" by simp_all
  show "opened (ws_cleanup api os) \<subseteq> opened os" "opened (ws_reuse api s os) = opened os"
    "opened (ws_closesocket api s os) = opened os - {s}"
    using assms by (simp_all add: winsock_ok_def)
qed

lemma connectTo_opens:
  assumes "winsock_ok api opened" "connectTo api host port os = (s, os')"
  shows "if s = INVALID_SOCKET then opened os' = opened os
    else s \<notin> opened os \<and> opened os' = insert s (opened os)"
proof -
  obtain s1 os1 where s1: "ws_socket api os = (s1, os1)" by fastforce
  obtain a where a: "(case ws_inet_pton api host of None \<Rightarrow> 0 | Some a \<Rightarrow> a) = a" by blast
  obtain ok os2 where c: "ws_connect api s1 a (word_of_int port) os1 = (ok, os2)" by fastforce
  show ?thesis
    using assms(2) winsock_laws(3) [OF assms(1) s1] winsock_laws(6) [OF assms(1) c]
      winsock_laws(9) [OF assms(1)]
    by (auto simp: connectTo_def s1 a c Let_def split: if_splits bool.splits)
qed

lemma listenOn_opens:
  assumes "winsock_ok api opened" "listenOn api port os = (ok, l, os')"
  shows "if ok then l \<notin> opened os \<and> opened os' = insert l (opened os) else opened os' = opened os"
proof -
  obtain s os1 where s: "ws_socket api os = (s, os1)" by fastforce
  obtain ok2 os2 where b: "ws_bind api s 0 (word_of_int port) (ws_reuse api s os1) = (ok2, os2)"
    by fastforce
  obtain ok3 os3 where l: "ws_listen api s os2 = (ok3, os3)" by fastforce
  show ?thesis
    using assms(2) winsock_laws(3) [OF assms(1) s] winsock_laws(5,9) [OF assms(1)]
      winsock_laws(7) [OF assms(1) b] winsock_laws(8) [OF assms(1) l]
    by (auto simp: listenOn_def s b l split: if_splits bool.splits)
qed

lemma acceptConn_opens:
  assumes "winsock_ok api opened" "acceptConn api listener os = (s, ok, os')"
  shows "if ok then s \<notin> opened os \<and> opened os' = insert s (opened os) else opened os' = opened os"
proof -
  obtain s1 os1 where s1: "ws_accept api listener os = (s1, os1)" by fastforce
  show ?thesis
    using assms(2) winsock_laws(4) [OF assms(1) s1] by (auto simp: acceptConn_def s1 split: if_splits)
qed

lemma worker_messages_total: "\<exists>fs. worker_messages worker boot resId cap start = Inr fs"
  by (simp add: worker_messages_def worker_publication_def default_durations(2) [simplified])

text \<open>The worker sends what \<^const>\<open>worker_program\<close> says, depending on the library and the connection.\<close>

lemma worker_main_cases:
  assumes "worker_main api argv os = (Inr (code, fs), os')"
  obtains "code = 2" "fs = []" "\<exists>st. worker_program argv False st = Inr None" "os' = os"
  | os1 where "code = 2" "fs = []" "netInit api os = (False, os1)" "os' = os1"
  | port os1 os2 where "code = 2" "fs = []" "netInit api os = (True, os1)"
      "connectTo api (argv ! 1) port os1 = (INVALID_SOCKET, os2)" "os' = netCleanup api os2"
  | port os1 s os2 where "code = 0" "worker_program argv True True = Inr (Some fs)"
      "netInit api os = (True, os1)" "connectTo api (argv ! 1) port os1 = (s, os2)"
      "s \<noteq> INVALID_SOCKET" "os' = netCleanup api (ws_closesocket api s os2)"
proof (cases "length argv < 8")
  case True
  with assms that(1) show ?thesis by (simp add: worker_main_def worker_program_def)
next
  case False
  then obtain port worker boot resId cap start where
    args: "c_atoi (argv ! 2) = Inr port" "worker_args argv = Inr (worker, boot, resId, cap, start)"
    using assms by (auto simp: worker_main_def bind_outcome_Inr_iff split: sum.splits)
  obtain started os1 where i: "netInit api os = (started, os1)" by fastforce
  obtain s os2 where c: "connectTo api (argv ! 1) port os1 = (s, os2)" by fastforce
  obtain ms where m: "worker_messages worker boot resId cap start = Inr ms"
    using worker_messages_total by blast
  note run = assms [unfolded worker_main_def, simplified False args i c m, simplified]
  show ?thesis
  proof (cases "started \<and> s \<noteq> INVALID_SOCKET")
    case True
    then show ?thesis
      using that(4) [of os1 port s os2] i c run False args m by (simp add: worker_program_def)
  next
    case False
    then show ?thesis using that(2,3) i c run by (auto split: if_splits bool.splits)
  qed
qed

lemma coordinator_begin_cases:
  assumes "coordinator_begin api argv os = (Inr r, os')"
  obtains code where "r = Inl code" "os' = os"
  | code os1 where "r = Inl code" "netInit api os = (False, os1)" "os' = os1"
  | code port os1 l os2 where "r = Inl code" "netInit api os = (True, os1)"
      "listenOn api port os1 = (False, l, os2)" "os' = netCleanup api os2"
  | port os1 l sv where "r = Inr (l, sv)" "netInit api os = (True, os1)" "listenOn api port os1 = (True, l, os')"
  using assms
  by (fastforce simp: coordinator_begin_def split: if_splits sum.splits prod.splits bool.splits)

text \<open>The port is cut to 16 bits: one that is out of range stands for another.\<close>

lemma port_is_cut:
  "connectTo api host (port + 65536) os = connectTo api host port os"
  "listenOn api (port + 65536) os = listenOn api port os"
proof -
  have "word_of_int (port + 65536) = (word_of_int port :: u16)"
    by (simp add: word_of_int_eq_iff take_bit_eq_mod)
  then show "connectTo api host (port + 65536) os = connectTo api host port os"
    "listenOn api (port + 65536) os = listenOn api port os"
    by (simp_all only: connectTo_def listenOn_def)
qed


text \<open>A library with a single socket, on which neither \<^verbatim>\<open>connect\<close> nor \<^verbatim>\<open>bind\<close> succeeds.\<close>

definition one_socket :: "SOCKET list winsock" where
  "one_socket =
     \<lparr>ws_startup = (\<lambda>os. (True, os)), ws_cleanup = (\<lambda>os. os),
      ws_socket = (\<lambda>os. if 5 \<in> set os then (INVALID_SOCKET, os) else (5, 5 # os)),
      ws_reuse = (\<lambda>s os. os), ws_inet_pton = (\<lambda>h. None),
      ws_connect = (\<lambda>s a p os. (False, os)), ws_bind = (\<lambda>s a p os. (False, os)),
      ws_listen = (\<lambda>s os. (True, os)),
      ws_accept = (\<lambda>l os. (INVALID_SOCKET, os)), ws_closesocket = (\<lambda>s os. removeAll s os)\<rparr>"

lemma one_socket_ok: "winsock_ok one_socket set"
  by (simp add: winsock_ok_def one_socket_def INVALID_SOCKET_def)


end
