(* ===== verification/RF_Scenario.thy ===== *)
theory RF_Scenario
  imports RF_Script RF_Net
begin

text \<open>
  The driver of \<^verbatim>\<open>src/distributed/mp_scenario.cpp\<close>: it starts a coordinator and two workers as
  processes, runs the client's calls of \<open>RF_Client\<close> against them, kills and restarts a worker and
  counts the checks that fail. Processes, time and the network are parameters, \<open>world\<close>.
\<close>

section \<open>Processes and the connection\<close>

type_synonym handle = int

definition INVALID_HANDLE_VALUE :: handle where
  "INVALID_HANDLE_VALUE = -1"

text \<open>
  \<open>w_sends\<close> are the results of the \<^verbatim>\<open>send\<close> calls of the next frame, \<open>w_peer\<close> the chunks that
  arrive after the given bytes went out.
\<close>

record 's world =
  w_spawn :: "string \<Rightarrow> 's \<Rightarrow> handle option \<times> 's"
  w_kill :: "handle \<Rightarrow> 's \<Rightarrow> 's"
  w_wait :: "nat \<Rightarrow> 's \<Rightarrow> 's"
  w_connect :: "int \<Rightarrow> 's \<Rightarrow> bool \<times> 's"
  w_sends :: "'s \<Rightarrow> int list"
  w_peer :: "u8 list \<Rightarrow> 's \<Rightarrow> chunks \<times> 's"

record 's driver =
  dr_world :: 's
  dr_client :: bool
  dr_pending :: chunks

definition in_world :: "('s \<Rightarrow> 'a \<times> 's) \<Rightarrow> ('s driver, 'a) script" where
  "in_world f = script_state (\<lambda>s. case f (dr_world s) of (a, w) \<Rightarrow> (a, s\<lparr>dr_world := w\<rparr>))"

definition waitms :: "'s world \<Rightarrow> nat \<Rightarrow> ('s driver, unit) script" where
  "waitms W ms = in_world (\<lambda>w. ((), w_wait W ms w))"

text \<open>A check that the process started; a handle that was not written keeps its initial value.\<close>

definition spawn :: "'s world \<Rightarrow> string \<Rightarrow> ('s driver, handle) script" where
  "spawn W cmdline =
     script_bind (in_world (w_spawn W cmdline)) (\<lambda>h.
     script_then (CHECK (h \<noteq> None))
       (script_return (case h of None \<Rightarrow> INVALID_HANDLE_VALUE | Some h' \<Rightarrow> h')))"

text \<open>
  The handle \<open>-1\<close> is not null, and for \<^verbatim>\<open>TerminateProcess\<close> it stands for the calling process, which
  then ends with the exit code 0 that is passed.
\<close>

definition killProc :: "'s world \<Rightarrow> handle \<Rightarrow> ('s driver, unit) script" where
  "killProc W h =
     (if h = 0 then script_return ()
      else if h = INVALID_HANDLE_VALUE then script_outcome (Inl OwnTermination)
      else in_world (\<lambda>w. ((), w_kill W h w)))"

text \<open>A call of \<open>RF_Client\<close> on the connection; without one, the first \<^verbatim>\<open>send\<close> fails.\<close>

definition on_wire ::
    "'s world \<Rightarrow> (int list \<Rightarrow> chunks \<Rightarrow> u8 list \<times> 'a outcome \<times> chunks) \<Rightarrow> ('s driver, 'a) script" where
  "on_wire W f = script_call (\<lambda>s.
     let results = (if dr_client s then w_sends W (dr_world s) else [-1])
     in case w_peer W (fst (f results (dr_pending s))) (dr_world s) of
          (arrived, w) \<Rightarrow>
            (case f results (dr_pending s @ arrived) of
               (_, r, rest) \<Rightarrow> (r, s\<lparr>dr_world := w, dr_pending := rest\<rparr>)))"

fun try_connect :: "'s world \<Rightarrow> int \<Rightarrow> nat \<Rightarrow> ('s driver, unit) script" where
  "try_connect W port 0 = script_return ()"
| "try_connect W port (Suc attempts) =
     script_bind (in_world (w_connect W port)) (\<lambda>ok.
       if ok then script_state (\<lambda>s. ((), s\<lparr>dr_client := True\<rparr>))
       else script_then (waitms W 150) (try_connect W port attempts))"

section \<open>The scenario\<close>

definition send_hello :: "int list \<Rightarrow> chunks \<Rightarrow> u8 list \<times> Frame outcome \<times> chunks" where
  "send_hello = exchange Msg_Hello
     (w_str ''client'' @ w_id (StrongId 9 :: WorkerId) @ w_gen (StrongGeneration 1 :: WorkerBootId))"

definition coordinator_command :: "string \<Rightarrow> int \<Rightarrow> string" where
  "coordinator_command coord port = coord @ '' '' @ int_to_string port"

definition worker_command :: "string \<Rightarrow> int \<Rightarrow> string \<Rightarrow> string" where
  "worker_command worker port arguments =
     worker @ '' 127.0.0.1 '' @ int_to_string port @ arguments"

definition start_processes ::
    "'s world \<Rightarrow> string \<Rightarrow> string \<Rightarrow> int \<Rightarrow> ('s driver, handle \<times> handle \<times> handle) script" where
  "start_processes W coord worker port =
     script_bind (spawn W (coordinator_command coord port)) (\<lambda>coordH.
     script_then (waitms W 800) (
     script_bind (spawn W (worker_command worker port '' 1 1 1 100 0'')) (\<lambda>waH.
     script_bind (spawn W (worker_command worker port '' 2 1 2 100 0'')) (\<lambda>wbH.
     script_then (waitms W 800) (
     script_then (try_connect W port 20) (
     script_bind (script_state (\<lambda>s. (dr_client s, s))) (\<lambda>connected.
     script_then (CHECK connected) (
     script_then (on_wire W send_hello)
       (script_return (coordH, waH, wbH))))))))))"

definition request :: "'s world \<Rightarrow> u64 \<Rightarrow> int \<Rightarrow> ('s driver, ReservationResult) script" where
  "request W reqId qty =
     script_bind (script_outcome (makeProtoReq reqId qty 100 1000000000 (StrongId 1))) (\<lambda>req.
       on_wire W (sendRequest req))"

definition check_accounting :: "'s world \<Rightarrow> int \<Rightarrow> ('s driver, unit) script" where
  "check_accounting W expected =
     script_bind (on_wire W (sendAccounting (StrongId 1))) (\<lambda>(committed, consistent).
     script_then (CHECK (committed = expected)) (CHECK consistent))"

definition check_activated ::
    "'s world \<Rightarrow> ReservationResult \<Rightarrow> WorkerBootId \<Rightarrow> ('s driver, unit) script" where
  "check_activated W r boot =
     script_bind (on_wire W (sendActivate (rr_id r) (rr_generation r) (StrongId 1) boot)) (\<lambda>a.
       CHECK (ar_activated a))"

text \<open>Requests of 60, 50, 40 and once more the first one, against a capacity of 100.\<close>

definition admission_phase ::
    "'s world \<Rightarrow> ('s driver, ReservationResult \<times> ReservationResult) script" where
  "admission_phase W =
     script_bind (request W 1 60) (\<lambda>rA.
     script_then (CHECK (rr_committed rA)) (
     script_bind (request W 2 50) (\<lambda>rB50.
     script_then (CHECK (\<not> rr_committed rB50)) (
     script_bind (request W 3 40) (\<lambda>rB40.
     script_then (CHECK (rr_committed rB40)) (
     script_then (check_accounting W 100) (
     script_bind (request W 1 60) (\<lambda>rAdup.
     script_then (CHECK (\<not> rr_committed rAdup))
       (script_return (rA, rB40))))))))))"

definition use_phase :: "'s world \<Rightarrow> ReservationResult \<Rightarrow> ('s driver, unit) script" where
  "use_phase W rA =
     script_then (check_activated W rA (StrongGeneration 1)) (
     script_bind (on_wire W (sendConsume (rr_id rA) (rr_generation rA) 25 (StrongId 1)
       (StrongGeneration 1) 1)) (\<lambda>ca.
     script_then (CHECK (cs_consumed ca)) (
     script_bind (on_wire W (sendRelease (rr_id rA) (rr_generation rA) (StrongId 1)
       (StrongGeneration 1))) (\<lambda>rel.
     script_then (CHECK (rl_released rel))
       (check_accounting W 40)))))"

definition refill_phase ::
    "'s world \<Rightarrow> ReservationResult \<Rightarrow> ('s driver, ReservationResult) script" where
  "refill_phase W rB40 =
     script_bind (request W 4 55) (\<lambda>rC.
     script_then (CHECK (rr_committed rC)) (
     script_then (check_accounting W 95) (
     script_then (check_activated W rB40 (StrongGeneration 1)) (
     script_then (check_activated W rC (StrongGeneration 1)) (
     script_bind (on_wire W sendCount) (\<lambda>n.
     script_then (CHECK (n = 3))
       (script_return rC)))))))"

text \<open>The death of worker A is seen by an activation that has to fail.\<close>

definition kill_phase :: "'s world \<Rightarrow> handle \<Rightarrow> ReservationResult \<Rightarrow> ('s driver, unit) script" where
  "kill_phase W waH rB40 =
     script_then (killProc W waH) (
     script_then (waitms W 600) (
     script_bind (on_wire W (sendActivate (rr_id rB40) (rr_generation rB40) (StrongId 1)
       (StrongGeneration 1))) (\<lambda>actStale.
     script_then (CHECK (\<not> ar_activated actStale))
       (CHECK (ar_revalidationRequired actStale \<or> ar_errorMessage actStale \<noteq> [])))))"

text \<open>The publication that the client sends in the name of the restarted worker.\<close>

definition publish_again :: "int list \<Rightarrow> chunks \<Rightarrow> u8 list \<times> Frame outcome \<times> chunks" where
  "publish_again results s =
     (case revalidate_publication (StrongId 1) (StrongId 1) (StrongGeneration 2) (StrongGeneration 2) 100 of
        Inl e \<Rightarrow> ([], Inl e, s)
      | Inr pub \<Rightarrow> exchange Msg_PublishResource (serPublication pub) results s)"

definition restart_phase ::
    "'s world \<Rightarrow> string \<Rightarrow> int \<Rightarrow> ReservationResult \<Rightarrow> ReservationResult \<Rightarrow> ('s driver, handle) script" where
  "restart_phase W worker port rB40 rC =
     script_bind (spawn W (worker_command worker port '' 1 2 1 100 0'')) (\<lambda>wa2H.
     script_then (waitms W 500) (
     script_then (on_wire W publish_again) (
     script_then (on_wire W (sendRevalidate (StrongId 1) (StrongId 1) (StrongGeneration 2)
       (StrongGeneration 2) 100)) (
     script_then (check_activated W rB40 (StrongGeneration 2)) (
     script_then (check_activated W rC (StrongGeneration 2))
       (script_return wa2H))))))"

definition stop_phase :: "'s world \<Rightarrow> handle \<Rightarrow> handle \<Rightarrow> handle \<Rightarrow> ('s driver, unit) script" where
  "stop_phase W coordH wbH wa2H =
     script_then (killProc W wbH) (
     script_then (killProc W wa2H) (
     script_then (on_wire W (exchange Msg_Shutdown [])) (
     script_then (waitms W 300)
       (killProc W coordH))))"

definition runScenario :: "'s world \<Rightarrow> string \<Rightarrow> string \<Rightarrow> int \<Rightarrow> ('s driver, unit) script" where
  "runScenario W coord worker port =
     script_bind (start_processes W coord worker port) (\<lambda>(coordH, waH, wbH).
     script_bind (admission_phase W) (\<lambda>(rA, rB40).
     script_then (use_phase W rA) (
     script_bind (refill_phase W rB40) (\<lambda>rC.
     script_then (kill_phase W waH rB40) (
     script_bind (restart_phase W worker port rB40 rC) (\<lambda>wa2H.
       stop_phase W coordH wbH wa2H))))))"

section \<open>The program\<close>

text \<open>
  The exit code. The exceptions of the library are caught and count as one failed check; a
  process that terminates itself ends with code 0. \<open>started\<close> is the result of \<^verbatim>\<open>netInit\<close>; closing the
  connection at the end changes nothing that is observed.
\<close>

definition scenario_main :: "'s world \<Rightarrow> string list \<Rightarrow> bool \<Rightarrow> 's \<Rightarrow> int outcome" where
  "scenario_main W argv started w =
     (if length argv < 3 then Inr 2
      else bind_outcome (if length argv \<ge> 4 then c_atoi (argv ! 3) else Inr 37911) (\<lambda>port.
        if \<not> started then Inr 2
        else
          (case runScenario W (argv ! 1) (argv ! 2) port 0
                  \<lparr>dr_world = w, dr_client = False, dr_pending = []\<rparr> of
             (Inr _, failures, _) \<Rightarrow> Inr (if failures = 0 then 0 else 1)
           | (Inl (FabricError _ _), _, _) \<Rightarrow> Inr 1
           | (Inl OwnTermination, _, _) \<Rightarrow> Inr 0
           | (Inl e, _, _) \<Rightarrow> Inl e)))"

end
