(* ===== verification/RF_Scenario_Props.thy ===== *)
theory RF_Scenario_Props
  imports RF_Scenario RF_Client_Props RF_Tools
begin

text \<open>
  The multi-process test on a model of its world: processes that start, a coordinator that serves
  them, a network that cuts the bytes as it likes. The test passes there, and one of its failures
  goes unreported.
\<close>

section \<open>A local network\<close>

text \<open>What happens at the coordinator while the client waits.\<close>

datatype event = Joins "Frame list" | Leaves WorkerId

record lan =
  nt_cs :: CoordinatorState
  nt_up :: bool
  nt_events :: "event list"
  nt_running :: "(handle \<times> WorkerId) list"
  nt_count :: nat

fun words :: "string \<Rightarrow> string list" where
  "words [] = [[]]"
| "words (c # cs) = (if c = CHR '' '' then [] # words cs
     else case words cs of [] \<Rightarrow> [[c]] | w # ws \<Rightarrow> (c # w) # ws)"

fun serve_session :: "Frame list \<Rightarrow> WorkerId \<Rightarrow> CoordinatorState \<Rightarrow> CoordinatorState" where
  "serve_session [] w cs = cs"
| "serve_session (f # fs) w cs = (case serve_frame f w cs of (_, w', cs') \<Rightarrow> serve_session fs w' cs')"

fun happens :: "event \<Rightarrow> CoordinatorState \<Rightarrow> CoordinatorState" where
  "happens (Joins fs) cs = serve_session fs (StrongId 0) cs"
| "happens (Leaves w) cs = cs\<lparr>co_runtime := fence_worker w (co_runtime cs)\<rparr>"

text \<open>
  The \<open>k\<close>-th process starts if \<open>spawns k\<close>; a command line of two words is the coordinator, any other
  a worker, whose messages are those of \<^const>\<open>worker_program\<close>.
\<close>

definition lan_spawn :: "(nat \<Rightarrow> bool) \<Rightarrow> string \<Rightarrow> lan \<Rightarrow> handle option \<times> lan" where
  "lan_spawn spawns cmd nt =
     (let k = nt_count nt; h = int k + 1; nt' = nt\<lparr>nt_count := Suc k\<rparr>; argv = words cmd
      in if \<not> spawns k then (None, nt')
         else if length argv < 3 then (Some h, nt'\<lparr>nt_up := True\<rparr>)
         else case (worker_args argv, worker_program argv True True) of
                (Inr (w, _), Inr (Some fs)) \<Rightarrow>
                  (Some h, nt'\<lparr>nt_events := nt_events nt @ [Joins fs],
                               nt_running := (h, w) # nt_running nt\<rparr>)
              | _ \<Rightarrow> (Some h, nt'))"

definition lan_kill :: "handle \<Rightarrow> lan \<Rightarrow> lan" where
  "lan_kill h nt =
     (case map_of (nt_running nt) h of
        None \<Rightarrow> nt
      | Some w \<Rightarrow> nt\<lparr>nt_events := nt_events nt @ [Leaves w]\<rparr>)"

definition lan_wait :: "nat \<Rightarrow> lan \<Rightarrow> lan" where
  "lan_wait ms nt = nt\<lparr>nt_cs := fold happens (nt_events nt) (nt_cs nt), nt_events := []\<rparr>"

definition lan_peer :: "(u8 list \<Rightarrow> chunks) \<Rightarrow> (u8 list \<Rightarrow> chunks) \<Rightarrow> u8 list \<Rightarrow> lan \<Rightarrow> chunks \<times> lan" where
  "lan_peer up down wire nt =
     (case recvFrame (up wire) of
        (Decoded frame, _) \<Rightarrow>
          (case serve_frame frame (StrongId 0) (nt_cs nt) of
             (Inr reply, _, cs) \<Rightarrow> (down reply, nt\<lparr>nt_cs := cs\<rparr>)
           | (Inl _, _, cs) \<Rightarrow> ([], nt\<lparr>nt_cs := cs\<rparr>))
      | _ \<Rightarrow> ([], nt))"

definition lan_world ::
    "int list \<Rightarrow> (u8 list \<Rightarrow> chunks) \<Rightarrow> (u8 list \<Rightarrow> chunks) \<Rightarrow> (nat \<Rightarrow> bool) \<Rightarrow> lan world" where
  "lan_world results up down spawns =
     \<lparr>w_spawn = lan_spawn spawns, w_kill = lan_kill, w_wait = lan_wait,
      w_connect = (\<lambda>port nt. (nt_up nt, nt)), w_sends = (\<lambda>nt. results), w_peer = lan_peer up down\<rparr>"

definition lan_start :: lan where
  "lan_start =
     \<lparr>nt_cs = \<lparr>co_runtime = mk_Impl RuntimeConfig_default, co_shutdown = False\<rparr>, nt_up = False,
      nt_events = [], nt_running = [], nt_count = 0\<rparr>"

section \<open>Calls on the local network\<close>

definition network_ok :: "int list \<Rightarrow> (u8 list \<Rightarrow> chunks) \<Rightarrow> (u8 list \<Rightarrow> chunks) \<Rightarrow> bool" where
  "network_ok results up down \<longleftrightarrow> sends_all results \<and> carries up \<and> carries down"

text \<open>The state of the driver while the client is connected.\<close>

definition at_lan :: "Impl \<Rightarrow> bool \<Rightarrow> event list \<Rightarrow> (handle \<times> WorkerId) list \<Rightarrow> nat \<Rightarrow> lan driver" where
  "at_lan S sd ev ru k =
     \<lparr>dr_world = \<lparr>nt_cs = \<lparr>co_runtime = S, co_shutdown = sd\<rparr>, nt_up = True, nt_events = ev,
        nt_running = ru, nt_count = k\<rparr>, dr_client = True, dr_pending = []\<rparr>"

lemma on_wire_delivers:
  assumes "delivers f results up down (StrongId 0) \<lparr>co_runtime = S, co_shutdown = sd\<rparr> r cs'"
  shows "on_wire (lan_world results up down spawns) f n (at_lan S sd ev ru k) =
    (r, n, at_lan (co_runtime cs') (co_shutdown cs') ev ru k)"
  using assms
  by (auto simp: delivers_def on_wire_def script_call_def at_lan_def lan_world_def lan_peer_def Let_def)

definition request_ok :: "ReservationRequest \<Rightarrow> Impl \<Rightarrow> bool" where
  "request_ok req S \<longleftrightarrow> request_sendable req \<and> length (serReq req) \<le> 2 ^ 20 \<and>
     (case fst (rf_commit req None S) of
        Inr rr \<Rightarrow> reservation_result_sendable rr \<and> length (serReservationResult rr) \<le> 2 ^ 20
      | Inl _ \<Rightarrow> False)"

lemma on_wire_request:
  assumes "network_ok results up down" "request_ok req S"
  shows "on_wire (lan_world results up down spawns) (sendRequest req) n (at_lan S sd ev ru k) =
    (case rf_commit req None S of (r, S') \<Rightarrow> (r, n, at_lan S' sd ev ru k))"
proof -
  obtain rr S' where c: "rf_commit req None S = (Inr rr, S')"
    using assms(2) by (cases "rf_commit req None S") (auto simp: request_ok_def split: sum.splits)
  have "delivers (sendRequest req) results up down (StrongId 0) \<lparr>co_runtime = S, co_shutdown = sd\<rparr> (Inr rr)
      (\<lparr>co_runtime = S, co_shutdown = sd\<rparr>\<lparr>co_runtime := S'\<rparr>)"
    by (rule delivers_request) (use assms c in \<open>simp_all add: network_ok_def request_ok_def\<close>)
  from on_wire_delivers [OF this] c show ?thesis by simp
qed

lemma on_wire_activate:
  assumes "network_ok results up down"
  shows "on_wire (lan_world results up down spawns) (sendActivate i g v boot) n (at_lan S sd ev ru k) =
    (case rf_activate i g (scenario_activation v boot) S of (r, S') \<Rightarrow> (Inr r, n, at_lan S' sd ev ru k))"
proof -
  obtain ar S' where c: "rf_activate i g (scenario_activation v boot) S = (ar, S')" by fastforce
  have "delivers (sendActivate i g v boot) results up down (StrongId 0) \<lparr>co_runtime = S, co_shutdown = sd\<rparr> (Inr ar)
      (\<lparr>co_runtime = S, co_shutdown = sd\<rparr>\<lparr>co_runtime := S'\<rparr>)"
    by (rule delivers_activate) (use assms c in \<open>simp_all add: network_ok_def\<close>)
  from on_wire_delivers [OF this] c show ?thesis by simp
qed

lemma on_wire_release:
  assumes "network_ok results up down"
  shows "on_wire (lan_world results up down spawns) (sendRelease i g v boot) n (at_lan S sd ev ru k) =
    (case rf_release i g \<lparr>le_worker = v, le_workerBoot = boot,
        le_releaseGeneration = StrongGeneration 1, le_at = Instant 100\<rparr> S of
       (r, S') \<Rightarrow> (Inr r, n, at_lan S' sd ev ru k))"
proof -
  obtain rr S' where c: "rf_release i g \<lparr>le_worker = v, le_workerBoot = boot,
      le_releaseGeneration = StrongGeneration 1, le_at = Instant 100\<rparr> S = (rr, S')" by fastforce
  have "delivers (sendRelease i g v boot) results up down (StrongId 0) \<lparr>co_runtime = S, co_shutdown = sd\<rparr> (Inr rr)
      (\<lparr>co_runtime = S, co_shutdown = sd\<rparr>\<lparr>co_runtime := S'\<rparr>)"
    by (rule delivers_release) (use assms c in \<open>simp_all add: network_ok_def\<close>)
  from on_wire_delivers [OF this] c show ?thesis by simp
qed

lemma on_wire_consume:
  assumes "network_ok results up down" "quantity_ok (Quantity qty Unit_Count)"
    and "consume_result_sendable (fst (rf_consume i g (Quantity qty Unit_Count)
      \<lparr>ce_worker = v, ce_workerBoot = boot, ce_consumptionGeneration = StrongGeneration cg,
       ce_at = Instant 100\<rparr> S))"
  shows "on_wire (lan_world results up down spawns) (sendConsume i g qty v boot cg) n (at_lan S sd ev ru k) =
    (case rf_consume i g (Quantity qty Unit_Count) \<lparr>ce_worker = v, ce_workerBoot = boot,
        ce_consumptionGeneration = StrongGeneration cg, ce_at = Instant 100\<rparr> S of
       (r, S') \<Rightarrow> (Inr r, n, at_lan S' sd ev ru k))"
proof -
  obtain cr S' where c: "rf_consume i g (Quantity qty Unit_Count) \<lparr>ce_worker = v, ce_workerBoot = boot,
      ce_consumptionGeneration = StrongGeneration cg, ce_at = Instant 100\<rparr> S = (cr, S')" by fastforce
  have "delivers (sendConsume i g qty v boot cg) results up down (StrongId 0) \<lparr>co_runtime = S, co_shutdown = sd\<rparr> (Inr cr)
      (\<lparr>co_runtime = S, co_shutdown = sd\<rparr>\<lparr>co_runtime := S'\<rparr>)"
    by (rule delivers_consume) (use assms c in \<open>simp_all add: network_ok_def\<close>)
  from on_wire_delivers [OF this] c show ?thesis by simp
qed

lemma on_wire_accounting:
  assumes "network_ok results up down" "rf_accounting i S = (Inr acc, S')"
    and "in_i64 (q_value (ca_committed acc))" "in_i64 (q_value (ca_headroom acc))"
  shows "on_wire (lan_world results up down spawns) (sendAccounting i) n (at_lan S sd ev ru k) =
    (Inr (q_value (ca_committed acc), ca_consistent acc), n, at_lan S' sd ev ru k)"
proof -
  have "delivers (sendAccounting i) results up down (StrongId 0) \<lparr>co_runtime = S, co_shutdown = sd\<rparr> (Inr (q_value (ca_committed acc), ca_consistent acc))
      (\<lparr>co_runtime = S, co_shutdown = sd\<rparr>\<lparr>co_runtime := S'\<rparr>)"
    by (rule delivers_accounting) (use assms in \<open>simp_all add: network_ok_def\<close>)
  from on_wire_delivers [OF this] show ?thesis by simp
qed

lemma on_wire_count:
  assumes "network_ok results up down" "int (currentReservationCount S) \<le> INT64_MAX"
  shows "on_wire (lan_world results up down spawns) sendCount n (at_lan S sd ev ru k) =
    (Inr (word_of_nat (currentReservationCount S)), n, at_lan S sd ev ru k)"
proof -
  have "delivers sendCount results up down (StrongId 0) \<lparr>co_runtime = S, co_shutdown = sd\<rparr>
      (Inr (word_of_nat (currentReservationCount S))) \<lparr>co_runtime = S, co_shutdown = sd\<rparr>"
    using delivers_count [of up down results "\<lparr>co_runtime = S, co_shutdown = sd\<rparr>" "StrongId 0"] assms by (simp add: network_ok_def)
  from on_wire_delivers [OF this] show ?thesis by simp
qed

text \<open>Calls that look at no member of the answer.\<close>

lemma on_wire_exchange:
  assumes "network_ok results up down" "length p \<le> 2 ^ 20"
    and "serve_frame \<lparr>frame_type = t, frame_payload = p\<rparr> (StrongId 0) \<lparr>co_runtime = S, co_shutdown = sd\<rparr> =
      (Inr reply, StrongId 0, \<lparr>co_runtime = S', co_shutdown = sd'\<rparr>)"
    and "encodeFrame rt rp = Inr reply" "message.canonical t" "message.canonical rt" "rt \<noteq> Msg_ErrorResponse"
    and "\<And>s. f results s = (case exchange t p results s of (wire, resp, s') \<Rightarrow> (wire, g resp, s'))"
  shows "on_wire (lan_world results up down spawns) f n (at_lan S sd ev ru k) =
    (g (Inr \<lparr>frame_type = rt, frame_payload = rp\<rparr>), n, at_lan S' sd' ev ru k)"
proof -
  have "sent results t p" using assms(1,2) by (simp add: network_ok_def sends_all_def)
  with assms have "delivers f results up down (StrongId 0) \<lparr>co_runtime = S, co_shutdown = sd\<rparr>
      (g (Inr \<lparr>frame_type = rt, frame_payload = rp\<rparr>)) \<lparr>co_runtime = S', co_shutdown = sd'\<rparr>"
    using delivers_exchange [of up down results t p "StrongId 0" "\<lparr>co_runtime = S, co_shutdown = sd\<rparr>" reply
        "\<lparr>co_runtime = S', co_shutdown = sd'\<rparr>" rt rp f g]
    by (simp add: network_ok_def)
  from on_wire_delivers [OF this] show ?thesis by simp
qed

lemma on_wire_hello:
  assumes "network_ok results up down"
  shows "on_wire (lan_world results up down spawns) send_hello n (at_lan S sd ev ru k) =
    (Inr \<lparr>frame_type = Msg_Acknowledge, frame_payload = w_str ''client''\<rparr>, n, at_lan S sd ev ru k)"
proof -
  let ?p = "w_str ''client'' @ w_id (StrongId 9 :: WorkerId) @ w_gen (StrongGeneration 1 :: WorkerBootId)"
  have ok: "string_ok ''client''" by (simp add: string_ok_def)
  obtain reply where reply: "encodeFrame Msg_Acknowledge (w_str ''client'') = Inr reply"
    by (simp add: encodeFrame_bytes)
  have serve: "serve_frame \<lparr>frame_type = Msg_Hello, frame_payload = ?p\<rparr> (StrongId 0) cs =
      (Inr reply, StrongId 0, cs)" for cs
    using reply by (simp add: serve_frame_def conn_worker_def handleMessage_def with_payload_def rd_hello_def
        codec_simps str_codec.round [OF ok] gen_codec.round_end rd_bind_def)
  show ?thesis
    by (rule on_wire_exchange [OF assms _ serve reply, where g = "\<lambda>r. r"])
       (simp_all add: canonical_types send_hello_def case_prod_beta)
qed

lemma on_wire_shutdown:
  assumes "network_ok results up down"
  shows "on_wire (lan_world results up down spawns) (exchange Msg_Shutdown []) n (at_lan S sd ev ru k) =
    (Inr \<lparr>frame_type = Msg_Acknowledge, frame_payload = w_u8 1\<rparr>, n, at_lan S True ev ru k)"
proof -
  obtain reply where reply: "encodeFrame Msg_Acknowledge (w_u8 1) = Inr reply"
    by (simp add: encodeFrame_bytes)
  have serve: "serve_frame \<lparr>frame_type = Msg_Shutdown, frame_payload = []\<rparr> (StrongId 0)
      \<lparr>co_runtime = S, co_shutdown = sd\<rparr> = (Inr reply, StrongId 0, \<lparr>co_runtime = S, co_shutdown = True\<rparr>)"
    using reply by (intro serve_plain) (simp_all add: handleMessage_def)
  show ?thesis
    by (rule on_wire_exchange [OF assms _ serve reply, where g = "\<lambda>r. r"])
       (simp_all add: canonical_types case_prod_beta)
qed

definition pub_again :: ResourcePublication where
  "pub_again = ResourcePublication_default\<lparr>
     pub_worker := StrongId 1, pub_workerBoot := StrongGeneration 2, pub_id := StrongId 1,
     pub_generation := StrongGeneration 2, pub_class := AcceleratorCompute, pub_unit := Unit_Count,
     pub_totalCapacity := Quantity 100 Unit_Count, pub_pool := StrongId 1,
     pub_poolGeneration := StrongGeneration 1, pub_capabilities := StrongGeneration 1,
     pub_topology := StrongGeneration 1, pub_contract := StrongId 1,
     pub_contractGeneration := StrongGeneration 1, pub_availableFrom := Instant 0,
     pub_lifetime := Duration 31536000000000000\<rparr>"

lemma pub_again:
  "revalidate_publication (StrongId 1) (StrongId 1) (StrongGeneration 2) (StrongGeneration 2) 100 =
     Inr pub_again"
  by (simp add: revalidate_publication_def pub_again_def Quantity_count_def mk_Quantity_def
      check_quantity_rep_def Duration_seconds_def signed_divide_int_def i64_defs ub_i64_def)

lemmas sendable_ranges = quantity_ok_def quantity_wf_def instant_ok_def duration_ok_def window_ok_def
  locality_ok_def string_ok_def ratio_ok_def windows_ok_def counted_def Unit_of_byte_def
  ResourceClass_of_byte_def ActivationMode_of_byte_def ReservationStrength_of_byte_def
  ExclusivityMode_of_byte_def Elasticity_of_byte_def RenewalPermission_of_byte_def
  TransferPermission_of_byte_def

lemma pub_again_sendable: "publication_sendable pub_again"
  by (simp add: publication_sendable_def pub_again_def ResourcePublication_default_def
      sendable_ranges eval_domain)

lemma length_publication: "length (pub_unavailable pub) = 0 \<Longrightarrow> length (serPublication pub) \<le> 2 ^ 20"
  by (simp add: serPublication_def w_enu_def w_u8_def w_instant_def w_duration_def ser_windows_def
      w_each_def w_count_def w_u32_def ser_ratio_def w_i32_def)

lemma on_wire_publish:
  assumes "network_ok results up down" "publishResource pub_again S = (Inr (res, err), S')"
    and "pred_option (\<lambda>e. length e \<le> 1000) err"
  shows "on_wire (lan_world results up down spawns) publish_again n (at_lan S sd ev ru k) =
    (Inr \<lparr>frame_type = Msg_PublishResult,
       frame_payload = w_enu ResourceRegisterResult_byte res @ w_str (case err of None \<Rightarrow> [] | Some e \<Rightarrow> e)\<rparr>,
     n, at_lan S' sd ev ru k)"
proof -
  have len: "length (serPublication pub_again) \<le> 2 ^ 20"
    by (rule length_publication) (simp add: pub_again_def ResourcePublication_default_def)
  obtain reply where reply: "encodeFrame Msg_PublishResult (w_enu ResourceRegisterResult_byte res @
      w_str (case err of None \<Rightarrow> [] | Some e \<Rightarrow> e)) = Inr reply"
    using assms(3) by (cases err) (simp_all add: encodeFrame_bytes w_enu_def w_u8_def)
  have serve: "serve_frame \<lparr>frame_type = Msg_PublishResource, frame_payload = serPublication pub_again\<rparr>
      (StrongId 0) \<lparr>co_runtime = S, co_shutdown = sd\<rparr> = (Inr reply, StrongId 0, \<lparr>co_runtime = S', co_shutdown = sd\<rparr>)"
    by (rule serve_plain) (simp_all add: handle_publish [OF pub_again_sendable] assms(2) reply)
  show ?thesis
    by (rule on_wire_exchange [OF assms(1) len serve reply, where g = "\<lambda>r. r"])
       (simp_all add: canonical_types publish_again_def pub_again case_prod_beta)
qed

lemma on_wire_revalidate:
  assumes "network_ok results up down" "revalidateResource (StrongId 1) pub_again S = (Inr m, S')"
  shows "on_wire (lan_world results up down spawns)
      (sendRevalidate (StrongId 1) (StrongId 1) (StrongGeneration 2) (StrongGeneration 2) 100) n
      (at_lan S sd ev ru k) = (Inr (), n, at_lan S' sd ev ru k)"
proof -
  have len: "length (serPublication pub_again) \<le> 2 ^ 20"
    by (rule length_publication) (simp add: pub_again_def ResourcePublication_default_def)
  obtain reply where reply: "encodeFrame Msg_Acknowledge (w_u64 (word_of_nat m)) = Inr reply"
    by (simp add: encodeFrame_bytes)
  have "pub_id pub_again = StrongId 1" by (simp add: pub_again_def)
  then have serve: "serve_frame \<lparr>frame_type = Msg_Revalidate, frame_payload = serPublication pub_again\<rparr>
      (StrongId 0) \<lparr>co_runtime = S, co_shutdown = sd\<rparr> = (Inr reply, StrongId 0, \<lparr>co_runtime = S', co_shutdown = sd\<rparr>)"
    using assms(2) reply
    by (intro serve_plain) (simp_all add: handleMessage_def with_payload_def Let_def
        publication_codec.round_end [OF pub_again_sendable])
  show ?thesis
    by (rule on_wire_exchange [OF assms(1) len serve reply,
          where g = "\<lambda>resp. bind_outcome resp (\<lambda>_. Inr ())", simplified])
       (simp_all add: canonical_types sendRevalidate_def pub_again case_prod_beta)
qed

text \<open>A worker that joins publishes; the commands of the test and their publications.\<close>

lemma happens_joins:
  assumes "publication_sendable pub" "publishResource pub S = (Inr (res, err), S')"
    and "pred_option (\<lambda>e. length e \<le> 1000) err"
  shows "happens (Joins
      [\<lparr>frame_type = Msg_Hello, frame_payload = w_str ''worker'' @ w_id (w :: WorkerId) @ w_gen (boot :: WorkerBootId)\<rparr>,
       \<lparr>frame_type = Msg_Register, frame_payload = w_id w @ w_gen boot\<rparr>,
       \<lparr>frame_type = Msg_PublishResource, frame_payload = serPublication pub\<rparr>])
      \<lparr>co_runtime = S, co_shutdown = sd\<rparr> = \<lparr>co_runtime = S', co_shutdown = sd\<rparr>"
proof -
  let ?cs = "\<lparr>co_runtime = S, co_shutdown = sd\<rparr>"
  have "publishResource pub (co_runtime ?cs) = (Inr (res, err), S')" using assms(2) by simp
  note frames = worker_frames [OF assms(1) this assms(3)]
  from frames(1) [of w boot "StrongId 0"] frames(2) [of w boot] frames(3) [of w]
  show ?thesis by auto
qed

definition test_pub :: "WorkerId \<Rightarrow> WorkerBootId \<Rightarrow> ResourceId \<Rightarrow> ResourcePublication" where
  "test_pub w boot i = pub_again\<lparr>pub_worker := w, pub_workerBoot := boot, pub_id := i,
     pub_generation := StrongGeneration 1\<rparr>"

lemma test_pub_sendable: "publication_sendable (test_pub w boot i)"
  using pub_again_sendable by (simp add: publication_sendable_def test_pub_def)

lemma test_messages:
  "worker_messages w boot i (Quantity 100 Unit_Count) (Instant 0) = Inr
     [\<lparr>frame_type = Msg_Hello, frame_payload = w_str ''worker'' @ w_id w @ w_gen boot\<rparr>,
      \<lparr>frame_type = Msg_Register, frame_payload = w_id w @ w_gen boot\<rparr>,
      \<lparr>frame_type = Msg_PublishResource, frame_payload = serPublication (test_pub w boot i)\<rparr>]"
  by (simp add: worker_messages_def worker_publication_def test_pub_def pub_again_def
      ResourcePublication_default_def
      Duration_seconds_def signed_divide_int_def i64_defs ub_i64_def)

lemma test_commands:
  "words (coordinator_command ''rf_coordinator'' 37911) = [''rf_coordinator'', ''37911'']"
  "words (worker_command ''rf_worker'' 37911 '' 1 1 1 100 0'') =
     [''rf_worker'', ''127.0.0.1'', ''37911'', ''1'', ''1'', ''1'', ''100'', ''0'']"
  "words (worker_command ''rf_worker'' 37911 '' 2 1 2 100 0'') =
     [''rf_worker'', ''127.0.0.1'', ''37911'', ''2'', ''1'', ''2'', ''100'', ''0'']"
  "words (worker_command ''rf_worker'' 37911 '' 1 2 1 100 0'') =
     [''rf_worker'', ''127.0.0.1'', ''37911'', ''1'', ''2'', ''1'', ''100'', ''0'']"
  by (simp_all add: coordinator_command_def worker_command_def eval_text)

lemma test_numerals:
  "c_atoll ''0'' = Inr 0" "c_atoll ''1'' = Inr 1" "c_atoll ''2'' = Inr 2" "c_atoll ''100'' = Inr 100"
proof -
  show "c_atoll ''0'' = Inr 0" "c_atoll ''1'' = Inr 1" "c_atoll ''2'' = Inr 2" "c_atoll ''100'' = Inr 100"
    using atoll_to_string [of 0] atoll_to_string [of 1] atoll_to_string [of 2] atoll_to_string [of 100]
    by (simp_all add: nat_to_string.simps i64_defs)
qed

end
