(* ===== verification/RF_Scenario_Run.thy ===== *)
theory RF_Scenario_Run
  imports RF_Scenario_Props
begin

text \<open>
  The run of the multi-process test on the local network, phase by phase. The states between the
  phases are evaluated once (\<open>sc1\<close> to \<open>sc6\<close>) and each phase leads from one to the next over every
  network that delivers the frames.
\<close>

section \<open>Processes of the test\<close>

lemma spawn_coordinator:
  "lan_spawn spawns (coordinator_command ''rf_coordinator'' 37911) nt =
     (if spawns (nt_count nt) then (Some (int (nt_count nt) + 1), nt\<lparr>nt_count := Suc (nt_count nt), nt_up := True\<rparr>)
      else (None, nt\<lparr>nt_count := Suc (nt_count nt)\<rparr>))"
  unfolding lan_spawn_def test_commands by (simp add: Let_def)

lemma spawn_worker:
  assumes "words cmd = [''rf_worker'', ''127.0.0.1'', ''37911'', a, b, c, ''100'', ''0'']"
    and "c_atoll a = Inr w" "c_atoll b = Inr boot" "c_atoll c = Inr r"
  shows "lan_spawn spawns cmd nt =
     (if spawns (nt_count nt) then (Some (int (nt_count nt) + 1), nt\<lparr>nt_count := Suc (nt_count nt),
        nt_events := nt_events nt @ [Joins
          [\<lparr>frame_type = Msg_Hello, frame_payload = w_str ''worker'' @
              w_id (StrongId (word_of_int w) :: WorkerId) @ w_gen (StrongGeneration (word_of_int boot) :: WorkerBootId)\<rparr>,
           \<lparr>frame_type = Msg_Register, frame_payload =
              w_id (StrongId (word_of_int w) :: WorkerId) @ w_gen (StrongGeneration (word_of_int boot) :: WorkerBootId)\<rparr>,
           \<lparr>frame_type = Msg_PublishResource, frame_payload = serPublication
              (test_pub (StrongId (word_of_int w)) (StrongGeneration (word_of_int boot)) (StrongId (word_of_int r)))\<rparr>]],
        nt_running := (int (nt_count nt) + 1, StrongId (word_of_int w)) # nt_running nt\<rparr>)
      else (None, nt\<lparr>nt_count := Suc (nt_count nt)\<rparr>))"
proof -
  have "Quantity_count 100 = Inr (Quantity 100 Unit_Count)"
    by (simp add: Quantity_count_def mk_Quantity_def check_quantity_rep_def)
  with assms show ?thesis
    by (simp add: lan_spawn_def Let_def worker_program_def worker_args_def test_numerals test_messages
        del: word_of_int_numeral)
qed

lemmas spawn_test_workers =
  spawn_worker [OF test_commands(2) test_numerals(2) test_numerals(2) test_numerals(2)]
  spawn_worker [OF test_commands(3) test_numerals(3) test_numerals(2) test_numerals(3)]
  spawn_worker [OF test_commands(4) test_numerals(2) test_numerals(3) test_numerals(2)]

lemma test_pub_sel:
  "pub_worker (test_pub w b i) = w" "pub_workerBoot (test_pub w b i) = b" "pub_id (test_pub w b i) = i"
  "pub_generation (test_pub w b i) = StrongGeneration 1"
  by (simp_all add: test_pub_def)

lemma pub_again_sel:
  "pub_worker pub_again = StrongId 1" "pub_workerBoot pub_again = StrongGeneration 2"
  "pub_id pub_again = StrongId 1" "pub_generation pub_again = StrongGeneration 2"
  by (simp_all add: pub_again_def)

lemma pub_sel:
  assumes "pub = pub_again \<or> pub = test_pub w b i"
  shows "pub_class pub = AcceleratorCompute" "pub_unit pub = Unit_Count"
    "pub_totalCapacity pub = Quantity 100 Unit_Count" "pub_pool pub = StrongId 1"
    "pub_poolGeneration pub = StrongGeneration 1" "pub_capabilities pub = StrongGeneration 1"
    "pub_topology pub = StrongGeneration 1" "pub_contract pub = StrongId 1"
    "pub_contractGeneration pub = StrongGeneration 1" "pub_availableFrom pub = Instant 0"
    "pub_lifetime pub = Duration 31536000000000000" "pub_unavailable pub = []"
    "pub_overbookRatio pub = Ratio_one" "pub_overbookableClasses pub = []"
  using assms by (auto simp: test_pub_def pub_again_def ResourcePublication_default_def)

lemmas test_pub_eq = test_pub_sel pub_again_sel pub_sel [OF disjI1 [OF refl]] pub_sel [OF disjI2 [OF refl]]

lemma second_priority [simp]: "det_prio 1000000100 = 1709744671"
  by code_simp

lemmas eval_lan = in_world_def waitms_def spawn_def killProc_def INVALID_HANDLE_VALUE_def
  spawn_coordinator spawn_test_workers lan_start_def

lemma lan_world_sel:
  "w_spawn (lan_world results up down spawns) = lan_spawn spawns"
  "w_kill (lan_world results up down spawns) = lan_kill"
  "w_wait (lan_world results up down spawns) = lan_wait"
  "w_connect (lan_world results up down spawns) = (\<lambda>port nt. (nt_up nt, nt))"
  by (simp_all add: lan_world_def)

section \<open>Requests and publications of the test\<close>

definition joins_ok :: "ResourcePublication \<Rightarrow> Impl \<Rightarrow> bool" where
  "joins_ok pub S \<longleftrightarrow> publication_sendable pub \<and>
     (case fst (publishResource pub S) of
        Inl _ \<Rightarrow> False | Inr (_, err) \<Rightarrow> pred_option (\<lambda>e. length e \<le> 1000) err)"

lemma happens_joins_ok:
  assumes "joins_ok pub S"
  shows "happens (Joins
      [\<lparr>frame_type = Msg_Hello, frame_payload = w_str ''worker'' @ w_id (w :: WorkerId) @ w_gen (boot :: WorkerBootId)\<rparr>,
       \<lparr>frame_type = Msg_Register, frame_payload = w_id w @ w_gen boot\<rparr>,
       \<lparr>frame_type = Msg_PublishResource, frame_payload = serPublication pub\<rparr>])
      \<lparr>co_runtime = S, co_shutdown = sd\<rparr> = \<lparr>co_runtime = snd (publishResource pub S), co_shutdown = sd\<rparr>"
proof -
  obtain res err S' where "publishResource pub S = (Inr (res, err), S')"
    "pred_option (\<lambda>e. length e \<le> 1000) err"
    using assms by (cases "publishResource pub S") (auto simp: joins_ok_def split: sum.splits)
  then show ?thesis using happens_joins [of pub S res err S'] assms by (simp add: joins_ok_def)
qed

declare happens.simps(1) [simp del]

lemmas wire_steps = on_wire_request [unfolded at_lan_def] on_wire_activate [unfolded at_lan_def]
  on_wire_release [unfolded at_lan_def] on_wire_consume [unfolded at_lan_def]
  on_wire_accounting [unfolded at_lan_def] on_wire_count [unfolded at_lan_def]
  on_wire_hello [unfolded at_lan_def] on_wire_shutdown [unfolded at_lan_def]
  on_wire_publish [unfolded at_lan_def] on_wire_revalidate [unfolded at_lan_def]

lemma try_connect_20: "try_connect W port 20 = script_bind (in_world (w_connect W port)) (\<lambda>ok.
    if ok then script_state (\<lambda>s. ((), s\<lparr>dr_client := True\<rparr>))
    else script_then (waitms W 150) (try_connect W port 19))"
  using try_connect.simps(2) [of W port 19] by (simp del: try_connect.simps)

definition test_req :: "u64 \<Rightarrow> int \<Rightarrow> ReservationRequest" where
  "test_req i q = ReservationRequest_default\<lparr>
     req_requestId := StrongId i, req_requestGeneration := StrongGeneration 1,
     req_class := AcceleratorCompute, req_unit := Unit_Count, req_quantity := Quantity q Unit_Count,
     req_window := Interval (Instant 100) (Instant 1000000100),
     req_activationMode := FixedInterval, req_strength := Hard, req_owner := StrongId 1,
     req_ownerGeneration := StrongGeneration 1, req_policyGeneration := StrongGeneration 1,
     req_priorityGeneration := StrongGeneration 1, req_targetResource := Some (StrongId 1)\<rparr>"

lemmas test_req_defs = test_req_def ReservationRequest_default_def

lemma test_request:
  assumes "0 \<le> q"
  shows "makeProtoReq i q 100 1000000000 (StrongId 1) = Inr (test_req i q)"
  using assms by (simp add: makeProtoReq_def test_req_def Quantity_count_def eval_domain)

lemma test_req_sel:
  "req_requestId (test_req i q) = StrongId i" "req_requestGeneration (test_req i q) = StrongGeneration 1"
  "req_class (test_req i q) = AcceleratorCompute" "req_unit (test_req i q) = Unit_Count"
  "req_quantity (test_req i q) = Quantity q Unit_Count" "req_partialAllowed (test_req i q) = False"
  "req_minAcceptable (test_req i q) = None"
  "req_window (test_req i q) = Interval (Instant 100) (Instant 1000000100)"
  "req_activationMode (test_req i q) = FixedInterval" "req_durationAfterActivation (test_req i q) = None"
  "req_strength (test_req i q) = Hard" "req_owner (test_req i q) = StrongId 1"
  "req_ownerGeneration (test_req i q) = StrongGeneration 1" "req_workload (test_req i q) = None"
  "req_workloadGeneration (test_req i q) = None" "req_execution (test_req i q) = None"
  "req_executionGeneration (test_req i q) = None"
  "req_capability (test_req i q) = CapabilityConstraint_default"
  "req_locality (test_req i q) = LocalityConstraint_default"
  "req_topology (test_req i q) = TopologyConstraint_default"
  "req_compatibility (test_req i q) = CompatibilityConstraint_default"
  "req_minResourceGeneration (test_req i q) = None" "req_policyGeneration (test_req i q) = StrongGeneration 1"
  "req_priorityGeneration (test_req i q) = StrongGeneration 1" "req_priorityClass (test_req i q) = 0"
  "req_preemptible (test_req i q) = False" "req_exclusivity (test_req i q) = Shared"
  "req_elasticity (test_req i q) = Elasticity_None" "req_renewal (test_req i q) = Renewal_None"
  "req_transfer (test_req i q) = Transfer_None" "req_fragmentationTolerance (test_req i q) = 0"
  "req_allOrNothing (test_req i q) = True" "req_poolConstraint (test_req i q) = StrongId 0"
  "req_group (test_req i q) = None" "req_targetResource (test_req i q) = Some (StrongId 1)"
  "req_provenance (test_req i q) = []"
  by (simp_all add: test_req_defs)

definition result_ok :: "ReservationResult \<Rightarrow> bool" where
  "result_ok rr \<longleftrightarrow> reservation_result_sendable rr \<and> length (serReservationResult rr) \<le> 2 ^ 20"

lemma test_request_ok:
  assumes "0 \<le> q" "q \<le> 100"
  shows "request_ok (test_req i q) S \<longleftrightarrow>
    (case fst (rf_commit (test_req i q) None S) of Inr rr \<Rightarrow> result_ok rr | Inl _ \<Rightarrow> False)"
proof -
  have "request_sendable (test_req i q)"
    using assms by (simp add: request_sendable_def test_req_sel sendable_ranges eval_domain)
  moreover have "length (serReq (test_req i q)) \<le> 2 ^ 20"
    by (simp add: serReq_def test_req_sel eval_domain w_enu_def w_u8_def w_u32_def w_optVal_def
        serInterval_def w_instant_def proto_serOptGen_def w_optId_def w_i32_def
        ser_capability_def ser_locality_def ser_topology_def ser_compatibility_def)
  ultimately show ?thesis by (simp add: request_ok_def result_ok_def cong: sum.case_cong)
qed

lemmas eval_result = result_ok_def reservation_result_sendable_def report_sendable_def string_ok_def
  quantity_ok_def quantity_wf_def flagged_ok_def counted_def reasons_ok_def Unit_of_byte_def
  ResourceClass_of_byte_def Feasibility_of_byte_def iv_isEmpty_def window_ok_def instant_ok_def
  serReservationResult_def serReport_def w_enu_def w_u8_def ser_flagged_def ser_ids_def ser_reasons_def
  w_each_def w_count_def w_u32_def serInterval_def w_instant_def Interval_default_def

lemmas eval_phases = runScenario_def start_processes_def admission_phase_def use_phase_def refill_phase_def
  kill_phase_def restart_phase_def stop_phase_def request_def check_accounting_def check_activated_def

lemmas eval_calls = test_request test_request_ok
     test_req_sel eval_result eval_script eval_lan lan_world_sel lan_wait_def lan_kill_def
     try_connect_20 happens_joins_ok joins_ok_def test_pub_sendable 
     scenario_activation_def rf_release_def mk_ReleaseResult_def withdraw_def
     currentReservationCount_def consume_result_sendable_def fence_worker_def fence_resource_def
     resourceIds_def rf_resource_def fence_notice_def invalidateResource_def revalidateResource_def
     put_resource_def amap_values_def readvance_def flag_revalidation_def needs_revalidation_def
     test_pub_eq eval_tools eval_domain eval_index eval_runtime at_lan_def

section \<open>The states between the phases\<close>

abbreviation test_world :: "lan world" where
  "test_world \<equiv> lan_world [2097152] (map (\<lambda>b. [b])) (map (\<lambda>b. [b])) (\<lambda>_. True)"

lemma test_network: "network_ok [2097152] (map (\<lambda>b. [b])) (map (\<lambda>b. [b]))"
  by (simp add: network_ok_def carries_bytewise one_send)

lemmas test_wire = wire_steps [OF test_network]

definition state_of :: "'a outcome \<times> nat \<times> lan driver \<Rightarrow> Impl" where
  "state_of r = co_runtime (nt_cs (dr_world (snd (snd r))))"

definition sc1 :: Impl where
  "sc1 = snd (publishResource (test_pub (StrongId 2) (StrongGeneration 1) (StrongId 2))
    (snd (publishResource (test_pub (StrongId 1) (StrongGeneration 1) (StrongId 1)) (mk_Impl RuntimeConfig_default))))"

declare eval_calls [simp] eval_phases [simp] test_wire [simp] Let_def [simp] let_weak_cong [cong]
lemmas sc1_eq = sc1_def [simplified]

declare state_of_def [simp] sc1_eq [simp]

definition after_admission :: "(ReservationResult \<times> ReservationResult) outcome \<times> nat \<times> lan driver" where
  "after_admission = admission_phase test_world 0 (at_lan sc1 False [] [] 0)"
lemmas after_admission_eq = after_admission_def [simplified]
definition sc2 :: Impl where "sc2 = state_of after_admission"
definition rA :: ReservationResult where "rA = fst (projr (fst after_admission))"
definition rB40 :: ReservationResult where "rB40 = snd (projr (fst after_admission))"
lemmas sc2_eq = sc2_def [simplified after_admission_eq, simplified]
lemmas rA_eq = rA_def [simplified after_admission_eq, simplified]
lemmas rB40_eq = rB40_def [simplified after_admission_eq, simplified]
declare sc2_eq [simp] rA_eq [simp] rB40_eq [simp]

definition after_use :: "unit outcome \<times> nat \<times> lan driver" where
  "after_use = use_phase test_world rA 0 (at_lan sc2 False [] [] 0)"
lemmas after_use_eq = after_use_def [simplified]
definition sc3 :: Impl where "sc3 = state_of after_use"
lemmas sc3_eq = sc3_def [simplified after_use_eq, simplified]
declare sc3_eq [simp]

definition after_refill :: "ReservationResult outcome \<times> nat \<times> lan driver" where
  "after_refill = refill_phase test_world rB40 0 (at_lan sc3 False [] [] 0)"
lemmas after_refill_eq = after_refill_def [simplified]
definition sc4 :: Impl where "sc4 = state_of after_refill"
definition rC :: ReservationResult where "rC = projr (fst after_refill)"
lemmas sc4_eq = sc4_def [simplified after_refill_eq, simplified]
lemmas rC_eq = rC_def [simplified after_refill_eq, simplified]
declare sc4_eq [simp] rC_eq [simp]

definition after_kill :: "unit outcome \<times> nat \<times> lan driver" where
  "after_kill = kill_phase test_world 2 rB40 0
    (at_lan sc4 False [] [(3, StrongId 2), (2, StrongId 1)] 3)"
lemmas after_kill_eq = after_kill_def [simplified]
definition sc5 :: Impl where "sc5 = state_of after_kill"
lemmas sc5_eq = sc5_def [simplified after_kill_eq, simplified]
declare sc5_eq [simp]

definition after_restart :: "handle outcome \<times> nat \<times> lan driver" where
  "after_restart = restart_phase test_world ''rf_worker'' 37911 rB40 rC 0
    (at_lan sc5 False [] [(3, StrongId 2), (2, StrongId 1)] 3)"
lemmas after_restart_eq = after_restart_def [simplified]
definition sc6 :: Impl where "sc6 = state_of after_restart"
lemmas sc6_eq = sc6_def [simplified after_restart_eq, simplified]
declare sc6_eq [simp]
declare eval_calls [simp del] eval_phases [simp del] test_wire [simp del] Let_def [simp del]
  let_weak_cong [cong del] state_of_def [simp del] sc1_eq [simp del] sc2_eq [simp del] sc3_eq [simp del]
  sc4_eq [simp del] sc5_eq [simp del] sc6_eq [simp del] rA_eq [simp del] rB40_eq [simp del] rC_eq [simp del]

section \<open>The phases\<close>

lemmas script_eval = eval_calls eval_phases Let_def

lemma start_run:
  assumes "network_ok results up down" "spawns 0" "spawns (Suc 0)" "spawns 2"
  shows "start_processes (lan_world results up down spawns) ''rf_coordinator'' ''rf_worker'' 37911 n
    \<lparr>dr_world = lan_start, dr_client = False, dr_pending = []\<rparr> =
    (Inr (1, 2, 3), n, at_lan sc1 False [] [(3, StrongId 2), (2, StrongId 1)] 3)"
  by (simp add: script_eval assms wire_steps [OF assms(1)] sc1_eq numeral_2_eq_2 [symmetric] cong: let_weak_cong)

lemma admission_run:
  assumes "network_ok results up down"
  shows "admission_phase (lan_world results up down spawns) n (at_lan sc1 sd ev ru k) =
    (Inr (rA, rB40), n, at_lan sc2 sd ev ru k)"
  by (simp add: script_eval wire_steps [OF assms(1)] sc1_eq sc2_eq rA_eq rB40_eq cong: let_weak_cong)

lemma use_run:
  assumes "network_ok results up down"
  shows "use_phase (lan_world results up down spawns) rA n (at_lan sc2 sd ev ru k) =
    (Inr (), n, at_lan sc3 sd ev ru k)"
  by (simp add: script_eval wire_steps [OF assms(1)] sc2_eq sc3_eq rA_eq cong: let_weak_cong)

lemma refill_run:
  assumes "network_ok results up down"
  shows "refill_phase (lan_world results up down spawns) rB40 n (at_lan sc3 sd ev ru k) =
    (Inr rC, n, at_lan sc4 sd ev ru k)"
  by (simp add: script_eval wire_steps [OF assms(1)] sc3_eq sc4_eq rB40_eq rC_eq cong: let_weak_cong)

lemma kill_run:
  assumes "network_ok results up down"
  shows "kill_phase (lan_world results up down spawns) 2 rB40 n (at_lan sc4 sd [] [(3, StrongId 2), (2, StrongId 1)] k) =
    (Inr (), n, at_lan sc5 sd [] [(3, StrongId 2), (2, StrongId 1)] k)"
  by (simp add: script_eval wire_steps [OF assms(1)] sc4_eq sc5_eq rB40_eq cong: let_weak_cong)

lemma restart_run:
  assumes "network_ok results up down"
  shows "restart_phase (lan_world results up down spawns) ''rf_worker'' 37911 rB40 rC n (at_lan sc5 sd [] ru 3) =
    (if spawns 3 then (Inr 4, n, at_lan sc6 sd [] ((4, StrongId 1) # ru) 4)
     else (Inr INVALID_HANDLE_VALUE, Suc n, at_lan sc6 sd [] ru 4))"
  by (simp add: script_eval wire_steps [OF assms(1)] sc5_eq sc6_eq rB40_eq rC_eq cong: let_weak_cong)

lemma stop_run:
  assumes "network_ok results up down"
  shows "stop_phase (lan_world results up down spawns) 1 3 4 n
      (at_lan S sd [] [(4, StrongId 1), (3, StrongId 2), (2, StrongId 1)] k) =
    (Inr (), n, at_lan (fence_worker (StrongId 1) (fence_worker (StrongId 2) S)) True []
      [(4, StrongId 1), (3, StrongId 2), (2, StrongId 1)] k)"
  by (simp add: stop_phase_def eval_script eval_lan lan_world_sel lan_wait_def lan_kill_def at_lan_def
      on_wire_shutdown [OF assms, unfolded at_lan_def])

text \<open>The handle of a worker that did not start: the test terminates itself.\<close>

lemma stop_run_invalid:
  "stop_phase (lan_world results up down spawns) 1 3 INVALID_HANDLE_VALUE n (at_lan S sd [] ru k) =
    (Inl OwnTermination, n, at_lan S sd (case map_of ru 3 of None \<Rightarrow> [] | Some w \<Rightarrow> [Leaves w]) ru k)"
  by (simp add: stop_phase_def eval_script eval_lan lan_world_sel lan_kill_def at_lan_def
      split: option.split)

section \<open>The whole test\<close>

lemma scenario_run:
  assumes "network_ok results up down" "spawns 0" "spawns (Suc 0)" "spawns 2"
  shows "\<exists>s. runScenario (lan_world results up down spawns) ''rf_coordinator'' ''rf_worker'' 37911 n
      \<lparr>dr_world = lan_start, dr_client = False, dr_pending = []\<rparr> =
      (if spawns 3 then (Inr (), n, s) else (Inl OwnTermination, Suc n, s)) \<and>
      (spawns 3 \<longrightarrow> co_shutdown (nt_cs (dr_world s)))"
proof (cases "spawns 3")
  case True
  then show ?thesis
    by (simp add: runScenario_def script_simps start_run [OF assms] admission_run [OF assms(1)]
        use_run [OF assms(1)] refill_run [OF assms(1)] kill_run [OF assms(1)]
        restart_run [OF assms(1)] stop_run [OF assms(1)])
       (simp add: at_lan_def)
next
  case False
  then show ?thesis
    by (simp add: runScenario_def script_simps start_run [OF assms] admission_run [OF assms(1)]
        use_run [OF assms(1)] refill_run [OF assms(1)] kill_run [OF assms(1)]
        restart_run [OF assms(1)] stop_run_invalid)
qed





text \<open>
  What the test does not look at: the publication of the restarted worker has emptied the line of
  resource 1. Its accounting reports 95 committed and a headroom of 100, and calls that consistent.
\<close>

lemma restart_empties_the_line:
  "\<exists>acc. fst (rf_accounting (StrongId 1) sc6) = Inr acc \<and> q_value (ca_committed acc) = 95 \<and>
     q_value (ca_headroom acc) = 100 \<and> ca_consistent acc"
  by (simp add: script_eval sc6_eq cong: let_weak_cong)

end
