(* ===== verification/RF_Bench.thy ===== *)
theory RF_Bench
  imports RF_Tools RF_Persist
begin

text \<open>
  The benchmark \<^verbatim>\<open>src/benchmarks/bench_basic.cpp\<close> without its clocks: one resource, \<open>n\<close> commits of a
  unit each over the same window, 100000 headroom queries, an accounting, a save and a load.
\<close>

definition bench_sizes :: "int list" where
  "bench_sizes = [1000, 10000, 100000]"

definition bench_publication :: "int \<Rightarrow> ResourcePublication outcome" where
  "bench_publication n =
     bind_outcome (ub_i64 (n + 100000)) (\<lambda>c.
     bind_outcome (Quantity_count c) (\<lambda>capacity.
     bind_outcome (Duration_seconds (365 * 24 * 3600)) (\<lambda>lifetime.
       Inr (ResourcePublication_default\<lparr>
         pub_worker := StrongId 1, pub_workerBoot := StrongGeneration 1, pub_id := StrongId 1,
         pub_generation := StrongGeneration 1, pub_class := AcceleratorCompute,
         pub_unit := Unit_Count, pub_totalCapacity := capacity, pub_availableFrom := Instant 0,
         pub_lifetime := lifetime\<rparr>))))"

definition bench_request :: "Interval \<Rightarrow> int \<Rightarrow> ReservationRequest outcome" where
  "bench_request w i =
     bind_outcome (Quantity_count 1) (\<lambda>q.
       Inr (ReservationRequest_default\<lparr>
         req_requestId := StrongId (word_of_int (i + 1)), req_requestGeneration := StrongGeneration 1,
         req_class := AcceleratorCompute, req_unit := Unit_Count, req_quantity := q,
         req_window := w, req_activationMode := FixedInterval, req_strength := Hard,
         req_owner := StrongId 1, req_ownerGeneration := StrongGeneration 1,
         req_policyGeneration := StrongGeneration 1, req_priorityGeneration := StrongGeneration 1,
         req_targetResource := Some (StrongId 1)\<rparr>))"

text \<open>The loop over the commits, for the indices \<open>is\<close>; it counts those that succeed.\<close>

fun bench_commits :: "Interval \<Rightarrow> int list \<Rightarrow> int \<Rightarrow> int operation" where
  "bench_commits w [] committed rf = (Inr committed, rf)"
| "bench_commits w (i # is) committed rf =
     (case bench_request w i of
        Inl e \<Rightarrow> (Inl e, rf)
      | Inr req \<Rightarrow>
          (case rf_commit req None rf of
             (Inl e, rf') \<Rightarrow> (Inl e, rf')
           | (Inr rc, rf') \<Rightarrow>
               bench_commits w is (if rr_committed rc then committed + 1 else committed) rf'))"

fun bench_queries :: "int list \<Rightarrow> int \<Rightarrow> int operation" where
  "bench_queries [] acc rf = (Inr acc, rf)"
| "bench_queries (i # is) acc rf =
     (case headroomAt (StrongId 1) (Instant (100 + i * 37 mod 1000000000)) True rf of
        (Inl e, rf') \<Rightarrow> (Inl e, rf')
      | (Inr q, rf') \<Rightarrow>
          (case ub_i64 (acc + q_value q) of
             Inl e \<Rightarrow> (Inl e, rf')
           | Inr acc' \<Rightarrow> bench_queries is acc' rf'))"

text \<open>
  What is printed for one size, the times left out. \<open>opened\<close> and \<open>written\<close> are what the stream
  reports, \<open>disk\<close> what is read from a file that was written with these bytes.
\<close>

record BenchLine =
  bl_n :: int
  bl_committed :: int
  bl_accounted :: int
  bl_consistent :: bool

definition bench_size ::
    "bool \<Rightarrow> bool \<Rightarrow> (u8 list \<Rightarrow> u8 list option) \<Rightarrow> Interval \<Rightarrow> int \<Rightarrow> BenchLine outcome" where
  "bench_size opened written disk w n =
     bind_outcome (bench_publication n) (\<lambda>p.
       case publishResource p (mk_Impl RuntimeConfig_default) of
         (Inl e, _) \<Rightarrow> Inl e
       | (Inr _, rf0) \<Rightarrow>
           (case bench_commits w (map int [0..<nat n]) 0 rf0 of
              (Inl e, _) \<Rightarrow> Inl e
            | (Inr committed, rf1) \<Rightarrow>
                (case bench_queries (map int [0..<100000]) 0 rf1 of
                   (Inl e, _) \<Rightarrow> Inl e
                 | (Inr _, rf2) \<Rightarrow>
                     (case rf_accounting (StrongId 1) rf2 of
                        (Inl e, _) \<Rightarrow> Inl e
                      | (Inr accounting, rf3) \<Rightarrow>
                          bind_outcome (rf_save opened written rf3) (\<lambda>file.
                          bind_outcome (rf_load (disk file)) (\<lambda>_.
                            Inr \<lparr>bl_n = n, bl_committed = committed,
                              bl_accounted = q_value (ca_committed accounting),
                              bl_consistent = ca_consistent accounting\<rparr>))))))"

fun bench_all ::
    "bool \<Rightarrow> bool \<Rightarrow> (u8 list \<Rightarrow> u8 list option) \<Rightarrow> Interval \<Rightarrow> int list \<Rightarrow> BenchLine list outcome" where
  "bench_all opened written disk w [] = Inr []"
| "bench_all opened written disk w (n # ns) =
     bind_outcome (bench_size opened written disk w n) (\<lambda>l.
     bind_outcome (bench_all opened written disk w ns) (\<lambda>ls. Inr (l # ls)))"

definition bench_main ::
    "bool \<Rightarrow> bool \<Rightarrow> (u8 list \<Rightarrow> u8 list option) \<Rightarrow> BenchLine list outcome" where
  "bench_main opened written disk =
     bind_outcome (Duration_seconds 3600) (\<lambda>d.
     bind_outcome (mk_Interval_length (Instant 100) d) (\<lambda>w.
       bench_all opened written disk w bench_sizes))"

end
