(* ===== verification/RF_Bench_Props.thy ===== *)
theory RF_Bench_Props
  imports RF_Bench RF_Persist_Props
begin

text \<open>
  The benchmark commits every request it makes, at every size, and its accounting agrees: the
  state after \<open>k\<close> commits is known up to the treap, whose line is known at every instant.
\<close>

section \<open>The state after some commits\<close>

text \<open>Request identities count from 1, reservation identities from 2.\<close>

definition bench_no :: "nat \<Rightarrow> u64" where
  "bench_no i = word_of_nat (i + 1)"

lemma bench_no_0: "bench_no 0 = 1"
  by (simp add: bench_no_def)

lemma bench_no_Suc: "bench_no i + 1 = bench_no (Suc i)"
  by (simp add: bench_no_def add.commute)

lemma bench_no_int: "word_of_int (int i + 1) = bench_no i"
  by (simp add: bench_no_def)

lemma bench_no_inj: "i < 2 ^ 63 \<Longrightarrow> j < 2 ^ 63 \<Longrightarrow> bench_no i = bench_no j \<longleftrightarrow> i = j"
  by (simp add: bench_no_def word_of_nat_eq_iff take_bit_nat_eq_self del: of_nat_add of_nat_Suc)

lemma bench_no_valid: "i < 2 ^ 63 \<Longrightarrow> bench_no i \<noteq> 0"
  using word_of_nat_eq_iff [of "i + 1" 0, where 'a = 64]
  by (simp add: bench_no_def take_bit_nat_eq_self del: of_nat_add of_nat_Suc)

definition bench_window :: Interval where
  "bench_window = Interval (Instant 100) (Instant 3600000000100)"

definition bench_req :: "nat \<Rightarrow> ReservationRequest" where
  "bench_req i = ReservationRequest_default\<lparr>
     req_requestId := StrongId (bench_no i), req_requestGeneration := StrongGeneration 1,
     req_class := AcceleratorCompute, req_unit := Unit_Count, req_quantity := Quantity 1 Unit_Count,
     req_window := bench_window, req_activationMode := FixedInterval, req_strength := Hard,
     req_owner := StrongId 1, req_ownerGeneration := StrongGeneration 1,
     req_policyGeneration := StrongGeneration 1, req_priorityGeneration := StrongGeneration 1,
     req_targetResource := Some (StrongId 1)\<rparr>"

lemma bench_request: "bench_request bench_window (int i) = Inr (bench_req i)"
  by (simp add: bench_request_def bench_req_def bench_no_int [simplified] eval_tools eval_domain)

definition bench_id :: "nat \<Rightarrow> ReservationId" where
  "bench_id i = StrongId (bench_no (Suc i))"

definition bench_reservation :: "nat \<Rightarrow> Reservation" where
  "bench_reservation i = (makeReservationFromRequest (bench_req i) (StrongId 1) (StrongGeneration 1)
     (bench_id i) (StrongGeneration 1))\<lparr>rv_contributes := True\<rparr>"

definition bench_resource :: "int \<Rightarrow> Resource" where
  "bench_resource n = resource_of (ResourcePublication_default\<lparr>
     pub_worker := StrongId 1, pub_workerBoot := StrongGeneration 1, pub_id := StrongId 1,
     pub_generation := StrongGeneration 1, pub_class := AcceleratorCompute,
     pub_unit := Unit_Count, pub_totalCapacity := Quantity (n + 100000) Unit_Count,
     pub_availableFrom := Instant 0, pub_lifetime := defaultHorizon\<rparr>)"

definition bench_state :: "int \<Rightarrow> nat \<Rightarrow> CapacityEnvelope \<Rightarrow> Impl" where
  "bench_state n k e = (mk_Impl RuntimeConfig_default)\<lparr>
     st_workerBoots := [(StrongId 1, StrongGeneration 1)],
     st_resources := [(StrongId 1, bench_resource n)], st_envelopes := [(StrongId 1, e)],
     st_requests := map (\<lambda>i. (StrongId (bench_no i), bench_id i)) [0..<k],
     st_reservations := map (\<lambda>i. (bench_id i, bench_reservation i)) [0..<k],
     st_currentGen := map (\<lambda>i. (bench_id i, StrongGeneration 1)) [0..<k],
     st_nextReservationId := bench_no k\<rparr>"

definition bench_line :: "int \<Rightarrow> nat \<Rightarrow> CapacityEnvelope \<Rightarrow> bool" where
  "bench_line n k e \<longleftrightarrow> env_inv e \<and> env_origin e = Instant 0 \<and> env_horizon e = defaultHorizon \<and>
     env_unit e = Unit_Count \<and> env_ratio e = Ratio_one \<and>
     (\<forall>t. env_profile e t = (if 0 \<le> t \<and> t < 31536000000000000
        then Some \<lparr>pt_hard = (if in_window bench_window t then int k else 0), pt_soft = 0,
          pt_held = 0, pt_cap = n + 100000\<rparr>
        else None))"

text \<open>Fresh keys are appended.\<close>

lemma update_append: "k \<notin> fst ` set xs \<Longrightarrow> AList.update k v xs = xs @ [(k, v)]"
  by (induction xs) auto

lemma numbered_fresh:
  assumes "k < 2 ^ 62" "f = Suc \<or> f = id"
  shows "StrongId (bench_no (f k)) \<notin> (\<lambda>i. StrongId (bench_no (f i))) ` {0..<k}"
  using assms by (auto simp: bench_no_inj)

lemma update_numbered:
  assumes "k < 2 ^ 62" "f = Suc \<or> f = id"
  shows "AList.update (StrongId (bench_no (f k))) v (map (\<lambda>i. (StrongId (bench_no (f i)), g i)) [0..<k]) =
    map (\<lambda>i. (StrongId (bench_no (f i)), g i)) [0..<k] @ [(StrongId (bench_no (f k)), v)]"
    and "map_of (map (\<lambda>i. (StrongId (bench_no (f i)), g i)) [0..<k]) (StrongId (bench_no (f k))) = None"
  using numbered_fresh [OF assms]
  by (auto intro!: update_append simp: map_of_eq_None_iff image_image)

section \<open>The line\<close>

lemma window_constant:
  assumes "\<And>t. in_window w t \<Longrightarrow> P t = Some p" "iv_start w < iv_end w"
  shows "window_points P w = {p}"
  using assms by (auto simp: window_points_def in_window_def less_Instant_def)

lemma bench_line_headroom:
  assumes "bench_line n k e"
    and "\<And>t. in_window w t \<Longrightarrow> in_window bench_window t" "iv_start w < iv_end w"
  shows "fst (env_minHardHeadroom w e) = n + 100000 - int k"
proof -
  have "0 \<le> t \<and> t < 31536000000000000" if "in_window bench_window t" for t
    using that by (simp add: in_window_def bench_window_def)
  with assms have "window_points (env_profile e) w =
      {\<lparr>pt_hard = int k, pt_soft = 0, pt_held = 0, pt_cap = n + 100000\<rparr>}"
    by (intro window_constant) (simp_all add: bench_line_def)
  with assms(1) show ?thesis
    by (simp add: envelope.hard_min_value bench_line_def min_over_def slackH_def)
qed

lemma bench_line_query: "bench_line n k e \<Longrightarrow> bench_line n k (snd (env_minHardHeadroom w e))"
  by (simp add: bench_line_def envelope.inv_laws envelope.prof_laws)
     (simp add: env_op_defs case_prod_beta)

lemma bench_line_add:
  "bench_line n k e \<Longrightarrow> bench_line n (Suc k) (env_addCommittedHard bench_window 1 e)"
  by (simp add: bench_line_def envelope.inv_laws envelope.prof_laws update_window_def add_hard_def)
     (auto simp: env_op_defs)

lemma bench_published:
  assumes "0 \<le> n" "n + 100000 \<le> INT64_MAX"
  shows "\<exists>p r e. bench_publication n = Inr p \<and>
    publishResource p (mk_Impl RuntimeConfig_default) = (Inr r, bench_state n 0 e) \<and> bench_line n 0 e"
proof -
  let ?cap = "Quantity (n + 100000) Unit_Count"
  have "\<exists>e. env_init (Instant 0) defaultHorizon ?cap Ratio_one
      (mk_CapacityEnvelope Unit_Count ?cap Ratio_one) = Inr (True, e)"
    using assms by (simp add: env_init_def mk_CapacityEnvelope_def agg_initialize_def eval_domain
        defaultHorizon_def Let_def)
  then obtain e where e: "env_init (Instant 0) defaultHorizon ?cap Ratio_one
      (mk_CapacityEnvelope Unit_Count ?cap Ratio_one) = Inr (True, e)" by blast
  have "bench_line n 0 e"
    using env_init_correct [OF e] e
    by (auto simp: bench_line_def defaultHorizon_def env_init_def Let_def bind_outcome_Inr_iff split: if_splits)
  moreover have "Duration_seconds 31536000 = Inr defaultHorizon" using default_durations(2) by simp
  ultimately show ?thesis
    using assms e
    by (simp add: bench_publication_def publishResource_def bench_state_def bench_resource_def bench_no_0
        eval_domain eval_tools mk_Impl_def ResourcePublication_default_def Let_def)
qed

section \<open>The loops\<close>

lemma bench_matches:
  "matchingResourcesLocked (bench_req i) (bench_state n k e) =
    [\<lparr>qr_id = StrongId 1, qr_generation = StrongGeneration 1, qr_class = AcceleratorCompute,
      qr_unit = Unit_Count, qr_capacity = Quantity (n + 100000) Unit_Count, qr_pool = StrongId 0\<rparr>]"
  by (simp add: bench_state_def bench_req_def bench_resource_def eval_runtime eval_domain
      ResourcePublication_default_def)

lemma bench_req_sel [simp]:
  "req_requestId (bench_req i) = StrongId (bench_no i)" "req_strength (bench_req i) = Hard"
  "req_window (bench_req i) = bench_window" "req_quantity (bench_req i) = Quantity 1 Unit_Count"
  by (simp_all add: bench_req_def)

lemma bench_valid: "k < 2 ^ 62 \<Longrightarrow> validate_request (bench_req k) = None"
  using bench_no_valid [of k]
  by (simp add: bench_req_def bench_window_def eval_domain validate_request_def)

lemma bench_insert:
  assumes "k < 2 ^ 62"
  shows "insert_reservation (bench_req k) (StrongId 1) (StrongGeneration 1) (bench_id k) (StrongGeneration 1)
      (bench_state n k e\<lparr>st_nextReservationId := bench_no (Suc k)\<rparr>) =
    bench_state n (Suc k) (env_addCommittedHard bench_window 1 e)"
proof -
  have "addContributionLocked (makeReservationFromRequest (bench_req k) (StrongId 1) (StrongGeneration 1)
      (bench_id k) (StrongGeneration 1)) [(StrongId 1, e)] =
      (bench_reservation k, [(StrongId 1, env_addCommittedHard bench_window 1 e)])"
    by (simp add: addContributionLocked_def envelopeLocked_def bench_reservation_def
        makeReservationFromRequest_def isHard_def)
  then show ?thesis
    by (simp add: insert_reservation_def bench_state_def bench_id_def
        update_numbered [OF assms, of id, simplified] update_numbered [OF assms, of Suc, simplified])
qed

lemma bench_commit:
  assumes "bench_line n k e" "int k < n + 100000" "n + 100000 \<le> INT64_MAX" "k < 2 ^ 62"
  shows "\<exists>rc e'. rf_commit (bench_req k) None (bench_state n k e) = (Inr rc, bench_state n (Suc k) e') \<and>
    rr_committed rc \<and> bench_line n (Suc k) e'"
proof -
  define h where "h = n + 100000 - int k"
  define e1 where "e1 = snd (env_minHardHeadroom bench_window e)"
  have q: "env_minHardHeadroom bench_window e = (h, e1)"
    using bench_line_headroom [OF assms(1), of bench_window]
    by (simp add: h_def e1_def prod_eq_iff bench_window_def less_Instant_def)
  have h: "1 \<le> h" using assms by (simp add: h_def)
  note l1 = bench_line_query [OF assms(1), of bench_window, folded e1_def]
  note fresh = update_numbered [OF assms(4), of id, simplified] update_numbered [OF assms(4), of Suc, simplified]
  define st where "st = bench_state n k e"
  have st: "st_envelopes st = [(StrongId 1, e)]" "st\<lparr>st_envelopes := [(StrongId 1, e1)]\<rparr> = bench_state n k e1"
    "st_requests st = map (\<lambda>i. (StrongId (bench_no i), bench_id i)) [0..<k]"
    by (simp_all add: st_def bench_state_def)
  have assess: "assessOne (bench_req k) st = (report_best (bench_req k) st (StrongId 1) h, bench_state n k e1)"
    using h bench_valid [OF assms(4)]
    by (simp add: assessOne_def fresh(2) bench_matches [of k n k e, folded st_def] is_duplicate_def st headroomForLocked_def
        envelopeLocked_def q isHard_def INT64_MIN_def id_valid_def Let_def)
  have best: "fr_outcome (report_best (bench_req k) st (StrongId 1) h) = Admissible"
    "fr_resource (report_best (bench_req k) st (StrongId 1) h) = StrongId 1"
    using h by (simp_all add: report_best_def bench_req_def Let_def)
  have found: "findResourceLocked (StrongId 1) (bench_state n k e1) = Some (bench_resource n)"
    "res_generation (bench_resource n) = StrongGeneration 1" "st_nextReservationId (bench_state n k e1) = bench_no k"
    by (simp_all add: findResourceLocked_def bench_state_def bench_resource_def resource_of_def)
  have gen: "next_generation (StrongId (bench_no (Suc k)))
      (bench_state n k e1\<lparr>st_nextReservationId := bench_no (Suc k)\<rparr>) = Inr (StrongGeneration 1)"
    by (simp add: next_generation_def bench_state_def bench_id_def fresh(4))
  have "rf_commit (bench_req k) None st = (Inr (ReservationResult_default\<lparr>
      rr_feasibility := report_best (bench_req k) st (StrongId 1) h, rr_committed := True,
      rr_id := bench_id k, rr_generation := StrongGeneration 1\<rparr>),
      bench_state n (Suc k) (env_addCommittedHard bench_window 1 e1))"
    using bench_insert [OF assms(4), of n e1]
    by (simp add: rf_commit_def commitOneLocked_def assess best report_admissible_def
        found hold_refusal_def gen Let_def bench_no_Suc bench_id_def)
  with bench_line_add [OF l1] show ?thesis unfolding st_def by fastforce
qed

lemma bench_all_committed:
  assumes "bench_line n k e" "int (k + m) \<le> n" "n + 100000 \<le> INT64_MAX" "k + m \<le> 2 ^ 62"
  shows "\<exists>e'. bench_commits bench_window (map int [k..<k + m]) c (bench_state n k e) =
      (Inr (c + int m), bench_state n (k + m) e') \<and> bench_line n (k + m) e'"
  using assms
proof (induction m arbitrary: k e c)
  case 0
  then show ?case by auto
next
  case (Suc m)
  have k: "int k < n + 100000" "k < 2 ^ 62" using Suc.prems by simp_all
  from bench_commit [OF Suc.prems(1) k(1) Suc.prems(3) k(2)] obtain rc e' where
    step: "rf_commit (bench_req k) None (bench_state n k e) = (Inr rc, bench_state n (Suc k) e')"
    "rr_committed rc" and line: "bench_line n (Suc k) e'" by blast
  from Suc.IH [OF line, of "c + 1"] Suc.prems step show ?case
    by (simp add: upt_conv_Cons bench_request add.assoc del: upt_Suc)
qed

lemma bench_query:
  assumes "bench_line n n' e" "int n' = n" "0 \<le> i" "i < 100000"
  shows "headroomAt (StrongId 1) (Instant (100 + i * 37 mod 1000000000)) True (bench_state n n' e) =
      (Inr (Quantity 100000 Unit_Count), bench_state n n' (snd (env_minHardHeadroom
        (Interval (Instant (100 + i * 37)) (Instant (101 + i * 37))) e)))"
proof -
  let ?w = "Interval (Instant (100 + i * 37)) (Instant (101 + i * 37))"
  have "i * 37 mod 1000000000 = i * 37" using assms by simp
  moreover have "fst (env_minHardHeadroom ?w e) = 100000"
    using bench_line_headroom [OF assms(1), of ?w] assms
    by (simp add: in_window_def bench_window_def less_Instant_def)
  moreover have "env_unit e = Unit_Count" using assms(1) by (simp add: bench_line_def)
  ultimately show ?thesis using assms
    by (simp add: headroomAt_def envelopeLocked_def bench_state_def mk_Interval_length_def inst_add_def
        mk_Interval_def mk_Quantity_def check_quantity_rep_def ub_i64_def i64_defs less_Instant_def
        case_prod_beta algebra_simps)
qed

lemma bench_all_queries:
  assumes "bench_line n (nat n) e" "0 \<le> n" "k + m \<le> 100000" "c = int k * 100000"
  shows "\<exists>e'. bench_queries (map int [k..<k + m]) c (bench_state n (nat n) e) =
      (Inr (int (k + m) * 100000), bench_state n (nat n) e') \<and> bench_line n (nat n) e'"
  using assms
proof (induction m arbitrary: k e c)
  case 0
  then show ?case by auto
next
  case (Suc m)
  let ?w = "Interval (Instant (100 + int k * 37)) (Instant (101 + int k * 37))"
  note q = bench_query [OF Suc.prems(1), of "int k"]
  from Suc.IH [OF bench_line_query [OF Suc.prems(1), of ?w], of "Suc k" "int (Suc k) * 100000"] Suc.prems q
  show ?case by (simp add: upt_conv_Cons ub_i64_def i64_defs algebra_simps del: upt_Suc)
qed

section \<open>The accounting\<close>

lemma bench_reservation_sel:
  "rv_resource (bench_reservation i) = StrongId 1" "rv_contributes (bench_reservation i)"
  "rv_strength (bench_reservation i) = Hard" "rv_quantity (bench_reservation i) = Quantity 1 Unit_Count"
  "rv_lifecycle (bench_reservation i) = Lifecycle_Committed"
  by (simp_all add: bench_reservation_def makeReservationFromRequest_def)

lemma bench_accounted:
  assumes "0 \<le> c" "c + int m \<le> INT64_MAX"
  shows "account_reservations (StrongId 1) (map (\<lambda>i. (bench_id i, bench_reservation i)) [k..<k + m])
      (Totals_zero\<lparr>tt_committed := c\<rparr>) = Inr (Totals_zero\<lparr>tt_committed := c + int m\<rparr>)"
  using assms
proof (induction m arbitrary: k c)
  case (Suc m)
  from Suc.IH [of "c + 1" "Suc k"] Suc.prems show ?case
    by (simp add: upt_conv_Cons bench_reservation_sel account_contribution_def isHard_def ub_i64_def
        i64_defs Totals_zero_def add.assoc del: upt_Suc)
qed simp

lemma max_over_ge: "finite P \<Longrightarrow> p \<in> P \<Longrightarrow> f p \<le> max_over f P"
  by (auto simp: max_over_def)

lemma bench_accounting:
  assumes "bench_line n (nat n) e" "0 \<le> n" "n + 100000 \<le> INT64_MAX"
  shows "\<exists>a e'. rf_accounting (StrongId 1) (bench_state n (nat n) e) = (Inr a, bench_state n (nat n) e') \<and>
    q_value (ca_committed a) = n \<and> ca_consistent a \<and> bench_line n (nat n) e'"
proof -
  let ?w = "Interval (Instant 0) (Instant 31536000000000000)"
  have whole: "mk_Interval_length (env_origin e) (env_horizon e) = Inr ?w"
    using assms(1) by (simp add: bench_line_def defaultHorizon_def eval_domain)
  obtain h e1 where h: "env_minHardHeadroom ?w e = (h, e1)" by fastforce
  obtain p e2 where p: "env_peakCombinedHard ?w e1 = (p, e2)" by fastforce
  have l1: "bench_line n (nat n) e1" using bench_line_query [OF assms(1), of ?w] h by simp
  have l2: "bench_line n (nat n) e2"
    using l1 p envelope.inv_hard_max [of e1 ?w] envelope.prof_hard_max [of e1 ?w]
    by (simp add: bench_line_def) (auto simp: env_op_defs case_prod_beta split: if_splits)
  have "0 \<le> h"
    using envelope.hard_min_attained [of e ?w 0] assms h
    by (auto simp: bench_line_def in_window_def slackH_def split: if_splits)
  have "0 \<le> p"
  proof -
    let ?P = "window_points (env_profile e1) ?w"
    have "\<lparr>pt_hard = 0, pt_soft = 0, pt_held = 0, pt_cap = n + 100000\<rparr> \<in> ?P"
      unfolding window_points_def using l1
      by (intro CollectI exI [of _ 0]) (simp add: bench_line_def in_window_def bench_window_def)
    moreover have "finite ?P" using l1 by (intro envelope.finite_points) (simp add: bench_line_def)
    ultimately have "0 \<le> max_over combH ?P" using max_over_ge [of ?P _ combH] by (force simp: combH_def)
    then show ?thesis using l1 p envelope.hard_max_value [of e1 ?w] by (simp add: bench_line_def)
  qed
  have t: "account_reservations (StrongId 1) (st_reservations (bench_state n (nat n) e)) Totals_zero =
      Inr (Totals_zero\<lparr>tt_committed := n\<rparr>)"
    using bench_accounted [of 0 "nat n" 0] assms by (simp add: bench_state_def Totals_zero_def)
  have "\<exists>a. fill_accounting (StrongId 1) (bench_resource n) (Totals_zero\<lparr>tt_committed := n\<rparr>) 0 h p = Inr a \<and>
      q_value (ca_committed a) = n \<and> ca_consistent a"
    using assms \<open>0 \<le> h\<close> \<open>0 \<le> p\<close>
    by (simp add: fill_accounting_def Totals_zero_def bench_resource_def resource_of_def eval_domain Let_def)
  then obtain a where a: "fill_accounting (StrongId 1) (bench_resource n)
      (Totals_zero\<lparr>tt_committed := n\<rparr>) 0 h p = Inr a" "q_value (ca_committed a) = n" "ca_consistent a"
    by blast
  have "account_envelope (StrongId 1) [(StrongId 1, e)] = Inr (h, p, [(StrongId 1, e2)])"
    by (simp add: account_envelope_def envelopeLocked_def whole h p)
  then have "rf_accounting (StrongId 1) (bench_state n (nat n) e) = (Inr a, bench_state n (nat n) e2)"
    using t a(1) by (simp add: rf_accounting_def findResourceLocked_def bench_state_def mk_Impl_def)
  with a l2 show ?thesis by blast
qed

section \<open>Saving and loading\<close>

lemma bench_storable:
  assumes "bench_line n k e" "0 \<le> n" "n + 100000 \<le> INT64_MAX" "k \<le> 2 ^ 24"
  shows "storable (bench_state n k e)"
proof -
  have distinct: "distinct (map (\<lambda>i. StrongId (bench_no (f i))) [0..<k])" if "f = Suc \<or> f = id" for f
    using assms(4) that by (auto simp: distinct_map inj_on_def bench_no_inj)
  have each: "reservation_storable (bench_reservation i)" "rv_id (bench_reservation i) = bench_id i" for i
    by (simp_all add: reservation_storable_def bench_reservation_def makeReservationFromRequest_def bench_req_def
        bench_window_def window_ok_def locality_ok_def instant_ok_def quantity_ok_def quantity_wf_def
        string_ok_def of_byte_defs eval_domain)
  have "resource_storable (bench_resource n)" "line_storable (bench_resource n) e" "res_id (bench_resource n) = StrongId 1"
    using assms by (simp_all add: resource_storable_def line_storable_def bench_resource_def resource_of_def
        bench_line_def instant_ok_def duration_ok_def quantity_ok_def quantity_wf_def of_byte_defs
        eval_domain defaultHorizon_def)
  with assms(4) each distinct [of Suc] distinct [of id] show ?thesis
    by (auto simp: storable_def bench_state_def keyed_def fits_section_def comp_def bench_id_def mk_Impl_def)
qed

lemma bench_state_sel:
  "st_resources (bench_state n k e) = [(StrongId 1, bench_resource n)]"
  "st_workerBoots (bench_state n k e) = [(StrongId 1, StrongGeneration 1)]"
  "st_requests (bench_state n k e) = map (\<lambda>i. (StrongId (bench_no i), bench_id i)) [0..<k]"
  "st_reservations (bench_state n k e) = map (\<lambda>i. (bench_id i, bench_reservation i)) [0..<k]"
  "st_currentGen (bench_state n k e) = map (\<lambda>i. (bench_id i, StrongGeneration 1)) [0..<k]"
  "st_history (bench_state n k e) = []" "st_holds (bench_state n k e) = []" "st_sets (bench_state n k e) = []"
  by (simp_all add: bench_state_def mk_Impl_def)

lemma w_each_few:
  "w_each f [] = []" "length (w_id i) = 8" "length (w_gen g) = 8" "w_each f [x] = f x"
  by (simp_all add: w_each_def w_id_def w_gen_def split: prod.split)

lemma length_w_each_le:
  "(\<And>x. x \<in> set xs \<Longrightarrow> length (f x) \<le> l) \<Longrightarrow> length (w_each f xs) \<le> l * length xs"
proof (induction xs)
  case (Cons x xs)
  then have "length (f x) \<le> l" "length (w_each f xs) \<le> l * length xs" by simp_all
  then show ?case by (simp add: w_each_def)
qed (simp add: w_each_def)

lemma bench_fits:
  assumes "k \<le> 2 ^ 22"
  shows "fits_file (bench_state n k e)"
proof -
  let ?rs = "map (\<lambda>i. (bench_id i, bench_reservation i)) [0..<k]"
  let ?qs = "map (\<lambda>i. (StrongId (bench_no i) :: ReservationRequestId, bench_id i)) [0..<k]"
  let ?gs = "map (\<lambda>i. (bench_id i, StrongGeneration 1 :: ReservationGeneration)) [0..<k]"
  have "length (serReservation (bench_reservation i)) \<le> 400" for i
    by (simp add: serReservation_def bench_reservation_def makeReservationFromRequest_def bench_req_def
      ser_window_def w_id_def w_gen_def
      w_enu_def w_quant_def w_i64_def w_i32_def w_boolean_def w_instant_def w_duration_def w_str_def
      serOptGen_def serOptId_def serOptInstant_def ser_capability_def ser_locality_def
      ser_topology_def ser_compatibility_def eval_domain)
  then have "length (w_each (\<lambda>(i, r). serReservation r) ?rs) \<le> 400 * length ?rs"
    by (intro length_w_each_le) auto
  moreover have "length (w_each (\<lambda>(i, r). w_id i @ w_id r) ?qs) \<le> 16 * length ?qs"
    by (intro length_w_each_le) (auto simp: w_id_def)
  moreover have "length (w_each (\<lambda>(i, g). w_id i @ w_gen g) ?gs) \<le> 16 * length ?gs"
    by (intro length_w_each_le) (auto simp: w_id_def w_gen_def)
  moreover have "length (save_resource (bench_state n k e) (StrongId 1, bench_resource n)) \<le> 400"
    by (simp add: save_resource_def envelopeLocked_def bench_state_def bench_resource_def resource_of_def
        serResource_def w_id_def w_gen_def w_enu_def w_quant_def w_i64_def w_i32_def w_boolean_def
        w_instant_def w_duration_def)
  ultimately show ?thesis
    using assms
    by (simp add: fits_file_def save_payload_def bench_state_sel w_count_def w_each_few)
qed

section \<open>The benchmark\<close>

lemma bench_size_run:
  assumes "0 \<le> n" "n \<le> 2 ^ 22"
  shows "bench_size True True Some bench_window n =
    Inr \<lparr>bl_n = n, bl_committed = n, bl_accounted = n, bl_consistent = True\<rparr>"
proof -
  have max: "n + 100000 \<le> INT64_MAX" "nat n \<le> 2 ^ 62" "nat n \<le> 2 ^ 22" "nat n \<le> 2 ^ 24"
    using assms by (simp_all add: i64_defs)
  from bench_published [OF assms(1) max(1)] obtain p r e0 where
    p: "bench_publication n = Inr p"
      "publishResource p (mk_Impl RuntimeConfig_default) = (Inr r, bench_state n 0 e0)"
    and l0: "bench_line n 0 e0" by blast
  from bench_all_committed [OF l0, of "nat n" 0] assms max obtain e1 where
    c: "bench_commits bench_window (map int [0..<nat n]) 0 (bench_state n 0 e0) =
      (Inr n, bench_state n (nat n) e1)" and l1: "bench_line n (nat n) e1" by auto
  from bench_all_queries [OF l1 assms(1), of 0 100000 0] obtain acc e2 where
    q: "bench_queries (map int [0..<100000]) 0 (bench_state n (nat n) e1) =
      (Inr acc, bench_state n (nat n) e2)" and l2: "bench_line n (nat n) e2" by auto
  from bench_accounting [OF l2 assms(1) max(1)] obtain a e3 where
    a: "rf_accounting (StrongId 1) (bench_state n (nat n) e2) = (Inr a, bench_state n (nat n) e3)"
      "q_value (ca_committed a) = n" "ca_consistent a" and l3: "bench_line n (nat n) e3" by blast
  note load = load_save [OF bench_storable [OF l3 assms(1) max(1,4)] bench_fits [OF max(3)]]
  show ?thesis by (simp add: bench_size_def p c q a rf_save_def load del: upt.simps upt_rec_numeral)
qed

text \<open>Claim C33: The benchmark commits every request at every size. For every number \<open>n\<close> of requests up to
  \<open>2 ^ 22\<close>, all \<open>n\<close> commits succeed, the accounting reports \<open>n\<close> committed and calls it consistent
  after the 100000 queries, and the state is saved and loaded without an error; so the program
  prints as many committed requests as it made for each of its three sizes.\<close>

theorem benchmark_commits_every_request:
  "(\<forall>n. 0 \<le> n \<longrightarrow> n \<le> 2 ^ 22 \<longrightarrow> bench_size True True Some bench_window n =
     Inr \<lparr>bl_n = n, bl_committed = n, bl_accounted = n, bl_consistent = True\<rparr>) \<and>
   bench_main True True Some = Inr (map (\<lambda>n.
     \<lparr>bl_n = n, bl_committed = n, bl_accounted = n, bl_consistent = True\<rparr>) [1000, 10000, 100000])"
proof -
  have "bind_outcome (Duration_seconds 3600) (mk_Interval_length (Instant 100)) = Inr bench_window"
    by (simp add: bench_window_def eval_tools eval_domain)
  then show ?thesis
    by (simp add: bench_main_def bench_sizes_def bench_size_run bind_outcome_assoc [symmetric])
qed

theorem benchmark_commits_every_request_witness:
  "bench_size True True Some bench_window 5 =
     Inr \<lparr>bl_n = 5, bl_committed = 5, bl_accounted = 5, bl_consistent = True\<rparr>"
  using benchmark_commits_every_request by simp

end
