(* ===== verification/Spec2Isabelle.thy ===== *)
theory Spec2Isabelle
  imports RF_Runtime_Props RF_Interval_Props RF_Query_Props RF_Authority_Props RF_Expiry_Props
    RF_Persist_Props RF_Bundle RF_Divergence RF_Service_Props RF_Tools
    RF_Cuda_Props RF_Scenario_Run RF_Bench_Props
begin

text \<open>
  \<^bold>\<open>Reservation Fabric.\<close> A C++ library that promises the capacity of resources in advance, with a
  coordinator program that offers it over TCP, worker programs that publish resources, a test
  client and some tools. The theories model the sources under \<^verbatim>\<open>src/\<close> (the library proper is
  \<^verbatim>\<open>src/include\<close> and \<^verbatim>\<open>src/src\<close>, the programs are \<^verbatim>\<open>src/distributed\<close>, \<^verbatim>\<open>src/examples\<close>,
  \<^verbatim>\<open>src/tools\<close>, \<^verbatim>\<open>src/consumer\<close>, \<^verbatim>\<open>src/cuda\<close> and \<^verbatim>\<open>src/benchmarks\<close>) and prove what makes
  them correct.

  \<^bold>\<open>How the parts interact.\<close> A worker publishes a resource. The runtime keeps for each resource a
  \<^verbatim>\<open>CapacityEnvelope\<close>, an index over time of capacity and commitments (a lazy treap,
  \<^verbatim>\<open>IntervalAggregator\<close>). A request is assessed against the headroom of the matching resources; a
  commitment adds its quantity to the index, a hold does so provisionally, release, cancellation
  and expiry take it off. Activation and consumption need evidence from the worker's current boot;
  an invalidation suspends the reservations of a resource. The state is saved to a file with a
  checksum and rebuilt from it. The coordinator decodes frames, calls the runtime and answers; when
  the connection of a worker is lost it withdraws the resources of that worker.

  \<^bold>\<open>Conventions.\<close> A throw is the left of a sum, \<^typ>\<open>'a outcome\<close>, and keeps the state that the code
  leaves behind; signed overflow, which C++ leaves undefined, is such a value too. Identities and
  generations are 64-bit words, signed 64-bit values are integers with their range written out
  (\<^const>\<open>in_i64\<close>). \<^verbatim>\<open>std::map\<close> is an association list (\<^const>\<open>map_of\<close>, \<^const>\<open>AList.update\<close>); where
  the code iterates over an unordered map the order is that of the list, and
  \<open>RF_Query_Props\<close> shows that the choice of a resource does not depend on it. An operation of the
  runtime takes the state \<^typ>\<open>Impl\<close> and returns a result with the new state.
\<close>

text \<open>
  \<^bold>\<open>Theories and sources.\<close>
  \<^item> \<open>RF_Prelude\<close>: \<^verbatim>\<open>error.hpp\<close>, outcomes, lemmas on association lists and sums shared by all.
  \<^item> \<open>RF_Identity\<close>, \<open>RF_Quantity\<close>, \<open>RF_Time\<close>, \<open>RF_Lifecycle\<close>: the headers of these names.
  \<^item> \<open>RF_Interval\<close>: \<^verbatim>\<open>detail/interval.hpp\<close>. \<open>RF_Interval_Content\<close>, \<open>RF_Interval_Aggregates\<close>,
    \<open>RF_Interval_Line\<close>, \<open>RF_Interval_Correct\<close>: its in-order content, its cached aggregates, the
    abstract line, and each operation as the operation on the line. \<open>RF_Capacity_Contract\<close>: the
    locale \<open>capacity_index\<close> of what clients rely on, interpreted on the treap and, in
    \<open>RF_Capacity\<close> (\<^verbatim>\<open>capacity.hpp\<close>), on the envelope. \<open>RF_Interval_Props\<close>: index properties.
  \<^item> \<open>RF_Domain\<close>: \<^verbatim>\<open>resource.hpp\<close>, \<^verbatim>\<open>request.hpp\<close>, \<^verbatim>\<open>hold.hpp\<close>, \<^verbatim>\<open>reservation.hpp\<close>, \<^verbatim>\<open>bundle.hpp\<close>,
    \<^verbatim>\<open>feasibility.hpp\<close> and the data of \<^verbatim>\<open>runtime.hpp\<close>.
  \<^item> \<open>RF_Registry\<close>: the state and helpers of \<^verbatim>\<open>impl.hpp\<close>; \<open>RF_Admission\<close>, \<open>RF_Publish\<close>, \<open>RF_Holds\<close>:
    \<^verbatim>\<open>runtime_core.cpp\<close>; \<open>RF_Commit\<close>: \<^verbatim>\<open>runtime_commit.cpp\<close>; \<open>RF_Ops\<close>: \<^verbatim>\<open>runtime_lifecycle.cpp\<close>;
    \<open>RF_Query\<close>, \<open>RF_Text\<close>: \<^verbatim>\<open>runtime_query.cpp\<close>.
  \<^item> \<open>RF_Crc\<close>, \<open>RF_Serialization\<close>: \<^verbatim>\<open>detail/serialization.hpp\<close>, with the locale \<open>codec\<close> (what is
    written is read back and the rest is left) and, in \<open>RF_Codec\<close>, its extension \<open>enumeration\<close>;
    every codec of the program is an interpretation. \<open>RF_Persist\<close>: \<^verbatim>\<open>runtime_persist.cpp\<close>, with
    \<open>RF_Persist_Codec\<close>, \<open>RF_Recovery\<close> and \<open>RF_Reapply\<close> for its lemmas.
  \<^item> \<open>RF_Frame\<close>, \<open>RF_Protocol\<close>: \<^verbatim>\<open>protocol.hpp\<close> and \<^verbatim>\<open>protocol.cpp\<close>; \<open>RF_Protocol_Codec\<close>: the codec
    contract for each message.
  \<^item> \<open>RF_Coordinator\<close>: the message handler and the service of one connection in
    \<^verbatim>\<open>coordinator_main.cpp\<close>; \<open>RF_Service\<close>: its main loop and threads as a step relation.
    \<open>RF_Client\<close>: \<^verbatim>\<open>worker_main.cpp\<close> and the calls of \<^verbatim>\<open>mp_scenario.cpp\<close>. \<open>RF_Net\<close>: setting
    up sockets, the beginning and the end of the coordinator and the whole worker. \<open>RF_Script\<close>:
    sequencing in the two test drivers, which count failed checks; \<open>RF_Scenario\<close>: the driver of
    \<^verbatim>\<open>mp_scenario.cpp\<close>; \<open>RF_Cuda\<close>: \<^verbatim>\<open>rf_cuda_proof.cu\<close>; \<open>RF_Bench\<close>:
    \<^verbatim>\<open>bench_basic.cpp\<close>. \<open>RF_Tools\<close>: \<^verbatim>\<open>rfcli.cpp\<close>, \<^verbatim>\<open>basic.cpp\<close>, \<^verbatim>\<open>example_scenarios.cpp\<close> and the consumer.
\<close>

text \<open>
  \<^bold>\<open>What the lemmas show.\<close>
  \<^item> \<open>RF_Interval_Props\<close>: after any run of operations, queries included, the treap stays a treap and
    answers exactly the minimum or maximum over the sum of the deltas.
  \<^item> \<open>RF_Invariant\<close>, \<open>RF_Preserve\<close>, \<open>RF_Growth\<close>, \<open>RF_Safety\<close>: the lines mirror the registry; the
    relation \<^const>\<open>reachable\<close> takes all operations but those that break the mirror, and in its
    states hard commitments never exceed capacity (\<open>RF_Runtime_Props\<close>). \<open>RF_Divergence\<close> shows for
    each excluded operation how it breaks. \<open>RF_All_Steps\<close>, \<open>RF_Authority_Props\<close>,
    \<open>RF_Operation_Props\<close>, \<open>RF_Expiry_Props\<close>, \<open>RF_Bundle\<close>, \<open>RF_Roundtrip_Props\<close> hold for every
    operation (\<^const>\<open>runtime_run\<close>) or for every state: well-formed entries, fencing, idempotence,
    expiry, all or nothing, operations that undo one another.
  \<^item> \<open>RF_Persist_Props\<close>: recovery of the saved state, rejection of damaged files, and a recovered
    state that neither overbooks nor keeps an activation.
  \<^item> \<open>RF_Frame_Props\<close>, \<open>RF_Coordinator_Props\<close>, \<open>RF_Client_Props\<close>: frames survive chunking, damaged ones
    are refused, every frame is answered, truncated messages change nothing, a remote call returns
    the result of the local one, a lost worker's resources are withdrawn.
  \<^item> \<open>RF_Service_Props\<close>: the locale \<open>frame_invariant\<close> lifts what every message keeps to every
    interleaving of the connections; its two interpretations show that the coordinator's runtime is
    always reached by calls of the library and, when the clients refrain from the diverging
    operations, that it never overbooks.
  \<^item> \<open>RF_Scenario_Props\<close>, \<open>RF_Scenario_Run\<close>: the multi-process test composed with the model of the
    coordinator and of the workers over a network that cuts the bytes as it likes; it passes, and a
    worker that does not restart is not reported. \<open>RF_Cuda_Props\<close>: the kernel is right in every
    order of its threads, every path frees its buffers, and only the device can fail that test.
  \<^item> \<open>RF_Net\<close>: no path of the programs keeps a socket it does not hand out.
  \<^item> \<open>RF_Bench_Props\<close>: the benchmark commits every request it makes, by induction over the commits
    with the line of the resource known at every instant. \<open>RF_Tools\<close>: what the programs print.

  The witnesses of the properties run on the small states of \<open>RF_Example\<close>.

  \<^bold>\<open>Bounds.\<close> No definition takes fuel; the loops terminate by a measure (the sizes of two trees for
  the treap's merge, the bytes that are left for the service of a connection). The bounds are those
  of the code: strings of \<open>2 ^ 20\<close> bytes, collections of \<open>2 ^ 24\<close>, a frame of 1 MiB, 32-bit lengths,
  17 threads, 20 attempts to connect. A predicate \<open>storable\<close> or \<open>sendable\<close> says that a value is within them.
\<close>

text \<open>
  \<^bold>\<open>Not modelled.\<close>
  \<^item> The mutex of the runtime: each public operation holds it throughout and is one atomic step. The
    pointers that queries return are values; reading them after the lock is released is a data race
    of the callers and outside the model.
  \<^item> Clocks, the file system and the sockets are parameters: the instants a clock yields, whether a
    file opens and what it contains, what each \<^verbatim>\<open>send\<close> and \<^verbatim>\<open>recv\<close> returns, and the calls that set
    up sockets (\<^typ>\<open>'o winsock\<close>).
  \<^item> Processes, waiting and connecting in \<^verbatim>\<open>mp_scenario.cpp\<close> are parameters (\<^typ>\<open>'s world\<close>), and so
    are the CUDA runtime and single precision arithmetic in \<^verbatim>\<open>rf_cuda_proof.cu\<close>
    (\<^typ>\<open>('d, 'f) platform\<close>); its functions that choose a device and read its name only call CUDA.
    The times that \<^verbatim>\<open>bench_basic.cpp\<close> measures are left out.
  \<^item> The structs at \<^verbatim>\<open>protocol.hpp\<close> 65 to 81 and \<^verbatim>\<open>version.hpp\<close> are used by no code; the class
    declarations of \<^verbatim>\<open>runtime.hpp\<close> have their definitions elsewhere; \<^verbatim>\<open>std::hash\<close> of an identity
    only matters to the layout of hash tables.
\<close>

end
